(* ===== verification/Prelude.thy ===== *)
theory Prelude
  imports Main "HOL-Library.State_Monad" "HOL-Library.Word"
begin

text \<open>
  Shared vocabulary of the development.

  \<^item> The collections \<open>wp_simps\<close> (evaluation of a handler against a postcondition),
    \<open>frame\<close> (which part of the state an operation leaves alone) and \<open>str_defs\<close>.
  \<^item> The Rust standard library functions on \<open>str\<close> that the server uses. A Rust string is
    its list of bytes; \<open>trim\<close>, \<open>to_uppercase\<close> and \<open>to_lowercase\<close> are modelled at their
    ASCII behaviour and leave other bytes alone, and \<open>chars\<close> is read bytewise.
  \<^item> SQL on a table that is a list of rows: \<open>sql_update\<close>, \<open>sql_count\<close>, \<open>sql_delete\<close>.
  \<^item> The state monad of \<open>HOL-Library.State_Monad\<close> with \<open>gets\<close>, \<open>modify\<close> and the
    weakest precondition \<open>wp\<close>, with \<open>preserves\<close> for frame conditions.
\<close>

named_theorems wp_simps
named_theorems frame
named_theorems frame_intros
named_theorems str_defs

section \<open>Strings\<close>

definition code :: "char \<Rightarrow> nat" where
  "code c = of_char c"

definition is_ascii_digit :: "char \<Rightarrow> bool" where
  [str_defs]: "is_ascii_digit c \<longleftrightarrow> 48 \<le> code c \<and> code c \<le> 57"

definition is_ascii_uppercase :: "char \<Rightarrow> bool" where
  [str_defs]: "is_ascii_uppercase c \<longleftrightarrow> 65 \<le> code c \<and> code c \<le> 90"

definition is_ascii_lowercase :: "char \<Rightarrow> bool" where
  [str_defs]: "is_ascii_lowercase c \<longleftrightarrow> 97 \<le> code c \<and> code c \<le> 122"

definition is_ascii_alphanumeric :: "char \<Rightarrow> bool" where
  [str_defs]: "is_ascii_alphanumeric c \<longleftrightarrow>
     is_ascii_digit c \<or> is_ascii_uppercase c \<or> is_ascii_lowercase c"

definition is_whitespace :: "char \<Rightarrow> bool" where
  [str_defs]: "is_whitespace c \<longleftrightarrow> (9 \<le> code c \<and> code c \<le> 13) \<or> code c = 32"

definition trim :: "string \<Rightarrow> string" where
  [str_defs]: "trim s = rev (dropWhile is_whitespace (rev (dropWhile is_whitespace s)))"

definition upper :: "char \<Rightarrow> char" where
  [str_defs]: "upper c = (if is_ascii_lowercase c then char_of (code c - 32) else c)"

definition lower :: "char \<Rightarrow> char" where
  [str_defs]: "lower c = (if is_ascii_uppercase c then char_of (code c + 32) else c)"

definition to_uppercase :: "string \<Rightarrow> string" where
  [str_defs]: "to_uppercase s = map upper s"

definition to_lowercase :: "string \<Rightarrow> string" where
  [str_defs]: "to_lowercase s = map lower s"

text \<open>\<open>str::split(c)\<close>, \<open>str::strip_prefix\<close>, \<open>str::split_once(c)\<close>.\<close>

fun split_on :: "char \<Rightarrow> string \<Rightarrow> string list" where
  "split_on c [] = [[]]"
| "split_on c (x # xs) =
     (if x = c then [] # split_on c xs
      else (case split_on c xs of [] \<Rightarrow> [[x]] | w # ws \<Rightarrow> (x # w) # ws))"

fun strip_prefix :: "string \<Rightarrow> string \<Rightarrow> string option" where
  "strip_prefix [] s = Some s"
| "strip_prefix (p # ps) [] = None"
| "strip_prefix (p # ps) (x # xs) = (if p = x then strip_prefix ps xs else None)"

fun split_once :: "char \<Rightarrow> string \<Rightarrow> (string \<times> string) option" where
  "split_once c [] = None"
| "split_once c (x # xs) =
     (if x = c then Some ([], xs)
      else map_option (\<lambda>(l, r). (x # l, r)) (split_once c xs))"

text \<open>\<open>s.split("://").nth(1)\<close>: what stands after the first separator, up to the next.\<close>

fun until_sep :: "string \<Rightarrow> string" where
  "until_sep [] = []"
| "until_sep (x # xs) =
     (if strip_prefix ''://'' (x # xs) \<noteq> None then [] else x # until_sep xs)"

fun after_sep :: "string \<Rightarrow> string option" where
  "after_sep [] = None"
| "after_sep (x # xs) =
     (case strip_prefix ''://'' (x # xs) of Some r \<Rightarrow> Some (until_sep r) | None \<Rightarrow> after_sep xs)"

lemma strip_prefix_Some: "strip_prefix p s = Some r \<longleftrightarrow> s = p @ r"
  by (induction p s rule: strip_prefix.induct) auto

lemma split_on_nonempty [simp]: "split_on c s \<noteq> []"
  by (cases s) (auto split: list.splits)

lemma split_once_Some: "split_once c s = Some (l, r) \<Longrightarrow> s = l @ c # r \<and> c \<notin> set l"
  by (induction c s arbitrary: l rule: split_once.induct) (auto split: if_splits)

lemma split_once_first: "c \<notin> set l \<Longrightarrow> split_once c (l @ c # r) = Some (l, r)"
  by (induction l) auto

text \<open>\<open>Iterator::find_map\<close> and decimal printing of a number.\<close>

fun find_map :: "('a \<Rightarrow> 'b option) \<Rightarrow> 'a list \<Rightarrow> 'b option" where
  "find_map f [] = None"
| "find_map f (x # xs) = (case f x of None \<Rightarrow> find_map f xs | Some b \<Rightarrow> Some b)"

fun show_nat :: "nat \<Rightarrow> string" where
  "show_nat n = (if n < 10 then [char_of (48 + n)] else show_nat (n div 10) @ [char_of (48 + n mod 10)])"

declare show_nat.simps [simp del]

lemma find_map_Some: "find_map f xs = Some b \<Longrightarrow> \<exists>x\<in>set xs. f x = Some b"
  by (induction xs) (auto split: option.splits)

section \<open>Tables as lists of rows\<close>

definition sql_update :: "('r \<Rightarrow> bool) \<Rightarrow> ('r \<Rightarrow> 'r) \<Rightarrow> 'r list \<Rightarrow> 'r list" where
  "sql_update p f t = map (\<lambda>r. if p r then f r else r) t"

definition sql_count :: "('r \<Rightarrow> bool) \<Rightarrow> 'r list \<Rightarrow> nat" where
  "sql_count p t = length (filter p t)"

definition sql_delete :: "('r \<Rightarrow> bool) \<Rightarrow> 'r list \<Rightarrow> 'r list" where
  "sql_delete p t = filter (\<lambda>r. \<not> p r) t"

lemma set_sql_update: "r \<in> set (sql_update p f t) \<longleftrightarrow>
    (\<exists>q\<in>set t. r = (if p q then f q else q))"
  by (auto simp: sql_update_def)

lemma sql_updateE:
  assumes "r \<in> set (sql_update p f t)"
  obtains q where "q \<in> set t" and "r = (if p q then f q else q)"
  using assms by (auto simp: sql_update_def)

lemma ball_sql_update: "(\<forall>r\<in>set (sql_update p f t). Q r) \<longleftrightarrow>
    (\<forall>q\<in>set t. (p q \<longrightarrow> Q (f q)) \<and> (\<not> p q \<longrightarrow> Q q))"
  by (auto simp: sql_update_def)

lemma set_sql_delete [simp]: "set (sql_delete p t) = {r \<in> set t. \<not> p r}"
  by (simp add: sql_delete_def)

lemma length_sql_update [simp]: "length (sql_update p f t) = length t"
  by (simp add: sql_update_def)

lemma map_sql_update_stable: "(\<And>r. p r \<Longrightarrow> k (f r) = k r) \<Longrightarrow> map k (sql_update p f t) = map k t"
  by (auto simp: sql_update_def)

lemma sql_count_pos: "0 < sql_count p t \<longleftrightarrow> (\<exists>r\<in>set t. p r)"
  by (auto simp: sql_count_def filter_empty_conv)

lemma sql_count_zero: "sql_count p t = 0 \<longleftrightarrow> (\<forall>r\<in>set t. \<not> p r)"
  by (auto simp: sql_count_def filter_empty_conv)

lemma sql_count_simps [simp]:
  "sql_count p [] = 0"
  "sql_count p (r # t) = (if p r then Suc (sql_count p t) else sql_count p t)"
  "sql_count p (t @ u) = sql_count p t + sql_count p u"
  by (auto simp: sql_count_def)

lemma sql_update_simps [simp]:
  "sql_update p f [] = []"
  "sql_update p f (r # t) = (if p r then f r else r) # sql_update p f t"
  "sql_update p f (t @ u) = sql_update p f t @ sql_update p f u"
  by (auto simp: sql_update_def)

lemma find_Some_set: "find p t = Some r \<Longrightarrow> r \<in> set t \<and> p r"
  by (auto simp: find_Some_iff)

lemma find_None_set: "find p t = None \<longleftrightarrow> (\<forall>r\<in>set t. \<not> p r)"
  by (auto simp: find_None_iff)

lemma find_sql_update:
  assumes "\<And>r. p r \<Longrightarrow> q (f r) = q r"
  shows "find q (sql_update p f t) = map_option (\<lambda>r. if p r then f r else r) (find q t)"
  using assms by (induction t) auto

text \<open>\<open>Ord::clamp\<close>, and \<open>LIMIT .. OFFSET ..\<close> on a list of rows.\<close>

definition clamp :: "int \<Rightarrow> int \<Rightarrow> int \<Rightarrow> int" where
  "clamp lo hi x = (if x < lo then lo else if hi < x then hi else x)"

definition sql_page :: "int \<Rightarrow> int \<Rightarrow> 'r list \<Rightarrow> 'r list" where
  "sql_page limit offset rows = take (nat limit) (drop (nat offset) rows)"

lemma clamp_id [simp]: "lo \<le> x \<Longrightarrow> x \<le> hi \<Longrightarrow> clamp lo hi x = x"
  by (simp add: clamp_def)

lemma pages_concat:
  assumes "0 < s"
  shows "concat (map (\<lambda>p. sql_page s ((p - 1) * s) rows) [1..int n]) = take (n * nat s) rows"
proof (induction n)
  case (Suc n)
  have up: "[1..int (Suc n)] = [1..int n] @ [int n + 1]"
    by (subst upto_rec2) (simp_all add: algebra_simps)
  have "sql_page s ((int n + 1 - 1) * s) rows = take (nat s) (drop (n * nat s) rows)"
    using assms by (simp add: sql_page_def nat_mult_distrib)
  then show ?case
    unfolding up map_append concat_append Suc
    by (simp add: take_add [symmetric] add.commute)
qed simp

section \<open>Handlers as state transformers\<close>

definition gets :: "('s \<Rightarrow> 'a) \<Rightarrow> ('s, 'a) state" where
  "gets f = State (\<lambda>s. (f s, s))"

definition modify :: "('s \<Rightarrow> 's) \<Rightarrow> ('s, unit) state" where
  "modify f = State (\<lambda>s. ((), f s))"

definition return :: "'a \<Rightarrow> ('s, 'a) state" where
  "return a = State (\<lambda>s. (a, s))"

definition exec :: "('s, 'a) state \<Rightarrow> 's \<Rightarrow> 's" where
  "exec m s = snd (run_state m s)"

definition result :: "('s, 'a) state \<Rightarrow> 's \<Rightarrow> 'a" where
  "result m s = fst (run_state m s)"

lemma run_gets [simp]: "run_state (gets f) s = (f s, s)"
  by (simp add: gets_def)

lemma run_modify [simp]: "run_state (modify f) s = ((), f s)"
  by (simp add: modify_def)

lemma run_return [simp]: "run_state (return a) s = (a, s)"
  by (simp add: return_def)

lemma run_state_eq: "run_state m s = (result m s, exec m s)"
  by (simp add: result_def exec_def)

fun for_each :: "('a \<Rightarrow> ('s, unit) state) \<Rightarrow> 'a list \<Rightarrow> ('s, unit) state" where
  "for_each f [] = return ()"
| "for_each f (x # xs) = do { f x; for_each f xs }"

subsection \<open>Weakest preconditions\<close>

definition wp :: "('s, 'a) state \<Rightarrow> ('a \<Rightarrow> 's \<Rightarrow> bool) \<Rightarrow> 's \<Rightarrow> bool" where
  "wp m Q s \<longleftrightarrow> Q (result m s) (exec m s)"

lemma wp_bind [wp_simps]: "wp (m \<bind> f) Q s \<longleftrightarrow> wp m (\<lambda>a. wp (f a) Q) s"
  by (simp add: wp_def result_def exec_def split: prod.splits)

lemma wp_return [wp_simps]: "wp (return a) Q s \<longleftrightarrow> Q a s"
  by (simp add: wp_def result_def exec_def)

lemma wp_gets [wp_simps]: "wp (gets f) Q s \<longleftrightarrow> Q (f s) s"
  by (simp add: wp_def result_def exec_def)

lemma wp_modify [wp_simps]: "wp (modify f) Q s \<longleftrightarrow> Q () (f s)"
  by (simp add: wp_def result_def exec_def)

lemma wp_if [wp_simps]: "wp (if b then m else n) Q s \<longleftrightarrow> (if b then wp m Q s else wp n Q s)"
  by simp

lemma wp_case_option [wp_simps]:
  "wp (case x of None \<Rightarrow> m | Some a \<Rightarrow> f a) Q s \<longleftrightarrow>
     (case x of None \<Rightarrow> wp m Q s | Some a \<Rightarrow> wp (f a) Q s)"
  by (simp split: option.split)

lemma wp_case_sum [wp_simps]:
  "wp (case x of Inl e \<Rightarrow> f e | Inr a \<Rightarrow> g a) Q s \<longleftrightarrow>
     (case x of Inl e \<Rightarrow> wp (f e) Q s | Inr a \<Rightarrow> wp (g a) Q s)"
  by (simp split: sum.split)

lemma wp_case_prod [wp_simps]:
  "wp (case x of (a, b) \<Rightarrow> f a b) Q s \<longleftrightarrow> (case x of (a, b) \<Rightarrow> wp (f a b) Q s)"
  by (simp split: prod.split)

lemma wp_let [wp_simps]: "wp (Let x f) Q s \<longleftrightarrow> (let a = x in wp (f a) Q s)"
  by (simp add: Let_def)

lemma wp_mono: "wp m Q s \<Longrightarrow> (\<And>a t. Q a t \<Longrightarrow> R a t) \<Longrightarrow> wp m R s"
  by (simp add: wp_def)

lemma wp_conj: "wp m Q s \<Longrightarrow> wp m R s \<Longrightarrow> wp m (\<lambda>a t. Q a t \<and> R a t) s"
  by (simp add: wp_def)

lemma wpD: "wp m Q s \<Longrightarrow> run_state m s = (a, t) \<Longrightarrow> Q a t"
  by (simp add: wp_def result_def exec_def)

subsection \<open>Frame conditions\<close>

text \<open>\<open>preserves f m\<close>: running \<open>m\<close> leaves the observation \<open>f\<close> of the state alone.\<close>

definition preserves :: "('s \<Rightarrow> 'b) \<Rightarrow> ('s, 'a) state \<Rightarrow> bool" where
  "preserves f m \<longleftrightarrow> (\<forall>s. f (exec m s) = f s)"

lemma preservesD: "preserves f m \<Longrightarrow> f (exec m s) = f s"
  by (simp add: preserves_def)

lemma exec_bind: "exec (m \<bind> f) s = exec (f (result m s)) (exec m s)"
  by (simp add: exec_def result_def split: prod.splits)

lemma result_bind: "result (m \<bind> f) s = result (f (result m s)) (exec m s)"
  by (simp add: exec_def result_def split: prod.splits)

lemma exec_simps [simp]:
  "exec (return a) s = s" "exec (gets f) s = s" "exec (modify g) s = g s"
  by (simp_all add: exec_def)

lemma result_simps [simp]:
  "result (return a) s = a" "result (gets f) s = f s" "result (modify g) s = ()"
  by (simp_all add: result_def)

text \<open>\<open>blind upd f\<close>: the observation \<open>f\<close> does not look at the field that \<open>upd\<close> updates.\<close>

definition blind :: "(('x \<Rightarrow> 'x) \<Rightarrow> 's \<Rightarrow> 's) \<Rightarrow> ('s \<Rightarrow> 'b) \<Rightarrow> bool" where
  [simp]: "blind upd f \<longleftrightarrow> (\<forall>g s. f (upd g s) = f s)"

lemma preserves_return [frame_intros]: "preserves f (return a)"
  by (simp add: preserves_def)

lemma preserves_gets [frame_intros]: "preserves f (gets g)"
  by (simp add: preserves_def)

lemma preserves_modify: "(\<And>s. f (g s) = f s) \<Longrightarrow> preserves f (modify g)"
  by (simp add: preserves_def)

lemma preserves_bind [frame_intros]:
  "preserves f m \<Longrightarrow> (\<And>a. preserves f (g a)) \<Longrightarrow> preserves f (m \<bind> g)"
  by (simp add: preserves_def exec_bind)

lemma preserves_if [frame_intros]:
  "preserves f m \<Longrightarrow> preserves f n \<Longrightarrow> preserves f (if b then m else n)"
  by simp

lemma preserves_option [frame_intros]:
  "preserves f m \<Longrightarrow> (\<And>a. preserves f (g a)) \<Longrightarrow> preserves f (case x of None \<Rightarrow> m | Some a \<Rightarrow> g a)"
  by (simp split: option.split)

lemma preserves_sum [frame_intros]:
  "(\<And>e. preserves f (g e)) \<Longrightarrow> (\<And>a. preserves f (h a)) \<Longrightarrow>
   preserves f (case x of Inl e \<Rightarrow> g e | Inr a \<Rightarrow> h a)"
  by (simp split: sum.split)

lemma preserves_prod [frame_intros]:
  "(\<And>a b. preserves f (g a b)) \<Longrightarrow> preserves f (case x of (a, b) \<Rightarrow> g a b)"
  by (simp split: prod.split)

lemma preserves_let [frame_intros]: "(\<And>a. preserves f (g a)) \<Longrightarrow> preserves f (Let x g)"
  by (simp add: Let_def)

lemma preserves_for_each [frame_intros]: "(\<And>a. preserves f (g a)) \<Longrightarrow> preserves f (for_each g xs)"
  by (induction xs) (auto intro!: frame_intros)

subsection \<open>Invariants of a transformer\<close>

definition keeps :: "('s \<Rightarrow> bool) \<Rightarrow> ('s, 'a) state \<Rightarrow> bool" where
  "keeps P m \<longleftrightarrow> (\<forall>s. P s \<longrightarrow> P (exec m s))"

lemma keepsD: "keeps P m \<Longrightarrow> P s \<Longrightarrow> P (exec m s)"
  by (simp add: keeps_def)

lemma keeps_return [intro!, simp]: "keeps P (return a)"
  by (simp add: keeps_def)

lemma keeps_gets [intro!, simp]: "keeps P (gets g)"
  by (simp add: keeps_def)

lemma keeps_modify: "(\<And>s. P s \<Longrightarrow> P (g s)) \<Longrightarrow> keeps P (modify g)"
  by (simp add: keeps_def)

lemma keeps_bind: "keeps P m \<Longrightarrow> (\<And>a. keeps P (g a)) \<Longrightarrow> keeps P (m \<bind> g)"
  by (simp add: keeps_def exec_bind)

lemma keeps_if: "keeps P m \<Longrightarrow> keeps P n \<Longrightarrow> keeps P (if b then m else n)"
  by simp

lemma keeps_option:
  "keeps P m \<Longrightarrow> (\<And>a. keeps P (g a)) \<Longrightarrow> keeps P (case x of None \<Rightarrow> m | Some a \<Rightarrow> g a)"
  by (simp split: option.split)

lemma keeps_sum:
  "(\<And>e. keeps P (g e)) \<Longrightarrow> (\<And>a. keeps P (h a)) \<Longrightarrow> keeps P (case x of Inl e \<Rightarrow> g e | Inr a \<Rightarrow> h a)"
  by (simp split: sum.split)

lemma keeps_prod: "(\<And>a b. keeps P (g a b)) \<Longrightarrow> keeps P (case x of (a, b) \<Rightarrow> g a b)"
  by (simp split: prod.split)

lemma keeps_let: "(\<And>a. keeps P (g a)) \<Longrightarrow> keeps P (Let x g)"
  by (simp add: Let_def)

lemma keeps_for_each: "(\<And>a. keeps P (g a)) \<Longrightarrow> keeps P (for_each g xs)"
  by (induction xs) (auto intro!: keeps_bind)

lemmas keeps_intros = keeps_return keeps_gets keeps_bind keeps_if keeps_option keeps_sum
  keeps_prod keeps_let keeps_for_each

subsection \<open>Logs that only grow\<close>

definition grows :: "('s \<Rightarrow> 'b list) \<Rightarrow> ('s, 'a) state \<Rightarrow> bool" where
  "grows f m \<longleftrightarrow> (\<forall>s. \<exists>t. f (exec m s) = f s @ t)"

named_theorems grow_intros

lemma grows_return [grow_intros]: "grows f (return a)"
  by (simp add: grows_def)

lemma grows_gets [grow_intros]: "grows f (gets g)"
  by (simp add: grows_def)

lemma grows_bind [grow_intros]:
  assumes "grows f m" and "\<And>a. grows f (g a)"
  shows "grows f (m \<bind> g)"
  unfolding grows_def exec_bind
proof
  fix s
  obtain t where "f (exec m s) = f s @ t" using assms(1) by (auto simp: grows_def)
  moreover obtain u where "f (exec (g (result m s)) (exec m s)) = f (exec m s) @ u"
    using assms(2) by (auto simp: grows_def)
  ultimately show "\<exists>t. f (exec (g (result m s)) (exec m s)) = f s @ t" by simp
qed

lemma grows_if [grow_intros]: "grows f m \<Longrightarrow> grows f n \<Longrightarrow> grows f (if b then m else n)"
  by simp

lemma grows_option [grow_intros]:
  "grows f m \<Longrightarrow> (\<And>a. grows f (g a)) \<Longrightarrow> grows f (case x of None \<Rightarrow> m | Some a \<Rightarrow> g a)"
  by (simp split: option.split)

lemma grows_sum [grow_intros]:
  "(\<And>e. grows f (g e)) \<Longrightarrow> (\<And>a. grows f (h a)) \<Longrightarrow> grows f (case x of Inl e \<Rightarrow> g e | Inr a \<Rightarrow> h a)"
  by (simp split: sum.split)

lemma grows_prod [grow_intros]: "(\<And>a b. grows f (g a b)) \<Longrightarrow> grows f (case x of (a, b) \<Rightarrow> g a b)"
  by (simp split: prod.split)

lemma grows_let [grow_intros]: "(\<And>a. grows f (g a)) \<Longrightarrow> grows f (Let x g)"
  by (simp add: Let_def)

lemma grows_for_each [grow_intros]: "(\<And>a. grows f (g a)) \<Longrightarrow> grows f (for_each g xs)"
  by (induction xs) (auto intro!: grow_intros)

lemma grows_of_preserves: "preserves f m \<Longrightarrow> grows f m"
  by (simp add: preserves_def grows_def)

lemma preserves_keeps: "preserves f m \<Longrightarrow> keeps (\<lambda>s. P (f s)) m"
  by (simp add: preserves_def keeps_def)

lemma keeps_of_preserves: "preserves P m \<Longrightarrow> keeps P m"
  by (simp add: preserves_def keeps_def)

subsection \<open>Invariants with an answer\<close>

text \<open>\<open>yields P m Q\<close>: from a state with \<open>P\<close>, \<open>m\<close> keeps \<open>P\<close> and answers something with \<open>Q\<close>.\<close>

definition yields :: "('s \<Rightarrow> bool) \<Rightarrow> ('s, 'a) state \<Rightarrow> ('a \<Rightarrow> bool) \<Rightarrow> bool" where
  "yields P m Q \<longleftrightarrow> (\<forall>s. P s \<longrightarrow> P (exec m s) \<and> Q (result m s))"

lemma yieldsD: "yields P m Q \<Longrightarrow> P s \<Longrightarrow> P (exec m s)" "yields P m Q \<Longrightarrow> P s \<Longrightarrow> Q (result m s)"
  by (simp_all add: yields_def)

lemma keeps_yields: "yields P m Q \<Longrightarrow> keeps P m"
  by (simp add: keeps_def yields_def)

lemma yields_keeps: "keeps P m \<Longrightarrow> (\<And>a. Q a) \<Longrightarrow> yields P m Q"
  by (simp add: keeps_def yields_def)

lemma yields_bind:
  assumes "yields P m Q" and "\<And>a. Q a \<Longrightarrow> yields P (f a) R"
  shows "yields P (m \<bind> f) R"
  using assms by (simp add: yields_def exec_bind result_bind)

lemma yields_after: "keeps P m \<Longrightarrow> (\<And>a. yields P (f a) R) \<Longrightarrow> yields P (m \<bind> f) R"
  by (simp add: yields_def keeps_def exec_bind result_bind)

lemma yields_return: "Q a \<Longrightarrow> yields P (return a) Q"
  by (simp add: yields_def)

lemma yields_if: "yields P m Q \<Longrightarrow> yields P n Q \<Longrightarrow> yields P (if b then m else n) Q"
  by simp

lemma yields_option:
  "yields P m Q \<Longrightarrow> (\<And>a. x = Some a \<Longrightarrow> yields P (f a) Q) \<Longrightarrow> yields P (case x of None \<Rightarrow> m | Some a \<Rightarrow> f a) Q"
  by (simp split: option.split)

lemma yields_sum:
  "(\<And>e. x = Inl e \<Longrightarrow> yields P (f e) Q) \<Longrightarrow> (\<And>a. x = Inr a \<Longrightarrow> yields P (g a) Q) \<Longrightarrow>
     yields P (case x of Inl e \<Rightarrow> f e | Inr a \<Rightarrow> g a) Q"
  by (simp split: sum.split)

lemma yields_let: "(\<And>a. yields P (f a) Q) \<Longrightarrow> yields P (Let x f) Q"
  by (simp add: Let_def)

end
