(* ===== verification/Errors.thy ===== *)
theory Errors
  imports Prelude Complex_Main
begin

text \<open>
  \<open>server/src/error.rs\<close>: the request id that is echoed into responses and audit rows, the
  error body \<open>ApiError\<close> and the HTTP status each error code maps to; and the shape of a
  response. A header map is a partial function from (lower-case) header names to the first
  value: a value that is not readable as text counts as an absent header, which is how every
  use in the server treats it (\<open>v.to_str().ok()\<close>).
\<close>

type_synonym header_map = "string \<Rightarrow> string option"

definition MAX_REQUEST_ID_LEN :: nat where "MAX_REQUEST_ID_LEN = 128"

definition request_id_char :: "char \<Rightarrow> bool" where
  "request_id_char c \<longleftrightarrow> is_ascii_alphanumeric c \<or> c = CHR ''-'' \<or> c = CHR ''_''"

text \<open>
  \<open>request_id\<close> answers the header when it passes the filter, and a fresh UUID otherwise
  (the monadic wrapper is in the theory \<open>World\<close>).
\<close>

definition echoed_request_id :: "header_map \<Rightarrow> string option" where
  "echoed_request_id headers =
     (case headers ''x-request-id'' of
        Some v \<Rightarrow>
          if v \<noteq> [] \<and> length v \<le> MAX_REQUEST_ID_LEN \<and> list_all request_id_char v
          then Some v else None
      | None \<Rightarrow> None)"

datatype json =
    JNull
  | JBool bool
  | JInt int
  | JNum rat
  | JStr string
  | JArr "json list"
  | JObj "(string \<times> json) list"

fun json_opt :: "string option \<Rightarrow> json" where
  "json_opt None = JNull"
| "json_opt (Some s) = JStr s"

record api_error =
  ae_code :: string
  ae_message_key :: string
  ae_request_id :: string
  ae_details :: "json option"

definition api_error_new :: "string \<Rightarrow> string \<Rightarrow> string \<Rightarrow> api_error" where
  "api_error_new c k rid =
     \<lparr>ae_code = c, ae_message_key = k, ae_request_id = rid, ae_details = None\<rparr>"

definition with_details :: "api_error \<Rightarrow> json \<Rightarrow> api_error" where
  "with_details e d = e\<lparr>ae_details := Some d\<rparr>"

definition status_code :: "string \<Rightarrow> nat" where
  "status_code c =
     (if c = ''VALIDATION_ERROR'' then 400
      else if c \<in> {''IMAGE_TOO_LARGE'', ''UNSUPPORTED_IMAGE_TYPE'', ''IMAGE_DECODE_FAILED'',
                   ''IMAGE_DIMENSIONS_INVALID''} then 400
      else if c = ''UNAUTHORIZED'' then 401
      else if c = ''FORBIDDEN'' then 403
      else if c = ''NOT_FOUND'' then 404
      else if c \<in> {''CONFLICT'', ''LAST_ADMIN_PROTECTED''} then 409
      else if c = ''RATE_LIMITED'' then 429
      else if c = ''INVALID_MFA_CODE'' then 401
      else if c \<in> {''MFA_ENROLLMENT_NOT_STARTED'', ''MFA_NOT_ENABLED''} then 409
      else if c = ''MFA_EMAIL_NOT_AVAILABLE'' then 400
      else if c = ''SAME_REVIEWER_FORBIDDEN'' then 409
      else if c \<in> {''NO_FACE_DETECTED'', ''MULTIPLE_FACES_DETECTED'', ''FACE_TOO_SMALL'',
                   ''IMAGE_TOO_BLURRY'', ''EXCESSIVE_POSE'', ''POOR_LIGHTING'',
                   ''LOW_FACE_QUALITY''} then 422
      else if c = ''BIOMETRIC_PROVIDER_UNAVAILABLE'' then 503
      else 500)"

text \<open>What a handler answers: a JSON body, an error body, a small HTML page, or plain text.\<close>

datatype body =
    JsonBody json
  | ErrorBody api_error
  | HtmlBody string string
  | TextBody string

record response =
  r_status :: nat
  r_body :: body
  r_set_cookie :: "string option"

definition into_response :: "api_error \<Rightarrow> response" where
  "into_response e =
     \<lparr>r_status = status_code (ae_code e), r_body = ErrorBody e, r_set_cookie = None\<rparr>"

definition api_err :: "string \<Rightarrow> string \<Rightarrow> string \<Rightarrow> response" where
  "api_err c k rid = into_response (api_error_new c k rid)"

definition ok_json :: "json \<Rightarrow> response" where
  "ok_json j = \<lparr>r_status = 200, r_body = JsonBody j, r_set_cookie = None\<rparr>"

definition message_key :: "string \<Rightarrow> json" where
  "message_key k = JObj [(''messageKey'', JStr k)]"

lemma ok_json_simps [simp]:
  "r_status (ok_json j) = 200" "r_body (ok_json j) = JsonBody j" "r_set_cookie (ok_json j) = None"
  by (simp_all add: ok_json_def)

lemma api_err_simps [simp]:
  "r_status (api_err c k rid) = status_code c"
  "r_body (api_err c k rid) = ErrorBody (api_error_new c k rid)"
  "r_set_cookie (api_err c k rid) = None"
  by (simp_all add: api_err_def into_response_def api_error_new_def)

lemma status_code_not_ok [simp]: "status_code c \<noteq> 200" "status_code c \<noteq> 201" "status_code c \<noteq> 202"
  by (simp_all add: status_code_def)

lemma status_code_consts [simp]:
  "status_code ''UNAUTHORIZED'' = 401" "status_code ''FORBIDDEN'' = 403"
  "status_code ''NOT_FOUND'' = 404" "status_code ''VALIDATION_ERROR'' = 400"
  "status_code ''INTERNAL_ERROR'' = 500" "status_code ''CONFLICT'' = 409"
  "status_code ''LAST_ADMIN_PROTECTED'' = 409" "status_code ''RATE_LIMITED'' = 429"
  "status_code ''INVALID_MFA_CODE'' = 401" "status_code ''MFA_NOT_ENABLED'' = 409"
  "status_code ''SAME_REVIEWER_FORBIDDEN'' = 409" "status_code ''AUDIT_WRITE_FAILED'' = 500"
  by (simp_all add: status_code_def)

lemma api_err_not_ok [simp]: "api_err c k rid \<noteq> ok_json j" "ok_json j \<noteq> api_err c k rid"
  by (simp_all add: api_err_def into_response_def ok_json_def)

text \<open>
  A request id taken from the client is the client's own header and is 1 to 128 characters
  from a conservative alphabet, so no separator, space or control character of a client can
  reach a log line or an audit row; conversely every such header is echoed unchanged, and any
  other header falls back to a generated id.
\<close>
theorem request_id_bounded:
  "{v. echoed_request_id headers = Some v} =
     {v. headers ''x-request-id'' = Some v \<and> 1 \<le> length v \<and> length v \<le> 128
         \<and> set v \<subseteq> {c. is_ascii_alphanumeric c} \<union> {CHR ''-'', CHR ''_''}}"
  by (auto simp: echoed_request_id_def MAX_REQUEST_ID_LEN_def Suc_le_eq list_all_iff
      request_id_char_def split: option.splits)

text \<open>
  An error code never turns into a success: whatever code a handler reports, the status is
  in the 4xx or 5xx range, a code the table does not list is a 500, and the image and biometric
  rejections are client errors rather than server failures.
\<close>
theorem status_code_is_an_error:
  "status_code c \<in> {400, 401, 403, 404, 409, 422, 429, 500, 503}
   \<and> r_status (into_response e) = status_code (ae_code e)
   \<and> status_code ` {''IMAGE_TOO_LARGE'', ''UNSUPPORTED_IMAGE_TYPE'', ''IMAGE_DECODE_FAILED'',
        ''IMAGE_DIMENSIONS_INVALID'', ''NO_FACE_DETECTED'', ''MULTIPLE_FACES_DETECTED'',
        ''FACE_TOO_SMALL'', ''IMAGE_TOO_BLURRY'', ''EXCESSIVE_POSE'', ''POOR_LIGHTING'',
        ''LOW_FACE_QUALITY''} = {400, 422}"
  by (auto simp: status_code_def into_response_def)

end
