(* ===== verification/Rate_Limit.thy ===== *)
theory Rate_Limit
  imports Prelude "HOL-Library.AList"
begin

text \<open>
  \<open>server/src/ratelimit.rs\<close>. The trait \<open>RateLimiterBackend\<close> is the locale
  \<open>fixed_window\<close>; \<open>check\<close> is \<open>InMemoryRateLimiter::check\<close> on the map of windows (an
  association list with distinct keys: key, attempts counted, start of the window). Instants
  and durations are integers (nanoseconds); \<open>Instant::duration_since\<close> saturates at zero.
\<close>

type_synonym windows = "(string \<times> (nat \<times> int)) list"

definition duration_since :: "int \<Rightarrow> int \<Rightarrow> int" where
  "duration_since now started = max 0 (now - started)"

definition CLEANUP_THRESHOLD :: nat where "CLEANUP_THRESHOLD = 10000"

definition check :: "windows \<Rightarrow> int \<Rightarrow> string \<Rightarrow> nat \<Rightarrow> int \<Rightarrow> bool \<times> windows" where
  "check ws now key max_attempts window =
     (let ws1 = (if CLEANUP_THRESHOLD < length ws
                 then filter (\<lambda>(_, (_, started)). duration_since now started \<le> window) ws
                 else ws);
          entry0 = (case map_of ws1 key of None \<Rightarrow> (0, now) | Some e \<Rightarrow> e);
          entry = (if window < duration_since now (snd entry0) then (0, now) else entry0)
      in if max_attempts \<le> fst entry then (False, AList.update key entry ws1)
         else (True, AList.update key (Suc (fst entry), snd entry) ws1))"

text \<open>The window an attempt on a key falls into, given what is stored for the key.\<close>

definition current_window :: "(nat \<times> int) option \<Rightarrow> int \<Rightarrow> int \<Rightarrow> nat \<times> int" where
  "current_window e now window =
     (case e of None \<Rightarrow> (0, now)
      | Some (c, started) \<Rightarrow> if window < duration_since now started then (0, now) else (c, started))"

record attempt =
  at_time :: int
  at_key :: string
  at_max :: nat
  at_window :: int

text \<open>A history of attempts against a limiter, with the answer each one got.\<close>

fun run_checks ::
  "('s \<Rightarrow> int \<Rightarrow> string \<Rightarrow> nat \<Rightarrow> int \<Rightarrow> bool \<times> 's) \<Rightarrow> 's \<Rightarrow> attempt list \<Rightarrow> (attempt \<times> bool) list" where
  "run_checks chk s [] = []"
| "run_checks chk s (a # as) =
     (case chk s (at_time a) (at_key a) (at_max a) (at_window a) of
        (ok, s') \<Rightarrow> (a, ok) # run_checks chk s' as)"

definition attempts_on :: "string \<Rightarrow> attempt list \<Rightarrow> nat" where
  "attempts_on k as = sql_count (\<lambda>a. at_key a = k) as"

definition allowed_on :: "string \<Rightarrow> (attempt \<times> bool) list \<Rightarrow> nat" where
  "allowed_on k rs = sql_count (\<lambda>(a, ok). at_key a = k \<and> ok) rs"

locale fixed_window =
  fixes chk :: "'s \<Rightarrow> int \<Rightarrow> string \<Rightarrow> nat \<Rightarrow> int \<Rightarrow> bool \<times> 's"
    and entry_of :: "'s \<Rightarrow> string \<Rightarrow> (nat \<times> int) option"
    and invar :: "'s \<Rightarrow> bool"
  assumes invar_chk: "invar s \<Longrightarrow> invar (snd (chk s now k m w))"
    and chk_result: "invar s \<Longrightarrow> fst (chk s now k m w) \<longleftrightarrow> fst (current_window (entry_of s k) now w) < m"
    and chk_entry: "invar s \<Longrightarrow> entry_of (snd (chk s now k m w)) k =
       Some (let (c, st) = current_window (entry_of s k) now w in (if c < m then Suc c else c, st))"
    and chk_other_kept: "invar s \<Longrightarrow> k' \<noteq> k \<Longrightarrow> entry_of s k' = Some (c, st) \<Longrightarrow> duration_since now st \<le> w \<Longrightarrow>
       entry_of (snd (chk s now k m w)) k' = Some (c, st)"
    and chk_other_None: "invar s \<Longrightarrow> k' \<noteq> k \<Longrightarrow> entry_of s k' = None \<Longrightarrow>
       entry_of (snd (chk s now k m w)) k' = None"
begin

lemma open_window_count:
  assumes "invar s" and "entry_of s k = Some (c, t0)" and "c \<le> m"
    and "\<forall>a\<in>set as. at_time a \<le> t0 + w \<and> w \<le> at_window a
          \<and> (at_key a = k \<longrightarrow> at_max a = m \<and> at_window a = w)"
  shows "0 \<le> w \<Longrightarrow> allowed_on k (run_checks chk s as) = min (m - c) (attempts_on k as)"
  using assms
proof (induction as arbitrary: s c)
  case Nil
  then show ?case by (simp add: allowed_on_def attempts_on_def)
next
  case (Cons a as)
  obtain ok s' where chk: "chk s (at_time a) (at_key a) (at_max a) (at_window a) = (ok, s')"
    by (cases "chk s (at_time a) (at_key a) (at_max a) (at_window a)")
  have dur: "duration_since (at_time a) t0 \<le> w" "w \<le> at_window a"
    using Cons.prems(1,5) by (auto simp: duration_since_def)
  have inv': "invar s'"
    using invar_chk [OF Cons.prems(2), of "at_time a" "at_key a" "at_max a" "at_window a"] chk by simp
  show ?case
  proof (cases "at_key a = k")
    case True
    with Cons.prems dur have cur: "current_window (entry_of s k) (at_time a) w = (c, t0)"
      and am: "at_max a = m" "at_window a = w"
      by (auto simp: current_window_def)
    have ok: "ok \<longleftrightarrow> c < m"
      using chk_result [OF Cons.prems(2), of "at_time a" k m w] chk cur am True by simp
    have e': "entry_of s' k = Some (if c < m then Suc c else c, t0)"
      using chk_entry [OF Cons.prems(2), of "at_time a" k m w] chk cur am True by simp
    have "allowed_on k (run_checks chk s' as) = min (m - (if c < m then Suc c else c)) (attempts_on k as)"
      by (rule Cons.IH) (use Cons.prems e' inv' in auto)
    with chk True ok show ?thesis
      by (auto simp: allowed_on_def attempts_on_def)
  next
    case False
    have "entry_of s' k = Some (c, t0)"
      using chk_other_kept [OF Cons.prems(2) False [symmetric] Cons.prems(3), of "at_time a" "at_window a" "at_max a"]
        chk dur by simp
    then have "allowed_on k (run_checks chk s' as) = min (m - c) (attempts_on k as)"
      by (rule Cons.IH [OF Cons.prems(1) inv']) (use Cons.prems in auto)
    with chk False show ?thesis
      by (simp add: allowed_on_def attempts_on_def)
  qed
qed

lemma fresh_window_count:
  assumes "invar s" and "entry_of s k = None" and "0 \<le> w" and "sorted (map at_time as)"
    and "\<forall>a\<in>set as. t0 \<le> at_time a \<and> at_time a \<le> t0 + w \<and> w \<le> at_window a
          \<and> (at_key a = k \<longrightarrow> at_max a = m \<and> at_window a = w)"
  shows "allowed_on k (run_checks chk s as) = min m (attempts_on k as)"
  using assms(1,2,4,5)
proof (induction as arbitrary: s)
  case Nil
  then show ?case by (simp add: allowed_on_def attempts_on_def)
next
  case (Cons a as)
  obtain ok s' where chk: "chk s (at_time a) (at_key a) (at_max a) (at_window a) = (ok, s')"
    by (cases "chk s (at_time a) (at_key a) (at_max a) (at_window a)")
  have inv': "invar s'"
    using invar_chk [OF Cons.prems(1), of "at_time a" "at_key a" "at_max a" "at_window a"] chk by simp
  show ?case
  proof (cases "at_key a = k")
    case True
    with Cons.prems have cur: "current_window (entry_of s k) (at_time a) w = (0, at_time a)"
      and am: "at_max a = m" "at_window a = w"
      by (auto simp: current_window_def)
    have ok: "ok \<longleftrightarrow> 0 < m"
      using chk_result [OF Cons.prems(1), of "at_time a" k m w] chk cur am True by simp
    have e': "entry_of s' k = Some (if 0 < m then Suc 0 else 0, at_time a)"
      using chk_entry [OF Cons.prems(1), of "at_time a" k m w] chk cur am True by simp
    have "allowed_on k (run_checks chk s' as) =
        min (m - (if 0 < m then Suc 0 else 0)) (attempts_on k as)"
      by (rule open_window_count [OF inv' e' _ _ assms(3)]) (use Cons.prems in fastforce)+
    with chk True ok show ?thesis
      by (auto simp: allowed_on_def attempts_on_def)
  next
    case False
    have "entry_of s' k = None"
      using chk_other_None [OF Cons.prems(1) False [symmetric] Cons.prems(2), of "at_time a" "at_max a" "at_window a"] chk
      by simp
    then have "allowed_on k (run_checks chk s' as) = min m (attempts_on k as)"
      by (rule Cons.IH [OF inv']) (use Cons.prems in auto)
    with chk False show ?thesis
      by (simp add: allowed_on_def attempts_on_def)
  qed
qed

end

section \<open>The in-memory limiter keeps the contract\<close>

definition cleaned :: "windows \<Rightarrow> int \<Rightarrow> int \<Rightarrow> windows" where
  "cleaned ws now window =
     (if CLEANUP_THRESHOLD < length ws
      then filter (\<lambda>(_, (_, started)). duration_since now started \<le> window) ws else ws)"

lemma check_alt: "check ws now key m window =
   (let (c, st) = current_window (map_of (cleaned ws now window) key) now window
    in (c < m, AList.update key (if c < m then Suc c else c, st) (cleaned ws now window)))"
  by (auto simp: check_def cleaned_def current_window_def Let_def not_le split: option.splits)

definition limiter_ok :: "windows \<Rightarrow> bool" where
  "limiter_ok ws \<longleftrightarrow> distinct (map fst ws)"

lemma limiter_ok_check: "limiter_ok ws \<Longrightarrow> limiter_ok (snd (check ws now k m w))"
  by (auto simp: limiter_ok_def check_alt cleaned_def Let_def split: prod.split
      intro: distinct_update distinct_map_filter)

lemma map_of_filter_distinct:
  "distinct (map fst ws) \<Longrightarrow> map_of (filter (\<lambda>(k, e). P e) ws) k =
     (case map_of ws k of None \<Rightarrow> None | Some e \<Rightarrow> if P e then Some e else None)"
  by (induction ws) (auto split: option.split dest: map_of_SomeD simp: map_of_eq_None_iff image_iff)

lemma map_of_cleaned:
  "limiter_ok ws \<Longrightarrow> map_of (cleaned ws now w) k =
     (case map_of ws k of None \<Rightarrow> None
      | Some (c, st) \<Rightarrow> if CLEANUP_THRESHOLD < length ws \<and> w < duration_since now st
                     then None else Some (c, st))"
  using map_of_filter_distinct [of ws "\<lambda>(c, st). duration_since now st \<le> w" k]
  by (auto simp: cleaned_def limiter_ok_def case_prod_unfold split: option.split)

lemma current_window_cleaned:
  "limiter_ok ws \<Longrightarrow>
   current_window (map_of (cleaned ws now w) k) now w = current_window (map_of ws k) now w"
  by (auto simp: map_of_cleaned current_window_def split: option.split)

interpretation in_memory: fixed_window check map_of limiter_ok
proof unfold_locales
  fix s now k m w
  assume inv: "limiter_ok s"
  then show "limiter_ok (snd (check s now k m w))"
    by (rule limiter_ok_check)
  show "fst (check s now k m w) \<longleftrightarrow> fst (current_window (map_of s k) now w) < m"
    using current_window_cleaned [OF inv] by (simp add: check_alt Let_def split: prod.split)
  show "map_of (snd (check s now k m w)) k =
     Some (let (c, st) = current_window (map_of s k) now w in (if c < m then Suc c else c, st))"
    using current_window_cleaned [OF inv]
    by (simp add: check_alt Let_def update_conv split: prod.split)
next
  fix s k' k c st now w m
  assume "limiter_ok s" and "k' \<noteq> k" and "map_of s k' = Some (c, st)" and "duration_since now st \<le> w"
  then show "map_of (snd (check s now k m w)) k' = Some (c, st)"
    by (auto simp: check_alt Let_def update_conv map_of_cleaned split: prod.split)
next
  fix s k' k now m w
  assume "limiter_ok s" and "k' \<noteq> k" and "map_of s k' = None"
  then show "map_of (snd (check s now k m w)) k' = None"
    by (auto simp: check_alt Let_def update_conv map_of_cleaned split: prod.split)
qed

text \<open>The limiter the server starts with.\<close>

definition new_limiter :: windows where
  "new_limiter = []"

lemma limiter_ok_new [simp]: "limiter_ok new_limiter"
  by (simp add: limiter_ok_def new_limiter_def)

text \<open>
  C36. Throttling. Take a limiter that holds no window for key k and a history of attempts, in
  time order, that fits into one window of length w; other keys may be attempted in between as
  long as none of them uses a shorter window. Then exactly the first m attempts on k are let
  through: the number allowed is the smaller of m and the number of attempts made on k.
\<close>
theorem limiter_allows_exactly_max:
  assumes "limiter_ok ws" and "map_of ws k = None" and "0 \<le> w" and "sorted (map at_time as)"
    and "\<forall>a\<in>set as. beg \<le> at_time a \<and> at_time a \<le> beg + w \<and> w \<le> at_window a
          \<and> (at_key a = k \<longrightarrow> at_max a = m \<and> at_window a = w)"
  shows "allowed_on k (run_checks check ws as) = min m (attempts_on k as)"
  using assms by (rule in_memory.fresh_window_count)

theorem limiter_allows_exactly_max_witness:
  "allowed_on ''u'' (run_checks check new_limiter
     (replicate 4 \<lparr>at_time = 5, at_key = ''u'', at_max = 3, at_window = 60\<rparr>)) = 3"
proof -
  let ?as = "replicate 4 \<lparr>at_time = 5, at_key = ''u'', at_max = 3, at_window = 60\<rparr>"
  have "allowed_on ''u'' (run_checks check new_limiter ?as) = min 3 (attempts_on ''u'' ?as)"
    by (rule limiter_allows_exactly_max [where w = 60 and beg = 5])
      (simp_all add: new_limiter_def limiter_ok_def sorted_replicate)
  then show ?thesis by (simp add: attempts_on_def sql_count_def)
qed

lemma check_reopens:
  assumes "limiter_ok ws" and "map_of ws k = Some (c, st)" and "w < duration_since now st" and "0 < m"
  shows "fst (check ws now k m w)"
  using assms by (simp add: in_memory.chk_result current_window_def)

text \<open>
  The cleanup that bounds the map's memory drops windows by the length of the CALLER's
  window. With more than 10,000 keys stored, one check of an unrelated key k' with a shorter
  window w' forgets the exhausted window of key k although it is still running: k was refused
  just before (its window of length w has not elapsed), and is let through right after.
\<close>
theorem cleanup_forgets_longer_windows:
  assumes "limiter_ok ws" and "10000 < length ws"
    and "map_of ws k = Some (m, st)" and "0 < m" and "k' \<noteq> k"
    and "w' < duration_since now st" and "duration_since now st \<le> w"
  shows "\<not> fst (check ws now k m w) \<and> fst (check (snd (check ws now k' m' w')) now k m w)"
proof
  show "\<not> fst (check ws now k m w)"
    using assms by (simp add: in_memory.chk_result current_window_def)
  have gone: "map_of (snd (check ws now k' m' w')) k = None"
    using assms
    by (auto simp: check_alt Let_def update_conv map_of_cleaned CLEANUP_THRESHOLD_def split: prod.split)
  show "fst (check (snd (check ws now k' m' w')) now k m w)"
    using gone in_memory.chk_result [OF limiter_ok_check [OF assms(1)]] assms(4)
    by (simp add: current_window_def)
qed

definition crowded_limiter :: windows where
  "crowded_limiter = (''login-account:A'', (10, 0)) # map (\<lambda>i. (replicate i CHR ''x'', (1, 0))) [0..<10000]"

lemma crowded_limiter_ok: "limiter_ok crowded_limiter" "length crowded_limiter = 10001"
  by (auto simp: limiter_ok_def crowded_limiter_def distinct_map inj_on_def comp_def
      Cons_replicate_eq dest: arg_cong [where f = length])

theorem cleanup_forgets_longer_windows_witness:
  "\<not> fst (check crowded_limiter 61 ''login-account:A'' 10 900)
   \<and> fst (check (snd (check crowded_limiter 61 ''login-burst:ip'' 10 60)) 61 ''login-account:A'' 10 900)"
  using cleanup_forgets_longer_windows [OF crowded_limiter_ok(1), of "''login-account:A''" 10 0
      "''login-burst:ip''" 60 61 900]
  by (auto simp: crowded_limiter_ok duration_since_def) (simp_all add: crowded_limiter_def)

end
