(* ===== verification/World.thy ===== *)
theory World
  imports Prelude Errors Rate_Limit Complex_Main
begin

text \<open>
  The state the handlers share (\<open>AppState\<close> and the tables of \<open>server/src/db\<close>), and what
  the server takes from outside.

  \<^item> \<open>app\<close> is what is fixed while the server runs: the configuration of \<open>AppState\<close>, the
    process environment, and one function per operation of a third-party crate (SHA-256,
    hex, bcrypt, jsonwebtoken, uuid, AES-GCM, base64, HMAC, TOTP, the random generator, chrono's
    formatting, the JSON printer and PostgreSQL's \<open>jsonb\<close> output). They are parameters of the
    model: nothing is assumed about them unless a theorem says so.
  \<^item> \<open>world\<close> is what changes: the tables, the rate limiter, the clock (which moves between
    requests), a counter of random draws, the mail sent and the metrics counted.
  \<^item> A database statement may fail: \<open>w_faults n\<close> says whether the n-th statement does. A
    transaction is one statement, because a failure anywhere in it undoes all of it. Stored
    instants are the instants themselves (nanoseconds since the epoch): the textual formats the
    two backends keep them in are not modelled, except where the code compares them as text.
\<close>

section \<open>Time\<close>

definition SECOND :: int where "SECOND = 1000000000"
definition MINUTE :: int where "MINUTE = 60 * SECOND"
definition HOUR :: int where "HOUR = 60 * MINUTE"
definition DAY :: int where "DAY = 24 * HOUR"

lemmas time_defs = SECOND_def MINUTE_def HOUR_def DAY_def

text \<open>\<open>DateTime::timestamp\<close>: whole seconds.\<close>

definition timestamp :: "int \<Rightarrow> int" where
  "timestamp t = t div SECOND"

section \<open>Rows\<close>

record user_row =
  u_id :: string
  u_user_code :: string
  u_first_name :: string
  u_last_name :: string
  u_national_id_encrypted :: "string option"
  u_national_id_lookup_hash :: "string option"
  u_email :: "string option"
  u_password_hash :: string
  u_role :: string
  u_is_approved :: bool
  u_is_banned :: bool
  u_ban_reason :: "string option"
  u_tracking_token :: "string option"
  u_tracking_expires_at :: "int option"
  u_deleted_at :: "int option"

record session_row =
  s_id :: string
  s_user_id :: string
  s_refresh_token_hash :: string
  s_token_family_id :: string
  s_created_at :: int
  s_expires_at :: int
  s_last_used_at :: int
  s_revoked_at :: "int option"
  s_user_agent :: "string option"
  s_ip_address :: "string option"
  s_rotation_counter :: int
  s_created_by :: "string option"

record approval_token_row =
  t_id :: string
  t_user_id :: string
  t_token_hash :: string
  t_purpose :: string
  t_created_at :: int
  t_expires_at :: int
  t_consumed_at :: "int option"
  t_result :: "string option"

text \<open>
  The text an emailed code's expiry is stored as: \<open>%H:%M:%.3fZ\<close> keeps the minute and the
  milliseconds but not the seconds (see the theory \<open>Mfa\<close>). Minutes count from the epoch.
\<close>

datatype expiry_text = Expiry (ex_minute: int) (ex_millis: int)

record mfa_credential_row =
  m_id :: string
  m_user_id :: string
  m_secret :: string
  m_method :: string
  m_email_code_hash :: "string option"
  m_email_code_expires_at :: "expiry_text option"
  m_enabled_at :: "int option"
  m_last_used_at :: "int option"

record recovery_code_row =
  k_id :: string
  k_user_id :: string
  k_code_hash :: string
  k_used_at :: "int option"

record audit_event_row =
  a_id :: string
  a_timestamp :: string
  a_actor_user_id :: "string option"
  a_actor_user_code :: "string option"
  a_actor_role :: "string option"
  a_action :: string
  a_request_id :: string
  a_case_reference :: "string option"
  a_resource_type :: "string option"
  a_resource_id :: "string option"
  a_result :: string
  a_source :: "string option"
  a_ip_address :: "string option"
  a_user_agent :: "string option"
  a_metadata :: "string option"
  a_organization_id :: "string option"
  a_organization_unit_id :: "string option"
  a_sequence :: "int option"
  a_previous_hash :: "string option"
  a_event_hash :: "string option"

record membership_row =
  mb_user_id :: string
  mb_organization_id :: string
  mb_organization_unit_id :: "string option"

record organization_row =
  o_id :: string
  o_name :: string
  o_created_at :: int

record organization_unit_row =
  ou_id :: string
  ou_organization_id :: string
  ou_parent_unit_id :: "string option"
  ou_name :: string
  ou_created_at :: int

record search_row =
  q_id :: string
  q_case_reference :: string
  q_purpose :: string
  q_requested_by :: string
  q_requested_by_name :: string
  q_status :: string
  q_latitude :: "rat option"
  q_longitude :: "rat option"
  q_top_k :: "int option"
  q_started_at :: "int option"
  q_completed_at :: "int option"
  q_failure_code :: "string option"
  q_failure_message_key :: "string option"
  q_created_at :: int
  q_organization_id :: "string option"
  q_external_evidence_status :: "string option"

record search_candidate_row =
  sc_id :: string
  sc_search_id :: string
  sc_candidate_id :: string
  sc_score :: rat
  sc_status :: string
  sc_reviewed_by :: "string option"
  sc_reviewed_by_name :: "string option"
  sc_reviewed_at :: "int option"
  sc_created_at :: int

record verification_event_row =
  v_id :: string
  v_search_candidate_id :: string
  v_reviewer_user_id :: string
  v_reviewer_name :: string
  v_decision :: string
  v_reason :: "string option"
  v_notes :: "string option"
  v_request_id :: "string option"
  v_created_at :: int

record candidate_row =
  cd_id :: string
  cd_reference_code :: string
  cd_full_name :: string
  cd_notes :: "string option"
  cd_organization_id :: "string option"

text \<open>
  What an OSINT provider reports (\<open>EvidenceItem\<close> of \<open>osint/mod.rs\<close>) and the rows kept about a
  candidate: evidence, relations, biometric templates. \<open>f64\<close> values that are only stored, compared
  and passed on are rationals.
\<close>

datatype evidence_detail = Evidence_Detail (ed_key: string) (ed_params: json)

record evidence_item =
  ei_source_type :: string
  ei_provider_name :: string
  ei_title :: string
  ei_title_key :: "string option"
  ei_title_params :: "json option"
  ei_url :: "string option"
  ei_snippet :: "string option"
  ei_details :: "evidence_detail list"
  ei_confidence :: rat

datatype osint_error = ProviderUnavailable string | OsintInternal string

record evidence_row =
  e_id :: string
  e_candidate_id :: string
  e_source_type :: string
  e_provider_name :: string
  e_title :: string
  e_title_key :: "string option"
  e_title_params :: "string option"
  e_url :: "string option"
  e_snippet :: "string option"
  e_details :: "string option"
  e_confidence_score :: rat
  e_collected_by :: "string option"
  e_created_at :: int

record entity_relation_row =
  g_id :: string
  g_candidate_id :: string
  g_relation_type :: string
  g_value :: string
  g_evidence_id :: "string option"
  g_added_by :: "string option"
  g_created_at :: int
  g_revoked_at :: "int option"

record template_row =
  p_id :: string
  p_candidate_id :: string
  p_model_name :: string
  p_model_version :: string
  p_embedding_dimension :: int
  p_embedding :: string
  p_quality_score :: rat
  p_source_reference :: "string option"
  p_created_at :: int
  p_revoked_at :: "int option"
  p_embedding_vector :: "rat list option"

record threshold_row =
  h_id :: string
  h_model_name :: string
  h_model_version :: string
  h_threshold :: rat
  h_equal_error_rate :: rat
  h_pair_count :: int
  h_created_at :: int

section \<open>Tokens\<close>

record claims =
  cl_id :: string
  cl_user_code :: string
  cl_email :: string
  cl_role :: string
  cl_exp :: int

record refresh_claims =
  rc_sub :: string
  rc_family :: string
  rc_jti :: string
  rc_exp :: int

record approval_claims =
  ac_user_id :: string
  ac_purpose :: string
  ac_jti :: string
  ac_exp :: int

record challenge_claims =
  cc_user_id :: string
  cc_purpose :: string
  cc_exp :: int

section \<open>What is fixed: configuration and third-party code\<close>

datatype db_backend = Postgres | Sqlite

datatype db_error = UniqueViolation | DbFailure

record app =
  x_backend :: db_backend
  x_env :: "string \<Rightarrow> string option"
  x_jwt_secret :: string
  x_jwt_refresh_secret :: string
  x_approval_token_secret :: string
  x_mfa_token_secret :: string
  x_national_id_key :: "8 word list"
  x_mfa_required_roles :: "string list"
  x_require_second_review :: bool
  x_default_top_k :: int
  x_max_top_k :: int
  x_auto_osint :: bool
  x_osint_auto_max_candidates :: int
  x_sha256 :: "string \<Rightarrow> 8 word list"
  x_hex :: "8 word list \<Rightarrow> string"
  x_rng :: "nat \<Rightarrow> nat \<Rightarrow> 8 word list"
  x_uuid_v4 :: "nat \<Rightarrow> string"
  x_parse_uuid :: "string \<Rightarrow> string option"
  x_bcrypt_hash :: "nat \<Rightarrow> string \<Rightarrow> string option"
  x_bcrypt_verify :: "string \<Rightarrow> string \<Rightarrow> bool option"
  x_encode_access :: "claims \<Rightarrow> string \<Rightarrow> string option"
  x_decode_access :: "int \<Rightarrow> string \<Rightarrow> string \<Rightarrow> claims option"
  x_encode_refresh :: "refresh_claims \<Rightarrow> string \<Rightarrow> string option"
  x_decode_refresh :: "int \<Rightarrow> string \<Rightarrow> string \<Rightarrow> refresh_claims option"
  x_encode_approval :: "approval_claims \<Rightarrow> string \<Rightarrow> string option"
  x_decode_approval :: "int \<Rightarrow> string \<Rightarrow> string \<Rightarrow> approval_claims option"
  x_encode_challenge :: "challenge_claims \<Rightarrow> string \<Rightarrow> string option"
  x_decode_challenge :: "int \<Rightarrow> string \<Rightarrow> string \<Rightarrow> challenge_claims option"
  x_totp_secret :: "nat \<Rightarrow> string"
  x_totp_build :: "string \<Rightarrow> string \<Rightarrow> string option"
  x_totp_check :: "string \<Rightarrow> int \<Rightarrow> string \<Rightarrow> bool"
  x_totp_url :: "string \<Rightarrow> string"
  x_aes_encrypt :: "8 word list \<Rightarrow> 8 word list \<Rightarrow> string \<Rightarrow> 8 word list"
  x_aes_decrypt :: "8 word list \<Rightarrow> 8 word list \<Rightarrow> 8 word list \<Rightarrow> 8 word list option"
  x_from_utf8 :: "8 word list \<Rightarrow> string option"
  x_base64_encode :: "8 word list \<Rightarrow> string"
  x_base64_decode :: "string \<Rightarrow> 8 word list option"
  x_hmac_sha256 :: "8 word list \<Rightarrow> string \<Rightarrow> 8 word list"
  x_format_micros :: "int \<Rightarrow> string"
  x_parse_instant :: "string \<Rightarrow> int option"
  x_json_text :: "json \<Rightarrow> string"
  x_json_parse :: "string \<Rightarrow> json option"
  x_jsonb_text :: "string \<Rightarrow> string"
  x_floats_text :: "rat list \<Rightarrow> string"
  x_floats_parse :: "string \<Rightarrow> rat list option"
  x_sqrt :: "rat \<Rightarrow> rat"
  x_jaro_winkler :: "string \<Rightarrow> string \<Rightarrow> rat"
  x_parse_f64 :: "string \<Rightarrow> rat option"
  x_parse_i64 :: "string \<Rightarrow> int option"
  x_pgvector_ready :: bool
  x_pgvector_distance :: "rat list \<Rightarrow> rat list \<Rightarrow> rat"
  x_siphash_str :: "string \<Rightarrow> 64 word"
  x_siphash_probe :: "string \<Rightarrow> string \<Rightarrow> 64 word"

section \<open>What changes\<close>

datatype mail =
    RegistrationNotification string string string string string
  | ApprovalEmail string string string string
  | RejectionEmail string string string
  | PasswordResetEmail string string string string
  | PasswordResetRequest string string string
  | MfaCode string string

record world =
  w_now :: int
  w_draws :: nat
  w_stmts :: nat
  w_faults :: "nat \<Rightarrow> bool"
  w_users :: "user_row list"
  w_sessions :: "session_row list"
  w_approval_tokens :: "approval_token_row list"
  w_mfa_credentials :: "mfa_credential_row list"
  w_recovery_codes :: "recovery_code_row list"
  w_audit_events :: "audit_event_row list"
  w_chain_sequence :: int
  w_chain_hash :: string
  w_memberships :: "membership_row list"
  w_organizations :: "organization_row list"
  w_units :: "organization_unit_row list"
  w_searches :: "search_row list"
  w_search_candidates :: "search_candidate_row list"
  w_verification_events :: "verification_event_row list"
  w_candidates :: "candidate_row list"
  w_evidence :: "evidence_row list"
  w_relations :: "entity_relation_row list"
  w_templates :: "template_row list"
  w_thresholds :: "threshold_row list"
  w_breakers :: "string \<Rightarrow> nat \<times> int option"
  w_windows :: windows
  w_outbox :: "mail list"
  w_counters :: "(string \<times> string) list"

type_synonym 'a handler = "(world, 'a) state"

section \<open>Draws, statements, mail\<close>

definition draw :: "nat handler" where
  "draw = do { n \<leftarrow> gets w_draws; modify (\<lambda>w. w\<lparr>w_draws := Suc n\<rparr>); return n }"

definition new_uuid :: "app \<Rightarrow> string handler" where
  "new_uuid E = do { n \<leftarrow> draw; return (x_uuid_v4 E n) }"

definition random_hex :: "app \<Rightarrow> nat \<Rightarrow> string handler" where
  "random_hex E bytes = do { n \<leftarrow> draw; return (x_hex E (x_rng E n bytes)) }"

definition sha256_hex :: "app \<Rightarrow> string \<Rightarrow> string" where
  "sha256_hex E value = x_hex E (x_sha256 E value)"

definition try_stmt :: "(world \<Rightarrow> (db_error + 'a) \<times> world) \<Rightarrow> (db_error + 'a) handler" where
  "try_stmt f = State (\<lambda>w.
     let w' = w\<lparr>w_stmts := Suc (w_stmts w)\<rparr>
     in if w_faults w (w_stmts w) then (Inl DbFailure, w') else f w')"

definition stmt :: "(world \<Rightarrow> 'a \<times> world) \<Rightarrow> (db_error + 'a) handler" where
  "stmt f = try_stmt (\<lambda>w. case f w of (a, w') \<Rightarrow> (Inr a, w'))"

definition query :: "(world \<Rightarrow> 'a) \<Rightarrow> (db_error + 'a) handler" where
  "query f = stmt (\<lambda>w. (f w, w))"

definition send_mail :: "mail \<Rightarrow> unit handler" where
  "send_mail m = modify (\<lambda>w. w\<lparr>w_outbox := w_outbox w @ [m]\<rparr>)"

definition count_metric :: "string \<Rightarrow> string \<Rightarrow> unit handler" where
  "count_metric name label = modify (\<lambda>w. w\<lparr>w_counters := w_counters w @ [(name, label)]\<rparr>)"

definition request_id :: "app \<Rightarrow> header_map \<Rightarrow> string handler" where
  "request_id E headers =
     (case echoed_request_id headers of Some v \<Rightarrow> return v | None \<Rightarrow> new_uuid E)"

definition rate_check :: "string \<Rightarrow> nat \<Rightarrow> int \<Rightarrow> bool handler" where
  "rate_check key m window = State (\<lambda>w.
     case check (w_windows w) (w_now w) key m window of (ok, ws) \<Rightarrow> (ok, w\<lparr>w_windows := ws\<rparr>))"

text \<open>
  The id a statement is run with. On PostgreSQL id columns are \<open>UUID\<close>s, so the code parses
  the string first and gives up when it is not one; on SQLite the string is used as it is.
\<close>

definition db_key :: "app \<Rightarrow> string \<Rightarrow> string option" where
  "db_key E s = (case x_backend E of Postgres \<Rightarrow> x_parse_uuid E s | Sqlite \<Rightarrow> Some s)"

lemma db_key_sqlite: "x_backend E = Sqlite \<Longrightarrow> db_key E = Some"
  by (simp add: db_key_def [abs_def])

definition with_key :: "app \<Rightarrow> string \<Rightarrow> 'a \<Rightarrow> (string \<Rightarrow> (db_error + 'a) handler) \<Rightarrow>
    (db_error + 'a) handler" where
  "with_key E s dflt f =
     (case db_key E s of None \<Rightarrow> return (Inr dflt) | Some k \<Rightarrow> f k)"

definition is_production :: "app \<Rightarrow> bool" where
  "is_production E \<longleftrightarrow> x_env E ''NODE_ENV'' = Some ''production'' \<or> x_env E ''RENDER'' \<noteq> None"

section \<open>Evaluation and frames of the primitives\<close>

definition healthy :: "world \<Rightarrow> bool" where
  "healthy w \<longleftrightarrow> (\<forall>n. \<not> w_faults w n)"

lemma healthy_ok [simp]: "healthy w \<Longrightarrow> w_faults w n = False"
  by (simp add: healthy_def)

lemma healthy_updates [simp]:
  "healthy (w\<lparr>w_now := a\<rparr>) = healthy w" "healthy (w\<lparr>w_draws := b\<rparr>) = healthy w"
  "healthy (w\<lparr>w_stmts := c\<rparr>) = healthy w" "healthy (w\<lparr>w_users := d\<rparr>) = healthy w"
  "healthy (w\<lparr>w_sessions := e\<rparr>) = healthy w" "healthy (w\<lparr>w_approval_tokens := f\<rparr>) = healthy w"
  "healthy (w\<lparr>w_mfa_credentials := g\<rparr>) = healthy w" "healthy (w\<lparr>w_recovery_codes := h\<rparr>) = healthy w"
  "healthy (w\<lparr>w_audit_events := i\<rparr>) = healthy w" "healthy (w\<lparr>w_chain_sequence := j\<rparr>) = healthy w"
  "healthy (w\<lparr>w_chain_hash := k\<rparr>) = healthy w" "healthy (w\<lparr>w_memberships := l\<rparr>) = healthy w"
  "healthy (w\<lparr>w_searches := m\<rparr>) = healthy w" "healthy (w\<lparr>w_search_candidates := n\<rparr>) = healthy w"
  "healthy (w\<lparr>w_verification_events := p\<rparr>) = healthy w" "healthy (w\<lparr>w_candidates := q\<rparr>) = healthy w"
  "healthy (w\<lparr>w_windows := r\<rparr>) = healthy w" "healthy (w\<lparr>w_outbox := s\<rparr>) = healthy w"
  "healthy (w\<lparr>w_counters := t\<rparr>) = healthy w" "healthy (w\<lparr>w_organizations := x\<rparr>) = healthy w"
  "healthy (w\<lparr>w_units := y\<rparr>) = healthy w" "healthy (w\<lparr>w_evidence := z\<rparr>) = healthy w"
  "healthy (w\<lparr>w_relations := aa\<rparr>) = healthy w" "healthy (w\<lparr>w_templates := bb\<rparr>) = healthy w"
  "healthy (w\<lparr>w_thresholds := cc\<rparr>) = healthy w" "healthy (w\<lparr>w_breakers := dd\<rparr>) = healthy w"
  by (simp_all add: healthy_def)

lemma run_draw [simp]: "run_state draw w = (w_draws w, w\<lparr>w_draws := Suc (w_draws w)\<rparr>)"
  by (simp add: draw_def)

lemma wp_draw [wp_simps]: "wp draw Q w \<longleftrightarrow> Q (w_draws w) (w\<lparr>w_draws := Suc (w_draws w)\<rparr>)"
  by (simp add: draw_def wp_simps)

lemma wp_new_uuid [wp_simps]:
  "wp (new_uuid E) Q w \<longleftrightarrow> Q (x_uuid_v4 E (w_draws w)) (w\<lparr>w_draws := Suc (w_draws w)\<rparr>)"
  by (simp add: new_uuid_def wp_simps)

lemma wp_random_hex [wp_simps]:
  "wp (random_hex E n) Q w \<longleftrightarrow>
     Q (x_hex E (x_rng E (w_draws w) n)) (w\<lparr>w_draws := Suc (w_draws w)\<rparr>)"
  by (simp add: random_hex_def wp_simps)

lemma wp_try_stmt [wp_simps]:
  "wp (try_stmt f) Q w \<longleftrightarrow>
     (if w_faults w (w_stmts w) then Q (Inl DbFailure) (w\<lparr>w_stmts := Suc (w_stmts w)\<rparr>)
      else case f (w\<lparr>w_stmts := Suc (w_stmts w)\<rparr>) of (a, w') \<Rightarrow> Q a w')"
  by (simp add: wp_def try_stmt_def result_def exec_def Let_def split: prod.split)

lemma wp_stmt [wp_simps]:
  "wp (stmt f) Q w \<longleftrightarrow>
     (if w_faults w (w_stmts w) then Q (Inl DbFailure) (w\<lparr>w_stmts := Suc (w_stmts w)\<rparr>)
      else case f (w\<lparr>w_stmts := Suc (w_stmts w)\<rparr>) of (a, w') \<Rightarrow> Q (Inr a) w')"
  by (simp add: stmt_def wp_simps split: prod.split)

lemma wp_query [wp_simps]:
  "wp (query f) Q w \<longleftrightarrow>
     (if w_faults w (w_stmts w) then Q (Inl DbFailure) (w\<lparr>w_stmts := Suc (w_stmts w)\<rparr>)
      else Q (Inr (f (w\<lparr>w_stmts := Suc (w_stmts w)\<rparr>))) (w\<lparr>w_stmts := Suc (w_stmts w)\<rparr>))"
  by (simp add: query_def wp_simps)

lemma wp_send_mail [wp_simps]:
  "wp (send_mail m) Q w \<longleftrightarrow> Q () (w\<lparr>w_outbox := w_outbox w @ [m]\<rparr>)"
  by (simp add: send_mail_def wp_simps)

lemma wp_count_metric [wp_simps]:
  "wp (count_metric n l) Q w \<longleftrightarrow> Q () (w\<lparr>w_counters := w_counters w @ [(n, l)]\<rparr>)"
  by (simp add: count_metric_def wp_simps)

lemma wp_rate_check [wp_simps]:
  "wp (rate_check k m d) Q w \<longleftrightarrow>
     (case check (w_windows w) (w_now w) k m d of (ok, ws) \<Rightarrow> Q ok (w\<lparr>w_windows := ws\<rparr>))"
  by (simp add: wp_def rate_check_def result_def exec_def split: prod.split)

lemma wp_request_id [wp_simps]:
  "wp (request_id E h) Q w \<longleftrightarrow>
     (case echoed_request_id h of Some v \<Rightarrow> Q v w
      | None \<Rightarrow> Q (x_uuid_v4 E (w_draws w)) (w\<lparr>w_draws := Suc (w_draws w)\<rparr>))"
  by (simp add: request_id_def wp_simps split: option.split)

lemma wp_with_key [wp_simps]:
  "wp (with_key E s d f) Q w \<longleftrightarrow>
     (case db_key E s of None \<Rightarrow> Q (Inr d) w | Some k \<Rightarrow> wp (f k) Q w)"
  by (simp add: with_key_def wp_simps split: option.split)

lemma preserves_draw: "(\<And>w n. f (w\<lparr>w_draws := n\<rparr>) = f w) \<Longrightarrow> preserves f draw"
  by (simp add: preserves_def exec_def)

lemma preserves_new_uuid: "(\<And>w n. f (w\<lparr>w_draws := n\<rparr>) = f w) \<Longrightarrow> preserves f (new_uuid E)"
  unfolding new_uuid_def by (intro frame_intros preserves_draw) auto

lemma preserves_random_hex: "(\<And>w n. f (w\<lparr>w_draws := n\<rparr>) = f w) \<Longrightarrow> preserves f (random_hex E b)"
  unfolding random_hex_def by (intro frame_intros preserves_draw) auto

lemma preserves_try_stmt:
  "(\<And>w n. f (w\<lparr>w_stmts := n\<rparr>) = f w) \<Longrightarrow> (\<And>w. f (snd (g w)) = f w) \<Longrightarrow> preserves f (try_stmt g)"
  by (simp add: preserves_def exec_def try_stmt_def Let_def)

lemma preserves_stmt:
  "(\<And>w n. f (w\<lparr>w_stmts := n\<rparr>) = f w) \<Longrightarrow> (\<And>w. f (snd (g w)) = f w) \<Longrightarrow> preserves f (stmt g)"
  unfolding stmt_def by (rule preserves_try_stmt) (simp_all add: case_prod_unfold)

lemma preserves_query: "(\<And>w n. f (w\<lparr>w_stmts := n\<rparr>) = f w) \<Longrightarrow> preserves f (query g)"
  unfolding query_def by (rule preserves_stmt) auto

lemma preserves_send_mail:
  "(\<And>w m. f (w\<lparr>w_outbox := m\<rparr>) = f w) \<Longrightarrow> preserves f (send_mail x)"
  unfolding send_mail_def by (rule preserves_modify) simp

lemma preserves_count_metric:
  "(\<And>w m. f (w\<lparr>w_counters := m\<rparr>) = f w) \<Longrightarrow> preserves f (count_metric x y)"
  unfolding count_metric_def by (rule preserves_modify) simp

lemma preserves_rate_check:
  "(\<And>w m. f (w\<lparr>w_windows := m\<rparr>) = f w) \<Longrightarrow> preserves f (rate_check k m d)"
  by (simp add: preserves_def exec_def rate_check_def split: prod.split)

lemma preserves_with_key [frame_intros]:
  "(\<And>k. preserves f (g k)) \<Longrightarrow> preserves f (with_key E s d g)"
  unfolding with_key_def by (intro frame_intros)

lemma preserves_request_id:
  "(\<And>w n. f (w\<lparr>w_draws := n\<rparr>) = f w) \<Longrightarrow> preserves f (request_id E h)"
  unfolding request_id_def by (intro frame_intros preserves_new_uuid)

lemmas primitive_frames = preserves_draw preserves_new_uuid preserves_random_hex preserves_try_stmt
  preserves_stmt preserves_query preserves_send_mail preserves_count_metric preserves_rate_check
  preserves_request_id

subsection \<open>Observations that do not look at the counters\<close>

definition blind_base :: "(world \<Rightarrow> 'b) \<Rightarrow> bool" where
  [simp]: "blind_base f \<longleftrightarrow> blind w_stmts_update f \<and> blind w_draws_update f"

lemma base_frames [frame_intros]:
  "blind_base f \<Longrightarrow> preserves f draw"
  "blind_base f \<Longrightarrow> preserves f (new_uuid E)"
  "blind_base f \<Longrightarrow> preserves f (random_hex E n)"
  "blind_base f \<Longrightarrow> preserves f (query g)"
  "blind_base f \<Longrightarrow> preserves f (request_id E h)"
  by (intro primitive_frames; simp)+

lemma outside_frames [frame_intros]:
  "blind w_outbox_update f \<Longrightarrow> preserves f (send_mail m)"
  "blind w_counters_update f \<Longrightarrow> preserves f (count_metric x y)"
  "blind w_windows_update f \<Longrightarrow> preserves f (rate_check k a d)"
  by (intro primitive_frames; simp)+

lemma preserves_backend [frame_intros]:
  "preserves f m \<Longrightarrow> preserves f n \<Longrightarrow> preserves f (case b of Postgres \<Rightarrow> m | Sqlite \<Rightarrow> n)"
  by (simp split: db_backend.split)

lemma stmt_frame:
  "blind_base f \<Longrightarrow> (\<And>w. f (snd (g w)) = f w) \<Longrightarrow> preserves f (stmt g)"
  by (intro preserves_stmt) simp_all

lemma try_stmt_frame:
  "blind_base f \<Longrightarrow> (\<And>w. f (snd (g w)) = f w) \<Longrightarrow> preserves f (try_stmt g)"
  by (intro preserves_try_stmt) simp_all

lemma keeps_backend:
  "keeps P m \<Longrightarrow> keeps P n \<Longrightarrow> keeps P (case b of Postgres \<Rightarrow> m | Sqlite \<Rightarrow> n)"
  by (simp split: db_backend.split)

lemma run_stmt: "run_state (stmt f) w =
    (if w_faults w (w_stmts w) then (Inl DbFailure, w\<lparr>w_stmts := Suc (w_stmts w)\<rparr>)
     else (Inr (fst (f (w\<lparr>w_stmts := Suc (w_stmts w)\<rparr>))), snd (f (w\<lparr>w_stmts := Suc (w_stmts w)\<rparr>))))"
  by (simp add: stmt_def try_stmt_def Let_def case_prod_unfold)

lemma run_query: "run_state (query f) w =
    (if w_faults w (w_stmts w) then Inl DbFailure else Inr (f (w\<lparr>w_stmts := Suc (w_stmts w)\<rparr>)),
     w\<lparr>w_stmts := Suc (w_stmts w)\<rparr>)"
  by (simp add: query_def run_stmt)

lemma result_query: "result (query f) w =
    (if w_faults w (w_stmts w) then Inl DbFailure else Inr (f (w\<lparr>w_stmts := Suc (w_stmts w)\<rparr>)))"
  by (simp add: result_def run_query)

lemma result_with_key: "result (with_key E s d f) w =
    (case db_key E s of None \<Rightarrow> Inr d | Some k \<Rightarrow> result (f k) w)"
  by (simp add: with_key_def split: option.split)

lemma keeps_stmt: "(\<And>w n. P w \<Longrightarrow> P (w\<lparr>w_stmts := n\<rparr>)) \<Longrightarrow> (\<And>w. P w \<Longrightarrow> P (snd (g w))) \<Longrightarrow> keeps P (stmt g)"
  by (simp add: keeps_def exec_def run_stmt)

lemma keeps_with_key: "(\<And>k. db_key E s = Some k \<Longrightarrow> keeps P (f k)) \<Longrightarrow> keeps P (with_key E s d f)"
  by (auto simp: with_key_def keeps_return split: option.split)

lemma exec_request_id: "\<exists>m. exec (request_id E h) w = w\<lparr>w_draws := m\<rparr>"
proof (cases "echoed_request_id h")
  case None
  then show ?thesis by (simp add: request_id_def new_uuid_def exec_bind) (metis exec_def run_draw snd_conv)
next
  case (Some v)
  then show ?thesis by (intro exI [of _ "w_draws w"]) (simp add: request_id_def)
qed

lemma exec_query: "exec (query f) w = w\<lparr>w_stmts := Suc (w_stmts w)\<rparr>"
  by (simp add: exec_def run_query)

lemma exec_rate_check: "\<exists>ws. exec (rate_check k n d) w = w\<lparr>w_windows := ws\<rparr>"
  by (auto simp: exec_def rate_check_def split: prod.split)

lemma exec_only_windows:
  assumes "preserves (\<lambda>w. w\<lparr>w_windows := []\<rparr>) m"
  shows "\<exists>ws. exec m w = w\<lparr>w_windows := ws\<rparr>"
proof (rule exI)
  have "exec m w = (exec m w)\<lparr>w_windows := []\<rparr>\<lparr>w_windows := w_windows (exec m w)\<rparr>" by simp
  also have "\<dots> = w\<lparr>w_windows := []\<rparr>\<lparr>w_windows := w_windows (exec m w)\<rparr>"
    using assms by (simp only: preserves_def)
  finally show "exec m w = w\<lparr>w_windows := w_windows (exec m w)\<rparr>" by simp
qed

lemma exec_stmt: "exec (stmt f) w =
    (if w_faults w (w_stmts w) then w\<lparr>w_stmts := Suc (w_stmts w)\<rparr> else snd (f (w\<lparr>w_stmts := Suc (w_stmts w)\<rparr>)))"
  by (simp add: exec_def run_stmt)

lemma result_stmt: "result (stmt f) w =
    (if w_faults w (w_stmts w) then Inl DbFailure else Inr (fst (f (w\<lparr>w_stmts := Suc (w_stmts w)\<rparr>))))"
  by (simp add: result_def run_stmt)

lemma draw_runs [simp]:
  "exec (random_hex E n) w = w\<lparr>w_draws := Suc (w_draws w)\<rparr>" "result (random_hex E n) w = x_hex E (x_rng E (w_draws w) n)"
  "exec (new_uuid E) w = w\<lparr>w_draws := Suc (w_draws w)\<rparr>" "result (new_uuid E) w = x_uuid_v4 E (w_draws w)"
  by (simp_all add: random_hex_def new_uuid_def exec_def result_def)

lemma exec_counters:
  assumes "preserves (\<lambda>w. w\<lparr>w_draws := 0, w_stmts := 0\<rparr>) m"
  shows "\<exists>a b. exec m w = w\<lparr>w_draws := a, w_stmts := b\<rparr>"
proof (intro exI)
  have "exec m w = (exec m w)\<lparr>w_draws := 0, w_stmts := 0\<rparr>\<lparr>w_draws := w_draws (exec m w), w_stmts := w_stmts (exec m w)\<rparr>" by simp
  also have "\<dots> = w\<lparr>w_draws := 0, w_stmts := 0\<rparr>\<lparr>w_draws := w_draws (exec m w), w_stmts := w_stmts (exec m w)\<rparr>"
    using assms by (simp only: preserves_def)
  finally show "exec m w = w\<lparr>w_draws := w_draws (exec m w), w_stmts := w_stmts (exec m w)\<rparr>" by simp
qed

lemma exec_try_stmt: "exec (try_stmt f) w =
    (if w_faults w (w_stmts w) then w\<lparr>w_stmts := Suc (w_stmts w)\<rparr> else snd (f (w\<lparr>w_stmts := Suc (w_stmts w)\<rparr>)))"
  by (simp add: exec_def try_stmt_def)

lemma result_try_stmt: "result (try_stmt f) w =
    (if w_faults w (w_stmts w) then Inl DbFailure else fst (f (w\<lparr>w_stmts := Suc (w_stmts w)\<rparr>)))"
  by (simp add: result_def try_stmt_def)

lemma keeps_try_stmt: "(\<And>w n. P w \<Longrightarrow> P (w\<lparr>w_stmts := n\<rparr>)) \<Longrightarrow> (\<And>w. P w \<Longrightarrow> P (snd (g w))) \<Longrightarrow>
    keeps P (try_stmt g)"
  by (simp add: keeps_def exec_def try_stmt_def Let_def)

lemma yields_try_stmt:
  assumes "\<And>w n. P w \<Longrightarrow> P (w\<lparr>w_stmts := n\<rparr>)" and "\<And>w. P w \<Longrightarrow> P (snd (g w))"
    and "\<And>w. P w \<Longrightarrow> Q (fst (g w))" and "Q (Inl DbFailure)"
  shows "yields P (try_stmt g) Q"
  using assms by (simp add: yields_def exec_try_stmt result_try_stmt)

section \<open>Statements that fail, ids that are read back\<close>

text \<open>
  Whether one of the statements run between two states of the world failed, and whether an id is the
  canonical text of itself: an id read from a \<open>UUID\<close> column is, and on SQLite every text is.
\<close>

definition statement_failed :: "world \<Rightarrow> world \<Rightarrow> bool" where
  "statement_failed w w' \<longleftrightarrow> (\<exists>n. w_stmts w \<le> n \<and> n < w_stmts w' \<and> w_faults w n)"

definition canonical_id :: "app \<Rightarrow> string \<Rightarrow> bool" where
  "canonical_id E i \<longleftrightarrow> db_key E i = Some i"

lemma statement_failedI: "w_faults w n \<Longrightarrow> w_stmts w \<le> n \<Longrightarrow> n < w_stmts w' \<Longrightarrow> statement_failed w w'"
  by (auto simp: statement_failed_def)

lemma statement_failed_later: "statement_failed w w' \<Longrightarrow> w_stmts v \<le> w_stmts w \<Longrightarrow> w_faults v = w_faults w \<Longrightarrow> statement_failed v w'"
  unfolding statement_failed_def by (metis order_trans)

lemma healthy_no_failure: "healthy w \<Longrightarrow> \<not> statement_failed w w'"
  by (simp add: statement_failed_def)

lemma canonical_sqlite: "x_backend E = Sqlite \<Longrightarrow> canonical_id E i"
  by (simp add: canonical_id_def db_key_sqlite)

text \<open>No handler takes statements back.\<close>

lemma grows_stmts:
  "w_stmts w \<le> w_stmts (exec (query f) w)"
  "(\<And>w. w_stmts w \<le> w_stmts (snd (g w))) \<Longrightarrow> w_stmts w \<le> w_stmts (exec (stmt g) w)"
  "(\<And>k w. w_stmts w \<le> w_stmts (exec (m k) w)) \<Longrightarrow> w_stmts w \<le> w_stmts (exec (with_key E i d m) w)"
  subgoal by (simp add: exec_query)
  subgoal by (auto simp: exec_stmt intro: order_trans [OF le_SucI [OF order_refl]] dest: meta_spec [of _ "w\<lparr>w_stmts := Suc (w_stmts w)\<rparr>"])
  subgoal by (simp add: with_key_def split: option.split)
  done

end
