(* ===== verification/Demo.thy ===== *)
theory Demo
  imports World
begin

text \<open>
  A concrete server for the examples that show the hypotheses of the theorems can hold: the
  SQLite backend, an empty environment, a hash and a printer that keep their argument, a counter
  for the random generator, and an empty database.
\<close>

definition demo_bytes :: "string \<Rightarrow> 8 word list" where
  "demo_bytes s = map (\<lambda>c. of_char c) s"

definition demo_text :: "8 word list \<Rightarrow> string" where
  "demo_text bs = map (\<lambda>b. char_of (unat b)) bs"

lemma demo_text_bytes [simp]: "demo_text (demo_bytes s) = s"
proof -
  have "unat (of_char c :: 8 word) = of_char c" for c
  proof -
    have "(of_char c :: nat) < 2 ^ LENGTH(8)"
      using of_char_mod_256 [of c, where ?'a = nat] mod_less_divisor [of 256 "of_char c :: nat"] by simp
    then have "unat (of_nat (of_char c) :: 8 word) = of_char c" by (simp only: unat_of_nat mod_less)
    then show ?thesis by (simp add: of_nat_of_char)
  qed
  then show ?thesis by (simp add: demo_text_def demo_bytes_def comp_def)
qed

lemma demo_bytes_text [simp]: "demo_bytes (demo_text bs) = bs"
proof -
  have "(of_char (char_of (unat b) :: char) :: 8 word) = b" for b
  proof -
    have "(of_char (char_of (unat b) :: char) :: 8 word) = of_nat (of_char (char_of (unat b) :: char))"
      by (simp only: of_nat_of_char)
    also have "\<dots> = of_nat (unat b mod 256)" by (simp only: of_char_of)
    also have "unat b mod 256 = unat b"
      using unsigned_less [of b, where ?'a = nat] by (intro mod_less) simp
    finally show ?thesis by simp
  qed
  then show ?thesis by (simp add: demo_text_def demo_bytes_def comp_def)
qed

definition demo_app :: app where
  "demo_app = \<lparr>
     x_backend = Sqlite, x_env = (\<lambda>_. None),
     x_jwt_secret = ''access'', x_jwt_refresh_secret = ''refresh'',
     x_approval_token_secret = ''approval'', x_mfa_token_secret = ''mfa'', x_national_id_key = [],
     x_mfa_required_roles = [], x_require_second_review = True,
     x_default_top_k = 10, x_max_top_k = 50, x_auto_osint = False, x_osint_auto_max_candidates = 3,
     x_sha256 = demo_bytes, x_hex = demo_text,
     x_rng = (\<lambda>n bytes. replicate bytes (of_nat n)), x_uuid_v4 = (\<lambda>n. CHR ''u'' # replicate n (CHR ''1'')),
     x_parse_uuid = Some,
     x_bcrypt_hash = (\<lambda>cost s. Some s), x_bcrypt_verify = (\<lambda>s h. Some (s = h)),
     x_encode_access = (\<lambda>c key. Some (cl_id c)), x_decode_access = (\<lambda>now t key. None),
     x_encode_refresh = (\<lambda>c key. Some (rc_family c)), x_decode_refresh = (\<lambda>now t key. None),
     x_encode_approval = (\<lambda>c key. Some (ac_jti c)), x_decode_approval = (\<lambda>now t key. None),
     x_encode_challenge = (\<lambda>c key. Some (cc_user_id c)), x_decode_challenge = (\<lambda>now t key. None),
     x_totp_secret = (\<lambda>n. replicate n (CHR ''A'')), x_totp_build = (\<lambda>s l. Some s),
     x_totp_check = (\<lambda>s now c. c = ''000000''), x_totp_url = (\<lambda>s. s),
     x_aes_encrypt = (\<lambda>key nonce s. demo_bytes s), x_aes_decrypt = (\<lambda>key nonce c. Some c),
     x_from_utf8 = (\<lambda>b. Some (demo_text b)),
     x_base64_encode = demo_text, x_base64_decode = (\<lambda>s. Some (demo_bytes s)),
     x_hmac_sha256 = (\<lambda>key s. demo_bytes s),
     x_format_micros = (\<lambda>t. (if t < 0 then ''-'' else ''+'') @ replicate (nat \<bar>t\<bar>) (CHR ''I'')),
     x_parse_instant = (\<lambda>s. Some (if hd s = CHR ''-'' then - int (length (tl s)) else int (length (tl s)))),
     x_json_text = (\<lambda>j. []), x_json_parse = (\<lambda>s. None), x_jsonb_text = (\<lambda>s. s),
     x_floats_text = (\<lambda>xs. []), x_floats_parse = (\<lambda>s. None), x_sqrt = (\<lambda>x. x), x_jaro_winkler = (\<lambda>a b. if a = b then 1 else 0),
     x_parse_f64 = (\<lambda>s. None), x_parse_i64 = (\<lambda>s. None), x_pgvector_ready = False,
     x_pgvector_distance = (\<lambda>a b. 0), x_siphash_str = (\<lambda>s. of_nat (length s)),
     x_siphash_probe = (\<lambda>p s. of_nat (length p + 1000 * length s))\<rparr>"

lemma demo_app_simps [simp]:
  "x_backend demo_app = Sqlite"
  "x_env demo_app = (\<lambda>_. None)"
  "x_jwt_secret demo_app = ''access''"
  "x_jwt_refresh_secret demo_app = ''refresh''"
  "x_approval_token_secret demo_app = ''approval''"
  "x_mfa_token_secret demo_app = ''mfa''"
  "x_national_id_key demo_app = []"
  "x_mfa_required_roles demo_app = []"
  "x_require_second_review demo_app = True"
  "x_default_top_k demo_app = 10"
  "x_max_top_k demo_app = 50"
  "x_auto_osint demo_app = False"
  "x_osint_auto_max_candidates demo_app = 3"
  "x_sha256 demo_app = demo_bytes"
  "x_hex demo_app = demo_text"
  "x_rng demo_app = (\<lambda>n bytes. replicate bytes (of_nat n))"
  "x_uuid_v4 demo_app = (\<lambda>n. CHR ''u'' # replicate n (CHR ''1''))"
  "x_parse_uuid demo_app = Some"
  "x_bcrypt_hash demo_app = (\<lambda>cost s. Some s)"
  "x_bcrypt_verify demo_app = (\<lambda>s h. Some (s = h))"
  "x_encode_access demo_app = (\<lambda>c key. Some (cl_id c))"
  "x_decode_access demo_app = (\<lambda>now t key. None)"
  "x_encode_refresh demo_app = (\<lambda>c key. Some (rc_family c))"
  "x_decode_refresh demo_app = (\<lambda>now t key. None)"
  "x_encode_approval demo_app = (\<lambda>c key. Some (ac_jti c))"
  "x_decode_approval demo_app = (\<lambda>now t key. None)"
  "x_encode_challenge demo_app = (\<lambda>c key. Some (cc_user_id c))"
  "x_decode_challenge demo_app = (\<lambda>now t key. None)"
  "x_totp_secret demo_app = (\<lambda>n. replicate n (CHR ''A''))"
  "x_totp_build demo_app = (\<lambda>s l. Some s)"
  "x_totp_check demo_app = (\<lambda>s now c. c = ''000000'')"
  "x_totp_url demo_app = (\<lambda>s. s)"
  "x_aes_encrypt demo_app = (\<lambda>key nonce s. demo_bytes s)"
  "x_aes_decrypt demo_app = (\<lambda>key nonce c. Some c)"
  "x_from_utf8 demo_app = (\<lambda>b. Some (demo_text b))"
  "x_base64_encode demo_app = demo_text"
  "x_base64_decode demo_app = (\<lambda>s. Some (demo_bytes s))"
  "x_hmac_sha256 demo_app = (\<lambda>key s. demo_bytes s)"
  "x_json_text demo_app = (\<lambda>j. [])"
  "x_json_parse demo_app = (\<lambda>s. None)"
  "x_jsonb_text demo_app = (\<lambda>s. s)"
  "x_floats_text demo_app = (\<lambda>xs. [])"
  "x_floats_parse demo_app = (\<lambda>s. None)"
  "x_sqrt demo_app = (\<lambda>x. x)"
  "x_jaro_winkler demo_app = (\<lambda>a b. if a = b then 1 else 0)"
  "x_parse_f64 demo_app = (\<lambda>s. None)"
  "x_parse_i64 demo_app = (\<lambda>s. None)"
  "x_pgvector_ready demo_app = False"
  "x_pgvector_distance demo_app = (\<lambda>a b. 0)"
  "x_siphash_str demo_app = (\<lambda>s. of_nat (length s))"
  "x_siphash_probe demo_app = (\<lambda>p s. of_nat (length p + 1000 * length s))"
  by (simp_all add: demo_app_def)

definition demo_world :: world where
  "demo_world = \<lparr>
     w_now = 0, w_draws = 0, w_stmts = 0, w_faults = (\<lambda>_. False),
     w_users = [], w_sessions = [], w_approval_tokens = [], w_mfa_credentials = [],
     w_recovery_codes = [], w_audit_events = [], w_chain_sequence = 0, w_chain_hash = [],
     w_memberships = [], w_organizations = [], w_units = [], w_searches = [], w_search_candidates = [], w_verification_events = [],
     w_candidates = [], w_evidence = [], w_relations = [], w_templates = [], w_thresholds = [],
     w_breakers = (\<lambda>_. (0, None)), w_windows = [], w_outbox = [], w_counters = []\<rparr>"

definition demo_user :: user_row where
  "demo_user = \<lparr>
     u_id = ''1'', u_user_code = ''AB1'', u_first_name = ''A'', u_last_name = ''B'',
     u_national_id_encrypted = None, u_national_id_lookup_hash = None,
     u_email = Some ''a@b.c'', u_password_hash = ''pw'', u_role = ''OPERATOR'',
     u_is_approved = True, u_is_banned = False, u_ban_reason = None, u_tracking_token = None,
     u_tracking_expires_at = None, u_deleted_at = None\<rparr>"

definition demo_session :: session_row where
  "demo_session = \<lparr>
     s_id = ''s'', s_user_id = ''1'', s_refresh_token_hash = ''h'', s_token_family_id = ''f'',
     s_created_at = 0, s_expires_at = 30 * DAY, s_last_used_at = 0, s_revoked_at = None,
     s_user_agent = None, s_ip_address = None, s_rotation_counter = 0, s_created_by = None\<rparr>"

definition demo_link :: approval_token_row where
  "demo_link = \<lparr>
     t_id = ''t'', t_user_id = ''1'', t_token_hash = ''h'', t_purpose = ''REGISTRATION_APPROVAL'',
     t_created_at = 0, t_expires_at = 3 * DAY, t_consumed_at = None, t_result = None\<rparr>"

lemma healthy_demo [simp]: "healthy demo_world"
  by (simp add: healthy_def demo_world_def)

lemma db_key_demo [simp]: "db_key demo_app s = Some s"
  by (simp add: db_key_def demo_app_def)

text \<open>A server that accepts any bearer token, as one of the user \<open>1\<close> with the given role.\<close>

definition demo_claims :: "string \<Rightarrow> claims" where
  "demo_claims role = \<lparr>cl_id = ''1'', cl_user_code = ''AB1'', cl_email = [], cl_role = role, cl_exp = 0\<rparr>"

definition demo_as :: "string \<Rightarrow> app" where
  "demo_as role = demo_app\<lparr>x_decode_access := (\<lambda>now t key. Some (demo_claims role))\<rparr>"

definition demo_headers :: header_map where
  "demo_headers = [''authorization'' \<mapsto> ''Bearer t'']"

lemma demo_as_simps [simp]: "x_backend (demo_as role) = Sqlite" "x_parse_instant (demo_as role) = x_parse_instant demo_app"
  "db_key (demo_as role) s = Some s" "x_decode_access (demo_as role) now t key = Some (demo_claims role)"
  "cl_role (demo_claims role) = role" "cl_id (demo_claims role) = ''1''"
  by (simp_all add: demo_as_def demo_app_def demo_claims_def db_key_def)

end
