(* ===== verification/Single_Use.thy ===== *)
theory Single_Use
  imports Prelude
begin

text \<open>
  The contract shared by everything the server hands out to be used once: approval and reset
  links, recovery codes, emailed codes. \<open>spend c\<close> is the atomic statement that tries to use
  \<open>item c\<close> and answers whether it did; \<open>dead w k\<close> says that item k can no longer be used.
  Spends of any items may be interleaved with other steps of the system (\<open>Inr g\<close>), which stand
  for other requests running between two statements.
\<close>

fun spend_run :: "('c \<Rightarrow> ('s, bool) state) \<Rightarrow> 's \<Rightarrow> ('c + ('s \<Rightarrow> 's)) list \<Rightarrow> ('c \<times> bool) list" where
  "spend_run sp w [] = []"
| "spend_run sp w (Inl c # es) = (c, result (sp c) w) # spend_run sp (exec (sp c) w) es"
| "spend_run sp w (Inr g # es) = spend_run sp (g w) es"

definition times_spent :: "('c \<Rightarrow> 'k) \<Rightarrow> 'k \<Rightarrow> ('c \<times> bool) list \<Rightarrow> nat" where
  "times_spent it k rs = sql_count (\<lambda>(c, ok). it c = k \<and> ok) rs"

lemma times_spent_simps [simp]:
  "times_spent it k [] = 0"
  "times_spent it k ((c, ok) # rs) =
     (if it c = k \<and> ok then Suc (times_spent it k rs) else times_spent it k rs)"
  by (simp_all add: times_spent_def)

locale single_use =
  fixes spend :: "'c \<Rightarrow> ('s, bool) state"
    and item :: "'c \<Rightarrow> 'k"
    and dead :: "'s \<Rightarrow> 'k \<Rightarrow> bool"
  assumes spend_kills: "result (spend c) w \<Longrightarrow> dead (exec (spend c) w) (item c)"
    and dead_refused: "dead w (item c) \<Longrightarrow> \<not> result (spend c) w"
    and dead_stays: "dead w k \<Longrightarrow> dead (exec (spend c) w) k"
begin

lemma dead_never_spent:
  assumes "\<forall>g. Inr g \<in> set es \<longrightarrow> (\<forall>w. dead w k \<longrightarrow> dead (g w) k)" and "dead w k"
  shows "times_spent item k (spend_run spend w es) = 0"
  using assms
proof (induction es arbitrary: w)
  case (Cons e es)
  then show ?case
    by (cases e) (auto simp: dead_refused dead_stays)
qed simp

lemma spent_at_most_once:
  assumes "\<forall>g. Inr g \<in> set es \<longrightarrow> (\<forall>w. dead w k \<longrightarrow> dead (g w) k)"
  shows "times_spent item k (spend_run spend w es) \<le> 1"
  using assms
proof (induction es arbitrary: w)
  case (Cons e es)
  show ?case
  proof (cases e)
    case (Inl c)
    show ?thesis
    proof (cases "item c = k \<and> result (spend c) w")
      case True
      with Inl Cons.prems have "times_spent item k (spend_run spend (exec (spend c) w) es) = 0"
        by (intro dead_never_spent) (auto intro: spend_kills)
      with True Inl show ?thesis by simp
    next
      case False
      with Inl Cons.prems Cons.IH [of "exec (spend c) w"] show ?thesis by auto
    qed
  next
    case (Inr g)
    with Cons.prems Cons.IH [of "g w"] show ?thesis by simp
  qed
qed simp

end

text \<open>A contract with a deadline: past it, an item is dead even if it was never used.\<close>

locale timed_single_use = single_use +
  fixes expired :: "'s \<Rightarrow> 'k \<Rightarrow> bool"
  assumes expired_dead: "expired w k \<Longrightarrow> dead w k"
begin

lemma expired_never_spent:
  assumes "expired w k" and "\<forall>g. Inr g \<in> set es \<longrightarrow> (\<forall>w. dead w k \<longrightarrow> dead (g w) k)"
  shows "times_spent item k (spend_run spend w es) = 0"
  using assms by (intro dead_never_spent expired_dead)

end

end
