(* ===== verification/Db_Session.thy ===== *)
theory Db_Session
  imports Demo Single_Use
begin

text \<open>
  \<open>server/src/db/session.rs\<close>: the \<open>sessions\<close> table (one row per token family, rotated in
  place) and the \<open>approval_tokens\<close> table. Each function is one or two SQL statements. A query that
  returns one row answers the first match.
\<close>

section \<open>Sessions\<close>

definition new_session_row ::
  "string \<Rightarrow> string \<Rightarrow> string \<Rightarrow> string \<Rightarrow> int \<Rightarrow> int \<Rightarrow> string option \<Rightarrow> string option \<Rightarrow> string \<Rightarrow> session_row" where
  "new_session_row i user hash family now expires ua ip created_by =
     \<lparr>s_id = i, s_user_id = user, s_refresh_token_hash = hash, s_token_family_id = family,
      s_created_at = now, s_expires_at = expires, s_last_used_at = now, s_revoked_at = None,
      s_user_agent = ua, s_ip_address = ip, s_rotation_counter = 0, s_created_by = Some created_by\<rparr>"

definition find_session_by_id :: "app \<Rightarrow> string \<Rightarrow> (db_error + session_row option) handler" where
  "find_session_by_id E i =
     with_key E i None (\<lambda>k. query (\<lambda>w. find (\<lambda>r. s_id r = k) (w_sessions w)))"

definition create_session ::
  "app \<Rightarrow> string \<Rightarrow> string \<Rightarrow> string \<Rightarrow> int \<Rightarrow> string option \<Rightarrow> string option \<Rightarrow> string \<Rightarrow>
     (db_error + session_row option) handler" where
  "create_session E user_id hash family expires ua ip created_by =
     (case x_backend E of
        Postgres \<Rightarrow>
          (case x_parse_uuid E user_id of
             None \<Rightarrow> return (Inr None)
           | Some u \<Rightarrow>
               (case x_parse_uuid E family of
                  None \<Rightarrow> return (Inr None)
                | Some f \<Rightarrow> stmt (\<lambda>w.
                    let r = new_session_row (x_uuid_v4 E (w_draws w)) u hash f (w_now w) expires ua ip created_by
                    in (Some r, w\<lparr>w_draws := Suc (w_draws w), w_sessions := w_sessions w @ [r]\<rparr>))))
      | Sqlite \<Rightarrow> do {
          i \<leftarrow> new_uuid E;
          ins \<leftarrow> stmt (\<lambda>w. ((), w\<lparr>w_sessions := w_sessions w @
                   [new_session_row i user_id hash family (w_now w) expires ua ip created_by]\<rparr>));
          case ins of
            Inl e \<Rightarrow> return (Inl e)
          | Inr _ \<Rightarrow> find_session_by_id E i
        })"

definition find_session_by_family :: "app \<Rightarrow> string \<Rightarrow> (db_error + session_row option) handler" where
  "find_session_by_family E family =
     with_key E family None (\<lambda>k. query (\<lambda>w. find (\<lambda>r. s_token_family_id r = k) (w_sessions w)))"

definition rotate_row :: "string \<Rightarrow> int \<Rightarrow> int \<Rightarrow> session_row \<Rightarrow> session_row" where
  "rotate_row hash expires now r =
     r\<lparr>s_refresh_token_hash := hash, s_expires_at := expires, s_last_used_at := now,
       s_rotation_counter := s_rotation_counter r + 1\<rparr>"

definition rotate_session :: "app \<Rightarrow> string \<Rightarrow> string \<Rightarrow> int \<Rightarrow> (db_error + unit) handler" where
  "rotate_session E session_id hash expires =
     with_key E session_id () (\<lambda>k. stmt (\<lambda>w. ((), w\<lparr>w_sessions :=
       sql_update (\<lambda>r. s_id r = k \<and> s_revoked_at r = None) (rotate_row hash expires (w_now w))
         (w_sessions w)\<rparr>)))"

definition revoke_where :: "(session_row \<Rightarrow> bool) \<Rightarrow> world \<Rightarrow> world" where
  "revoke_where p w = w\<lparr>w_sessions :=
     sql_update (\<lambda>r. p r \<and> s_revoked_at r = None) (\<lambda>r. r\<lparr>s_revoked_at := Some (w_now w)\<rparr>)
       (w_sessions w)\<rparr>"

definition revoke_session :: "app \<Rightarrow> string \<Rightarrow> (db_error + unit) handler" where
  "revoke_session E session_id =
     with_key E session_id () (\<lambda>k. stmt (\<lambda>w. ((), revoke_where (\<lambda>r. s_id r = k) w)))"

definition revoke_session_family :: "app \<Rightarrow> string \<Rightarrow> (db_error + unit) handler" where
  "revoke_session_family E family =
     with_key E family () (\<lambda>k. stmt (\<lambda>w. ((), revoke_where (\<lambda>r. s_token_family_id r = k) w)))"

definition revoke_all_sessions_for_user :: "app \<Rightarrow> string \<Rightarrow> (db_error + unit) handler" where
  "revoke_all_sessions_for_user E user_id =
     with_key E user_id () (\<lambda>k. stmt (\<lambda>w. ((), revoke_where (\<lambda>r. s_user_id r = k) w)))"

definition list_active_sessions_for_user :: "app \<Rightarrow> string \<Rightarrow> (db_error + session_row list) handler" where
  "list_active_sessions_for_user E user_id =
     with_key E user_id [] (\<lambda>k. query (\<lambda>w.
       sort_key (\<lambda>r. - s_last_used_at r)
         (filter (\<lambda>r. s_user_id r = k \<and> s_revoked_at r = None \<and> w_now w < s_expires_at r)
           (w_sessions w))))"

definition revoke_session_owned_by_user :: "app \<Rightarrow> string \<Rightarrow> string \<Rightarrow> (db_error + bool) handler" where
  "revoke_session_owned_by_user E session_id user_id =
     with_key E session_id False (\<lambda>sk. with_key E user_id False (\<lambda>uk. stmt (\<lambda>w.
       (0 < sql_count (\<lambda>r. s_id r = sk \<and> s_user_id r = uk \<and> s_revoked_at r = None) (w_sessions w),
        revoke_where (\<lambda>r. s_id r = sk \<and> s_user_id r = uk) w))))"

definition purge_expired_auth_records :: "(db_error + nat \<times> nat) handler" where
  "purge_expired_auth_records = do {
     a \<leftarrow> stmt (\<lambda>w. (sql_count (\<lambda>r. s_expires_at r < w_now w) (w_sessions w),
                w\<lparr>w_sessions := sql_delete (\<lambda>r. s_expires_at r < w_now w) (w_sessions w)\<rparr>));
     case a of
       Inl e \<Rightarrow> return (Inl e)
     | Inr sessions \<Rightarrow> do {
         b \<leftarrow> stmt (\<lambda>w. (sql_count (\<lambda>r. t_expires_at r < w_now w) (w_approval_tokens w),
                w\<lparr>w_approval_tokens := sql_delete (\<lambda>r. t_expires_at r < w_now w) (w_approval_tokens w)\<rparr>));
         case b of
           Inl e \<Rightarrow> return (Inl e)
         | Inr approval_tokens \<Rightarrow> return (Inr (sessions, approval_tokens))
       }
   }"

section \<open>Approval tokens\<close>

definition new_approval_token_row :: "string \<Rightarrow> string \<Rightarrow> string \<Rightarrow> string \<Rightarrow> int \<Rightarrow> int \<Rightarrow> approval_token_row" where
  "new_approval_token_row i user hash purpose now expires =
     \<lparr>t_id = i, t_user_id = user, t_token_hash = hash, t_purpose = purpose, t_created_at = now,
      t_expires_at = expires, t_consumed_at = None, t_result = None\<rparr>"

definition find_approval_token_by_hash :: "string \<Rightarrow> (db_error + approval_token_row option) handler" where
  "find_approval_token_by_hash hash =
     query (\<lambda>w. find (\<lambda>r. t_token_hash r = hash) (w_approval_tokens w))"

definition create_approval_token ::
  "app \<Rightarrow> string \<Rightarrow> string \<Rightarrow> string \<Rightarrow> int \<Rightarrow> (db_error + approval_token_row option) handler" where
  "create_approval_token E user_id hash purpose expires =
     (case x_backend E of
        Postgres \<Rightarrow>
          (case x_parse_uuid E user_id of
             None \<Rightarrow> return (Inr None)
           | Some u \<Rightarrow> stmt (\<lambda>w.
               let r = new_approval_token_row (x_uuid_v4 E (w_draws w)) u hash purpose (w_now w) expires
               in (Some r, w\<lparr>w_draws := Suc (w_draws w), w_approval_tokens := w_approval_tokens w @ [r]\<rparr>)))
      | Sqlite \<Rightarrow> do {
          i \<leftarrow> new_uuid E;
          ins \<leftarrow> stmt (\<lambda>w. ((), w\<lparr>w_approval_tokens := w_approval_tokens w @
                   [new_approval_token_row i user_id hash purpose (w_now w) expires]\<rparr>));
          case ins of
            Inl e \<Rightarrow> return (Inl e)
          | Inr _ \<Rightarrow> find_approval_token_by_hash hash
        })"

definition db_consume_approval_token :: "app \<Rightarrow> string \<Rightarrow> string \<Rightarrow> (db_error + bool) handler" where
  "db_consume_approval_token E i res =
     with_key E i False (\<lambda>k. stmt (\<lambda>w.
       (0 < sql_count (\<lambda>r. t_id r = k \<and> t_consumed_at r = None) (w_approval_tokens w),
        w\<lparr>w_approval_tokens := sql_update (\<lambda>r. t_id r = k \<and> t_consumed_at r = None)
            (\<lambda>r. r\<lparr>t_consumed_at := Some (w_now w), t_result := Some res\<rparr>) (w_approval_tokens w)\<rparr>)))"

section \<open>Frames\<close>

lemma session_query_frames [frame_intros]:
  "blind_base f \<Longrightarrow> preserves f (find_session_by_id E i)"
  "blind_base f \<Longrightarrow> preserves f (find_session_by_family E fam)"
  "blind_base f \<Longrightarrow> preserves f (list_active_sessions_for_user E u)"
  "blind_base f \<Longrightarrow> preserves f (find_approval_token_by_hash h)"
  unfolding find_session_by_id_def find_session_by_family_def list_active_sessions_for_user_def
    find_approval_token_by_hash_def
  by (intro frame_intros; simp)+

lemma session_frames [frame_intros]:
  "blind_base f \<Longrightarrow> blind w_sessions_update f \<Longrightarrow> preserves f (create_session E u h fam ex ua ip by)"
  "blind_base f \<Longrightarrow> blind w_sessions_update f \<Longrightarrow> preserves f (rotate_session E i h ex)"
  "blind_base f \<Longrightarrow> blind w_sessions_update f \<Longrightarrow> preserves f (revoke_session E i)"
  "blind_base f \<Longrightarrow> blind w_sessions_update f \<Longrightarrow> preserves f (revoke_session_family E fam)"
  "blind_base f \<Longrightarrow> blind w_sessions_update f \<Longrightarrow> preserves f (revoke_all_sessions_for_user E u)"
  "blind_base f \<Longrightarrow> blind w_sessions_update f \<Longrightarrow> preserves f (revoke_session_owned_by_user E i u)"
  unfolding create_session_def rotate_session_def revoke_session_def revoke_session_family_def
    revoke_all_sessions_for_user_def revoke_session_owned_by_user_def revoke_where_def
  by (intro frame_intros stmt_frame; simp add: Let_def)+

lemma approval_frames [frame_intros]:
  "blind_base f \<Longrightarrow> blind w_approval_tokens_update f \<Longrightarrow> preserves f (create_approval_token E u h p ex)"
  "blind_base f \<Longrightarrow> blind w_approval_tokens_update f \<Longrightarrow> preserves f (db_consume_approval_token E i r)"
  unfolding create_approval_token_def db_consume_approval_token_def
  by (intro frame_intros stmt_frame; simp add: Let_def)+

section \<open>What the statements do\<close>

lemma sessions_revoke_where [simp]: "w_sessions (revoke_where p w) =
    map (\<lambda>r. if p r \<and> s_revoked_at r = None then r\<lparr>s_revoked_at := Some (w_now w)\<rparr> else r) (w_sessions w)"
  by (simp add: revoke_where_def sql_update_def)

lemma revoke_where_now [simp]:
  "w_now (revoke_where p w) = w_now w" "w_faults (revoke_where p w) = w_faults w"
  "w_users (revoke_where p w) = w_users w" "w_approval_tokens (revoke_where p w) = w_approval_tokens w"
  by (simp_all add: revoke_where_def)

text \<open>Every row of the family is revoked.\<close>

definition family_dead :: "string \<Rightarrow> world \<Rightarrow> bool" where
  "family_dead f w \<longleftrightarrow> (\<forall>r\<in>set (w_sessions w). s_token_family_id r = f \<longrightarrow> s_revoked_at r \<noteq> None)"

text \<open>Every session of the user is revoked.\<close>

definition user_signed_out :: "string \<Rightarrow> world \<Rightarrow> bool" where
  "user_signed_out u w \<longleftrightarrow> (\<forall>r\<in>set (w_sessions w). s_user_id r = u \<longrightarrow> s_revoked_at r \<noteq> None)"

lemma family_dead_upd: "family_dead f w \<Longrightarrow> w_sessions w' = w_sessions w \<Longrightarrow> family_dead f w'"
  by (simp add: family_dead_def)

lemma family_dead_revoke_where [simp]: "family_dead f w \<Longrightarrow> family_dead f (revoke_where p w)"
  by (auto simp: family_dead_def)

lemma keeps_family_dead:
  "keeps (family_dead f) (rotate_session E i h ex)"
  "keeps (family_dead f) (revoke_session E i)"
  "keeps (family_dead f) (revoke_session_family E fam)"
  "keeps (family_dead f) (revoke_all_sessions_for_user E u)"
  "keeps (family_dead f) (revoke_session_owned_by_user E i u)"
  unfolding rotate_session_def revoke_session_def revoke_session_family_def
    revoke_all_sessions_for_user_def revoke_session_owned_by_user_def
  by (intro keeps_with_key keeps_stmt;
      auto simp: family_dead_def set_sql_update rotate_row_def revoke_where_def)+

lemma keeps_family_dead_purge: "keeps (family_dead f) purge_expired_auth_records"
  unfolding purge_expired_auth_records_def
  by (intro keeps_intros keeps_stmt) (auto simp: family_dead_def)

text \<open>How a table of sessions may change when nothing but revocation of the rows in \<open>p\<close> happens.\<close>

definition only_revoked :: "(session_row \<Rightarrow> bool) \<Rightarrow> int \<Rightarrow> session_row list \<Rightarrow> session_row list \<Rightarrow> bool" where
  "only_revoked p now = list_all2 (\<lambda>s s'. s' = s \<or>
     (p s \<and> s_revoked_at s = None \<and> s' = s\<lparr>s_revoked_at := Some now\<rparr>))"

lemma only_revoked_where:
  "only_revoked p (w_now w) (w_sessions w) (w_sessions (revoke_where p w))"
  by (auto simp: only_revoked_def list_all2_map2 intro: list_all2_refl)

lemma none_left_revoke_where:
  "filter (\<lambda>r. p r \<and> q r \<and> s_revoked_at r = None) (map (\<lambda>r. if p r \<and> q r \<and> s_revoked_at r = None
     then r\<lparr>s_revoked_at := Some now\<rparr> else r) t) = []"
  by (induction t) simp_all

text \<open>
  Signing a device out is an ownership check: whatever session id and user id are given, the
  statement revokes no session but an active one of that user with that id, changes nothing else
  about any session, and answers true exactly when there was one to revoke.
\<close>
theorem revoke_owned_only_touches_own:
  assumes "healthy w" and "db_key E i = Some sk" and "db_key E u = Some uk"
  shows "wp (revoke_session_owned_by_user E i u)
     (\<lambda>r w'. r = Inr (\<exists>s\<in>set (w_sessions w). s_id s = sk \<and> s_user_id s = uk \<and> s_revoked_at s = None)
        \<and> only_revoked (\<lambda>s. s_id s = sk \<and> s_user_id s = uk) (w_now w) (w_sessions w) (w_sessions w')
        \<and> filter (\<lambda>s. s_id s = sk \<and> s_user_id s = uk \<and> s_revoked_at s = None) (w_sessions w') = []) w"
  using assms only_revoked_where [of "\<lambda>s. s_id s = sk \<and> s_user_id s = uk" "w\<lparr>w_stmts := Suc (w_stmts w)\<rparr>"]
  by (simp add: revoke_session_owned_by_user_def wp_simps healthy_def sql_count_pos none_left_revoke_where)

theorem revoke_owned_only_touches_own_witness:
  "wp (revoke_session_owned_by_user demo_app ''s'' ''1'')
     (\<lambda>r w'. r = Inr True \<and> filter (\<lambda>s. s_revoked_at s = None) (w_sessions w') = [])
     (demo_world\<lparr>w_users := [], w_sessions := [demo_session], w_approval_tokens := []\<rparr>)"
  by (rule wp_mono [OF revoke_owned_only_touches_own [where sk = "''s''" and uk = "''1''"]])
    (auto simp: demo_session_def only_revoked_def list_all2_Cons1)

section \<open>Approval and reset links are single-use\<close>

definition consume_ok :: "app \<Rightarrow> string \<times> string \<Rightarrow> bool handler" where
  "consume_ok E c = do { r \<leftarrow> db_consume_approval_token E (fst c) (snd c); return (r = Inr True) }"

definition link_dead :: "app \<Rightarrow> world \<Rightarrow> string \<Rightarrow> bool" where
  "link_dead E w i \<longleftrightarrow> (case db_key E i of None \<Rightarrow> True
     | Some k \<Rightarrow> \<forall>r\<in>set (w_approval_tokens w). t_id r = k \<longrightarrow> t_consumed_at r \<noteq> None)"

lemma consume_ok_result: "result (consume_ok E c) w \<longleftrightarrow>
    (\<exists>k. db_key E (fst c) = Some k \<and> \<not> w_faults w (w_stmts w) \<and>
       (\<exists>r\<in>set (w_approval_tokens w). t_id r = k \<and> t_consumed_at r = None))"
  by (simp add: consume_ok_def db_consume_approval_token_def with_key_def result_def run_stmt sql_count_pos
      split: option.split)

lemma consume_ok_exec: "w_approval_tokens (exec (consume_ok E c) w) =
    (case db_key E (fst c) of
       Some k \<Rightarrow> if w_faults w (w_stmts w) then w_approval_tokens w
         else sql_update (\<lambda>r. t_id r = k \<and> t_consumed_at r = None)
            (\<lambda>r. r\<lparr>t_consumed_at := Some (w_now w), t_result := Some (snd c)\<rparr>) (w_approval_tokens w)
     | None \<Rightarrow> w_approval_tokens w)"
  by (simp add: consume_ok_def db_consume_approval_token_def with_key_def exec_def run_stmt
      split: option.split)

lemma link_dead_Some: "db_key E i = Some k \<Longrightarrow>
    link_dead E w i \<longleftrightarrow> (\<forall>r\<in>set (w_approval_tokens w). t_id r = k \<longrightarrow> t_consumed_at r \<noteq> None)"
  by (simp add: link_dead_def)

lemma link_dead_None: "db_key E i = None \<Longrightarrow> link_dead E w i"
  by (simp add: link_dead_def)

interpretation links: single_use "consume_ok E" fst "link_dead E" for E
proof unfold_locales
  fix c w k
  show "link_dead E (exec (consume_ok E c) w) (fst c)" if "result (consume_ok E c) w"
  proof -
    from that obtain k where k: "db_key E (fst c) = Some k" "\<not> w_faults w (w_stmts w)"
      by (metis consume_ok_result)
    then show ?thesis by (simp add: link_dead_Some [OF k(1)] consume_ok_exec ball_sql_update)
  qed
  show "\<not> result (consume_ok E c) w" if "link_dead E w (fst c)"
    using that by (metis consume_ok_result link_dead_Some)
  show "link_dead E (exec (consume_ok E c) w) k" if "link_dead E w k"
  proof (cases "db_key E k")
    case (Some k')
    with that show ?thesis
      by (simp add: link_dead_Some [OF Some] consume_ok_exec ball_sql_update split: option.split)
  qed (simp add: link_dead_None)
qed

text \<open>
  An approval or password-reset token is consumed at most once. However many consume
  statements race for tokens, with whatever outcomes and whatever other statements of the system
  between them (as long as those never un-consume the token), at most one of those aimed at one
  token reports success.
\<close>
theorem approval_token_consumed_at_most_once:
  assumes "\<forall>g. Inr g \<in> set es \<longrightarrow> (\<forall>w. link_dead E w i \<longrightarrow> link_dead E (g w) i)"
  shows "times_spent fst i (spend_run (consume_ok E) w es) \<le> 1"
  using assms by (rule links.spent_at_most_once)

theorem approval_token_consumed_at_most_once_witness:
  "times_spent fst ''t'' (spend_run (consume_ok demo_app) (demo_world\<lparr>w_approval_tokens := [demo_link]\<rparr>)
     [Inl (''t'', ''APPROVED''), Inr (\<lambda>w. w\<lparr>w_outbox := []\<rparr>), Inl (''t'', ''REJECTED'')]) \<le> 1"
  by (rule approval_token_consumed_at_most_once) (simp add: link_dead_Some)

end
