(* ===== verification/Roles.thy ===== *)
theory Roles
  imports Prelude
begin

text \<open>
  \<open>server/src/roles.rs\<close> and \<open>server/src/permission.rs\<close>: the role identifiers and the
  policy functions every handler consults. A role is a string, as in the code, because an
  access token may carry any string in its \<open>role\<close> claim.
\<close>

definition PENDING :: string where "PENDING = ''pending''"
definition SYSTEM_ADMIN :: string where "SYSTEM_ADMIN = ''SYSTEM_ADMIN''"
definition SECURITY_ADMIN :: string where "SECURITY_ADMIN = ''SECURITY_ADMIN''"
definition OPERATOR :: string where "OPERATOR = ''OPERATOR''"
definition REVIEWER :: string where "REVIEWER = ''REVIEWER''"
definition AUDITOR :: string where "AUDITOR = ''AUDITOR''"

lemmas role_defs = PENDING_def SYSTEM_ADMIN_def SECURITY_ADMIN_def OPERATOR_def REVIEWER_def AUDITOR_def

definition DEFAULT_APPROVED_ROLE :: string where
  "DEFAULT_APPROVED_ROLE = OPERATOR"

definition ASSIGNABLE_ROLES :: "string list" where
  "ASSIGNABLE_ROLES = [SYSTEM_ADMIN, SECURITY_ADMIN, OPERATOR, REVIEWER, AUDITOR]"

definition is_assignable_role :: "string \<Rightarrow> bool" where
  "is_assignable_role r \<longleftrightarrow> r \<in> set ASSIGNABLE_ROLES"

definition can_create_search :: "string \<Rightarrow> bool" where
  "can_create_search r \<longleftrightarrow> r \<in> {OPERATOR, REVIEWER, SECURITY_ADMIN, SYSTEM_ADMIN}"

definition can_view_search :: "string \<Rightarrow> bool" where
  "can_view_search r \<longleftrightarrow> can_create_search r \<or> r = AUDITOR"

definition can_review_candidate :: "string \<Rightarrow> bool" where
  "can_review_candidate r \<longleftrightarrow> r \<in> {REVIEWER, SECURITY_ADMIN, SYSTEM_ADMIN}"

definition can_view_audit_log :: "string \<Rightarrow> bool" where
  "can_view_audit_log r \<longleftrightarrow> r \<in> {AUDITOR, SECURITY_ADMIN, SYSTEM_ADMIN}"

definition can_administer_users :: "string \<Rightarrow> bool" where
  "can_administer_users r \<longleftrightarrow> r \<in> {SYSTEM_ADMIN, SECURITY_ADMIN}"

definition can_manage_candidates :: "string \<Rightarrow> bool" where
  "can_manage_candidates r \<longleftrightarrow> r \<in> {OPERATOR, SECURITY_ADMIN, SYSTEM_ADMIN}"

definition can_manage_organizations :: "string \<Rightarrow> bool" where
  "can_manage_organizations r \<longleftrightarrow> r = SYSTEM_ADMIN"

definition can_view_scoped_resource :: "string \<Rightarrow> string list \<Rightarrow> string option \<Rightarrow> bool" where
  "can_view_scoped_resource r actor_org_ids resource_org_id \<longleftrightarrow>
     (if r = SYSTEM_ADMIN then True
      else (case resource_org_id of
              None \<Rightarrow> True
            | Some i \<Rightarrow> list_ex (\<lambda>actor_id. actor_id = i) actor_org_ids))"

lemmas policy_defs = can_create_search_def can_view_search_def can_review_candidate_def
  can_view_audit_log_def can_administer_users_def can_manage_candidates_def
  can_manage_organizations_def

text \<open>
  Every policy is granted to assignable roles only: an account that is still pending, or a
  token with a made-up role string, holds no permission at all; and the six policies nest:
  organization managers administer users, user administrators hold every other permission,
  and whoever reviews or creates a search may also view one.
\<close>
theorem policies_nest_and_need_an_assignable_role:
  "(\<lambda>r. can_view_search r \<or> can_review_candidate r \<or> can_view_audit_log r \<or> can_administer_users r
     \<or> can_manage_candidates r \<or> can_manage_organizations r) = is_assignable_role
   \<and> can_manage_organizations \<le> can_administer_users
   \<and> can_administer_users \<le> inf (inf can_create_search can_review_candidate)
                                (inf can_view_audit_log can_manage_candidates)
   \<and> can_review_candidate \<le> can_create_search \<and> can_create_search \<le> can_view_search
   \<and> \<not> is_assignable_role PENDING"
  by (auto simp: fun_eq_iff le_fun_def policy_defs is_assignable_role_def ASSIGNABLE_ROLES_def role_defs)

lemma scoped_resource_iff:
  "can_view_scoped_resource r orgs res \<longleftrightarrow>
     r = SYSTEM_ADMIN \<or> res = None \<or> (\<exists>i\<in>set orgs. res = Some i)"
  by (auto simp: can_view_scoped_resource_def list_ex_iff split: option.split)

end
