(* ===== verification/Db_Identity.thy ===== *)
theory Db_Identity
  imports Demo Roles
begin

text \<open>
  \<open>server/src/db/identity.rs\<close>: the \<open>users\<close> table. Rows stand in the order they were created.
  The unique columns are the user code, the email address and the lookup hash of the national id
  (the schema of \<open>server/src/db/mod.rs\<close>), and the registration tracking token. A soft-deleted
  row stays in the table; every lookup but \<open>load_user_by_id_including_deleted\<close> and
  \<open>load_registration_tracking_status\<close> skips it.
\<close>

section \<open>Lookups\<close>

definition live :: "user_row \<Rightarrow> bool" where
  "live u \<longleftrightarrow> u_deleted_at u = None"

definition load_user_by_code :: "string \<Rightarrow> (db_error + user_row option) handler" where
  "load_user_by_code user_code =
     (let code = to_uppercase (trim user_code)
      in query (\<lambda>w. find (\<lambda>u. u_user_code u = code \<and> live u) (w_users w)))"

definition load_user_by_id :: "app \<Rightarrow> string \<Rightarrow> (db_error + user_row option) handler" where
  "load_user_by_id E i =
     with_key E i None (\<lambda>k. query (\<lambda>w. find (\<lambda>u. u_id u = k \<and> live u) (w_users w)))"

definition load_user_by_email :: "string \<Rightarrow> (db_error + user_row option) handler" where
  "load_user_by_email email =
     (let email = to_lowercase (trim email)
      in query (\<lambda>w. find (\<lambda>u. u_email u = Some email \<and> live u) (w_users w)))"

definition load_user_by_id_including_deleted :: "app \<Rightarrow> string \<Rightarrow> (db_error + user_row option) handler" where
  "load_user_by_id_including_deleted E i =
     with_key E i None (\<lambda>k. query (\<lambda>w. find (\<lambda>u. u_id u = k) (w_users w)))"

definition active_admin :: "user_row \<Rightarrow> bool" where
  "active_admin u \<longleftrightarrow> u_role u = SYSTEM_ADMIN \<and> \<not> u_is_banned u \<and> live u"

definition count_active_system_admins :: "(db_error + nat) handler" where
  "count_active_system_admins = query (\<lambda>w. sql_count active_admin (w_users w))"

definition list_users :: "(db_error + user_row list) handler" where
  "list_users = query (\<lambda>w. rev (filter live (w_users w)))"

definition USER_PAGE_MAX_SIZE :: int where "USER_PAGE_MAX_SIZE = 200"

definition list_users_page :: "int \<Rightarrow> int \<Rightarrow> (db_error + user_row list \<times> nat) handler" where
  "list_users_page page page_size =
     (let page = max page 1;
          page_size = clamp 1 USER_PAGE_MAX_SIZE page_size;
          offset = (page - 1) * page_size
      in do {
        total \<leftarrow> query (\<lambda>w. sql_count live (w_users w));
        case total of
          Inl e \<Rightarrow> return (Inl e)
        | Inr n \<Rightarrow> do {
            rows \<leftarrow> query (\<lambda>w. sql_page page_size offset (rev (filter live (w_users w))));
            case rows of
              Inl e \<Rightarrow> return (Inl e)
            | Inr rs \<Rightarrow> return (Inr (rs, n))
          }
      })"

record registration_tracking_status =
  rt_is_approved :: bool
  rt_is_banned :: bool
  rt_expires_at :: "int option"

definition load_registration_tracking_status ::
  "string \<Rightarrow> (db_error + registration_tracking_status option) handler" where
  "load_registration_tracking_status token =
     query (\<lambda>w. map_option
       (\<lambda>u. \<lparr>rt_is_approved = u_is_approved u, rt_is_banned = u_is_banned u,
             rt_expires_at = u_tracking_expires_at u\<rparr>)
       (find (\<lambda>u. u_tracking_token u = Some token) (w_users w)))"

section \<open>Writes\<close>

text \<open>Two rows share the primary key or a value of a unique column (\<open>NULL\<close>s never collide).\<close>

definition clash :: "user_row \<Rightarrow> user_row \<Rightarrow> bool" where
  "clash r u \<longleftrightarrow> u_id r = u_id u \<or> u_user_code r = u_user_code u
     \<or> (u_email r \<noteq> None \<and> u_email r = u_email u)
     \<or> (u_national_id_lookup_hash r \<noteq> None \<and> u_national_id_lookup_hash r = u_national_id_lookup_hash u)
     \<or> (u_tracking_token r \<noteq> None \<and> u_tracking_token r = u_tracking_token u)"

definition new_user_row ::
  "string \<Rightarrow> string \<Rightarrow> string option \<Rightarrow> string \<Rightarrow> string \<Rightarrow> string option \<Rightarrow> string option \<Rightarrow>
     string \<Rightarrow> string \<Rightarrow> bool \<Rightarrow> user_row" where
  "new_user_row i user_code email first_name last_name enc lookup password_hash role approved =
     \<lparr>u_id = i, u_user_code = user_code, u_first_name = first_name, u_last_name = last_name,
      u_national_id_encrypted = enc, u_national_id_lookup_hash = lookup, u_email = email,
      u_password_hash = password_hash, u_role = role, u_is_approved = approved,
      u_is_banned = False, u_ban_reason = None, u_tracking_token = None,
      u_tracking_expires_at = None, u_deleted_at = None\<rparr>"

definition insert_user :: "user_row \<Rightarrow> world \<Rightarrow> (db_error + unit) \<times> world" where
  "insert_user r w =
     (if list_ex (clash r) (w_users w) then (Inl UniqueViolation, w)
      else (Inr (), w\<lparr>w_users := w_users w @ [r]\<rparr>))"

definition create_user ::
  "app \<Rightarrow> string \<Rightarrow> string option \<Rightarrow> string \<Rightarrow> string \<Rightarrow> string option \<Rightarrow> string option \<Rightarrow>
     string \<Rightarrow> string \<Rightarrow> bool \<Rightarrow> (db_error + user_row option) handler" where
  "create_user E user_code email first_name last_name enc lookup password_hash role approved = do {
     i \<leftarrow> new_uuid E;
     let r = new_user_row i user_code email first_name last_name enc lookup password_hash role approved;
     ins \<leftarrow> try_stmt (insert_user r);
     case ins of
       Inl e \<Rightarrow> return (Inl e)
     | Inr _ \<Rightarrow>
         (case x_backend E of
            Postgres \<Rightarrow> return (Inr (Some r))
          | Sqlite \<Rightarrow> load_user_by_id E i)
   }"

text \<open>\<open>UPDATE users SET .. WHERE id = ..\<close>, refused when the new row would clash with another.\<close>

definition update_user_where :: "string \<Rightarrow> (user_row \<Rightarrow> user_row) \<Rightarrow> world \<Rightarrow> (db_error + unit) \<times> world" where
  "update_user_where k f w =
     (if list_ex (\<lambda>u. u_id u = k \<and> list_ex (\<lambda>v. u_id v \<noteq> k \<and> clash (f u) v) (w_users w)) (w_users w)
      then (Inl UniqueViolation, w)
      else (Inr (), w\<lparr>w_users := sql_update (\<lambda>u. u_id u = k) f (w_users w)\<rparr>))"

definition set_registration_tracking_token :: "app \<Rightarrow> string \<Rightarrow> string \<Rightarrow> int \<Rightarrow> (db_error + unit) handler" where
  "set_registration_tracking_token E user_id token expires_at =
     with_key E user_id () (\<lambda>k. try_stmt (update_user_where k
       (\<lambda>u. u\<lparr>u_tracking_token := Some token, u_tracking_expires_at := Some expires_at\<rparr>)))"

definition set_flags :: "bool \<Rightarrow> bool \<Rightarrow> string option \<Rightarrow> string \<Rightarrow> user_row \<Rightarrow> user_row" where
  "set_flags approved banned reason role u =
     u\<lparr>u_is_approved := approved, u_is_banned := banned, u_ban_reason := reason, u_role := role\<rparr>"

definition update_user_flags ::
  "app \<Rightarrow> string \<Rightarrow> bool option \<Rightarrow> bool option \<Rightarrow> string option \<Rightarrow> string option \<Rightarrow>
     (db_error + user_row option) handler" where
  "update_user_flags E i is_approved is_banned ban_reason role = do {
     cur \<leftarrow> load_user_by_id E i;
     case cur of
       Inl e \<Rightarrow> return (Inl e)
     | Inr None \<Rightarrow> return (Inr None)
     | Inr (Some current) \<Rightarrow>
         (let next_approved = (case is_approved of None \<Rightarrow> u_is_approved current | Some b \<Rightarrow> b);
              next_banned = (case is_banned of None \<Rightarrow> u_is_banned current | Some b \<Rightarrow> b);
              next_ban_reason = (case ban_reason of None \<Rightarrow> u_ban_reason current | Some s \<Rightarrow> Some s);
              next_role = (case role of None \<Rightarrow> u_role current | Some s \<Rightarrow> s)
          in case db_key E i of
               None \<Rightarrow> return (Inr None)
             | Some k \<Rightarrow> do {
                 upd \<leftarrow> stmt (\<lambda>w. ((), w\<lparr>w_users := sql_update (\<lambda>u. u_id u = k)
                          (set_flags next_approved next_banned next_ban_reason next_role) (w_users w)\<rparr>));
                 case upd of
                   Inl e \<Rightarrow> return (Inl e)
                 | Inr _ \<Rightarrow> load_user_by_id E i
               })
   }"

definition update_user_profile ::
  "app \<Rightarrow> string \<Rightarrow> string \<Rightarrow> string option \<Rightarrow> string option \<Rightarrow> string option \<Rightarrow> string \<Rightarrow>
     (db_error + user_row option) handler" where
  "update_user_profile E i first_name email enc lookup password_hash =
     with_key E i None (\<lambda>k. do {
       upd \<leftarrow> try_stmt (update_user_where k (\<lambda>u. u\<lparr>u_first_name := first_name, u_email := email,
                u_national_id_encrypted := enc, u_national_id_lookup_hash := lookup,
                u_password_hash := password_hash\<rparr>));
       case upd of
         Inl e \<Rightarrow> return (Inl e)
       | Inr _ \<Rightarrow> load_user_by_id E i
     })"

definition update_user_password :: "app \<Rightarrow> string \<Rightarrow> string \<Rightarrow> (db_error + user_row option) handler" where
  "update_user_password E i password_hash =
     with_key E i None (\<lambda>k. do {
       upd \<leftarrow> stmt (\<lambda>w. ((), w\<lparr>w_users := sql_update (\<lambda>u. u_id u = k)
                (\<lambda>u. u\<lparr>u_password_hash := password_hash\<rparr>) (w_users w)\<rparr>));
       case upd of
         Inl e \<Rightarrow> return (Inl e)
       | Inr _ \<Rightarrow> load_user_by_id E i
     })"

definition delete_user :: "app \<Rightarrow> string \<Rightarrow> (db_error + bool) handler" where
  "delete_user E i = with_key E i False (\<lambda>k. stmt (\<lambda>w.
     (0 < sql_count (\<lambda>u. u_id u = k) (w_users w),
      w\<lparr>w_users := sql_delete (\<lambda>u. u_id u = k) (w_users w)\<rparr>)))"

definition soft_delete_user :: "app \<Rightarrow> string \<Rightarrow> (db_error + bool) handler" where
  "soft_delete_user E i = with_key E i False (\<lambda>k. do {
     upd \<leftarrow> stmt (\<lambda>w. (sql_count (\<lambda>u. u_id u = k \<and> live u) (w_users w),
              w\<lparr>w_users := sql_update (\<lambda>u. u_id u = k \<and> live u)
                  (\<lambda>u. u\<lparr>u_deleted_at := Some (w_now w)\<rparr>) (w_users w)\<rparr>));
     case upd of
       Inl e \<Rightarrow> return (Inl e)
     | Inr affected \<Rightarrow>
         if 0 < affected then return (Inr True)
         else do {
           old \<leftarrow> load_user_by_id_including_deleted E i;
           case old of
             Inl e \<Rightarrow> return (Inl e)
           | Inr u \<Rightarrow> return (Inr (u \<noteq> None))
         }
   })"

section \<open>Frames\<close>

lemma user_query_frames [frame_intros]:
  "blind_base f \<Longrightarrow> preserves f (load_user_by_code c)"
  "blind_base f \<Longrightarrow> preserves f (load_user_by_id E i)"
  "blind_base f \<Longrightarrow> preserves f (load_user_by_email e)"
  "blind_base f \<Longrightarrow> preserves f (load_user_by_id_including_deleted E i)"
  "blind_base f \<Longrightarrow> preserves f count_active_system_admins"
  "blind_base f \<Longrightarrow> preserves f list_users"
  "blind_base f \<Longrightarrow> preserves f (list_users_page pg sz)"
  "blind_base f \<Longrightarrow> preserves f (load_registration_tracking_status tok)"
  unfolding load_user_by_code_def load_user_by_id_def load_user_by_email_def
    load_user_by_id_including_deleted_def count_active_system_admins_def list_users_def
    list_users_page_def load_registration_tracking_status_def Let_def
  by (intro frame_intros; simp)+

lemma user_write_frames [frame_intros]:
  "blind_base f \<Longrightarrow> blind w_users_update f \<Longrightarrow> preserves f (create_user E c em fnm lnm en lk ph ro ap)"
  "blind_base f \<Longrightarrow> blind w_users_update f \<Longrightarrow> preserves f (set_registration_tracking_token E i tok ex)"
  "blind_base f \<Longrightarrow> blind w_users_update f \<Longrightarrow> preserves f (update_user_flags E i a b r rl)"
  "blind_base f \<Longrightarrow> blind w_users_update f \<Longrightarrow> preserves f (update_user_profile E i fnm em en lk ph)"
  "blind_base f \<Longrightarrow> blind w_users_update f \<Longrightarrow> preserves f (update_user_password E i ph)"
  "blind_base f \<Longrightarrow> blind w_users_update f \<Longrightarrow> preserves f (delete_user E i)"
  "blind_base f \<Longrightarrow> blind w_users_update f \<Longrightarrow> preserves f (soft_delete_user E i)"
  unfolding create_user_def set_registration_tracking_token_def update_user_flags_def
    update_user_profile_def update_user_password_def delete_user_def soft_delete_user_def
    insert_user_def update_user_where_def Let_def
  by (intro frame_intros stmt_frame try_stmt_frame; simp)+

lemma exec_load_user_by_id: "\<exists>n. exec (load_user_by_id E i) w = w\<lparr>w_stmts := n\<rparr>"
proof (cases "db_key E i")
  case None
  then show ?thesis by (intro exI [of _ "w_stmts w"]) (simp add: load_user_by_id_def with_key_def)
qed (auto simp: load_user_by_id_def with_key_def exec_query)

lemma load_user_by_id_Some: "result (load_user_by_id E i) w = Inr (Some u) \<Longrightarrow>
    u \<in> set (w_users w) \<and> live u \<and> db_key E i = Some (u_id u)"
  by (auto simp: load_user_by_id_def result_with_key result_query split: option.splits if_splits dest: find_Some_set)

section \<open>The unique columns stay unique\<close>

definition unique_rows :: "user_row list \<Rightarrow> bool" where
  "unique_rows t \<longleftrightarrow> distinct (map u_id t)
     \<and> (\<forall>a\<in>set t. \<forall>b\<in>set t. u_id a \<noteq> u_id b \<longrightarrow> \<not> clash a b)"

definition users_ok :: "world \<Rightarrow> bool" where
  "users_ok w \<longleftrightarrow> unique_rows (w_users w)"

lemma clash_sym: "clash a b \<longleftrightarrow> clash b a"
  unfolding clash_def by metis

lemma unique_rows_snoc:
  assumes "unique_rows t" and "\<not> list_ex (clash r) t"
  shows "unique_rows (t @ [r])"
proof -
  have new: "\<not> clash r b" if "b \<in> set t" for b
    using assms(2) that by (auto simp: list_ex_iff)
  then have i: "u_id r \<notin> u_id ` set t"
    by (auto simp: clash_def)
  have "\<not> clash b r" if "b \<in> set t" for b
    using new [OF that] clash_sym by blast
  with new i assms(1) show ?thesis
    by (simp add: unique_rows_def)
qed

lemma unique_rows_update:
  assumes "unique_rows t" and id: "\<And>u. u_id (f u) = u_id u"
    and ok: "\<And>u v. u \<in> set t \<Longrightarrow> v \<in> set t \<Longrightarrow> u_id u = k \<Longrightarrow> u_id v \<noteq> k \<Longrightarrow> \<not> clash (f u) v"
  shows "unique_rows (sql_update (\<lambda>u. u_id u = k) f t)"
proof -
  have "map u_id (sql_update (\<lambda>u. u_id u = k) f t) = map u_id t"
    by (intro map_sql_update_stable id)
  moreover have "\<not> clash a b" if "a \<in> set (sql_update (\<lambda>u. u_id u = k) f t)"
    "b \<in> set (sql_update (\<lambda>u. u_id u = k) f t)" "u_id a \<noteq> u_id b" for a b
  proof -
    note ab = that
    obtain p where p: "p \<in> set t" "a = (if u_id p = k then f p else p)"
      using ab(1) by (rule sql_updateE)
    obtain q where q: "q \<in> set t" "b = (if u_id q = k then f q else q)"
      using ab(2) by (rule sql_updateE)
    have "u_id a = u_id p" "u_id b = u_id q" by (simp_all add: p(2) q(2) id)
    with ab(3) have pq: "u_id p \<noteq> u_id q" by simp
    have "\<not> clash p q" using assms(1) p(1) q(1) pq by (simp add: unique_rows_def)
    then show ?thesis
      using pq p q ok [of p q] ok [of q p] clash_sym [of "f q" p]
      by (cases "u_id p = k"; cases "u_id q = k") simp_all
  qed
  ultimately show ?thesis
    using assms(1) by (simp add: unique_rows_def)
qed

lemma unique_rows_filter: "unique_rows t \<Longrightarrow> unique_rows (filter p t)"
  by (simp add: unique_rows_def distinct_map_filter)

lemma users_ok_upd [simp]:
  "users_ok (w\<lparr>w_stmts := n\<rparr>) = users_ok w" "users_ok (w\<lparr>w_draws := n\<rparr>) = users_ok w"
  by (simp_all add: users_ok_def)

lemma blind_users_ok: "blind_base users_ok"
  by (simp add: users_ok_def)

lemma keeps_users_ok_frame: "preserves users_ok m \<Longrightarrow> keeps users_ok m"
  using preserves_keeps [of users_ok m "\<lambda>b. b"] by simp

lemmas keeps_users_queries = user_query_frames [OF blind_users_ok, THEN keeps_users_ok_frame]

lemma keeps_insert_user: "keeps users_ok (try_stmt (insert_user r))"
  by (intro keeps_try_stmt) (auto simp: users_ok_def insert_user_def unique_rows_snoc)

lemma keeps_update_where:
  assumes "\<And>u. u_id (f u) = u_id u"
  shows "keeps users_ok (try_stmt (update_user_where k f))"
proof (intro keeps_try_stmt)
  fix w assume w: "users_ok w"
  show "users_ok (snd (update_user_where k f w))"
  proof (cases "list_ex (\<lambda>u. u_id u = k \<and> list_ex (\<lambda>v. u_id v \<noteq> k \<and> clash (f u) v) (w_users w)) (w_users w)")
    case False
    then have "unique_rows (sql_update (\<lambda>u. u_id u = k) f (w_users w))"
      using w assms by (intro unique_rows_update) (auto simp: users_ok_def list_ex_iff)
    with False show ?thesis by (simp add: update_user_where_def users_ok_def)
  qed (use w in \<open>simp add: update_user_where_def users_ok_def\<close>)
qed simp

lemma keeps_soft_delete:
  "keeps users_ok (stmt (\<lambda>w. (a w, w\<lparr>w_users := sql_update (\<lambda>u. u_id u = k \<and> live u)
     (\<lambda>u. u\<lparr>u_deleted_at := Some (w_now w)\<rparr>) (w_users w)\<rparr>)))"
proof (intro keeps_stmt)
  fix w :: world
  let ?f = "\<lambda>u. if live u then u\<lparr>u_deleted_at := Some (w_now w)\<rparr> else u"
  have eq: "sql_update (\<lambda>u. u_id u = k \<and> live u) (\<lambda>u. u\<lparr>u_deleted_at := Some (w_now w)\<rparr>) (w_users w)
      = sql_update (\<lambda>u. u_id u = k) ?f (w_users w)"
    by (simp add: sql_update_def)
  assume "users_ok w"
  then have "unique_rows (sql_update (\<lambda>u. u_id u = k) ?f (w_users w))"
    by (intro unique_rows_update) (auto simp: users_ok_def unique_rows_def clash_def)
  then show "users_ok (snd (a w, w\<lparr>w_users := sql_update (\<lambda>u. u_id u = k \<and> live u)
     (\<lambda>u. u\<lparr>u_deleted_at := Some (w_now w)\<rparr>) (w_users w)\<rparr>))"
    unfolding eq by (simp add: users_ok_def)
qed simp

lemma keeps_update_free:
  assumes "\<And>u. u_id (f u) = u_id u" and "\<And>u v. clash (f u) v = clash u v"
  shows "keeps users_ok (stmt (\<lambda>w. (a w, w\<lparr>w_users := sql_update (\<lambda>u. u_id u = k) f (w_users w)\<rparr>)))"
proof (intro keeps_stmt)
  fix w assume "users_ok w"
  then have "unique_rows (sql_update (\<lambda>u. u_id u = k) f (w_users w))"
    using assms by (intro unique_rows_update) (auto simp: users_ok_def unique_rows_def)
  then show "users_ok (snd (a w, w\<lparr>w_users := sql_update (\<lambda>u. u_id u = k) f (w_users w)\<rparr>))"
    by (simp add: users_ok_def)
qed simp

text \<open>
  The unique columns of the users table (id, user code, email, national-id lookup hash,
  tracking token) stay unique through every write of the module, whatever the arguments and
  whichever statement fails; and no write of the module ever changes an account's id or drops a
  row, except the hard delete.
\<close>
theorem user_columns_stay_unique:
  "keeps users_ok (create_user E c em fnm lnm en lk ph ro ap)
   \<and> keeps users_ok (set_registration_tracking_token E i tok ex)
   \<and> keeps users_ok (update_user_flags E i a b r rl)
   \<and> keeps users_ok (update_user_profile E i fnm em en lk ph)
   \<and> keeps users_ok (update_user_password E i ph)
   \<and> keeps users_ok (delete_user E i) \<and> keeps users_ok (soft_delete_user E i)
   \<and> preserves (\<lambda>w. map u_id (w_users w)) (update_user_flags E i a b r rl)
   \<and> preserves (\<lambda>w. map u_id (w_users w)) (update_user_profile E i fnm em en lk ph)
   \<and> preserves (\<lambda>w. map u_id (w_users w)) (update_user_password E i ph)
   \<and> preserves (\<lambda>w. map u_id (w_users w)) (soft_delete_user E i)"
proof (intro conjI)
  show "keeps users_ok (create_user E c em fnm lnm en lk ph ro ap)"
    unfolding create_user_def Let_def
    by (intro keeps_intros keeps_backend keeps_insert_user keeps_users_queries
        keeps_users_ok_frame frame_intros blind_users_ok)
  show "keeps users_ok (set_registration_tracking_token E i tok ex)"
    unfolding set_registration_tracking_token_def
    by (intro keeps_with_key keeps_update_where) simp
  show "keeps users_ok (update_user_flags E i a b r rl)"
    unfolding update_user_flags_def Let_def set_flags_def
    by (intro keeps_intros keeps_update_free keeps_users_queries) (simp_all add: clash_def)
  show "keeps users_ok (update_user_profile E i fnm em en lk ph)"
    unfolding update_user_profile_def
    by (intro keeps_with_key keeps_intros keeps_update_where keeps_users_queries) simp
  show "keeps users_ok (update_user_password E i ph)"
    unfolding update_user_password_def
    by (intro keeps_with_key keeps_intros keeps_update_free keeps_users_queries) (simp_all add: clash_def)
  show "keeps users_ok (delete_user E i)"
    unfolding delete_user_def
    by (intro keeps_with_key keeps_stmt) (simp_all add: users_ok_def sql_delete_def unique_rows_filter)
  show "keeps users_ok (soft_delete_user E i)"
    unfolding soft_delete_user_def
    by (intro keeps_with_key keeps_intros keeps_soft_delete keeps_users_queries)
  show "preserves (\<lambda>w. map u_id (w_users w)) (update_user_flags E i a b r rl)"
    "preserves (\<lambda>w. map u_id (w_users w)) (update_user_profile E i fnm em en lk ph)"
    "preserves (\<lambda>w. map u_id (w_users w)) (update_user_password E i ph)"
    "preserves (\<lambda>w. map u_id (w_users w)) (soft_delete_user E i)"
    unfolding update_user_flags_def update_user_profile_def update_user_password_def
      soft_delete_user_def Let_def update_user_where_def set_flags_def
    by (intro frame_intros stmt_frame try_stmt_frame; simp add: map_sql_update_stable)+
qed

definition hide_user :: "string \<Rightarrow> int \<Rightarrow> user_row list \<Rightarrow> user_row list" where
  "hide_user k now = sql_update (\<lambda>u. u_id u = k \<and> live u) (\<lambda>u. u\<lparr>u_deleted_at := Some now\<rparr>)"

lemma hide_user_simps [simp]:
  "map u_id (hide_user k now t) = map u_id t"
  "filter (\<lambda>u. u_id u \<noteq> k) (hide_user k now t) = filter (\<lambda>u. u_id u \<noteq> k) t"
  "filter live (hide_user k now t) = filter (\<lambda>u. u_id u \<noteq> k \<and> live u) t"
  "sql_count active_admin (hide_user k now t) = sql_count (\<lambda>u. u_id u \<noteq> k \<and> active_admin u) t"
  by (induction t) (auto simp: hide_user_def live_def active_admin_def)

lemma hide_user_not_live: "u \<in> set (hide_user k now t) \<Longrightarrow> live u \<Longrightarrow> u_id u \<noteq> k"
  unfolding hide_user_def by (erule sql_updateE) (auto simp: live_def split: if_splits)

lemma find_hide_user [simp]: "find (\<lambda>u. u_id u = k \<and> live u) (hide_user k now t) = None"
  using hide_user_not_live by (auto simp: find_None_set)

lemma find_hide_user_other: "find (\<lambda>u. P u \<and> live u) (hide_user k now t) = Some u \<Longrightarrow> u_id u \<noteq> k"
  using hide_user_not_live by (auto dest!: find_Some_set)

lemma find_user_exists: "u \<in> set t \<Longrightarrow> u_id u = k \<Longrightarrow> \<exists>v. find (\<lambda>u. u_id u = k) t = Some v"
  by (cases "find (\<lambda>u. u_id u = k) t") (auto simp: find_None_set)

lemma run_soft_delete_user:
  assumes "healthy w" and "db_key E i = Some k" and "k \<in> u_id ` set (w_users w)"
  shows "result (soft_delete_user E i) w = Inr True"
    and "w_users (exec (soft_delete_user E i) w) = hide_user k (w_now w) (w_users w)"
    and "healthy (exec (soft_delete_user E i) w)"
proof -
  have "wp (soft_delete_user E i) (\<lambda>r w'. r = Inr True \<and> w_users w' = hide_user k (w_now w) (w_users w)
      \<and> healthy w') w"
    using assms
    by (auto simp: soft_delete_user_def load_user_by_id_including_deleted_def wp_simps healthy_def
        hide_user_def image_iff find_sql_update find_user_exists)
  then show "result (soft_delete_user E i) w = Inr True"
    and "w_users (exec (soft_delete_user E i) w) = hide_user k (w_now w) (w_users w)"
    and "healthy (exec (soft_delete_user E i) w)"
    by (simp_all add: wp_def)
qed

text \<open>
  Soft deletion hides without forgetting. Deleting an existing account answers true (also when
  it was deleted before); afterwards no lookup by id, code or email finds it, the admin listing
  and the administrator count leave it out, and yet its row, and every other row, is still there.
\<close>
theorem soft_delete_hides_and_keeps:
  assumes "healthy w" and "db_key E i = Some k" and "k \<in> u_id ` set (w_users w)"
  shows "wp (soft_delete_user E i) (\<lambda>r w'. r = Inr True
     \<and> result (load_user_by_id E i) w' = Inr None
     \<and> (\<nexists>u. result (load_user_by_code c) w' = Inr (Some u) \<and> u_id u = k)
     \<and> (\<nexists>u. result (load_user_by_email e) w' = Inr (Some u) \<and> u_id u = k)
     \<and> result list_users w' = Inr (rev (filter (\<lambda>u. u_id u \<noteq> k \<and> live u) (w_users w)))
     \<and> result count_active_system_admins w' =
          Inr (sql_count (\<lambda>u. u_id u \<noteq> k \<and> active_admin u) (w_users w))
     \<and> map u_id (w_users w') = map u_id (w_users w)
     \<and> filter (\<lambda>u. u_id u \<noteq> k) (w_users w') = filter (\<lambda>u. u_id u \<noteq> k) (w_users w)) w"
  unfolding wp_def load_user_by_id_def load_user_by_code_def load_user_by_email_def list_users_def
    count_active_system_admins_def Let_def
  using run_soft_delete_user [OF assms] assms(2)
  by (auto simp: result_query result_with_key healthy_def dest: find_hide_user_other)

theorem soft_delete_hides_and_keeps_witness:
  "wp (soft_delete_user demo_app ''1'') (\<lambda>r w'. r = Inr True
     \<and> result (load_user_by_id demo_app ''1'') w' = Inr None \<and> map u_id (w_users w') = [''1''])
     (demo_world\<lparr>w_users := [demo_user], w_sessions := [], w_approval_tokens := []\<rparr>)"
  by (rule wp_mono [OF soft_delete_hides_and_keeps [where k = "''1''"]])
    (auto simp: demo_user_def)

text \<open>
  Paging through the accounts shows every account exactly once, in the same order as the
  unpaged listing: with a page size between 1 and 200, the first n pages together are the first
  n times page-size accounts of the listing, and every page reports the full count.
\<close>
theorem user_pages_partition:
  assumes "healthy w" and "1 \<le> sz" and "sz \<le> USER_PAGE_MAX_SIZE"
  shows "concat (map (\<lambda>p. fst (projr (result (list_users_page p sz) w))) [1..int n])
           = take (n * nat sz) (projr (result list_users w))
         \<and> projr (result (list_users_page p sz) w) =
             (fst (projr (result (list_users_page p sz) w)), length (projr (result list_users w)))"
proof
  have page: "projr (result (list_users_page p sz) w) =
      (sql_page sz ((max p 1 - 1) * sz) (rev (filter live (w_users w))), sql_count live (w_users w))" for p
    using assms
    by (simp add: list_users_page_def Let_def result_bind result_query exec_def run_query healthy_def)
  have all: "projr (result list_users w) = rev (filter live (w_users w))"
    using assms by (simp add: list_users_def result_query healthy_def)
  have "concat (map (\<lambda>p. fst (projr (result (list_users_page p sz) w))) [1..int n])
      = concat (map (\<lambda>p. sql_page sz ((p - 1) * sz) (rev (filter live (w_users w)))) [1..int n])"
    unfolding page by (intro arg_cong [where f = concat] map_cong) auto
  then show "concat (map (\<lambda>p. fst (projr (result (list_users_page p sz) w))) [1..int n])
           = take (n * nat sz) (projr (result list_users w))"
    using assms(2) by (simp add: all pages_concat)
  show "projr (result (list_users_page p sz) w) =
      (fst (projr (result (list_users_page p sz) w)), length (projr (result list_users w)))"
    by (simp add: page all sql_count_def)
qed

theorem user_pages_partition_witness:
  "concat (map (\<lambda>p. fst (projr (result (list_users_page p 20) demo_world))) [1..int 3]) = []"
  using user_pages_partition [of demo_world 20 3 1]
  by (simp add: USER_PAGE_MAX_SIZE_def list_users_def result_query demo_world_def healthy_def)

end
