(* ===== verification/Auth_Tokens.thy ===== *)
theory Auth_Tokens
  imports Db_Session Db_Identity
begin

text \<open>
  The first half of \<open>server/src/auth.rs\<close>: what the handlers read from the request headers
  (cookie, client address, user agent, bearer token), the refresh cookie, the password rule and
  the signing and checking of access, refresh and approval tokens.
\<close>

definition PASSWORD_RESET_PURPOSE :: string where "PASSWORD_RESET_PURPOSE = ''password_reset''"
definition PASSWORD_RESET_TOKEN_TTL_HOURS :: int where "PASSWORD_RESET_TOKEN_TTL_HOURS = 1"
definition ACCESS_TOKEN_TTL_SECS :: int where "ACCESS_TOKEN_TTL_SECS = 15 * 60"
definition REFRESH_TOKEN_TTL_DAYS :: int where "REFRESH_TOKEN_TTL_DAYS = 30"
definition REGISTRATION_TRACKING_TOKEN_TTL_DAYS :: int where "REGISTRATION_TRACKING_TOKEN_TTL_DAYS = 14"
definition APPROVAL_TOKEN_TTL_DAYS :: int where "APPROVAL_TOKEN_TTL_DAYS = 3"
definition APPROVAL_PURPOSE :: string where "APPROVAL_PURPOSE = ''registration_approval''"

section \<open>Passwords\<close>

definition validate_password :: "string \<Rightarrow> string option" where
  "validate_password password =
     (if length password < 8 then Some ''Password must be at least 8 characters.''
      else if \<not> list_ex is_ascii_uppercase password
      then Some ''Password must contain at least one uppercase letter.''
      else if \<not> list_ex is_ascii_lowercase password
      then Some ''Password must contain at least one lowercase letter.''
      else if \<not> list_ex is_ascii_digit password
      then Some ''Password must contain at least one digit.''
      else if \<not> list_ex (\<lambda>c. \<not> is_ascii_alphanumeric c) password
      then Some ''Password must contain at least one punctuation/special character.''
      else None)"

lemma validate_password_None: "validate_password p = None \<longleftrightarrow>
    8 \<le> length p \<and> (\<exists>c\<in>set p. is_ascii_uppercase c) \<and> (\<exists>c\<in>set p. is_ascii_lowercase c)
    \<and> (\<exists>c\<in>set p. is_ascii_digit c) \<and> (\<exists>c\<in>set p. \<not> is_ascii_alphanumeric c)"
  unfolding validate_password_def list_ex_iff by (simp add: not_less)

text \<open>
  A password is accepted exactly when it has at least 8 bytes and contains an upper-case
  letter, a lower-case letter, a digit and something that is none of these; in particular an
  accepted password stays accepted when anything is added to either end of it.
\<close>
theorem validate_password_spec:
  "{p. validate_password p = None} =
     {p. 8 \<le> length p \<and> (\<exists>c\<in>set p. is_ascii_uppercase c) \<and> (\<exists>c\<in>set p. is_ascii_lowercase c)
         \<and> (\<exists>c\<in>set p. is_ascii_digit c) \<and> \<not> set p \<subseteq> {c. is_ascii_alphanumeric c}}
   \<and> {p. validate_password p = None} \<subseteq> {p. validate_password (a @ p @ b) = None}"
proof
  show "{p. validate_password p = None} =
     {p. 8 \<le> length p \<and> (\<exists>c\<in>set p. is_ascii_uppercase c) \<and> (\<exists>c\<in>set p. is_ascii_lowercase c)
         \<and> (\<exists>c\<in>set p. is_ascii_digit c) \<and> \<not> set p \<subseteq> {c. is_ascii_alphanumeric c}}"
    unfolding validate_password_None by blast
  show "{p. validate_password p = None} \<subseteq> {p. validate_password (a @ p @ b) = None}"
    unfolding validate_password_None by auto
qed

section \<open>Request headers\<close>

definition is_cross_origin_request :: "header_map \<Rightarrow> bool" where
  "is_cross_origin_request headers =
     (case (headers ''host'', Option.bind (headers ''origin'') after_sep) of
        (Some host, Some origin_host) \<Rightarrow> origin_host \<noteq> host
      | _ \<Rightarrow> False)"

definition cookie_value :: "app \<Rightarrow> string \<Rightarrow> header_map \<Rightarrow> string" where
  "cookie_value E token headers =
     (let same_site = (if \<not> is_production E then ''Strict''
                       else if is_cross_origin_request headers then ''None'' else ''Lax'')
      in ''refresh_token='' @ token @ ''; Path=/; HttpOnly; SameSite='' @ same_site @ ''; Max-Age=''
         @ show_nat (nat (REFRESH_TOKEN_TTL_DAYS * 24 * 60 * 60)) @ '';''
         @ (if is_production E then '' Secure;'' else []))"

definition extract_cookie :: "header_map \<Rightarrow> string \<Rightarrow> string option" where
  "extract_cookie headers name =
     (case headers ''cookie'' of
        None \<Rightarrow> None
      | Some raw \<Rightarrow> find_map (strip_prefix (name @ ''='')) (map trim (split_on (CHR '';'') raw)))"

definition trust_proxy :: "app \<Rightarrow> bool" where
  "trust_proxy E = (case x_env E ''TRUST_PROXY'' of Some v \<Rightarrow> v = ''true'' | None \<Rightarrow> is_production E)"

definition client_ip :: "app \<Rightarrow> header_map \<Rightarrow> string option" where
  "client_ip E headers =
     (if \<not> trust_proxy E then None
      else case headers ''x-forwarded-for'' of
             None \<Rightarrow> None
           | Some v \<Rightarrow> (let ip = trim (hd (split_on (CHR '','') v)) in if ip = [] then None else Some ip))"

definition user_agent :: "header_map \<Rightarrow> string option" where
  "user_agent headers = map_option (take 300) (headers ''user-agent'')"

definition bearer_token :: "header_map \<Rightarrow> string option" where
  "bearer_token headers = Option.bind (headers ''authorization'') (strip_prefix ''Bearer '')"

text \<open>\<open>HeaderValue::from_str\<close>: a header value is made of visible characters, spaces and tabs.\<close>

definition header_value :: "string \<Rightarrow> string option" where
  "header_value s = (if list_all (\<lambda>c. (32 \<le> code c \<and> code c < 127) \<or> code c = 9) s then Some s else None)"

section \<open>Access tokens and roles\<close>

definition decode_access_token :: "app \<Rightarrow> string \<Rightarrow> string \<Rightarrow> claims option handler" where
  "decode_access_token E token secret = gets (\<lambda>w. x_decode_access E (w_now w) token secret)"

definition auth_user_from_headers :: "app \<Rightarrow> header_map \<Rightarrow> claims option handler" where
  "auth_user_from_headers E headers =
     (case bearer_token headers of
        None \<Rightarrow> return None
      | Some token \<Rightarrow> decode_access_token E token (x_jwt_secret E))"

definition require_role :: "app \<Rightarrow> header_map \<Rightarrow> (string \<Rightarrow> bool) \<Rightarrow> bool handler" where
  "require_role E headers allowed = do {
     c \<leftarrow> auth_user_from_headers E headers;
     return (case c of None \<Rightarrow> False | Some claims \<Rightarrow> allowed (cl_role claims))
   }"

definition unauthorized :: "app \<Rightarrow> header_map \<Rightarrow> response handler" where
  "unauthorized E headers = do {
     rid \<leftarrow> request_id E headers;
     return (api_err ''UNAUTHORIZED'' ''errors.unauthorized'' rid)
   }"

definition sign_access :: "app \<Rightarrow> user_row \<Rightarrow> string option handler" where
  "sign_access E user = gets (\<lambda>w. x_encode_access E
     \<lparr>cl_id = u_id user, cl_user_code = u_user_code user,
      cl_email = (case u_email user of None \<Rightarrow> [] | Some e \<Rightarrow> e), cl_role = u_role user,
      cl_exp = timestamp (w_now w) + ACCESS_TOKEN_TTL_SECS\<rparr> (x_jwt_secret E))"

section \<open>Refresh tokens\<close>

definition sign_refresh :: "app \<Rightarrow> string \<Rightarrow> string \<Rightarrow> int \<Rightarrow> string option handler" where
  "sign_refresh E user_id family expires_at = do {
     jti \<leftarrow> random_hex E 16;
     return (x_encode_refresh E
       \<lparr>rc_sub = user_id, rc_family = family, rc_jti = jti, rc_exp = timestamp expires_at\<rparr>
       (x_jwt_refresh_secret E))
   }"

definition decode_refresh_token :: "app \<Rightarrow> string \<Rightarrow> refresh_claims option handler" where
  "decode_refresh_token E token = gets (\<lambda>w. x_decode_refresh E (w_now w) token (x_jwt_refresh_secret E))"

text \<open>The refresh claims of the request's own cookie, if it carries a valid one.\<close>

definition current_session_family :: "app \<Rightarrow> header_map \<Rightarrow> string option handler" where
  "current_session_family E headers =
     (case extract_cookie headers ''refresh_token'' of
        None \<Rightarrow> return None
      | Some token \<Rightarrow> do {
          c \<leftarrow> decode_refresh_token E token;
          return (map_option rc_family c)
        })"

section \<open>Approval links\<close>

definition internal_error :: api_error where
  "internal_error = api_error_new ''INTERNAL_ERROR'' ''errors.internal'' []"

definition sign_approval_token :: "app \<Rightarrow> string \<Rightarrow> (api_error + string) handler" where
  "sign_approval_token E user_id = do {
     now \<leftarrow> gets w_now;
     let expires_at = now + APPROVAL_TOKEN_TTL_DAYS * DAY;
     jti \<leftarrow> random_hex E 16;
     case x_encode_approval E \<lparr>ac_user_id = user_id, ac_purpose = APPROVAL_PURPOSE, ac_jti = jti,
            ac_exp = timestamp expires_at\<rparr> (x_approval_token_secret E) of
       None \<Rightarrow> return (Inl internal_error)
     | Some token \<Rightarrow> do {
         r \<leftarrow> create_approval_token E user_id (sha256_hex E token) APPROVAL_PURPOSE expires_at;
         case r of Inl _ \<Rightarrow> return (Inl internal_error) | Inr _ \<Rightarrow> return (Inr token)
       }
   }"

definition decode_approval :: "app \<Rightarrow> string \<Rightarrow> approval_claims option handler" where
  "decode_approval E token = gets (\<lambda>w. x_decode_approval E (w_now w) token (x_approval_token_secret E))"

definition consume_approval_token :: "app \<Rightarrow> string \<Rightarrow> string \<Rightarrow> string option handler" where
  "consume_approval_token E token outcome = do {
     c \<leftarrow> decode_approval E token;
     case c of
       None \<Rightarrow> return None
     | Some claims \<Rightarrow>
         if ac_purpose claims \<noteq> APPROVAL_PURPOSE then return None
         else do {
           r \<leftarrow> find_approval_token_by_hash (sha256_hex E token);
           case r of
             Inl _ \<Rightarrow> return None
           | Inr None \<Rightarrow> return None
           | Inr (Some row) \<Rightarrow>
               if t_user_id row \<noteq> ac_user_id claims then return None
               else do {
                 now \<leftarrow> gets w_now;
                 if t_expires_at row < now \<or> t_consumed_at row \<noteq> None then return None
                 else do {
                   d \<leftarrow> db_consume_approval_token E (t_id row) outcome;
                   case d of
                     Inl _ \<Rightarrow> return None
                   | Inr consumed \<Rightarrow> return (if consumed then Some (ac_user_id claims) else None)
                 }
               }
         }
   }"

definition peek_approval_token :: "app \<Rightarrow> string \<Rightarrow> string option handler" where
  "peek_approval_token E token = do {
     c \<leftarrow> decode_approval E token;
     case c of
       None \<Rightarrow> return None
     | Some claims \<Rightarrow>
         if ac_purpose claims \<noteq> APPROVAL_PURPOSE then return None
         else do {
           r \<leftarrow> find_approval_token_by_hash (sha256_hex E token);
           case r of
             Inl _ \<Rightarrow> return None
           | Inr None \<Rightarrow> return None
           | Inr (Some row) \<Rightarrow>
               if t_user_id row \<noteq> ac_user_id claims \<or> t_consumed_at row \<noteq> None then return None
               else do {
                 now \<leftarrow> gets w_now;
                 return (if t_expires_at row < now then None else Some (ac_user_id claims))
               }
         }
   }"

section \<open>Sessions\<close>

definition public_user :: "user_row \<Rightarrow> json" where
  "public_user user = JObj
     [(''id'', JStr (u_id user)), (''userCode'', JStr (u_user_code user)),
      (''email'', json_opt (u_email user)), (''role'', JStr (u_role user)),
      (''firstName'', JStr (u_first_name user)), (''lastName'', JStr (u_last_name user))]"

definition issue_session :: "app \<Rightarrow> user_row \<Rightarrow> header_map \<Rightarrow> (api_error + string \<times> string) handler" where
  "issue_session E user headers = do {
     family \<leftarrow> new_uuid E;
     now \<leftarrow> gets w_now;
     let expires_at = now + REFRESH_TOKEN_TTL_DAYS * DAY;
     r \<leftarrow> sign_refresh E (u_id user) family expires_at;
     case r of
       None \<Rightarrow> return (Inl internal_error)
     | Some refresh_token \<Rightarrow> do {
         c \<leftarrow> create_session E (u_id user) (sha256_hex E refresh_token) family expires_at
                (user_agent headers) (client_ip E headers) ''login'';
         case c of
           Inl _ \<Rightarrow> return (Inl internal_error)
         | Inr _ \<Rightarrow> do {
             a \<leftarrow> sign_access E user;
             case a of
               None \<Rightarrow> return (Inl internal_error)
             | Some access_token \<Rightarrow> return (Inr (access_token, refresh_token))
           }
       }
   }"

definition session_response :: "app \<Rightarrow> json \<Rightarrow> string \<Rightarrow> header_map \<Rightarrow> response" where
  "session_response E body refresh_token headers =
     (ok_json body)\<lparr>r_set_cookie := header_value (cookie_value E refresh_token headers)\<rparr>"

section \<open>Frames\<close>

lemma token_frames [frame_intros]:
  "preserves f (decode_access_token E t s)"
  "preserves f (auth_user_from_headers E h)"
  "preserves f (require_role E h p)"
  "preserves f (sign_access E u)"
  "preserves f (decode_refresh_token E t)"
  "preserves f (current_session_family E h)"
  "preserves f (decode_approval E t)"
  unfolding decode_access_token_def auth_user_from_headers_def require_role_def sign_access_def
    decode_refresh_token_def current_session_family_def decode_approval_def
  by (intro frame_intros)+

lemma token_draw_frames [frame_intros]:
  "blind_base f \<Longrightarrow> preserves f (unauthorized E h)"
  "blind_base f \<Longrightarrow> preserves f (sign_refresh E u fam ex)"
  "blind_base f \<Longrightarrow> preserves f (peek_approval_token E t)"
  "blind_base f \<Longrightarrow> blind w_approval_tokens_update f \<Longrightarrow> preserves f (sign_approval_token E u)"
  "blind_base f \<Longrightarrow> blind w_approval_tokens_update f \<Longrightarrow> preserves f (consume_approval_token E t out)"
  "blind_base f \<Longrightarrow> blind w_sessions_update f \<Longrightarrow> preserves f (issue_session E usr h)"
  unfolding issue_session_def unauthorized_def sign_refresh_def sign_approval_token_def peek_approval_token_def
    consume_approval_token_def Let_def
  by (intro frame_intros; simp)+

lemma auth_user_run:
  "exec (auth_user_from_headers E h) w = w"
  "result (auth_user_from_headers E h) w =
     Option.bind (bearer_token h) (\<lambda>t. x_decode_access E (w_now w) t (x_jwt_secret E))"
  by (simp_all add: auth_user_from_headers_def decode_access_token_def split: option.split)

lemma healthy_exec: "preserves w_faults m \<Longrightarrow> healthy (exec m w) = healthy w"
  by (simp add: healthy_def preserves_def)

lemma auth_demo [simp]:
  "result (auth_user_from_headers (demo_as role) demo_headers) w = Some (demo_claims role)"
  by (simp add: auth_user_run demo_headers_def bearer_token_def)

section \<open>A fresh session\<close>

text \<open>Documented behaviour of \<open>jsonwebtoken\<close>: signing claims with a shared secret does not fail.\<close>

definition signing_works :: "app \<Rightarrow> bool" where
  "signing_works E \<longleftrightarrow> (\<forall>c k. x_encode_access E c k \<noteq> None) \<and> (\<forall>c k. x_encode_refresh E c k \<noteq> None)
     \<and> (\<forall>c k. x_encode_challenge E c k \<noteq> None)"

text \<open>The state after one more session of the user: nothing else is different but the counters.\<close>

definition session_added :: "string \<Rightarrow> world \<Rightarrow> world \<Rightarrow> bool" where
  "session_added user_id w w' \<longleftrightarrow> (\<exists>s. w_sessions w' = w_sessions w @ [s] \<and> s_user_id s = user_id \<and> s_revoked_at s = None)"

lemma issue_session_adds_at:
  assumes "\<not> w_faults w (w_stmts w)" and "\<not> w_faults w (Suc (w_stmts w))"
    and "x_backend E = Sqlite" and "signing_works E"
  shows "wp (issue_session E user h) (\<lambda>r w'. (\<exists>pair. r = Inr pair) \<and> session_added (u_id user) w w') w"
proof -
  have some: "\<exists>t. x_encode_refresh E c k = Some t" "\<exists>t. x_encode_access E d k = Some t" for c d k
    using assms(4) unfolding signing_works_def by blast+
  obtain t where t: "x_encode_refresh E \<lparr>rc_sub = u_id user, rc_family = x_uuid_v4 E (w_draws w),
      rc_jti = x_hex E (x_rng E (Suc (w_draws w)) 16), rc_exp = timestamp (w_now w + REFRESH_TOKEN_TTL_DAYS * DAY)\<rparr>
      (x_jwt_refresh_secret E) = Some t"
    using some(1) by blast
  obtain a where a: "x_encode_access E \<lparr>cl_id = u_id user, cl_user_code = u_user_code user,
      cl_email = (case u_email user of None \<Rightarrow> [] | Some e \<Rightarrow> e), cl_role = u_role user,
      cl_exp = timestamp (w_now w) + ACCESS_TOKEN_TTL_SECS\<rparr> (x_jwt_secret E) = Some a"
    using some(2) by blast
  show ?thesis
    using assms(1-3) t a
    by (simp add: issue_session_def wp_simps Let_def sign_refresh_def create_session_def
        find_session_by_id_def sign_access_def session_added_def new_session_row_def db_key_sqlite)
qed

lemma issue_session_adds:
  assumes "healthy w" and "x_backend E = Sqlite" and "signing_works E"
  shows "wp (issue_session E user h) (\<lambda>r w'. (\<exists>pair. r = Inr pair) \<and> session_added (u_id user) w w') w"
  by (rule issue_session_adds_at) (use assms in simp_all)

lemma issue_session_result:
  assumes "healthy w" and "x_backend E = Sqlite" and "signing_works E"
  obtains pair where "result (issue_session E user h) w = Inr pair"
    and "session_added (u_id user) w (exec (issue_session E user h) w)"
  using issue_session_adds [OF assms, of user h] by (auto simp: wp_def)

lemma signing_works_demo: "signing_works demo_app" "signing_works (demo_as role)"
  by (simp_all add: signing_works_def demo_as_def demo_app_def)

lemma wp_auth_user [wp_simps]: "wp (auth_user_from_headers E h) Q w \<longleftrightarrow>
    Q (Option.bind (bearer_token h) (\<lambda>t. x_decode_access E (w_now w) t (x_jwt_secret E))) w"
  by (simp add: wp_def auth_user_run)

end
