(* ===== verification/Db_Org.thy ===== *)
theory Db_Org
  imports Demo "HOL-Library.List_Lexorder" "HOL-Library.Char_ord"
begin

text \<open>
  \<open>server/src/db/org.rs\<close>: organizations, their units, and the memberships of users. A listing
  \<open>ORDER BY name\<close> compares the bytes of the names; \<open>user_organization_ids\<close> has no order of its
  own and is read in insertion order.
\<close>

section \<open>Organizations and units\<close>

definition create_organization :: "app \<Rightarrow> string \<Rightarrow> (db_error + organization_row) handler" where
  "create_organization E name =
     (case x_backend E of
        Postgres \<Rightarrow> stmt (\<lambda>w.
          let r = \<lparr>o_id = x_uuid_v4 E (w_draws w), o_name = name, o_created_at = w_now w\<rparr>
          in (r, w\<lparr>w_draws := Suc (w_draws w), w_organizations := w_organizations w @ [r]\<rparr>))
      | Sqlite \<Rightarrow> do {
          i \<leftarrow> new_uuid E;
          ins \<leftarrow> stmt (\<lambda>w. ((), w\<lparr>w_organizations := w_organizations w @
                   [\<lparr>o_id = i, o_name = name, o_created_at = w_now w\<rparr>]\<rparr>));
          case ins of
            Inl e \<Rightarrow> return (Inl e)
          | Inr _ \<Rightarrow> try_stmt (\<lambda>w. (case find (\<lambda>r. o_id r = i) (w_organizations w) of
                        None \<Rightarrow> Inl DbFailure | Some r \<Rightarrow> Inr r, w))
        })"

definition list_organizations :: "(db_error + organization_row list) handler" where
  "list_organizations = query (\<lambda>w. sort_key o_name (w_organizations w))"

definition create_organization_unit ::
  "app \<Rightarrow> string \<Rightarrow> string option \<Rightarrow> string \<Rightarrow> (db_error + organization_unit_row option) handler" where
  "create_organization_unit E organization_id parent_unit_id name =
     (case x_backend E of
        Postgres \<Rightarrow>
          (case x_parse_uuid E organization_id of
             None \<Rightarrow> return (Inr None)
           | Some org \<Rightarrow> stmt (\<lambda>w.
               let r = \<lparr>ou_id = x_uuid_v4 E (w_draws w), ou_organization_id = org,
                        ou_parent_unit_id = Option.bind parent_unit_id (x_parse_uuid E),
                        ou_name = name, ou_created_at = w_now w\<rparr>
               in (Some r, w\<lparr>w_draws := Suc (w_draws w), w_units := w_units w @ [r]\<rparr>)))
      | Sqlite \<Rightarrow> do {
          i \<leftarrow> new_uuid E;
          ins \<leftarrow> stmt (\<lambda>w. ((), w\<lparr>w_units := w_units w @
                   [\<lparr>ou_id = i, ou_organization_id = organization_id,
                     ou_parent_unit_id = parent_unit_id, ou_name = name, ou_created_at = w_now w\<rparr>]\<rparr>));
          case ins of
            Inl e \<Rightarrow> return (Inl e)
          | Inr _ \<Rightarrow> try_stmt (\<lambda>w. (case find (\<lambda>r. ou_id r = i) (w_units w) of
                        None \<Rightarrow> Inl DbFailure | Some r \<Rightarrow> Inr (Some r), w))
        })"

definition list_organization_units :: "app \<Rightarrow> string \<Rightarrow> (db_error + organization_unit_row list) handler" where
  "list_organization_units E organization_id =
     with_key E organization_id [] (\<lambda>k. query (\<lambda>w.
       sort_key ou_name (filter (\<lambda>r. ou_organization_id r = k) (w_units w))))"

section \<open>Memberships\<close>

text \<open>
  The unique index on \<open>(user_id, organization_id, organization_unit_id)\<close>: two rows collide when
  all three agree and the unit is not \<open>NULL\<close> (SQL never equates two \<open>NULL\<close>s). Both backends turn
  a collision into a no-op.
\<close>

definition membership_collides :: "membership_row \<Rightarrow> membership_row \<Rightarrow> bool" where
  "membership_collides a b \<longleftrightarrow> mb_user_id a = mb_user_id b \<and> mb_organization_id a = mb_organization_id b
     \<and> mb_organization_unit_id a \<noteq> None \<and> mb_organization_unit_id a = mb_organization_unit_id b"

definition insert_or_ignore :: "membership_row \<Rightarrow> world \<Rightarrow> unit \<times> world" where
  "insert_or_ignore r w =
     ((), if list_ex (membership_collides r) (w_memberships w) then w
          else w\<lparr>w_memberships := w_memberships w @ [r]\<rparr>)"

definition assign_membership :: "app \<Rightarrow> string \<Rightarrow> string \<Rightarrow> string option \<Rightarrow> (db_error + unit) handler" where
  "assign_membership E user_id organization_id unit_id =
     with_key E user_id () (\<lambda>u. with_key E organization_id () (\<lambda>org. do {
       _ \<leftarrow> new_uuid E;
       stmt (insert_or_ignore
         \<lparr>mb_user_id = u, mb_organization_id = org,
          mb_organization_unit_id = Option.bind unit_id (db_key E)\<rparr>)
     }))"

definition remove_membership :: "app \<Rightarrow> string \<Rightarrow> string \<Rightarrow> (db_error + unit) handler" where
  "remove_membership E user_id organization_id =
     with_key E user_id () (\<lambda>u. with_key E organization_id () (\<lambda>org. stmt (\<lambda>w.
       ((), w\<lparr>w_memberships := sql_delete (\<lambda>r. mb_user_id r = u \<and> mb_organization_id r = org)
              (w_memberships w)\<rparr>))))"

definition user_organization_ids :: "app \<Rightarrow> string \<Rightarrow> (db_error + string list) handler" where
  "user_organization_ids E user_id =
     with_key E user_id [] (\<lambda>k. query (\<lambda>w.
       map mb_organization_id (filter (\<lambda>r. mb_user_id r = k) (w_memberships w))))"

definition primary_organization_id :: "app \<Rightarrow> string \<Rightarrow> (db_error + string option) handler" where
  "primary_organization_id E user_id = do {
     ids \<leftarrow> user_organization_ids E user_id;
     case ids of
       Inl e \<Rightarrow> return (Inl e)
     | Inr xs \<Rightarrow> return (Inr (case xs of [] \<Rightarrow> None | x # _ \<Rightarrow> Some x))
   }"

section \<open>Frames\<close>

lemma org_query_frames [frame_intros]:
  "blind_base f \<Longrightarrow> preserves f list_organizations"
  "blind_base f \<Longrightarrow> preserves f (list_organization_units E i)"
  "blind_base f \<Longrightarrow> preserves f (user_organization_ids E u)"
  "blind_base f \<Longrightarrow> preserves f (primary_organization_id E u)"
  unfolding list_organizations_def list_organization_units_def primary_organization_id_def
    user_organization_ids_def
  by (intro frame_intros; simp)+

lemma org_write_frames [frame_intros]:
  "blind_base f \<Longrightarrow> blind w_organizations_update f \<Longrightarrow> preserves f (create_organization E nm)"
  "blind_base f \<Longrightarrow> blind w_units_update f \<Longrightarrow> preserves f (create_organization_unit E org pu nm)"
  "blind_base f \<Longrightarrow> blind w_memberships_update f \<Longrightarrow> preserves f (assign_membership E u org un)"
  "blind_base f \<Longrightarrow> blind w_memberships_update f \<Longrightarrow> preserves f (remove_membership E u org)"
  unfolding create_organization_def create_organization_unit_def assign_membership_def
    remove_membership_def insert_or_ignore_def
  by (intro frame_intros stmt_frame try_stmt_frame; simp add: Let_def)+

section \<open>Membership\<close>

lemma run_assign_membership:
  assumes "healthy w" and "db_key E u = Some uk" and "db_key E org = Some ok"
  shows "result (assign_membership E u org un) w = Inr ()"
    and "healthy (exec (assign_membership E u org un) w)"
    and "w_memberships (exec (assign_membership E u org un) w) =
      w_memberships (snd (insert_or_ignore \<lparr>mb_user_id = uk, mb_organization_id = ok,
        mb_organization_unit_id = Option.bind un (db_key E)\<rparr> w))"
proof -
  have "wp (assign_membership E u org un) (\<lambda>r w'. r = Inr () \<and> healthy w' \<and>
      w_memberships w' = w_memberships (snd (insert_or_ignore \<lparr>mb_user_id = uk, mb_organization_id = ok,
        mb_organization_unit_id = Option.bind un (db_key E)\<rparr> w))) w"
    using assms by (simp add: assign_membership_def wp_simps insert_or_ignore_def)
  then show "result (assign_membership E u org un) w = Inr ()"
    and "healthy (exec (assign_membership E u org un) w)"
    and "w_memberships (exec (assign_membership E u org un) w) =
      w_memberships (snd (insert_or_ignore \<lparr>mb_user_id = uk, mb_organization_id = ok,
        mb_organization_unit_id = Option.bind un (db_key E)\<rparr> w))"
    by (simp_all add: wp_def)
qed

text \<open>
  Memberships drive visibility: after an assignment the organization is among the user's
  organizations and nobody else's list has changed; after a removal it is not among them, and the
  user's other organizations and everybody else's are what they were.
\<close>
theorem membership_changes_are_local:
  assumes "healthy w" and "db_key E u = Some uk" and "db_key E org = Some ok"
  shows "wp (assign_membership E u org un) (\<lambda>r w'. r = Inr () \<and> ok \<in> set (projr (result (user_organization_ids E u) w'))
       \<and> filter (\<lambda>m. mb_user_id m \<noteq> uk) (w_memberships w') = filter (\<lambda>m. mb_user_id m \<noteq> uk) (w_memberships w)) w
   \<and> wp (remove_membership E u org) (\<lambda>r w'. r = Inr ()
       \<and> projr (result (user_organization_ids E u) w')
           = filter (\<lambda>i. i \<noteq> ok) (projr (result (user_organization_ids E u) w))
       \<and> filter (\<lambda>m. mb_user_id m \<noteq> uk) (w_memberships w') = filter (\<lambda>m. mb_user_id m \<noteq> uk) (w_memberships w)) w"
proof
  have ids: "result (user_organization_ids E u) v =
      Inr (map mb_organization_id (filter (\<lambda>r. mb_user_id r = uk) (w_memberships v)))" if "healthy v" for v
    using that assms(2) by (simp add: user_organization_ids_def result_with_key result_query)
  show "wp (assign_membership E u org un) (\<lambda>r w'. r = Inr () \<and> ok \<in> set (projr (result (user_organization_ids E u) w'))
       \<and> filter (\<lambda>m. mb_user_id m \<noteq> uk) (w_memberships w') = filter (\<lambda>m. mb_user_id m \<noteq> uk) (w_memberships w)) w"
    unfolding wp_def using run_assign_membership [OF assms]
    by (auto simp: ids insert_or_ignore_def list_ex_iff membership_collides_def image_iff)
  have del: "filter (\<lambda>r. mb_user_id r = uk) (sql_delete (\<lambda>r. mb_user_id r = uk \<and> mb_organization_id r = ok) t)
      = filter (\<lambda>r. mb_organization_id r \<noteq> ok) (filter (\<lambda>r. mb_user_id r = uk) t)"
    "filter (\<lambda>m. mb_user_id m \<noteq> uk) (sql_delete (\<lambda>r. mb_user_id r = uk \<and> mb_organization_id r = ok) t)
      = filter (\<lambda>m. mb_user_id m \<noteq> uk) t" for t
    by (auto simp: sql_delete_def intro: filter_cong)
  show "wp (remove_membership E u org) (\<lambda>r w'. r = Inr ()
       \<and> projr (result (user_organization_ids E u) w')
           = filter (\<lambda>i. i \<noteq> ok) (projr (result (user_organization_ids E u) w))
       \<and> filter (\<lambda>m. mb_user_id m \<noteq> uk) (w_memberships w') = filter (\<lambda>m. mb_user_id m \<noteq> uk) (w_memberships w)) w"
    using assms by (simp add: remove_membership_def wp_simps filter_map comp_def ids del)
qed

theorem membership_changes_are_local_witness:
  "wp (remove_membership demo_app ''1'' ''o'') (\<lambda>r w'. r = Inr ()
       \<and> projr (result (user_organization_ids demo_app ''1'') w')
         = filter (\<lambda>i. i \<noteq> ''o'') (projr (result (user_organization_ids demo_app ''1'') demo_world))
       \<and> filter (\<lambda>m. mb_user_id m \<noteq> ''1'') (w_memberships w')
         = filter (\<lambda>m. mb_user_id m \<noteq> ''1'') (w_memberships demo_world)) demo_world"
  using membership_changes_are_local [of demo_world demo_app "''1''" "''1''" "''o''" "''o''"] by simp

text \<open>
  Assigning a membership is idempotent only when it names a unit. With a unit the second of two
  equal assignments changes nothing; without one (the usual case) the unique index does not apply,
  because its last column is \<open>NULL\<close>, and every repetition adds another row.
\<close>
theorem assign_membership_idempotent_only_with_unit:
  assumes "healthy w" and "db_key E u = Some uk" and "db_key E org = Some ok"
  shows "(let w1 = exec (assign_membership E u org un) w; w2 = exec (assign_membership E u org un) w1
     in length (w_memberships w2) =
          length (w_memberships w1) + (if Option.bind un (db_key E) = None then 1 else 0))"
  using run_assign_membership [OF assms, of un]
    run_assign_membership [OF run_assign_membership(2) [OF assms, of un] assms(2,3), of un]
  by (auto simp: Let_def insert_or_ignore_def list_ex_iff membership_collides_def)

theorem assign_membership_idempotent_only_with_unit_witness:
  "length (w_memberships (exec (assign_membership demo_app ''1'' ''o'' None)
      (exec (assign_membership demo_app ''1'' ''o'' None) demo_world)))
   = length (w_memberships (exec (assign_membership demo_app ''1'' ''o'' None) demo_world)) + 1"
  using assign_membership_idempotent_only_with_unit [of demo_world demo_app "''1''" "''1''" "''o''" "''o''" None]
  by (simp add: Let_def)

end
