(* ===== verification/Hash_Chain.thy ===== *)
theory Hash_Chain
  imports Prelude
begin

text \<open>
  Hash chains in the abstract: a list of rows, each carrying its own hash and that of its
  predecessor, where the own hash is \<open>hash (payload previous row)\<close>. The only law is that the
  payload of a well-formed row determines the previous hash and the row's fields; the hash itself is
  only ever assumed to be free of collisions on the payloads that occur.
\<close>

text \<open>Joining strings with a separator, as \<open>[..].join(sep)\<close> does.\<close>

fun join :: "char \<Rightarrow> string list \<Rightarrow> string" where
  "join c [] = []"
| "join c [x] = x"
| "join c (x # y # ys) = x @ c # join c (y # ys)"

lemma join_Cons: "join c (x # xs) = x @ concat (map (\<lambda>f. c # f) xs)"
  by (induction xs arbitrary: x) auto

lemma join_last: "join c (xs @ [y]) = join c (xs @ [[]]) @ y"
  by (cases xs) (simp_all add: join_Cons)

lemma append_sep_inj:
  assumes "a @ c # f = b @ c # g" and "c \<notin> set f" and "c \<notin> set g"
  shows "a = b \<and> f = g"
  using assms
proof (induction a arbitrary: b)
  case Nil
  show ?case
  proof (cases b)
    case (Cons y ys)
    with Nil.prems have "f = ys @ c # g" by simp
    with Nil.prems(2) show ?thesis by simp
  qed (use Nil.prems in simp)
next
  case (Cons x xs)
  show ?case
  proof (cases b)
    case Nil
    with Cons.prems have "g = xs @ c # f" by simp
    with Cons.prems(3) show ?thesis by simp
  next
    case (Cons y ys)
    with Cons.prems Cons.IH [of ys] show ?thesis by simp
  qed
qed

lemma join_inj:
  assumes "join c (h # xs) = join c (h' # ys)" and "length xs = length ys"
    and "\<forall>f\<in>set xs. c \<notin> set f" and "\<forall>f\<in>set ys. c \<notin> set f"
  shows "h = h' \<and> xs = ys"
  using assms
proof (induction xs arbitrary: ys rule: rev_induct)
  case Nil
  then show ?case by simp
next
  case (snoc f xs)
  obtain g zs where ys: "ys = zs @ [g]"
    using snoc.prems(2) by (cases ys rule: rev_cases) auto
  have "join c (h # xs) @ c # f = join c (h' # zs) @ c # g"
    using snoc.prems(1) by (simp add: ys join_Cons)
  then have "join c (h # xs) = join c (h' # zs) \<and> f = g"
    by (rule append_sep_inj) (use snoc.prems ys in auto)
  with snoc.IH [of zs] snoc.prems ys show ?case by auto
qed

locale hash_chain =
  fixes hash :: "'s \<Rightarrow> 'h"
    and payload :: "'h \<Rightarrow> 'r \<Rightarrow> 's"
    and fields :: "'r \<Rightarrow> 'f"
    and wf :: "'r \<Rightarrow> bool"
    and prev :: "'r \<Rightarrow> 'h"
    and own :: "'r \<Rightarrow> 'h"
  assumes payload_inj: "wf r \<Longrightarrow> wf r' \<Longrightarrow> payload h r = payload h' r' \<Longrightarrow> h = h' \<and> fields r = fields r'"
begin

fun linked :: "'h \<Rightarrow> 'r list \<Rightarrow> bool" where
  "linked g [] \<longleftrightarrow> True"
| "linked g (r # rs) \<longleftrightarrow> prev r = g \<and> own r = hash (payload (prev r) r) \<and> linked (own r) rs"

definition tip :: "'h \<Rightarrow> 'r list \<Rightarrow> 'h" where
  "tip g rs = (if rs = [] then g else own (last rs))"

definition payloads :: "'r list \<Rightarrow> 's set" where
  "payloads rs = (\<lambda>r. payload (prev r) r) ` set rs"

lemma tip_simps [simp]: "tip g [] = g" "tip g (r # rs) = tip (own r) rs" "tip g (rs @ [r]) = own r"
  by (simp_all add: tip_def)

lemma linked_append: "linked g (rs @ qs) \<longleftrightarrow> linked g rs \<and> linked (tip g rs) qs"
  by (induction rs arbitrary: g) auto

lemma linked_snoc: "linked g (rs @ [r]) \<longleftrightarrow>
    linked g rs \<and> prev r = tip g rs \<and> own r = hash (payload (tip g rs) r)"
  by (auto simp: linked_append)

text \<open>Every beginning of a linked list is linked: cutting rows off the end leaves no trace.\<close>

lemma linked_take: "linked g rs \<Longrightarrow> linked g (take n rs)"
  using linked_append [of g "take n rs" "drop n rs"] by simp

text \<open>Two linked lists with the same tip hold the same fields.\<close>

lemma same_tip_same_fields:
  assumes "linked g rs" and "linked g qs" and "tip g rs = tip g qs"
    and "\<forall>r\<in>set rs \<union> set qs. wf r"
    and "inj_on hash (payloads rs \<union> payloads qs)" and "g \<notin> hash ` (payloads rs \<union> payloads qs)"
  shows "map fields rs = map fields qs"
  using assms
proof (induction rs arbitrary: qs rule: rev_induct)
  case Nil
  show ?case
  proof (cases qs rule: rev_cases)
    case (snoc q r)
    with Nil.prems(2,3) have "g = hash (payload (prev r) r)" by (auto simp: linked_snoc)
    with snoc Nil.prems(6) show ?thesis by (auto simp: payloads_def)
  qed simp
next
  case (snoc r rs)
  have r: "own r = hash (payload (prev r) r)" "prev r = tip g rs" "linked g rs"
    using snoc.prems(1) by (auto simp: linked_snoc)
  show ?case
  proof (cases qs rule: rev_cases)
    case Nil
    with snoc.prems(3) r(1) have "g = hash (payload (prev r) r)" by simp
    with snoc.prems(6) show ?thesis by (auto simp: payloads_def)
  next
    case (snoc zs q)
    have q: "own q = hash (payload (prev q) q)" "prev q = tip g zs" "linked g zs"
      using snoc.prems(2) snoc by (auto simp: linked_snoc)
    have "hash (payload (prev r) r) = hash (payload (prev q) q)"
      using snoc.prems(3) snoc r(1) q(1) by simp
    then have "payload (prev r) r = payload (prev q) q"
      by (rule inj_onD [OF snoc.prems(5)]) (auto simp: payloads_def snoc)
    then have eq: "prev r = prev q \<and> fields r = fields q"
      by (rule payload_inj [rotated 2]) (use snoc.prems(4) snoc in auto)
    have "map fields rs = map fields zs"
    proof (rule snoc.IH [OF r(3) q(3)])
      show "tip g rs = tip g zs" using eq r(2) q(2) by simp
      show "inj_on hash (payloads rs \<union> payloads zs)"
        by (rule inj_on_subset [OF snoc.prems(5)]) (auto simp: payloads_def snoc)
    qed (use snoc.prems(4,6) snoc in \<open>auto simp: payloads_def\<close>)
    with eq snoc show ?thesis by simp
  qed
qed

end

end
