(* ===== verification/Db_Audit.thy ===== *)
theory Db_Audit
  imports Db_Org Hash_Chain
begin

text \<open>
  \<open>server/src/db/audit.rs\<close>: the append-only \<open>audit_events\<close> table and its hash chain.
  \<open>w_chain_sequence\<close> and \<open>w_chain_hash\<close> are the single row of \<open>audit_chain_state\<close>; an insert
  reads the tip, appends the row and advances the tip in one transaction, which is one statement of
  the model. A row holds its columns as a later \<open>SELECT\<close> returns them: on PostgreSQL a user or
  organization id that is not a UUID is stored as \<open>NULL\<close>, and the metadata comes back as
  \<open>jsonb\<close> prints it.
\<close>

section \<open>Events and their canonical text\<close>

definition GENESIS_HASH :: string where
  "GENESIS_HASH = replicate 64 (CHR ''0'')"

record new_audit_event =
  e_actor_user_id :: "string option"
  e_actor_user_code :: "string option"
  e_actor_role :: "string option"
  e_action :: string
  e_request_id :: string
  e_case_reference :: "string option"
  e_resource_type :: "string option"
  e_resource_id :: "string option"
  e_result :: string
  e_source :: "string option"
  e_ip_address :: "string option"
  e_user_agent :: "string option"
  e_metadata :: "string option"
  e_organization_id :: "string option"
  e_organization_unit_id :: "string option"

definition trunc_micros :: "int \<Rightarrow> int" where
  "trunc_micros t = (t div 1000) * 1000"

definition canonical_timestamp :: "app \<Rightarrow> int \<Rightarrow> string" where
  "canonical_timestamp E t = x_format_micros E t"

definition SEP :: char where "SEP = CHR 0x01"

definition or_empty :: "string option \<Rightarrow> string" where
  "or_empty v = (case v of None \<Rightarrow> [] | Some s \<Rightarrow> s)"

definition canonical_fields :: "app \<Rightarrow> int \<Rightarrow> new_audit_event \<Rightarrow> string list" where
  "canonical_fields E t e =
     [canonical_timestamp E t, or_empty (e_actor_user_id e), or_empty (e_actor_user_code e),
      or_empty (e_actor_role e), e_action e, e_request_id e, or_empty (e_case_reference e),
      or_empty (e_resource_type e), or_empty (e_resource_id e), e_result e, or_empty (e_source e),
      or_empty (e_ip_address e), or_empty (e_user_agent e), or_empty (e_metadata e)]"

definition canonical_event_string :: "app \<Rightarrow> string \<Rightarrow> int \<Rightarrow> new_audit_event \<Rightarrow> string" where
  "canonical_event_string E previous_hash t e = join SEP (previous_hash # canonical_fields E t e)"

section \<open>Inserting\<close>

definition stored_uuid :: "app \<Rightarrow> string option \<Rightarrow> string option" where
  "stored_uuid E v = Option.bind v (db_key E)"

definition stored_json :: "app \<Rightarrow> string option \<Rightarrow> string option" where
  "stored_json E v =
     (case x_backend E of Postgres \<Rightarrow> map_option (x_jsonb_text E) v | Sqlite \<Rightarrow> v)"

definition event_row :: "app \<Rightarrow> string \<Rightarrow> int \<Rightarrow> int \<Rightarrow> string \<Rightarrow> new_audit_event \<Rightarrow> audit_event_row" where
  "event_row E i t sequence last_hash e =
     \<lparr>a_id = i, a_timestamp = canonical_timestamp E t,
      a_actor_user_id = stored_uuid E (e_actor_user_id e),
      a_actor_user_code = e_actor_user_code e, a_actor_role = e_actor_role e,
      a_action = e_action e, a_request_id = e_request_id e, a_case_reference = e_case_reference e,
      a_resource_type = e_resource_type e, a_resource_id = e_resource_id e, a_result = e_result e,
      a_source = e_source e, a_ip_address = e_ip_address e, a_user_agent = e_user_agent e,
      a_metadata = stored_json E (e_metadata e),
      a_organization_id = stored_uuid E (e_organization_id e),
      a_organization_unit_id = stored_uuid E (e_organization_unit_id e),
      a_sequence = Some sequence, a_previous_hash = Some last_hash,
      a_event_hash = Some (sha256_hex E (canonical_event_string E last_hash t e))\<rparr>"

definition insert_audit_event :: "app \<Rightarrow> new_audit_event \<Rightarrow> (db_error + unit) handler" where
  "insert_audit_event E e = stmt (\<lambda>w.
     let t = trunc_micros (w_now w);
         sequence = w_chain_sequence w + 1;
         r = event_row E (x_uuid_v4 E (w_draws w)) t sequence (w_chain_hash w) e
     in ((), w\<lparr>w_draws := Suc (w_draws w), w_audit_events := w_audit_events w @ [r],
               w_chain_sequence := sequence,
               w_chain_hash := sha256_hex E (canonical_event_string E (w_chain_hash w) t e)\<rparr>))"

section \<open>Listing\<close>

record audit_event_filter =
  f_date_from :: "int option"
  f_date_to :: "int option"
  f_actor_user_id :: "string option"
  f_action :: "string option"
  f_case_reference :: "string option"
  f_resource_type :: "string option"
  f_result :: "string option"
  f_org_scope :: "string list option"

text \<open>
  The instant a stored timestamp denotes. PostgreSQL compares instants; SQLite compares the
  canonical text with the RFC 3339 text of the bound, whose \<open>+00:00\<close> sorts before the
  fraction and the \<open>Z\<close> of a row of the same microsecond, so there the upper bound is exclusive.
\<close>

definition row_instant :: "app \<Rightarrow> audit_event_row \<Rightarrow> int" where
  "row_instant E r = (case x_parse_instant E (a_timestamp r) of Some t \<Rightarrow> t | None \<Rightarrow> 0)"

definition opt_matches :: "string option \<Rightarrow> string option \<Rightarrow> bool" where
  "opt_matches wanted col = (case wanted of None \<Rightarrow> True | Some v \<Rightarrow> col = Some v)"

definition filter_matches :: "app \<Rightarrow> audit_event_filter \<Rightarrow> audit_event_row \<Rightarrow> bool" where
  "filter_matches E f r \<longleftrightarrow>
     (case f_date_from f of None \<Rightarrow> True | Some d \<Rightarrow> trunc_micros d \<le> row_instant E r)
     \<and> (case f_date_to f of None \<Rightarrow> True | Some d \<Rightarrow>
          (case x_backend E of
             Postgres \<Rightarrow> row_instant E r \<le> trunc_micros d
           | Sqlite \<Rightarrow> row_instant E r < trunc_micros d))
     \<and> opt_matches (stored_uuid E (f_actor_user_id f)) (a_actor_user_id r)
     \<and> opt_matches (f_action f) (Some (a_action r))
     \<and> opt_matches (f_case_reference f) (a_case_reference r)
     \<and> opt_matches (f_resource_type f) (a_resource_type r)
     \<and> opt_matches (f_result f) (Some (a_result r))
     \<and> (case f_org_scope f of
          None \<Rightarrow> True
        | Some ids \<Rightarrow> a_organization_id r = None
            \<or> (\<exists>i\<in>set ids. db_key E i \<noteq> None \<and> a_organization_id r = db_key E i))"

definition list_audit_events ::
  "app \<Rightarrow> audit_event_filter \<Rightarrow> int \<Rightarrow> int \<Rightarrow> (db_error + audit_event_row list \<times> nat) handler" where
  "list_audit_events E f page page_size =
     (let page = max page 1;
          page_size = clamp 1 200 page_size;
          offset = (page - 1) * page_size
      in do {
        total \<leftarrow> query (\<lambda>w. sql_count (filter_matches E f) (w_audit_events w));
        case total of
          Inl e \<Rightarrow> return (Inl e)
        | Inr n \<Rightarrow> do {
            rows \<leftarrow> query (\<lambda>w. sql_page page_size offset
              (sort_key (\<lambda>r. - row_instant E r) (filter (filter_matches E f) (w_audit_events w))));
            case rows of
              Inl e \<Rightarrow> return (Inl e)
            | Inr rs \<Rightarrow> return (Inr (rs, n))
          }
      })"

section \<open>Verifying the chain\<close>

datatype break_reason = PreviousHashMismatch | TimestampNotParseable | EventHashMismatch

record chain_break =
  cb_sequence :: int
  cb_event_id :: string
  cb_reason :: break_reason

record chain_report =
  cr_events_checked :: nat
  cr_intact :: bool
  cr_breaks :: "chain_break list"

definition event_of_row :: "audit_event_row \<Rightarrow> new_audit_event" where
  "event_of_row r =
     \<lparr>e_actor_user_id = a_actor_user_id r, e_actor_user_code = a_actor_user_code r,
      e_actor_role = a_actor_role r, e_action = a_action r, e_request_id = a_request_id r,
      e_case_reference = a_case_reference r, e_resource_type = a_resource_type r,
      e_resource_id = a_resource_id r, e_result = a_result r, e_source = a_source r,
      e_ip_address = a_ip_address r, e_user_agent = a_user_agent r, e_metadata = a_metadata r,
      e_organization_id = a_organization_id r, e_organization_unit_id = a_organization_unit_id r\<rparr>"

fun check_rows :: "app \<Rightarrow> string \<Rightarrow> audit_event_row list \<Rightarrow> chain_break list" where
  "check_rows E expected [] = []"
| "check_rows E expected (r # rs) =
     (let sequence = (case a_sequence r of None \<Rightarrow> 0 | Some s \<Rightarrow> s);
          stored_previous_hash = or_empty (a_previous_hash r);
          stored_event_hash = or_empty (a_event_hash r);
          brk = (\<lambda>why. \<lparr>cb_sequence = sequence, cb_event_id = a_id r, cb_reason = why\<rparr>);
          here = (if stored_previous_hash \<noteq> expected then [brk PreviousHashMismatch] else [])
      in case x_parse_instant E (a_timestamp r) of
           None \<Rightarrow> here @ brk TimestampNotParseable # check_rows E stored_event_hash rs
         | Some t \<Rightarrow>
             here @ (if sha256_hex E (canonical_event_string E stored_previous_hash t (event_of_row r))
                          \<noteq> stored_event_hash then [brk EventHashMismatch] else [])
             @ check_rows E stored_event_hash rs)"

definition chained_rows :: "audit_event_row list \<Rightarrow> audit_event_row list" where
  "chained_rows t = sort_key (\<lambda>r. the (a_sequence r)) (filter (\<lambda>r. a_sequence r \<noteq> None) t)"

definition chain_report_of :: "app \<Rightarrow> audit_event_row list \<Rightarrow> chain_report" where
  "chain_report_of E t =
     (let rows = chained_rows t; breaks = check_rows E GENESIS_HASH rows
      in \<lparr>cr_events_checked = length rows, cr_intact = (breaks = []), cr_breaks = breaks\<rparr>)"

definition verify_chain :: "app \<Rightarrow> (db_error + chain_report) handler" where
  "verify_chain E = do {
     rows \<leftarrow> query (\<lambda>w. w_audit_events w);
     case rows of
       Inl e \<Rightarrow> return (Inl e)
     | Inr t \<Rightarrow> return (Inr (chain_report_of E t))
   }"

section \<open>Frames\<close>

lemma insert_audit_event_frame [frame_intros]:
  "blind_base f \<Longrightarrow> blind w_audit_events_update f \<Longrightarrow> blind w_chain_sequence_update f \<Longrightarrow>
   blind w_chain_hash_update f \<Longrightarrow> preserves f (insert_audit_event E e)"
  unfolding insert_audit_event_def by (intro stmt_frame) (simp_all add: Let_def)

lemma audit_query_frames [frame_intros]:
  "blind_base f \<Longrightarrow> preserves f (list_audit_events E flt pg sz)"
  "blind_base f \<Longrightarrow> preserves f (verify_chain E)"
  unfolding list_audit_events_def verify_chain_def Let_def by (intro frame_intros; simp)+

section \<open>The chain\<close>

definition hashed_fields :: "app \<Rightarrow> audit_event_row \<Rightarrow> string list" where
  "hashed_fields E r = canonical_fields E (row_instant E r) (event_of_row r)"

definition row_payload :: "app \<Rightarrow> string \<Rightarrow> audit_event_row \<Rightarrow> string" where
  "row_payload E h r = join SEP (h # hashed_fields E r)"

definition prev_hash :: "audit_event_row \<Rightarrow> string" where
  "prev_hash r = or_empty (a_previous_hash r)"

definition own_hash :: "audit_event_row \<Rightarrow> string" where
  "own_hash r = or_empty (a_event_hash r)"

text \<open>A row whose timestamp parses and none of whose hashed fields holds the separator.\<close>

definition wf_row :: "app \<Rightarrow> audit_event_row \<Rightarrow> bool" where
  "wf_row E r \<longleftrightarrow> x_parse_instant E (a_timestamp r) \<noteq> None
     \<and> list_all (\<lambda>f. SEP \<notin> set f) (hashed_fields E r)"

interpretation audit_chain: hash_chain "sha256_hex E" "row_payload E" "hashed_fields E" "wf_row E"
  prev_hash own_hash for E
proof unfold_locales
  fix r r' h h'
  assume "wf_row E r" and "wf_row E r'" and "row_payload E h r = row_payload E h' r'"
  then show "h = h' \<and> hashed_fields E r = hashed_fields E r'"
    unfolding row_payload_def
    by (intro join_inj) (auto simp: wf_row_def list_all_iff hashed_fields_def canonical_fields_def)
qed

lemma check_rows_intact: "check_rows E g rs = [] \<longleftrightarrow>
    audit_chain.linked E g rs \<and> (\<forall>r\<in>set rs. x_parse_instant E (a_timestamp r) \<noteq> None)"
  by (induction rs arbitrary: g)
    (auto simp: Let_def prev_hash_def own_hash_def row_payload_def hashed_fields_def row_instant_def
      canonical_event_string_def split: option.splits)

lemma set_chained_rows: "r \<in> set (chained_rows t) \<longleftrightarrow> r \<in> set t \<and> a_sequence r \<noteq> None"
  by (simp add: chained_rows_def)

definition chain_tip :: "audit_event_row list \<Rightarrow> string" where
  "chain_tip t = (if chained_rows t = [] then GENESIS_HASH else own_hash (last (chained_rows t)))"

text \<open>
  The row of \<open>audit_chain_state\<close> belongs to the table: no event has a higher number than the one it
  remembers, and its hash is that of the last numbered event. Events without a number, from before the
  chain, do not matter.
\<close>

definition chain_remembered :: "world \<Rightarrow> bool" where
  "chain_remembered w \<longleftrightarrow> list_all (\<lambda>r. a_sequence r = None \<or> the (a_sequence r) \<le> w_chain_sequence w) (w_audit_events w)
     \<and> w_chain_hash w = chain_tip (w_audit_events w)"

definition chain_ok :: "app \<Rightarrow> world \<Rightarrow> bool" where
  "chain_ok E w \<longleftrightarrow> cr_intact (chain_report_of E (w_audit_events w)) \<and> chain_remembered w"

definition unnumbered :: "audit_event_row list \<Rightarrow> audit_event_row list" where
  "unnumbered t = filter (\<lambda>r. a_sequence r = None) t"

lemma sort_key_sorted: "sorted (map f xs) \<Longrightarrow> sort_key f xs = xs"
  by (rule sort_key_id_if_sorted)

lemma insort_key_snoc: "f y \<le> f x \<Longrightarrow> insort_key f y (zs @ [x]) = insort_key f y zs @ [x]"
  by (induction zs) auto

lemma sort_key_snoc: "(\<And>y. y \<in> set xs \<Longrightarrow> f y \<le> f x) \<Longrightarrow> sort_key f (xs @ [x]) = sort_key f xs @ [x]"
  by (induction xs) (simp_all add: insort_key_snoc)

lemma chained_rows_snoc:
  assumes "chain_remembered w" and "a_sequence r = Some (w_chain_sequence w + 1)"
  shows "chained_rows (w_audit_events w @ [r]) = chained_rows (w_audit_events w) @ [r]"
proof -
  let ?rows = "filter (\<lambda>r. a_sequence r \<noteq> None) (w_audit_events w)"
  have "sort_key (\<lambda>r. the (a_sequence r)) (?rows @ [r]) = sort_key (\<lambda>r. the (a_sequence r)) ?rows @ [r]"
    by (rule sort_key_snoc) (use assms in \<open>auto simp: chain_remembered_def list_all_iff\<close>)
  moreover have "filter (\<lambda>r. a_sequence r \<noteq> None) (w_audit_events w @ [r]) = ?rows @ [r]" using assms(2) by simp
  ultimately show ?thesis by (simp only: chained_rows_def)
qed

lemma checked_or_unnumbered: "cr_events_checked (chain_report_of E t) + length (unnumbered t) = length t"
  using sum_length_filter_compl [of "\<lambda>r. a_sequence r \<noteq> None" t]
  by (simp add: chain_report_of_def Let_def chained_rows_def unnumbered_def)

text \<open>Documented behaviour of \<open>chrono\<close>: microsecond texts parse back to the instant they print.\<close>

definition stamps_roundtrip :: "app \<Rightarrow> bool" where
  "stamps_roundtrip E \<longleftrightarrow> (\<forall>t. x_parse_instant E (x_format_micros E (trunc_micros t)) = Some (trunc_micros t))"

lemma insert_audit_event_exec:
  assumes "\<not> w_faults w (w_stmts w)"
  shows "w_audit_events (exec (insert_audit_event E e) w) = w_audit_events w @
      [event_row E (x_uuid_v4 E (w_draws w)) (trunc_micros (w_now w)) (w_chain_sequence w + 1) (w_chain_hash w) e]"
    and "w_chain_sequence (exec (insert_audit_event E e) w) = w_chain_sequence w + 1"
    and "w_chain_hash (exec (insert_audit_event E e) w) =
      sha256_hex E (canonical_event_string E (w_chain_hash w) (trunc_micros (w_now w)) e)"
  using assms by (simp_all add: insert_audit_event_def exec_def run_stmt Let_def)

lemma insert_audit_event_fails:
  assumes "w_faults w (w_stmts w)"
  shows "exec (insert_audit_event E e) w = w\<lparr>w_stmts := Suc (w_stmts w)\<rparr>"
  using assms by (simp add: insert_audit_event_def exec_def run_stmt)

lemma event_of_event_row:
  "x_backend E = Sqlite \<Longrightarrow> event_of_row (event_row E i t q h e) = e"
  by (simp add: event_of_row_def event_row_def stored_uuid_def stored_json_def db_key_sqlite)

lemma chain_ok_insert:
  assumes "x_backend E = Sqlite" and "stamps_roundtrip E" and ok: "chain_ok E w"
  shows "chain_ok E (exec (insert_audit_event E e) w)"
proof (cases "w_faults w (w_stmts w)")
  case True
  with ok show ?thesis by (simp add: insert_audit_event_fails chain_ok_def chain_remembered_def)
next
  case False
  let ?r = "event_row E (x_uuid_v4 E (w_draws w)) (trunc_micros (w_now w)) (w_chain_sequence w + 1) (w_chain_hash w) e"
  have stamp: "x_parse_instant E (a_timestamp ?r) = Some (trunc_micros (w_now w))"
    using assms(2) by (simp add: event_row_def canonical_timestamp_def stamps_roundtrip_def)
  have pay: "row_payload E (w_chain_hash w) ?r =
      canonical_event_string E (w_chain_hash w) (trunc_micros (w_now w)) e"
    using stamp assms(1)
    by (simp add: row_payload_def hashed_fields_def row_instant_def event_of_event_row canonical_event_string_def)
  have hashes: "prev_hash ?r = w_chain_hash w"
    "own_hash ?r = sha256_hex E (canonical_event_string E (w_chain_hash w) (trunc_micros (w_now w)) e)"
    "a_sequence ?r = Some (w_chain_sequence w + 1)"
    by (simp_all add: prev_hash_def own_hash_def or_empty_def event_row_def)
  have rem: "chain_remembered w" and linked: "check_rows E GENESIS_HASH (chained_rows (w_audit_events w)) = []"
    using ok by (simp_all add: chain_ok_def chain_report_of_def Let_def)
  note snoc = chained_rows_snoc [OF rem hashes(3)]
  have tip: "hash_chain.tip own_hash GENESIS_HASH (chained_rows (w_audit_events w)) = w_chain_hash w"
    using rem by (simp add: chain_remembered_def chain_tip_def audit_chain.tip_def)
  have "cr_intact (chain_report_of E (w_audit_events (exec (insert_audit_event E e) w)))"
    using linked stamp pay hashes tip
    by (simp add: chain_report_of_def Let_def insert_audit_event_exec [OF False] snoc check_rows_intact audit_chain.linked_snoc)
  moreover have "w_chain_hash (exec (insert_audit_event E e) w) = chain_tip (w_audit_events (exec (insert_audit_event E e) w))"
    using hashes(2) by (simp add: insert_audit_event_exec [OF False] snoc chain_tip_def)
  moreover have "\<forall>r\<in>set (w_audit_events w). a_sequence r = None \<or> the (a_sequence r) \<le> w_chain_sequence w"
    using rem by (simp add: chain_remembered_def list_all_iff)
  ultimately show ?thesis
    using hashes(3) by (auto simp: chain_ok_def chain_remembered_def insert_audit_event_exec [OF False] list_all_iff)
qed

lemma insert_numbers: "unnumbered (w_audit_events (exec (insert_audit_event E e) w)) = unnumbered (w_audit_events w)"
  by (cases "w_faults w (w_stmts w)")
    (simp_all add: insert_audit_event_fails insert_audit_event_exec unnumbered_def event_row_def)

lemma stamps_roundtrip_demo: "stamps_roundtrip demo_app"
  by (simp add: stamps_roundtrip_def demo_app_def)

definition demo_event :: new_audit_event where
  "demo_event =
     \<lparr>e_actor_user_id = Some ''1'', e_actor_user_code = None, e_actor_role = None,
      e_action = ''AUTH_LOGOUT'', e_request_id = ''r'', e_case_reference = None,
      e_resource_type = None, e_resource_id = None, e_result = ''success'', e_source = None,
      e_ip_address = None, e_user_agent = None, e_metadata = None, e_organization_id = None,
      e_organization_unit_id = None\<rparr>"

section \<open>What the verification detects\<close>

definition chain_payloads :: "app \<Rightarrow> audit_event_row list \<Rightarrow> string set" where
  "chain_payloads E t = (\<lambda>r. row_payload E (prev_hash r) r) ` set (chained_rows t)"

lemma intact_linked: "cr_intact (chain_report_of E t) \<Longrightarrow> audit_chain.linked E GENESIS_HASH (chained_rows t)"
  by (simp add: chain_report_of_def Let_def check_rows_intact)

text \<open>
  C11. Tamper evidence. Take two states of the audit table that both verify as intact and end in
  the same event hash (kept elsewhere as an anchor), with a hash that has no collision on the
  canonical texts in the two tables and does not hit the genesis value. Then both tables hold the
  same hashed fields, row by row: no row was altered, inserted, removed or reordered.
\<close>
theorem intact_chains_with_same_tip_agree:
  assumes "cr_intact (chain_report_of E t)" and "cr_intact (chain_report_of E t')"
    and "chain_tip t = chain_tip t'" and "list_all (wf_row E) (t @ t')"
    and "inj_on (sha256_hex E) (chain_payloads E t \<union> chain_payloads E t')"
    and "GENESIS_HASH \<notin> sha256_hex E ` (chain_payloads E t \<union> chain_payloads E t')"
  shows "map (hashed_fields E) (chained_rows t) = map (hashed_fields E) (chained_rows t')"
proof (rule audit_chain.same_tip_same_fields)
  show "audit_chain.linked E GENESIS_HASH (chained_rows t)"
    "audit_chain.linked E GENESIS_HASH (chained_rows t')"
    using assms(1,2) by (auto intro: intact_linked)
  show "hash_chain.tip own_hash GENESIS_HASH (chained_rows t) = hash_chain.tip own_hash GENESIS_HASH (chained_rows t')"
    using assms(3) by (simp add: chain_tip_def audit_chain.tip_def)
  show "\<forall>r\<in>set (chained_rows t) \<union> set (chained_rows t'). wf_row E r"
    using assms(4) by (auto simp: list_all_iff set_chained_rows)
qed (use assms(5,6) in \<open>simp_all add: chain_payloads_def audit_chain.payloads_def\<close>)

lemma inj_demo_sha: "sha256_hex demo_app s = s"
  by (simp add: sha256_hex_def demo_app_def demo_text_bytes)

lemma chained_rows_single: "a_sequence r \<noteq> None \<Longrightarrow> chained_rows [r] = [r]"
  by (simp add: chained_rows_def)

definition demo_audit_row :: audit_event_row where
  "demo_audit_row = event_row demo_app ''u'' 0 1 GENESIS_HASH demo_event"

theorem intact_chains_with_same_tip_agree_witness:
  "map (hashed_fields demo_app) (chained_rows [demo_audit_row]) =
   map (hashed_fields demo_app) (chained_rows [demo_audit_row\<lparr>a_organization_id := Some ''o''\<rparr>])"
proof (rule intact_chains_with_same_tip_agree)
  have be: "x_backend demo_app = Sqlite" by (simp add: demo_app_def)
  have st: "x_parse_instant demo_app (canonical_timestamp demo_app 0) = Some 0"
    by (simp add: demo_app_def canonical_timestamp_def)
  have ch: "chained_rows [demo_audit_row] = [demo_audit_row]"
    "chained_rows [demo_audit_row\<lparr>a_organization_id := Some ''o''\<rparr>]
       = [demo_audit_row\<lparr>a_organization_id := Some ''o''\<rparr>]"
    by (simp_all add: chained_rows_single demo_audit_row_def event_row_def)
  have ev: "event_of_row demo_audit_row = demo_event"
    by (simp add: demo_audit_row_def event_of_event_row be)
  have cf: "canonical_fields demo_app t (event_of_row (demo_audit_row\<lparr>a_organization_id := Some ''o''\<rparr>))
      = canonical_fields demo_app t demo_event" for t
    unfolding ev [symmetric] by (simp add: canonical_fields_def event_of_row_def)
  have ts: "a_timestamp demo_audit_row = canonical_timestamp demo_app 0"
    "prev_hash demo_audit_row = GENESIS_HASH"
    "own_hash demo_audit_row = join SEP (GENESIS_HASH # canonical_fields demo_app 0 demo_event)"
    by (simp_all add: demo_audit_row_def event_row_def prev_hash_def own_hash_def or_empty_def
        inj_demo_sha canonical_event_string_def)
  have hf: "hashed_fields demo_app demo_audit_row = canonical_fields demo_app 0 demo_event"
    "hashed_fields demo_app (demo_audit_row\<lparr>a_organization_id := Some ''o''\<rparr>) = canonical_fields demo_app 0 demo_event"
    by (simp_all add: hashed_fields_def row_instant_def ts st cf ev)
  have o: "prev_hash (demo_audit_row\<lparr>a_organization_id := Some ''o''\<rparr>) = prev_hash demo_audit_row"
    "own_hash (demo_audit_row\<lparr>a_organization_id := Some ''o''\<rparr>) = own_hash demo_audit_row"
    by (simp_all add: prev_hash_def own_hash_def)
  have pay: "chain_payloads demo_app [demo_audit_row] = {own_hash demo_audit_row}"
    "chain_payloads demo_app [demo_audit_row\<lparr>a_organization_id := Some ''o''\<rparr>] = {own_hash demo_audit_row}"
    by (simp_all add: chain_payloads_def ch row_payload_def hf o ts)
  have fs: "canonical_fields demo_app 0 demo_event =
     [''+'', ''1'', [], [], ''AUTH_LOGOUT'', ''r'', [], [], [], ''success'', [], [], [], []]"
    by (simp add: canonical_fields_def canonical_timestamp_def demo_event_def or_empty_def demo_app_def)
  show "cr_intact (chain_report_of demo_app [demo_audit_row])"
    "cr_intact (chain_report_of demo_app [demo_audit_row\<lparr>a_organization_id := Some ''o''\<rparr>])"
    by (simp_all add: chain_report_of_def Let_def ch check_rows_intact ts st o row_payload_def hf inj_demo_sha)
  show "chain_tip [demo_audit_row] = chain_tip [demo_audit_row\<lparr>a_organization_id := Some ''o''\<rparr>]"
    by (simp add: chain_tip_def ch o)
  show "list_all (wf_row demo_app) ([demo_audit_row] @ [demo_audit_row\<lparr>a_organization_id := Some ''o''\<rparr>])"
    by (simp add: wf_row_def ts st hf fs SEP_def)
  show "inj_on (sha256_hex demo_app) (chain_payloads demo_app [demo_audit_row] \<union>
      chain_payloads demo_app [demo_audit_row\<lparr>a_organization_id := Some ''o''\<rparr>])"
    by (simp add: pay)
  show "GENESIS_HASH \<notin> sha256_hex demo_app ` (chain_payloads demo_app [demo_audit_row] \<union>
      chain_payloads demo_app [demo_audit_row\<lparr>a_organization_id := Some ''o''\<rparr>])"
    by (auto simp: pay inj_demo_sha ts fs GENESIS_HASH_def dest: arg_cong [where f = length])
qed

lemma chained_rows_take: "chained_rows (take n (chained_rows t)) = take n (chained_rows t)"
proof -
  have all: "filter (\<lambda>r. a_sequence r \<noteq> None) (take n (chained_rows t)) = take n (chained_rows t)"
    by (auto simp: filter_id_conv set_chained_rows dest: in_set_takeD)
  have "sorted (map (\<lambda>r. the (a_sequence r)) (chained_rows t))"
    by (simp add: chained_rows_def)
  then have "sorted (map (\<lambda>r. the (a_sequence r)) (take n (chained_rows t)))"
    by (simp add: take_map [symmetric] sorted_wrt_take)
  then show ?thesis unfolding chained_rows_def [of "take n (chained_rows t)"] all by (rule sort_key_sorted)
qed

text \<open>
  What the verification does not detect: with an intact table, deleting any number of the
  newest rows, or rewriting the organization of every row at will, still verifies as intact.
\<close>
theorem truncation_and_organization_go_unnoticed:
  assumes "cr_intact (chain_report_of E t)"
  shows "cr_intact (chain_report_of E (take n (chained_rows t)))
     \<and> cr_intact (chain_report_of E (map (\<lambda>r. r\<lparr>a_organization_id := org r\<rparr>) (chained_rows t)))"
proof
  have link: "check_rows E GENESIS_HASH (chained_rows t) = []"
    using assms by (simp add: chain_report_of_def Let_def)
  then have "check_rows E GENESIS_HASH (take n (chained_rows t)) = []"
    by (auto simp: check_rows_intact audit_chain.linked_take dest: in_set_takeD)
  then show "cr_intact (chain_report_of E (take n (chained_rows t)))"
    by (simp add: chain_report_of_def Let_def chained_rows_take)
  let ?m = "map (\<lambda>r. r\<lparr>a_organization_id := org r\<rparr>)"
  have "check_rows E g (?m rs) = check_rows E g rs" for g rs
    by (induction rs arbitrary: g)
      (simp_all add: Let_def canonical_event_string_def canonical_fields_def event_of_row_def split: option.split)
  moreover have "chained_rows (?m (chained_rows t)) = ?m (chained_rows t)"
  proof -
    have all: "filter (\<lambda>r. a_sequence r \<noteq> None) (?m (chained_rows t)) = ?m (chained_rows t)"
      by (auto simp: filter_id_conv set_chained_rows)
    have seq: "map (\<lambda>r. the (a_sequence r)) (?m (chained_rows t)) = map (\<lambda>r. the (a_sequence r)) (chained_rows t)"
      by simp
    have "sorted (map (\<lambda>r. the (a_sequence r)) (?m (chained_rows t)))"
      unfolding seq by (simp add: chained_rows_def)
    then show ?thesis unfolding chained_rows_def [of "?m (chained_rows t)"] all by (rule sort_key_sorted)
  qed
  ultimately show "cr_intact (chain_report_of E (?m (chained_rows t)))"
    using link by (simp add: chain_report_of_def Let_def)
qed

theorem truncation_and_organization_go_unnoticed_witness:
  "cr_intact (chain_report_of demo_app (take 3 (chained_rows [])))"
  using truncation_and_organization_go_unnoticed [of demo_app "[]" 3 "\<lambda>r. None"]
  by (simp add: chain_report_of_def chained_rows_def Let_def)

lemma metadata_last: "canonical_event_string E h t e =
    join SEP ((h # butlast (canonical_fields E t e)) @ [[]]) @ or_empty (e_metadata e)"
proof -
  have "canonical_fields E t e = butlast (canonical_fields E t e) @ [or_empty (e_metadata e)]"
    by (simp add: canonical_fields_def)
  then have "h # canonical_fields E t e = (h # butlast (canonical_fields E t e)) @ [or_empty (e_metadata e)]"
    by simp
  then show ?thesis unfolding canonical_event_string_def by (metis join_last)
qed

lemma canonical_metadata_inj:
  assumes "canonical_event_string E h t e = canonical_event_string E h t (e\<lparr>e_metadata := m\<rparr>)"
  shows "or_empty (e_metadata e) = or_empty m"
proof -
  have "butlast (canonical_fields E t (e\<lparr>e_metadata := m\<rparr>)) = butlast (canonical_fields E t e)"
    by (simp add: canonical_fields_def)
  with assms show ?thesis unfolding metadata_last by simp
qed

lemma linked_row: "audit_chain.linked E g rs \<Longrightarrow> r \<in> set rs \<Longrightarrow> own_hash r = sha256_hex E (row_payload E (prev_hash r) r)"
  by (induction rs arbitrary: g) auto

text \<open>
  C37. On PostgreSQL the chain raises false alarms. The hash of an event with metadata covers the
  JSON text the server produced, but the column is \<open>jsonb\<close>, which prints the object in its own
  format when the verification reads it back. If those two texts differ (they do for every
  non-empty object, whose members \<open>jsonb\<close> separates with spaces), then right after a successful
  insert, with nobody touching the table, the verification reports a break.
\<close>
theorem postgres_metadata_breaks_the_chain:
  assumes "x_backend E = Postgres" and "healthy w" and "e_metadata e = Some m" and "x_jsonb_text E m \<noteq> m"
    and "stored_uuid E (e_actor_user_id e) = e_actor_user_id e" and "stamps_roundtrip E"
    and "inj_on (sha256_hex E) (canonical_event_string E (w_chain_hash w) (trunc_micros (w_now w)) `
           {e, e\<lparr>e_metadata := Some (x_jsonb_text E m)\<rparr>})"
  shows "\<not> cr_intact (chain_report_of E (w_audit_events (exec (insert_audit_event E e) w)))"
proof
  let ?t = "trunc_micros (w_now w)"
  let ?r = "event_row E (x_uuid_v4 E (w_draws w)) ?t (w_chain_sequence w + 1) (w_chain_hash w) e"
  let ?e = "e\<lparr>e_metadata := Some (x_jsonb_text E m)\<rparr>"
  let ?rows = "w_audit_events (exec (insert_audit_event E e) w)"
  assume intact: "cr_intact (chain_report_of E ?rows)"
  have nf: "\<not> w_faults w (w_stmts w)" using assms(2) by simp
  have "?r \<in> set (chained_rows ?rows)"
    by (simp add: set_chained_rows insert_audit_event_exec [OF nf]) (simp add: event_row_def)
  with intact_linked [OF intact] have own: "own_hash ?r = sha256_hex E (row_payload E (prev_hash ?r) ?r)"
    by (rule linked_row)
  have stamp: "row_instant E ?r = ?t"
    using assms(6) by (simp add: row_instant_def event_row_def canonical_timestamp_def stamps_roundtrip_def)
  have "canonical_fields E ?t (event_of_row ?r) = canonical_fields E ?t ?e"
    using assms(1,3,5) by (simp add: canonical_fields_def event_of_row_def event_row_def stored_json_def)
  then have pay: "row_payload E (prev_hash ?r) ?r = canonical_event_string E (w_chain_hash w) ?t ?e"
    by (simp add: row_payload_def hashed_fields_def stamp canonical_event_string_def)
      (simp add: prev_hash_def or_empty_def event_row_def)
  have "own_hash ?r = sha256_hex E (canonical_event_string E (w_chain_hash w) ?t e)"
    by (simp add: own_hash_def or_empty_def event_row_def)
  with own pay have "sha256_hex E (canonical_event_string E (w_chain_hash w) ?t e)
      = sha256_hex E (canonical_event_string E (w_chain_hash w) ?t ?e)"
    by (simp only:)
  then have "canonical_event_string E (w_chain_hash w) ?t e = canonical_event_string E (w_chain_hash w) ?t ?e"
    by (rule inj_onD [OF assms(7)]) simp_all
  then show False
    using assms(3,4) canonical_metadata_inj by (fastforce simp: or_empty_def)
qed

definition demo_postgres :: app where
  "demo_postgres = demo_app\<lparr>x_backend := Postgres, x_jsonb_text := (\<lambda>s. CHR '' '' # s)\<rparr>"

theorem postgres_metadata_breaks_the_chain_witness:
  "\<not> cr_intact (chain_report_of demo_postgres (w_audit_events
     (exec (insert_audit_event demo_postgres (demo_event\<lparr>e_metadata := Some ''{}''\<rparr>)) demo_world)))"
proof (rule postgres_metadata_breaks_the_chain)
  have "sha256_hex demo_postgres s = s" for s
    using inj_demo_sha [of s] by (simp add: sha256_hex_def demo_postgres_def)
  then show "inj_on (sha256_hex demo_postgres) S" for S by (simp add: inj_on_def)
  show "stamps_roundtrip demo_postgres"
    using stamps_roundtrip_demo by (simp add: stamps_roundtrip_def demo_postgres_def)
  show "x_backend demo_postgres = Postgres" "x_jsonb_text demo_postgres ''{}'' \<noteq> ''{}''"
    by (simp_all add: demo_postgres_def)
  show "stored_uuid demo_postgres (e_actor_user_id (demo_event\<lparr>e_metadata := Some ''{}''\<rparr>))
      = e_actor_user_id (demo_event\<lparr>e_metadata := Some ''{}''\<rparr>)"
    by (simp add: stored_uuid_def demo_event_def db_key_def demo_postgres_def demo_app_def)
qed simp_all

end
