(* ===== verification/Audit_Trail.thy ===== *)
theory Audit_Trail
  imports Auth_Tokens Db_Audit
begin

text \<open>
  \<open>server/src/audit.rs\<close>: the recorder every handler writes audit events through, and the two
  routes that read the trail. \<open>save\<close> swallows a failed write, \<open>save_mandatory\<close> reports it.
\<close>

section \<open>The recorder\<close>

record recorder =
  ar_action :: string
  ar_result :: string
  ar_request_id :: string
  ar_actor_user_id :: "string option"
  ar_actor_user_code :: "string option"
  ar_actor_role :: "string option"
  ar_case_reference :: "string option"
  ar_resource_type :: "string option"
  ar_resource_id :: "string option"
  ar_source :: "string option"
  ar_ip_address :: "string option"
  ar_user_agent :: "string option"
  ar_metadata :: "json option"

definition recorder_new :: "string \<Rightarrow> string \<Rightarrow> string \<Rightarrow> recorder" where
  "recorder_new action outcome rid =
     \<lparr>ar_action = action, ar_result = outcome, ar_request_id = rid, ar_actor_user_id = None,
      ar_actor_user_code = None, ar_actor_role = None, ar_case_reference = None,
      ar_resource_type = None, ar_resource_id = None, ar_source = Some ''api'',
      ar_ip_address = None, ar_user_agent = None, ar_metadata = None\<rparr>"

definition by_id :: "string \<Rightarrow> string \<Rightarrow> string \<Rightarrow> recorder \<Rightarrow> recorder" where
  "by_id user_id user_code role r =
     r\<lparr>ar_actor_user_id := Some user_id, ar_actor_user_code := Some user_code, ar_actor_role := Some role\<rparr>"

definition actor :: "claims \<Rightarrow> recorder \<Rightarrow> recorder" where
  "actor claims r = r\<lparr>ar_actor_user_id := Some (cl_id claims),
     ar_actor_user_code := Some (cl_user_code claims), ar_actor_role := Some (cl_role claims)\<rparr>"

definition actor_opt :: "claims option \<Rightarrow> recorder \<Rightarrow> recorder" where
  "actor_opt c r = (case c of None \<Rightarrow> r | Some claims \<Rightarrow> actor claims r)"

definition from_headers :: "app \<Rightarrow> header_map \<Rightarrow> recorder \<Rightarrow> recorder" where
  "from_headers E headers r =
     r\<lparr>ar_ip_address := client_ip E headers, ar_user_agent := user_agent headers\<rparr>"

definition on_case :: "string \<Rightarrow> recorder \<Rightarrow> recorder" where
  "on_case v r = r\<lparr>ar_case_reference := Some v\<rparr>"

definition on_resource :: "string \<Rightarrow> string \<Rightarrow> recorder \<Rightarrow> recorder" where
  "on_resource ty i r = r\<lparr>ar_resource_type := Some ty, ar_resource_id := Some i\<rparr>"

definition with_metadata :: "json \<Rightarrow> recorder \<Rightarrow> recorder" where
  "with_metadata j r = r\<lparr>ar_metadata := Some j\<rparr>"

definition to_new_event :: "app \<Rightarrow> recorder \<Rightarrow> string option \<Rightarrow> new_audit_event" where
  "to_new_event E r organization_id =
     \<lparr>e_actor_user_id = ar_actor_user_id r, e_actor_user_code = ar_actor_user_code r,
      e_actor_role = ar_actor_role r, e_action = ar_action r, e_request_id = ar_request_id r,
      e_case_reference = ar_case_reference r, e_resource_type = ar_resource_type r,
      e_resource_id = ar_resource_id r, e_result = ar_result r, e_source = ar_source r,
      e_ip_address = ar_ip_address r, e_user_agent = ar_user_agent r,
      e_metadata = map_option (x_json_text E) (ar_metadata r),
      e_organization_id = organization_id, e_organization_unit_id = None\<rparr>"

definition resolve_organization_id :: "app \<Rightarrow> recorder \<Rightarrow> string option handler" where
  "resolve_organization_id E r =
     (case ar_actor_user_id r of
        None \<Rightarrow> return None
      | Some actor_user_id \<Rightarrow> do {
          p \<leftarrow> primary_organization_id E actor_user_id;
          return (case p of Inl _ \<Rightarrow> None | Inr org \<Rightarrow> org)
        })"

definition save :: "app \<Rightarrow> recorder \<Rightarrow> unit handler" where
  "save E r = do {
     org \<leftarrow> resolve_organization_id E r;
     _ \<leftarrow> insert_audit_event E (to_new_event E r org);
     return ()
   }"

definition save_mandatory :: "app \<Rightarrow> recorder \<Rightarrow> (api_error + unit) handler" where
  "save_mandatory E r = do {
     org \<leftarrow> resolve_organization_id E r;
     i \<leftarrow> insert_audit_event E (to_new_event E r org);
     return (case i of
       Inl _ \<Rightarrow> Inl (api_error_new ''AUDIT_WRITE_FAILED'' ''errors.auditWriteFailed'' [])
     | Inr _ \<Rightarrow> Inr ())
   }"

lemma save_grows: "w_stmts w \<le> w_stmts (exec (save E r) w)"
proof -
  have "w_stmts v \<le> w_stmts (exec (user_organization_ids E u) v)" for u v
    unfolding user_organization_ids_def by (intro grows_stmts)
  then have "w_stmts v \<le> w_stmts (exec (resolve_organization_id E r) v)" for v
    by (simp add: resolve_organization_id_def primary_organization_id_def exec_bind split: option.split sum.split)
  moreover have "w_stmts v \<le> w_stmts (exec (insert_audit_event E e) v)" for e v
    unfolding insert_audit_event_def Let_def by (intro grows_stmts) simp
  ultimately show ?thesis by (auto simp: save_def exec_bind intro: order_trans)
qed

text \<open>\<open>err.request_id = rid; err.into_response()\<close>.\<close>

definition fail_with :: "api_error \<Rightarrow> string \<Rightarrow> response" where
  "fail_with err rid = into_response (err\<lparr>ae_request_id := rid\<rparr>)"

lemma fail_with_simps [simp]: "r_status (fail_with err rid) = status_code (ae_code err)"
  "r_set_cookie (fail_with err rid) = None"
  by (simp_all add: fail_with_def into_response_def)

section \<open>Frames\<close>

definition blind_audit :: "(world \<Rightarrow> 'b) \<Rightarrow> bool" where
  [simp]: "blind_audit f \<longleftrightarrow> blind_base f \<and> blind w_audit_events_update f
     \<and> blind w_chain_sequence_update f \<and> blind w_chain_hash_update f"

lemma save_frames [frame_intros]:
  "blind_base f \<Longrightarrow> preserves f (resolve_organization_id E r)"
  "blind_audit f \<Longrightarrow> preserves f (save E r)"
  "blind_audit f \<Longrightarrow> preserves f (save_mandatory E r)"
  unfolding save_def save_mandatory_def resolve_organization_id_def by (intro frame_intros; simp)+

section \<open>The audit trail is append-only\<close>

lemma grows_insert_audit_event [grow_intros]: "grows w_audit_events (insert_audit_event E e)"
  by (simp add: grows_def insert_audit_event_def exec_def run_stmt Let_def)

lemma grows_save [grow_intros]: "grows w_audit_events (save E r)"
  unfolding save_def resolve_organization_id_def
  by (intro grow_intros grows_of_preserves [OF org_query_frames(4)]) simp

lemma grows_save_mandatory [grow_intros]: "grows w_audit_events (save_mandatory E r)"
  unfolding save_mandatory_def resolve_organization_id_def
  by (intro grow_intros grows_of_preserves [OF org_query_frames(4)]) simp

section \<open>Routes\<close>

definition DEFAULT_PAGE_SIZE :: int where "DEFAULT_PAGE_SIZE = 50"
definition MAX_PAGE_SIZE :: int where "MAX_PAGE_SIZE = 200"

record audit_query =
  aq_date_from :: "string option"
  aq_date_to :: "string option"
  aq_actor :: "string option"
  aq_action :: "string option"
  aq_case_reference :: "string option"
  aq_resource_type :: "string option"
  aq_result :: "string option"
  aq_page :: "int option"
  aq_page_size :: "int option"

definition json_int_opt :: "int option \<Rightarrow> json" where
  "json_int_opt v = (case v of None \<Rightarrow> JNull | Some i \<Rightarrow> JInt i)"

definition audit_event_json :: "app \<Rightarrow> audit_event_row \<Rightarrow> json" where
  "audit_event_json E r = JObj
     [(''id'', JStr (a_id r)), (''timestamp'', JStr (a_timestamp r)),
      (''actorUserId'', json_opt (a_actor_user_id r)), (''actorUserCode'', json_opt (a_actor_user_code r)),
      (''actorRole'', json_opt (a_actor_role r)), (''action'', JStr (a_action r)),
      (''requestId'', JStr (a_request_id r)), (''caseReference'', json_opt (a_case_reference r)),
      (''resourceType'', json_opt (a_resource_type r)), (''resourceId'', json_opt (a_resource_id r)),
      (''result'', JStr (a_result r)), (''source'', json_opt (a_source r)),
      (''ipAddress'', json_opt (a_ip_address r)), (''userAgent'', json_opt (a_user_agent r)),
      (''metadata'', (case Option.bind (a_metadata r) (x_json_parse E) of None \<Rightarrow> JNull | Some j \<Rightarrow> j)),
      (''organizationId'', json_opt (a_organization_id r)),
      (''organizationUnitId'', json_opt (a_organization_unit_id r)),
      (''sequence'', json_int_opt (a_sequence r)),
      (''previousHash'', json_opt (a_previous_hash r)), (''eventHash'', json_opt (a_event_hash r))]"

definition reason_text :: "break_reason \<Rightarrow> string" where
  "reason_text b = (case b of
      PreviousHashMismatch \<Rightarrow> ''previous_hash does not match the prior event's event_hash''
    | TimestampNotParseable \<Rightarrow> ''stored timestamp is not parseable''
    | EventHashMismatch \<Rightarrow> ''event_hash does not match this row's own recomputed fields'')"

definition break_json :: "chain_break \<Rightarrow> json" where
  "break_json b = JObj [(''sequence'', JInt (cb_sequence b)), (''eventId'', JStr (cb_event_id b)),
     (''reason'', JStr (reason_text (cb_reason b)))]"

definition verify_audit_integrity_route :: "app \<Rightarrow> header_map \<Rightarrow> response handler" where
  "verify_audit_integrity_route E headers = do {
     rid \<leftarrow> request_id E headers;
     ok \<leftarrow> require_role E headers can_view_audit_log;
     if \<not> ok then return (api_err ''FORBIDDEN'' ''errors.forbidden'' rid)
     else do {
       v \<leftarrow> verify_chain E;
       case v of
         Inr report \<Rightarrow> return (ok_json (JObj
           [(''eventsChecked'', JInt (int (cr_events_checked report))),
            (''intact'', JBool (cr_intact report)),
            (''breaks'', JArr (map break_json (cr_breaks report)))]))
       | Inl _ \<Rightarrow> return (api_err ''INTERNAL_ERROR'' ''errors.internal'' rid)
     }
   }"

text \<open>
  The organizations a caller's view is limited to: none for a \<open>SYSTEM_ADMIN\<close>, the memberships
  otherwise. A failed lookup is \<open>.ok()\<close>, that is no limit at all.
\<close>

definition org_scope_of :: "app \<Rightarrow> claims \<Rightarrow> string list option handler" where
  "org_scope_of E claims =
     (if cl_role claims = SYSTEM_ADMIN then return None
      else do {
        ids \<leftarrow> user_organization_ids E (cl_id claims);
        return (case ids of Inl _ \<Rightarrow> None | Inr xs \<Rightarrow> Some xs)
      })"

definition list_audit_events_route :: "app \<Rightarrow> header_map \<Rightarrow> audit_query \<Rightarrow> response handler" where
  "list_audit_events_route E headers qry = do {
     rid \<leftarrow> request_id E headers;
     c \<leftarrow> auth_user_from_headers E headers;
     case c of
       None \<Rightarrow> return (api_err ''FORBIDDEN'' ''errors.forbidden'' rid)
     | Some claims \<Rightarrow>
         if \<not> can_view_audit_log (cl_role claims)
         then return (api_err ''FORBIDDEN'' ''errors.forbidden'' rid)
         else
           let date_from = Option.bind (aq_date_from qry) (x_parse_instant E);
               date_to = Option.bind (aq_date_to qry) (x_parse_instant E)
           in if (aq_date_from qry \<noteq> None \<and> date_from = None) \<or> (aq_date_to qry \<noteq> None \<and> date_to = None)
              then return (api_err ''VALIDATION_ERROR'' ''errors.validation'' rid)
              else do {
                org_scope \<leftarrow> org_scope_of E claims;
                let flt = \<lparr>f_date_from = date_from, f_date_to = date_to,
                   f_actor_user_id = aq_actor qry, f_action = aq_action qry,
                   f_case_reference = aq_case_reference qry, f_resource_type = aq_resource_type qry,
                   f_result = aq_result qry, f_org_scope = org_scope\<rparr>;
                let page = max (case aq_page qry of None \<Rightarrow> 1 | Some p \<Rightarrow> p) 1;
                let page_size = clamp 1 MAX_PAGE_SIZE
                   (case aq_page_size qry of None \<Rightarrow> DEFAULT_PAGE_SIZE | Some n \<Rightarrow> n);
                l \<leftarrow> list_audit_events E flt page page_size;
                case l of
                  Inr (rows, n) \<Rightarrow> return (ok_json (JObj
                    [(''items'', JArr (map (audit_event_json E) rows)), (''page'', JInt page),
                     (''pageSize'', JInt page_size), (''total'', JInt (int n))]))
                | Inl _ \<Rightarrow> return (api_err ''INTERNAL_ERROR'' ''errors.internal'' rid)
              }
   }"

lemma audit_route_frames [frame_intros]:
  "blind_base f \<Longrightarrow> preserves f (org_scope_of E c)"
  "blind_base f \<Longrightarrow> preserves f (verify_audit_integrity_route E h)"
  "blind_base f \<Longrightarrow> preserves f (list_audit_events_route E h q)"
  unfolding org_scope_of_def verify_audit_integrity_route_def list_audit_events_route_def Let_def
  by (intro frame_intros; simp)+

section \<open>What the routes promise\<close>

lemma result_request_id_irrelevant: "w_faults (exec (request_id E h) w) = w_faults w"
  "w_stmts (exec (request_id E h) w) = w_stmts w" "w_now (exec (request_id E h) w) = w_now w"
  "w_memberships (exec (request_id E h) w) = w_memberships w"
  "w_audit_events (exec (request_id E h) w) = w_audit_events w"
  "w_audit_events (exec (request_id E h) w) = w_audit_events w"
  by (rule preservesD, rule preserves_request_id, simp)+

text \<open>
  C12. A mandatory audit write is honest: it reports success exactly when a row with the recorded
  action, result and request id was appended, and otherwise reports \<open>AUDIT_WRITE_FAILED\<close> and
  leaves the trail as it was.
\<close>
theorem mandatory_audit_is_honest:
  "wp (save_mandatory E r) (\<lambda>res w'. case res of
       Inr _ \<Rightarrow> (\<exists>row. w_audit_events w' = w_audit_events w @ [row] \<and> a_action row = ar_action r
                \<and> a_result row = ar_result r \<and> a_request_id row = ar_request_id r)
     | Inl e \<Rightarrow> w_audit_events w' = w_audit_events w \<and> ae_code e = ''AUDIT_WRITE_FAILED'') w"
proof -
  have org: "w_audit_events (exec (resolve_organization_id E r) w) = w_audit_events w"
    by (rule preservesD, intro frame_intros) simp
  have ins: "wp (insert_audit_event E (to_new_event E r x)) (\<lambda>i w'. case i of
       Inr _ \<Rightarrow> (\<exists>row. w_audit_events w' = w_audit_events v @ [row] \<and> a_action row = ar_action r
                \<and> a_result row = ar_result r \<and> a_request_id row = ar_request_id r)
     | Inl e \<Rightarrow> w_audit_events w' = w_audit_events v) v" for x v
    by (simp add: insert_audit_event_def wp_simps Let_def event_row_def to_new_event_def)
  show ?thesis
    unfolding save_mandatory_def wp_bind
    unfolding wp_def [of "resolve_organization_id E r"]
    by (rule wp_mono [OF ins]) (auto simp: wp_simps org api_error_new_def split: sum.splits)
qed

definition listed_items :: "response \<Rightarrow> json option" where
  "listed_items r = (case r_body r of
      JsonBody (JObj ((k, j) # _)) \<Rightarrow> if k = ''items'' then Some j else None | _ \<Rightarrow> None)"

lemma list_audit_events_result: "result (list_audit_events E f p n) w =
    (if w_faults w (w_stmts w) \<or> w_faults w (Suc (w_stmts w)) then Inl DbFailure
     else Inr (sql_page (clamp 1 200 n) ((max p 1 - 1) * clamp 1 200 n)
        (sort_key (\<lambda>r. - row_instant E r) (filter (filter_matches E f) (w_audit_events w))),
      sql_count (filter_matches E f) (w_audit_events w)))"
  by (simp add: list_audit_events_def Let_def result_bind result_query exec_def run_query)

lemma set_sql_page: "r \<in> set (sql_page n m t) \<Longrightarrow> r \<in> set t"
  by (auto simp: sql_page_def dest: in_set_takeD in_set_dropD)

text \<open>The organizations of the caller, as the memberships have them.\<close>

definition own_organizations :: "app \<Rightarrow> claims \<Rightarrow> world \<Rightarrow> string list" where
  "own_organizations E claims w = (case db_key E (cl_id claims) of None \<Rightarrow> []
     | Some k \<Rightarrow> map mb_organization_id (filter (\<lambda>r. mb_user_id r = k) (w_memberships w)))"

text \<open>
  C35. Who sees which audit events. A listing is only given to a caller whose valid access token
  carries one of the three roles that may view the trail. Whatever the filter, a system administrator
  is shown stored events of any organization; everybody else only stored events of the organizations
  of their own memberships and events that belong to no organization, which everybody is shown. This
  needs that the first statement of the request, the lookup of the memberships, does not fail - without it
  the listing is not limited - and on PostgreSQL that the ids in stored memberships are canonical UUIDs.
\<close>
theorem audit_listing_is_scoped:
  assumes ids: "list_all (\<lambda>r. canonical_id E (mb_organization_id r)) (w_memberships w)"
    and lookup: "\<not> w_faults w (w_stmts w)"
    and listed: "listed_items (result (list_audit_events_route E h q) w) = Some items"
  shows "\<exists>claims rows. result (auth_user_from_headers E h) w = Some claims
     \<and> cl_role claims \<in> {SYSTEM_ADMIN, SECURITY_ADMIN, AUDITOR} \<and> items = JArr (map (audit_event_json E) rows)
     \<and> list_all (\<lambda>r. r \<in> set (w_audit_events w)
          \<and> (cl_role claims = SYSTEM_ADMIN \<or> a_organization_id r = None
              \<or> a_organization_id r \<in> Some ` set (own_organizations E claims w))) rows"
proof -
  let ?w = "exec (request_id E h) w"
  note pre = result_request_id_irrelevant [of E h w]
  obtain claims where c: "result (auth_user_from_headers E h) w = Some claims"
    and view: "can_view_audit_log (cl_role claims)"
    using listed pre
    by (auto simp: list_audit_events_route_def result_bind auth_user_run listed_items_def Let_def
        split: option.splits if_splits)
  let ?scope = "result (org_scope_of E claims) ?w" and ?v = "exec (org_scope_of E claims) ?w"
  have v: "w_audit_events ?v = w_audit_events w"
    using preservesD [OF audit_route_frames(1), of w_audit_events E claims ?w] pre by simp
  have scope: "?scope = (if cl_role claims = SYSTEM_ADMIN then None else Some (own_organizations E claims w))"
    using pre lookup
    by (simp add: org_scope_of_def result_bind user_organization_ids_def result_with_key result_query own_organizations_def
        split: option.split)
  obtain f p n rows cnt where l: "result (list_audit_events E f p n) ?v = Inr (rows, cnt)"
    and items: "items = JArr (map (audit_event_json E) rows)" and f: "f_org_scope f = ?scope"
    using listed pre c view
    by (fastforce simp: list_audit_events_route_def result_bind auth_user_run listed_items_def Let_def
        split: option.splits if_splits sum.splits prod.splits)
  have shown: "r \<in> set (w_audit_events w) \<and> filter_matches E f r" if "r \<in> set rows" for r
    using that v l by (auto simp: list_audit_events_result dest!: set_sql_page split: if_splits)
  have own: "db_key E i = Some i" if "i \<in> set (own_organizations E claims w)" for i
    using that ids by (auto simp: own_organizations_def list_all_iff canonical_id_def split: option.splits)
  have "cl_role claims = SYSTEM_ADMIN \<or> a_organization_id r = None \<or> a_organization_id r \<in> Some ` set (own_organizations E claims w)"
    if "r \<in> set rows" for r
    using shown [OF that] f scope own by (auto simp: filter_matches_def split: if_splits)
  then show ?thesis using c view items shown
    by (intro exI [of _ claims] exI [of _ rows]) (auto simp: list_all_iff can_view_audit_log_def)
qed

definition any_event :: audit_query where
  "any_event = \<lparr>aq_date_from = None, aq_date_to = None, aq_actor = None, aq_action = None,
     aq_case_reference = None, aq_resource_type = None, aq_result = None, aq_page = None,
     aq_page_size = None\<rparr>"

lemma listing_of_any_event:
  assumes "result (auth_user_from_headers E h) w = Some claims" and "can_view_audit_log (cl_role claims)"
    and "result (org_scope_of E claims) (exec (request_id E h) w) = scope"
    and "\<not> w_faults w (w_stmts v)" and "\<not> w_faults w (Suc (w_stmts v))"
    and "v = exec (org_scope_of E claims) (exec (request_id E h) w)"
  shows "listed_items (result (list_audit_events_route E h any_event) w) = Some (JArr (map (audit_event_json E)
     (take 50 (sort_key (\<lambda>r. - row_instant E r) (filter (filter_matches E
        \<lparr>f_date_from = None, f_date_to = None, f_actor_user_id = None, f_action = None,
         f_case_reference = None, f_resource_type = None, f_result = None, f_org_scope = scope\<rparr>) (w_audit_events w))))))"
proof -
  have v: "w_faults v = w_faults w" "w_audit_events v = w_audit_events w"
    using preservesD [OF audit_route_frames(1), of w_faults E claims "exec (request_id E h) w"]
      preservesD [OF audit_route_frames(1), of w_audit_events E claims "exec (request_id E h) w"]
    by (simp_all add: assms(6) result_request_id_irrelevant)
  have a: "result (auth_user_from_headers E h) (exec (request_id E h) w) = Some claims"
    using assms(1) by (simp add: auth_user_run result_request_id_irrelevant)
  show ?thesis
    using assms(2,4,5) a v
    by (simp add: list_audit_events_route_def any_event_def result_bind auth_user_run(1) Let_def
        assms(3) assms(6) [symmetric] list_audit_events_result listed_items_def MAX_PAGE_SIZE_def
        DEFAULT_PAGE_SIZE_def sql_page_def)
qed

text \<open>An auditor of one organization: an event of it, one of none and one of another organization.\<close>

definition demo_trail :: world where
  "demo_trail = demo_world\<lparr>
     w_memberships := [\<lparr>mb_user_id = ''1'', mb_organization_id = ''own'', mb_organization_unit_id = None\<rparr>],
     w_audit_events := [demo_audit_row\<lparr>a_organization_id := Some ''own''\<rparr>, demo_audit_row\<lparr>a_organization_id := None\<rparr>,
       demo_audit_row\<lparr>a_organization_id := Some ''other''\<rparr>]\<rparr>"

lemma demo_trail_listed:
  "listed_items (result (list_audit_events_route (demo_as AUDITOR) demo_headers any_event) demo_trail) =
     Some (JArr (map (audit_event_json (demo_as AUDITOR))
       [demo_audit_row\<lparr>a_organization_id := Some ''own''\<rparr>, demo_audit_row\<lparr>a_organization_id := None\<rparr>]))"
proof -
  have auth: "result (auth_user_from_headers (demo_as AUDITOR) demo_headers) demo_trail = Some (demo_claims AUDITOR)"
    by simp
  have w: "\<not> w_faults demo_trail n" "w_stmts demo_trail = 0" for n by (simp_all add: demo_trail_def demo_world_def)
  have scope: "result (org_scope_of (demo_as AUDITOR) (demo_claims AUDITOR)) (exec (request_id (demo_as AUDITOR) demo_headers) demo_trail)
      = Some [''own'']"
    by (simp add: org_scope_of_def role_defs demo_claims_def result_bind user_organization_ids_def result_with_key
        db_key_sqlite result_query result_request_id_irrelevant w) (simp add: demo_trail_def)
  have sorted: "sort_key (\<lambda>r. - row_instant E r) [demo_audit_row\<lparr>a_organization_id := x\<rparr>, demo_audit_row\<lparr>a_organization_id := y\<rparr>]
      = [demo_audit_row\<lparr>a_organization_id := x\<rparr>, demo_audit_row\<lparr>a_organization_id := y\<rparr>]" for E x y
    by (simp add: row_instant_def)
  have kept: "filter (filter_matches (demo_as AUDITOR) \<lparr>f_date_from = None, f_date_to = None, f_actor_user_id = None, f_action = None,
         f_case_reference = None, f_resource_type = None, f_result = None, f_org_scope = Some [''own'']\<rparr>) (w_audit_events demo_trail)
      = [demo_audit_row\<lparr>a_organization_id := Some ''own''\<rparr>, demo_audit_row\<lparr>a_organization_id := None\<rparr>]"
    by (simp add: demo_trail_def filter_matches_def opt_matches_def stored_uuid_def db_key_sqlite)
  show ?thesis
    using listing_of_any_event [OF auth _ scope w(1) w(1) refl] unfolding kept sorted
    by (simp add: can_view_audit_log_def demo_claims_def)
qed

theorem audit_listing_is_scoped_witness:
  "\<exists>claims rows. result (auth_user_from_headers (demo_as AUDITOR) demo_headers) demo_trail = Some claims
     \<and> cl_role claims \<in> {SYSTEM_ADMIN, SECURITY_ADMIN, AUDITOR}
     \<and> JArr (map (audit_event_json (demo_as AUDITOR))
         [demo_audit_row\<lparr>a_organization_id := Some ''own''\<rparr>, demo_audit_row\<lparr>a_organization_id := None\<rparr>])
       = JArr (map (audit_event_json (demo_as AUDITOR)) rows)
     \<and> list_all (\<lambda>r. r \<in> set (w_audit_events demo_trail)
          \<and> (cl_role claims = SYSTEM_ADMIN \<or> a_organization_id r = None
              \<or> a_organization_id r \<in> Some ` set (own_organizations (demo_as AUDITOR) claims demo_trail))) rows"
  by (rule audit_listing_is_scoped [OF _ _ demo_trail_listed])
    (simp_all add: demo_trail_def demo_world_def canonical_sqlite)

text \<open>
  The listing fails open. If the lookup of an auditor's memberships fails while the statements
  after it succeed, the auditor is shown the events of every organization.
\<close>
theorem audit_listing_fails_open:
  assumes "result (auth_user_from_headers E h) w = Some claims" and "can_view_audit_log (cl_role claims)"
    and "cl_role claims \<noteq> SYSTEM_ADMIN" and "x_backend E = Sqlite"
    and "w_faults w = (\<lambda>n. n = w_stmts w)"
  shows "listed_items (result (list_audit_events_route E h any_event) w) =
     Some (JArr (map (audit_event_json E) (take 50 (sort_key (\<lambda>r. - row_instant E r) (w_audit_events w)))))"
proof -
  let ?w = "exec (request_id E h) w"
  have s: "result (org_scope_of E claims) ?w = None" "w_stmts (exec (org_scope_of E claims) ?w) = Suc (w_stmts w)"
    using assms(3,4,5)
    by (simp_all add: org_scope_of_def user_organization_ids_def with_key_def db_key_sqlite result_bind
        result_query exec_bind exec_def [of "query f" for f] run_query result_request_id_irrelevant)
  have all: "filter_matches E \<lparr>f_date_from = None, f_date_to = None, f_actor_user_id = None, f_action = None,
         f_case_reference = None, f_resource_type = None, f_result = None, f_org_scope = None\<rparr> r" for r
    by (simp add: filter_matches_def opt_matches_def stored_uuid_def)
  show ?thesis
    using listing_of_any_event [OF assms(1,2) s(1) _ _ refl] s(2) assms(5) by (simp add: all)
qed

theorem audit_listing_fails_open_witness:
  "listed_items (result (list_audit_events_route (demo_as AUDITOR) demo_headers any_event)
     (demo_world\<lparr>w_faults := \<lambda>n. n = 0, w_audit_events := [demo_audit_row\<lparr>a_organization_id := Some ''other''\<rparr>]\<rparr>))
   = Some (JArr [audit_event_json (demo_as AUDITOR) (demo_audit_row\<lparr>a_organization_id := Some ''other''\<rparr>)])"
  by (subst audit_listing_fails_open [OF auth_demo])
    (simp_all add: can_view_audit_log_def demo_world_def role_defs)

end
