(* ===== verification/Db_Mfa.thy ===== *)
theory Db_Mfa
  imports Demo Single_Use
begin

text \<open>
  \<open>server/src/db/mfa.rs\<close>: the table \<open>mfa_credentials\<close> (at most one row per user, pending while
  \<open>enabled_at\<close> is \<open>NULL\<close>) and the table \<open>mfa_recovery_codes\<close>.

  The expiry of an emailed code is written as text without its seconds (\<open>expiry_text\<close>). On
  PostgreSQL the text is cast to a timestamp, where the missing seconds are zero. On SQLite the
  column stays text and is compared with the current time as text: in the minute of the expiry
  the stored \<open>:.mmmZ\<close> sorts before any \<open>:SS.mmmZ\<close>, so the code is dead from the start of it.
\<close>

section \<open>Emailed codes\<close>

definition email_code_live :: "app \<Rightarrow> int \<Rightarrow> expiry_text option \<Rightarrow> bool" where
  "email_code_live E now e =
     (case e of None \<Rightarrow> False
      | Some (Expiry minute millis) \<Rightarrow>
          (case x_backend E of
             Postgres \<Rightarrow> now < minute * MINUTE + millis * 1000000
           | Sqlite \<Rightarrow> now div MINUTE < minute))"

section \<open>Credentials\<close>

definition find_mfa_credential :: "app \<Rightarrow> string \<Rightarrow> (db_error + mfa_credential_row option) handler" where
  "find_mfa_credential E user_id =
     with_key E user_id None (\<lambda>k. query (\<lambda>w. find (\<lambda>r. m_user_id r = k) (w_mfa_credentials w)))"

text \<open>\<open>INSERT .. ON CONFLICT (user_id) DO UPDATE\<close>: reset the row of the user, or add a new one.\<close>

definition pending_row :: "string \<Rightarrow> string \<Rightarrow> string option \<Rightarrow> expiry_text option \<Rightarrow>
    mfa_credential_row \<Rightarrow> mfa_credential_row" where
  "pending_row secret method code_hash expires r =
     r\<lparr>m_secret := secret, m_method := method, m_email_code_hash := code_hash,
       m_email_code_expires_at := expires, m_enabled_at := None\<rparr>"

definition upsert :: "string \<Rightarrow> string \<Rightarrow> string \<Rightarrow> string \<Rightarrow> string option \<Rightarrow> expiry_text option \<Rightarrow>
    mfa_credential_row list \<Rightarrow> mfa_credential_row list" where
  "upsert i k secret method code_hash expires t =
     (if list_ex (\<lambda>r. m_user_id r = k) t
      then sql_update (\<lambda>r. m_user_id r = k) (pending_row secret method code_hash expires) t
      else t @ [\<lparr>m_id = i, m_user_id = k, m_secret = secret, m_method = method,
                 m_email_code_hash = code_hash, m_email_code_expires_at = expires,
                 m_enabled_at = None, m_last_used_at = None\<rparr>])"

definition upsert_pending_mfa_credential :: "app \<Rightarrow> string \<Rightarrow> string \<Rightarrow> (db_error + unit) handler" where
  "upsert_pending_mfa_credential E user_id secret =
     (case db_key E user_id of
        None \<Rightarrow> return (Inl DbFailure)
      | Some k \<Rightarrow> do {
          i \<leftarrow> new_uuid E;
          stmt (\<lambda>w. ((), w\<lparr>w_mfa_credentials :=
            upsert i k secret ''totp'' None None (w_mfa_credentials w)\<rparr>))
        })"

definition upsert_pending_email_mfa_credential ::
  "app \<Rightarrow> string \<Rightarrow> string \<Rightarrow> expiry_text \<Rightarrow> (db_error + unit) handler" where
  "upsert_pending_email_mfa_credential E user_id code_hash expires_at =
     (case db_key E user_id of
        None \<Rightarrow> return (Inl DbFailure)
      | Some k \<Rightarrow> do {
          i \<leftarrow> new_uuid E;
          stmt (\<lambda>w. ((), w\<lparr>w_mfa_credentials :=
            upsert i k [] ''email'' (Some code_hash) (Some expires_at) (w_mfa_credentials w)\<rparr>))
        })"

text \<open>\<open>UPDATE mfa_credentials SET .. WHERE ..\<close> with the answer \<open>rows_affected > 0\<close>.\<close>

definition update_credentials ::
  "(mfa_credential_row \<Rightarrow> bool) \<Rightarrow> (mfa_credential_row \<Rightarrow> mfa_credential_row) \<Rightarrow> world \<Rightarrow> bool \<times> world" where
  "update_credentials p f w =
     (0 < sql_count p (w_mfa_credentials w),
      w\<lparr>w_mfa_credentials := sql_update p f (w_mfa_credentials w)\<rparr>)"

definition update_email_mfa_code :: "app \<Rightarrow> string \<Rightarrow> string \<Rightarrow> expiry_text \<Rightarrow> (db_error + bool) handler" where
  "update_email_mfa_code E user_id code_hash expires_at =
     with_key E user_id False (\<lambda>k. stmt (update_credentials
       (\<lambda>r. m_user_id r = k \<and> m_method r = ''email'')
       (\<lambda>r. r\<lparr>m_email_code_hash := Some code_hash, m_email_code_expires_at := Some expires_at\<rparr>)))"

definition email_code_matches :: "app \<Rightarrow> int \<Rightarrow> string \<Rightarrow> string \<Rightarrow> mfa_credential_row \<Rightarrow> bool" where
  "email_code_matches E now k code_hash r \<longleftrightarrow>
     m_user_id r = k \<and> m_method r = ''email'' \<and> m_email_code_hash r = Some code_hash
     \<and> email_code_live E now (m_email_code_expires_at r)"

definition enable_email_mfa_credential :: "app \<Rightarrow> string \<Rightarrow> string \<Rightarrow> (db_error + bool) handler" where
  "enable_email_mfa_credential E user_id code_hash =
     with_key E user_id False (\<lambda>k. stmt (\<lambda>w. update_credentials
       (email_code_matches E (w_now w) k code_hash)
       (\<lambda>r. r\<lparr>m_enabled_at := Some (w_now w), m_email_code_hash := None,
              m_email_code_expires_at := None\<rparr>) w))"

definition consume_email_mfa_code :: "app \<Rightarrow> string \<Rightarrow> string \<Rightarrow> (db_error + bool) handler" where
  "consume_email_mfa_code E user_id code_hash =
     with_key E user_id False (\<lambda>k. stmt (\<lambda>w. update_credentials
       (email_code_matches E (w_now w) k code_hash)
       (\<lambda>r. r\<lparr>m_email_code_hash := None, m_email_code_expires_at := None,
              m_last_used_at := Some (w_now w)\<rparr>) w))"

definition enable_mfa_credential :: "app \<Rightarrow> string \<Rightarrow> string \<Rightarrow> (db_error + bool) handler" where
  "enable_mfa_credential E user_id secret =
     with_key E user_id False (\<lambda>k. stmt (\<lambda>w. update_credentials
       (\<lambda>r. m_user_id r = k \<and> m_secret r = secret) (\<lambda>r. r\<lparr>m_enabled_at := Some (w_now w)\<rparr>) w))"

definition touch_mfa_last_used :: "app \<Rightarrow> string \<Rightarrow> (db_error + unit) handler" where
  "touch_mfa_last_used E user_id =
     with_key E user_id () (\<lambda>k. stmt (\<lambda>w. ((), snd (update_credentials
       (\<lambda>r. m_user_id r = k) (\<lambda>r. r\<lparr>m_last_used_at := Some (w_now w)\<rparr>) w))))"

definition delete_mfa_credential :: "app \<Rightarrow> string \<Rightarrow> (db_error + unit) handler" where
  "delete_mfa_credential E user_id =
     with_key E user_id () (\<lambda>k. do {
       a \<leftarrow> stmt (\<lambda>w. ((), w\<lparr>w_mfa_credentials := sql_delete (\<lambda>r. m_user_id r = k) (w_mfa_credentials w)\<rparr>));
       case a of
         Inl e \<Rightarrow> return (Inl e)
       | Inr _ \<Rightarrow> stmt (\<lambda>w. ((), w\<lparr>w_recovery_codes :=
           sql_delete (\<lambda>r. k_user_id r = k) (w_recovery_codes w)\<rparr>))
     })"

section \<open>Recovery codes\<close>

fun insert_recovery_codes :: "app \<Rightarrow> string \<Rightarrow> string list \<Rightarrow> (db_error + unit) handler" where
  "insert_recovery_codes E k [] = return (Inr ())"
| "insert_recovery_codes E k (hash # hashes) = do {
     i \<leftarrow> new_uuid E;
     a \<leftarrow> stmt (\<lambda>w. ((), w\<lparr>w_recovery_codes := w_recovery_codes w @
            [\<lparr>k_id = i, k_user_id = k, k_code_hash = hash, k_used_at = None\<rparr>]\<rparr>));
     case a of
       Inl e \<Rightarrow> return (Inl e)
     | Inr _ \<Rightarrow> insert_recovery_codes E k hashes
   }"

definition replace_recovery_codes :: "app \<Rightarrow> string \<Rightarrow> string list \<Rightarrow> (db_error + unit) handler" where
  "replace_recovery_codes E user_id code_hashes =
     with_key E user_id () (\<lambda>k. do {
       a \<leftarrow> stmt (\<lambda>w. ((), w\<lparr>w_recovery_codes :=
              sql_delete (\<lambda>r. k_user_id r = k) (w_recovery_codes w)\<rparr>));
       case a of
         Inl e \<Rightarrow> return (Inl e)
       | Inr _ \<Rightarrow> insert_recovery_codes E k code_hashes
     })"

definition consume_recovery_code :: "app \<Rightarrow> string \<Rightarrow> string \<Rightarrow> (db_error + bool) handler" where
  "consume_recovery_code E user_id code_hash =
     with_key E user_id False (\<lambda>k. stmt (\<lambda>w.
       (0 < sql_count (\<lambda>r. k_user_id r = k \<and> k_code_hash r = code_hash \<and> k_used_at r = None)
              (w_recovery_codes w),
        w\<lparr>w_recovery_codes := sql_update
            (\<lambda>r. k_user_id r = k \<and> k_code_hash r = code_hash \<and> k_used_at r = None)
            (\<lambda>r. r\<lparr>k_used_at := Some (w_now w)\<rparr>) (w_recovery_codes w)\<rparr>)))"

section \<open>Frames\<close>

lemma mfa_query_frames [frame_intros]:
  "blind_base f \<Longrightarrow> preserves f (find_mfa_credential E i)"
  unfolding find_mfa_credential_def by (intro frame_intros; simp)

lemma mfa_write_frames [frame_intros]:
  "blind_base f \<Longrightarrow> blind w_mfa_credentials_update f \<Longrightarrow> preserves f (upsert_pending_mfa_credential E u s)"
  "blind_base f \<Longrightarrow> blind w_mfa_credentials_update f \<Longrightarrow> preserves f (upsert_pending_email_mfa_credential E u s ex)"
  "blind_base f \<Longrightarrow> blind w_mfa_credentials_update f \<Longrightarrow> preserves f (update_email_mfa_code E u s ex)"
  "blind_base f \<Longrightarrow> blind w_mfa_credentials_update f \<Longrightarrow> preserves f (enable_email_mfa_credential E u s)"
  "blind_base f \<Longrightarrow> blind w_mfa_credentials_update f \<Longrightarrow> preserves f (consume_email_mfa_code E u s)"
  "blind_base f \<Longrightarrow> blind w_mfa_credentials_update f \<Longrightarrow> preserves f (enable_mfa_credential E u s)"
  "blind_base f \<Longrightarrow> blind w_mfa_credentials_update f \<Longrightarrow> preserves f (touch_mfa_last_used E u)"
  "blind_base f \<Longrightarrow> blind w_recovery_codes_update f \<Longrightarrow> preserves f (consume_recovery_code E u s)"
  "blind_base f \<Longrightarrow> blind w_mfa_credentials_update f \<Longrightarrow> blind w_recovery_codes_update f \<Longrightarrow>
     preserves f (delete_mfa_credential E u)"
  unfolding upsert_pending_mfa_credential_def upsert_pending_email_mfa_credential_def
    update_email_mfa_code_def enable_email_mfa_credential_def consume_email_mfa_code_def
    enable_mfa_credential_def touch_mfa_last_used_def consume_recovery_code_def
    delete_mfa_credential_def update_credentials_def
  by (intro frame_intros stmt_frame; simp)+

lemma insert_recovery_codes_frame [frame_intros]:
  assumes "blind_base f" and "blind w_recovery_codes_update f"
  shows "preserves f (insert_recovery_codes E k hs)"
  using assms by (induction hs) (auto intro!: frame_intros stmt_frame)

lemma replace_recovery_codes_frame [frame_intros]:
  "blind_base f \<Longrightarrow> blind w_recovery_codes_update f \<Longrightarrow> preserves f (replace_recovery_codes E u hs)"
  unfolding replace_recovery_codes_def by (intro frame_intros stmt_frame; simp)

section \<open>Recovery codes are single-use\<close>

definition spend_recovery :: "app \<Rightarrow> string \<times> string \<Rightarrow> bool handler" where
  "spend_recovery E c = do { r \<leftarrow> consume_recovery_code E (fst c) (snd c); return (r = Inr True) }"

text \<open>No unused row of the user carries the code's hash.\<close>

definition recovery_dead :: "app \<Rightarrow> world \<Rightarrow> string \<times> string \<Rightarrow> bool" where
  "recovery_dead E w c \<longleftrightarrow> (\<forall>k. db_key E (fst c) = Some k \<longrightarrow>
     (\<forall>r\<in>set (w_recovery_codes w). k_user_id r = k \<and> k_code_hash r = snd c \<longrightarrow> k_used_at r \<noteq> None))"

lemma spend_recovery_result: "result (spend_recovery E c) w \<longleftrightarrow>
    (\<exists>k. db_key E (fst c) = Some k \<and> \<not> w_faults w (w_stmts w) \<and>
       (\<exists>r\<in>set (w_recovery_codes w). k_user_id r = k \<and> k_code_hash r = snd c \<and> k_used_at r = None))"
  by (simp add: spend_recovery_def consume_recovery_code_def with_key_def result_def run_stmt sql_count_pos
      split: option.split)

lemma spend_recovery_exec: "w_recovery_codes (exec (spend_recovery E c) w) =
    (case db_key E (fst c) of
       Some k \<Rightarrow> if w_faults w (w_stmts w) then w_recovery_codes w
         else sql_update (\<lambda>r. k_user_id r = k \<and> k_code_hash r = snd c \<and> k_used_at r = None)
            (\<lambda>r. r\<lparr>k_used_at := Some (w_now w)\<rparr>) (w_recovery_codes w)
     | None \<Rightarrow> w_recovery_codes w)"
  by (simp add: spend_recovery_def consume_recovery_code_def with_key_def exec_def run_stmt
      split: option.split)

interpretation recovery_codes: single_use "spend_recovery E" "\<lambda>c. c" "recovery_dead E" for E
proof unfold_locales
  fix c w and k :: "string \<times> string"
  show "recovery_dead E (exec (spend_recovery E c) w) c" if "result (spend_recovery E c) w"
  proof -
    from that obtain u where u: "db_key E (fst c) = Some u" "\<not> w_faults w (w_stmts w)"
      unfolding spend_recovery_result by blast
    then show ?thesis by (simp add: recovery_dead_def spend_recovery_exec ball_sql_update)
  qed
  show "\<not> result (spend_recovery E c) w" if "recovery_dead E w c"
    using that unfolding recovery_dead_def spend_recovery_result by blast
  show "recovery_dead E (exec (spend_recovery E c) w) k" if "recovery_dead E w k"
    using that by (simp add: recovery_dead_def spend_recovery_exec ball_sql_update split: option.split)
qed

text \<open>
  A recovery code works at most once: however many attempts to use the recovery codes of any
  users are interleaved, with failing statements and with any other steps between them that do
  not bring a used code back, at most one attempt with a given code of a given user succeeds.
\<close>
theorem recovery_code_used_at_most_once:
  assumes "\<forall>g. Inr g \<in> set es \<longrightarrow> (\<forall>w. recovery_dead E w c \<longrightarrow> recovery_dead E (g w) c)"
  shows "times_spent (\<lambda>c. c) c (spend_run (spend_recovery E) w es) \<le> 1"
  using assms by (rule recovery_codes.spent_at_most_once)

theorem recovery_code_used_at_most_once_witness:
  "times_spent (\<lambda>c. c) (''1'', ''h'') (spend_run (spend_recovery demo_app)
     (demo_world\<lparr>w_recovery_codes := [\<lparr>k_id = ''k'', k_user_id = ''1'', k_code_hash = ''h'', k_used_at = None\<rparr>]\<rparr>)
     [Inl (''1'', ''h''), Inr (\<lambda>w. w\<lparr>w_now := 5\<rparr>), Inl (''1'', ''h'')]) \<le> 1"
  by (rule recovery_code_used_at_most_once) (simp add: recovery_dead_def)

section \<open>Emailed codes are single-use and expire\<close>

text \<open>An emailed code is spent to confirm an enrolment (\<open>True\<close>) or to sign in (\<open>False\<close>).\<close>

definition spend_email_code :: "app \<Rightarrow> bool \<times> string \<times> string \<Rightarrow> bool handler" where
  "spend_email_code E c = do {
     r \<leftarrow> (if fst c then enable_email_mfa_credential E (fst (snd c)) (snd (snd c))
          else consume_email_mfa_code E (fst (snd c)) (snd (snd c)));
     return (r = Inr True)
   }"

definition email_code_dead :: "app \<Rightarrow> world \<Rightarrow> string \<times> string \<Rightarrow> bool" where
  "email_code_dead E w c \<longleftrightarrow> (\<forall>k. db_key E (fst c) = Some k \<longrightarrow>
     (\<forall>r\<in>set (w_mfa_credentials w). \<not> email_code_matches E (w_now w) k (snd c) r))"

definition email_code_expired :: "app \<Rightarrow> world \<Rightarrow> string \<times> string \<Rightarrow> bool" where
  "email_code_expired E w c \<longleftrightarrow> (\<forall>k. db_key E (fst c) = Some k \<longrightarrow>
     (\<forall>r\<in>set (w_mfa_credentials w). m_user_id r = k \<longrightarrow>
        \<not> email_code_live E (w_now w) (m_email_code_expires_at r)))"

definition spent_code :: "bool \<Rightarrow> int \<Rightarrow> mfa_credential_row \<Rightarrow> mfa_credential_row" where
  "spent_code enrol now r =
     (if enrol then r\<lparr>m_enabled_at := Some now, m_email_code_hash := None, m_email_code_expires_at := None\<rparr>
      else r\<lparr>m_email_code_hash := None, m_email_code_expires_at := None, m_last_used_at := Some now\<rparr>)"

lemma spend_email_code_result: "result (spend_email_code E c) w \<longleftrightarrow>
    (\<exists>k. db_key E (fst (snd c)) = Some k \<and> \<not> w_faults w (w_stmts w) \<and>
       (\<exists>r\<in>set (w_mfa_credentials w). email_code_matches E (w_now w) k (snd (snd c)) r))"
  by (simp add: spend_email_code_def enable_email_mfa_credential_def consume_email_mfa_code_def
      update_credentials_def with_key_def result_def run_stmt sql_count_pos split: option.split)

lemma spend_email_code_exec:
  "w_now (exec (spend_email_code E c) w) = w_now w"
  "w_mfa_credentials (exec (spend_email_code E c) w) =
    (case db_key E (fst (snd c)) of
       Some k \<Rightarrow> if w_faults w (w_stmts w) then w_mfa_credentials w
         else sql_update (email_code_matches E (w_now w) k (snd (snd c)))
            (spent_code (fst c) (w_now w)) (w_mfa_credentials w)
     | None \<Rightarrow> w_mfa_credentials w)"
  by (simp_all add: spend_email_code_def enable_email_mfa_credential_def consume_email_mfa_code_def
      update_credentials_def with_key_def exec_def run_stmt spent_code_def [abs_def] split: option.split)

lemma spent_code_never_matches [simp]: "\<not> email_code_matches E now k h (spent_code e t r)"
  by (simp add: email_code_matches_def spent_code_def)

interpretation email_codes: timed_single_use "spend_email_code E" snd "email_code_dead E" "email_code_expired E"
  for E
proof unfold_locales
  fix c w and k :: "string \<times> string"
  show "email_code_dead E (exec (spend_email_code E c) w) (snd c)" if "result (spend_email_code E c) w"
  proof -
    from that obtain u where u: "db_key E (fst (snd c)) = Some u" "\<not> w_faults w (w_stmts w)"
      unfolding spend_email_code_result by blast
    then show ?thesis by (simp add: email_code_dead_def spend_email_code_exec ball_sql_update)
  qed
  show "\<not> result (spend_email_code E c) w" if "email_code_dead E w (snd c)"
    using that unfolding email_code_dead_def spend_email_code_result by blast
  show "email_code_dead E (exec (spend_email_code E c) w) k" if "email_code_dead E w k"
    using that by (simp add: email_code_dead_def spend_email_code_exec ball_sql_update split: option.split)
  show "email_code_dead E w k" if "email_code_expired E w k"
    using that by (simp add: email_code_dead_def email_code_expired_def email_code_matches_def)
qed

text \<open>
  An emailed code is spent at most once, whichever of its two uses (confirming an enrolment,
  signing in) is tried and however the attempts are interleaved with each other and with steps that
  do not issue the same code again; and once it has expired it is not spent at all.
\<close>
theorem email_code_spent_at_most_once:
  assumes "\<forall>g. Inr g \<in> set es \<longrightarrow> (\<forall>w. email_code_dead E w c \<longrightarrow> email_code_dead E (g w) c)"
  shows "times_spent snd c (spend_run (spend_email_code E) w es)
           \<le> (if email_code_expired E w c then 0 else 1)"
  using email_codes.spent_at_most_once [OF assms] email_codes.expired_never_spent [OF _ assms]
  by simp

theorem email_code_spent_at_most_once_witness:
  "times_spent snd (''1'', ''h'') (spend_run (spend_email_code demo_app)
     (demo_world\<lparr>w_mfa_credentials := [\<lparr>m_id = ''m'', m_user_id = ''1'', m_secret = [], m_method = ''email'',
        m_email_code_hash = Some ''h'', m_email_code_expires_at = Some (Expiry 10000000 0),
        m_enabled_at = None, m_last_used_at = None\<rparr>]\<rparr>)
     [Inl (True, ''1'', ''h''), Inl (False, ''1'', ''h'')]) \<le> 1"
  using email_code_spent_at_most_once [of "[Inl (True, ''1'', ''h''), Inl (False, ''1'', ''h'')]" demo_app "(''1'', ''h'')"]
  by (rule order_trans) simp_all

section \<open>What the credential and recovery-code writes leave behind\<close>

lemma find_upsert: "\<exists>r. find (\<lambda>r. m_user_id r = k) (upsert i k s m h ex t) = Some r
    \<and> m_user_id r = k \<and> m_secret r = s \<and> m_method r = m \<and> m_email_code_hash r = h
    \<and> m_email_code_expires_at r = ex \<and> m_enabled_at r = None"
proof (cases "find (\<lambda>r. m_user_id r = k) t")
  case None
  then have none: "\<forall>r\<in>set t. m_user_id r \<noteq> k" by (simp add: find_None_set)
  then have "find (\<lambda>r. m_user_id r = k) (t @ [x]) = (if m_user_id x = k then Some x else None)" for x
    by (induction t) auto
  with none show ?thesis by (auto simp: upsert_def list_ex_iff)
next
  case (Some r)
  then have "r \<in> set t" "m_user_id r = k" by (auto dest: find_Some_set)
  with Some show ?thesis
    by (auto simp: upsert_def list_ex_iff find_sql_update pending_row_def)
qed

lemma other_users_upsert: "filter (\<lambda>r. m_user_id r \<noteq> k) (upsert i k s m h ex t) = filter (\<lambda>r. m_user_id r \<noteq> k) t"
proof -
  have "filter (\<lambda>r. m_user_id r \<noteq> k) (sql_update (\<lambda>r. m_user_id r = k) (pending_row s m h ex) t)
      = filter (\<lambda>r. m_user_id r \<noteq> k) t"
    by (induction t) (auto simp: pending_row_def)
  then show ?thesis by (simp add: upsert_def)
qed

text \<open>At most one credential per user.\<close>

definition mfa_ok :: "world \<Rightarrow> bool" where
  "mfa_ok w \<longleftrightarrow> distinct (map m_user_id (w_mfa_credentials w))"

lemma map_upsert: "map m_user_id (upsert i k s m h ex t) =
    (if k \<in> m_user_id ` set t then map m_user_id t else map m_user_id t @ [k])"
  by (auto simp: upsert_def list_ex_iff map_sql_update_stable pending_row_def)

lemma replace_recovery_codes_run:
  assumes "healthy w" and "db_key E u = Some k"
  shows "wp (replace_recovery_codes E u hs) (\<lambda>r w'. r = Inr ()
     \<and> map (\<lambda>c. (k_code_hash c, k_used_at c)) (filter (\<lambda>c. k_user_id c = k) (w_recovery_codes w'))
         = map (\<lambda>h. (h, None)) hs
     \<and> filter (\<lambda>c. k_user_id c \<noteq> k) (w_recovery_codes w') = filter (\<lambda>c. k_user_id c \<noteq> k) (w_recovery_codes w)) w"
proof -
  have ins: "wp (insert_recovery_codes E k hs) (\<lambda>r w'. r = Inr () \<and> w_faults w' = w_faults v
      \<and> map (\<lambda>c. (k_code_hash c, k_used_at c)) (filter (\<lambda>c. k_user_id c = k) (w_recovery_codes w'))
         = map (\<lambda>c. (k_code_hash c, k_used_at c)) (filter (\<lambda>c. k_user_id c = k) (w_recovery_codes v))
           @ map (\<lambda>h. (h, None)) hs
      \<and> filter (\<lambda>c. k_user_id c \<noteq> k) (w_recovery_codes w')
         = filter (\<lambda>c. k_user_id c \<noteq> k) (w_recovery_codes v)) v"
    if "healthy v" for v
    using that
  proof (induction hs arbitrary: v)
    case (Cons h hs)
    then show ?case
      by (simp add: wp_simps) (rule wp_mono [OF Cons.IH], auto)
  qed (simp add: wp_simps)
  show ?thesis
    using assms unfolding replace_recovery_codes_def
    by (simp add: wp_simps) (rule wp_mono [OF ins], auto simp: sql_delete_def)
qed

end
