(* ===== verification/Mfa.thy ===== *)
theory Mfa
  imports Audit_Trail Db_Mfa
begin

text \<open>
  \<open>server/src/mfa.rs\<close>: what a login must do about multi-factor authentication, enrolment (by
  authenticator app or by emailed code), checking of codes, recovery codes, and the challenge that
  completes a login. Time-based codes are checked by a third-party crate: \<open>x_totp_build\<close> gives the
  generator of a secret (or fails), \<open>x_totp_check\<close> says whether it accepts a code now. The JSON
  body of a request is its parsed fields.
\<close>

definition CHALLENGE_TTL_MINUTES :: int where "CHALLENGE_TTL_MINUTES = 10"
definition RECOVERY_CODE_COUNT :: nat where "RECOVERY_CODE_COUNT = 10"
definition EMAIL_CODE_TTL_MINUTES :: int where "EMAIL_CODE_TTL_MINUTES = 10"
definition METHOD_TOTP :: string where "METHOD_TOTP = ''totp''"
definition METHOD_EMAIL :: string where "METHOD_EMAIL = ''email''"
definition PURPOSE_LOGIN :: string where "PURPOSE_LOGIN = ''mfa_login''"
definition PURPOSE_ENROLLMENT :: string where "PURPOSE_ENROLLMENT = ''mfa_enrollment''"

lemmas method_defs = METHOD_TOTP_def METHOD_EMAIL_def

section \<open>What a login needs\<close>

datatype login_mfa_outcome = NotRequired | ChallengeRequired string | EnrollmentRequired

text \<open>\<open>find_mfa_credential(..).await.ok().flatten().filter(|row| row.enabled_at.is_some())\<close>.\<close>

definition enabled_credential :: "app \<Rightarrow> string \<Rightarrow> mfa_credential_row option handler" where
  "enabled_credential E user_id = do {
     c \<leftarrow> find_mfa_credential E user_id;
     return (case c of
       Inr (Some row) \<Rightarrow> if m_enabled_at row \<noteq> None then Some row else None
     | _ \<Rightarrow> None)
   }"

definition login_mfa_outcome :: "app \<Rightarrow> user_row \<Rightarrow> login_mfa_outcome handler" where
  "login_mfa_outcome E user = do {
     c \<leftarrow> enabled_credential E (u_id user);
     return (case c of
       Some credential \<Rightarrow> ChallengeRequired (m_method credential)
     | None \<Rightarrow> if list_ex (\<lambda>role. role = u_role user) (x_mfa_required_roles E)
               then EnrollmentRequired else NotRequired)
   }"

section \<open>Challenge tokens\<close>

definition sign_challenge_token :: "app \<Rightarrow> string \<Rightarrow> string \<Rightarrow> (api_error + string) handler" where
  "sign_challenge_token E user_id purpose = do {
     now \<leftarrow> gets w_now;
     return (case x_encode_challenge E
         \<lparr>cc_user_id = user_id, cc_purpose = purpose,
          cc_exp = timestamp (now + CHALLENGE_TTL_MINUTES * MINUTE)\<rparr> (x_mfa_token_secret E) of
       None \<Rightarrow> Inl internal_error
     | Some token \<Rightarrow> Inr token)
   }"

definition decode_challenge_token :: "app \<Rightarrow> string \<Rightarrow> string \<Rightarrow> string option handler" where
  "decode_challenge_token E token expected_purpose = do {
     now \<leftarrow> gets w_now;
     return (case x_decode_challenge E now token (x_mfa_token_secret E) of
       None \<Rightarrow> None
     | Some claims \<Rightarrow>
         if cc_purpose claims \<noteq> expected_purpose then None else Some (cc_user_id claims))
   }"

section \<open>Secrets and codes\<close>

definition generate_secret :: "app \<Rightarrow> string handler" where
  "generate_secret E = do { n \<leftarrow> draw; return (x_totp_secret E n) }"

text \<open>\<open>u32::from_be_bytes\<close> and the format \<open>{value:06}\<close>.\<close>

definition from_be_bytes :: "8 word list \<Rightarrow> nat" where
  "from_be_bytes bs = foldl (\<lambda>a b. a * 256 + unat b) 0 bs"

definition pad6 :: "nat \<Rightarrow> string" where
  "pad6 v = replicate (6 - length (show_nat v)) (CHR ''0'') @ show_nat v"

definition generate_email_code :: "app \<Rightarrow> string handler" where
  "generate_email_code E = do {
     n \<leftarrow> draw;
     return (pad6 (from_be_bytes (x_rng E n 4) mod 1000000))
   }"

definition email_code_expiry :: "expiry_text handler" where
  "email_code_expiry = do {
     now \<leftarrow> gets w_now;
     let t = now + EMAIL_CODE_TTL_MINUTES * MINUTE;
     return (Expiry (t div MINUTE) ((t div 1000000) mod 1000))
   }"

definition recovery_code :: "app \<Rightarrow> string handler" where
  "recovery_code E = do {
     n \<leftarrow> draw;
     let hex = x_hex E (x_rng E n 5);
     return (take 5 hex @ ''-'' @ drop 5 hex)
   }"

fun recovery_codes :: "app \<Rightarrow> nat \<Rightarrow> string list handler" where
  "recovery_codes E 0 = return []"
| "recovery_codes E (Suc n) = do { c \<leftarrow> recovery_code E; cs \<leftarrow> recovery_codes E n; return (c # cs) }"

definition generate_recovery_codes :: "app \<Rightarrow> string list handler" where
  "generate_recovery_codes E = recovery_codes E RECOVERY_CODE_COUNT"

definition mask_email :: "string \<Rightarrow> string" where
  "mask_email email =
     (case split_once (CHR ''@'') email of
        Some (local, domain) \<Rightarrow>
          if local \<noteq> [] then take 2 local @ ''***@'' @ domain else ''***''
      | None \<Rightarrow> ''***'')"

section \<open>Enrolment\<close>

definition begin_totp_enrollment :: "app \<Rightarrow> string \<Rightarrow> string \<Rightarrow> (api_error + json) handler" where
  "begin_totp_enrollment E user_id account_name = do {
     secret \<leftarrow> generate_secret E;
     u \<leftarrow> upsert_pending_mfa_credential E user_id secret;
     case u of
       Inl _ \<Rightarrow> return (Inl internal_error)
     | Inr _ \<Rightarrow>
         (case x_totp_build E secret account_name of
            None \<Rightarrow> return (Inl internal_error)
          | Some totp \<Rightarrow> return (Inr (JObj
              [(''method'', JStr METHOD_TOTP), (''secret'', JStr secret), (''otpauthUrl'', JStr (x_totp_url E totp))])))
   }"

definition begin_email_enrollment :: "app \<Rightarrow> string \<Rightarrow> string \<Rightarrow> (api_error + json) handler" where
  "begin_email_enrollment E user_id email = do {
     code \<leftarrow> generate_email_code E;
     ex \<leftarrow> email_code_expiry;
     u \<leftarrow> upsert_pending_email_mfa_credential E user_id (sha256_hex E code) ex;
     case u of
       Inl _ \<Rightarrow> return (Inl internal_error)
     | Inr _ \<Rightarrow> do {
         send_mail (MfaCode email code);
         return (Inr (JObj [(''method'', JStr METHOD_EMAIL), (''emailSentTo'', JStr (mask_email email))]))
       }
   }"

definition begin_enrollment :: "app \<Rightarrow> string \<Rightarrow> string \<Rightarrow> string \<Rightarrow> string option \<Rightarrow> (api_error + json) handler" where
  "begin_enrollment E user_id account_name meth email =
     (if meth = METHOD_EMAIL
      then (case email of
              None \<Rightarrow> return (Inl (api_error_new ''MFA_EMAIL_NOT_AVAILABLE'' ''errors.mfaEmailNotAvailable'' []))
            | Some email \<Rightarrow> begin_email_enrollment E user_id email)
      else begin_totp_enrollment E user_id account_name)"

definition resend_email_code :: "app \<Rightarrow> string \<Rightarrow> string \<Rightarrow> (api_error + unit) handler" where
  "resend_email_code E user_id email = do {
     code \<leftarrow> generate_email_code E;
     ex \<leftarrow> email_code_expiry;
     u \<leftarrow> update_email_mfa_code E user_id (sha256_hex E code) ex;
     case u of
       Inl _ \<Rightarrow> return (Inl internal_error)
     | Inr updated \<Rightarrow>
         if \<not> updated
         then return (Inl (api_error_new ''MFA_ENROLLMENT_NOT_STARTED'' ''errors.mfaEnrollmentNotStarted'' []))
         else do { send_mail (MfaCode email code); return (Inr ()) }
   }"

definition send_login_challenge_email_code :: "app \<Rightarrow> user_row \<Rightarrow> unit handler" where
  "send_login_challenge_email_code E user =
     (case u_email user of
        None \<Rightarrow> return ()
      | Some email \<Rightarrow> do { _ \<leftarrow> resend_email_code E (u_id user) email; return () })"

datatype confirm_outcome = Enabled "string list" | AlreadyEnabled

definition totp_code_matches :: "app \<Rightarrow> string \<Rightarrow> string \<Rightarrow> bool handler" where
  "totp_code_matches E totp c = do {
     now \<leftarrow> gets w_now;
     return (trim c \<noteq> [] \<and> x_totp_check E totp now (trim c))
   }"

definition invalid_mfa_code :: api_error where
  "invalid_mfa_code = api_error_new ''INVALID_MFA_CODE'' ''errors.invalidMfaCode'' []"

text \<open>The step that enables the pending credential: \<open>Inr False\<close> when the code does not fit.\<close>

definition enable_pending :: "app \<Rightarrow> string \<Rightarrow> string \<Rightarrow> string \<Rightarrow> mfa_credential_row \<Rightarrow> (api_error + bool) handler" where
  "enable_pending E user_id account_name c pending =
     (if m_method pending = METHOD_EMAIL
      then do {
        e \<leftarrow> enable_email_mfa_credential E user_id (sha256_hex E (trim c));
        return (case e of Inl _ \<Rightarrow> Inl internal_error | Inr b \<Rightarrow> Inr b)
      }
      else (case x_totp_build E (m_secret pending) account_name of
              None \<Rightarrow> return (Inl internal_error)
            | Some totp \<Rightarrow> do {
                ok \<leftarrow> totp_code_matches E totp c;
                if \<not> ok then return (Inl invalid_mfa_code)
                else do {
                  e \<leftarrow> enable_mfa_credential E user_id (m_secret pending);
                  return (case e of Inl _ \<Rightarrow> Inl internal_error | Inr b \<Rightarrow> Inr b)
                }
              }))"

definition confirm_enrollment :: "app \<Rightarrow> string \<Rightarrow> string \<Rightarrow> string \<Rightarrow> (api_error + confirm_outcome) handler" where
  "confirm_enrollment E user_id account_name c = do {
     p \<leftarrow> find_mfa_credential E user_id;
     case (case p of Inl _ \<Rightarrow> None | Inr row \<Rightarrow> row) of
       None \<Rightarrow> return (Inl (api_error_new ''MFA_ENROLLMENT_NOT_STARTED'' ''errors.mfaEnrollmentNotStarted'' []))
     | Some pending \<Rightarrow>
         if m_enabled_at pending \<noteq> None then return (Inr AlreadyEnabled)
         else do {
           e \<leftarrow> enable_pending E user_id account_name c pending;
           case e of
             Inl err \<Rightarrow> return (Inl err)
           | Inr enabled \<Rightarrow>
               if \<not> enabled then return (Inl invalid_mfa_code)
               else do {
                 raw_codes \<leftarrow> generate_recovery_codes E;
                 r \<leftarrow> replace_recovery_codes E user_id (map (sha256_hex E) raw_codes);
                 return (case r of Inl _ \<Rightarrow> Inl internal_error | Inr _ \<Rightarrow> Inr (Enabled raw_codes))
               }
         }
   }"

section \<open>Checking a code\<close>

datatype verify_outcome = Primary | Recovery | Failed

definition verify_primary :: "app \<Rightarrow> string \<Rightarrow> string \<Rightarrow> string \<Rightarrow> mfa_credential_row \<Rightarrow> bool handler" where
  "verify_primary E user_id account_name c credential =
     (if m_method credential = METHOD_EMAIL
      then do {
        e \<leftarrow> consume_email_mfa_code E user_id (sha256_hex E (trim c));
        return (e = Inr True)
      }
      else (case x_totp_build E (m_secret credential) account_name of
              None \<Rightarrow> return False
            | Some totp \<Rightarrow> do {
                ok \<leftarrow> totp_code_matches E totp c;
                if ok then do { _ \<leftarrow> touch_mfa_last_used E user_id; return True } else return False
              }))"

definition verify_code :: "app \<Rightarrow> string \<Rightarrow> string \<Rightarrow> string \<Rightarrow> (api_error + verify_outcome) handler" where
  "verify_code E user_id account_name c = do {
     cred \<leftarrow> enabled_credential E user_id;
     case cred of
       None \<Rightarrow> return (Inl (api_error_new ''MFA_NOT_ENABLED'' ''errors.mfaNotEnabled'' []))
     | Some credential \<Rightarrow> do {
         ok \<leftarrow> verify_primary E user_id account_name c credential;
         if ok then return (Inr Primary)
         else do {
           r \<leftarrow> consume_recovery_code E user_id (sha256_hex E (trim c));
           if r = Inr True then do { _ \<leftarrow> touch_mfa_last_used E user_id; return (Inr Recovery) }
           else return (Inr Failed)
         }
       }
   }"

section \<open>Routes: voluntary enrolment and disabling\<close>

definition enrolment_response :: "string \<Rightarrow> (api_error + json) \<Rightarrow> response" where
  "enrolment_response rid r = (case r of Inr body \<Rightarrow> ok_json body | Inl err \<Rightarrow> fail_with err rid)"

definition enroll :: "app \<Rightarrow> header_map \<Rightarrow> string option \<Rightarrow> response handler" where
  "enroll E headers payload_method = do {
     rid \<leftarrow> request_id E headers;
     c \<leftarrow> auth_user_from_headers E headers;
     case c of
       None \<Rightarrow> return (api_err ''UNAUTHORIZED'' ''errors.unauthorized'' rid)
     | Some claims \<Rightarrow> do {
         u \<leftarrow> load_user_by_id E (cl_id claims);
         case u of
           Inl _ \<Rightarrow> return (api_err ''UNAUTHORIZED'' ''errors.unauthorized'' rid)
         | Inr None \<Rightarrow> return (api_err ''UNAUTHORIZED'' ''errors.unauthorized'' rid)
         | Inr (Some user) \<Rightarrow> do {
             r \<leftarrow> begin_enrollment E (cl_id claims) (cl_user_code claims)
                    (case payload_method of None \<Rightarrow> METHOD_TOTP | Some m \<Rightarrow> m) (u_email user);
             return (enrolment_response rid r)
           }
       }
   }"

text \<open>The common end of the resend routes: an address, the rate limit, the code.\<close>

definition resend_to :: "app \<Rightarrow> string \<Rightarrow> string \<Rightarrow> string option \<Rightarrow> response handler" where
  "resend_to E rid user_id email =
     (case email of
        None \<Rightarrow> return (api_err ''MFA_EMAIL_NOT_AVAILABLE'' ''errors.mfaEmailNotAvailable'' rid)
      | Some email \<Rightarrow> do {
          ok \<leftarrow> rate_check (''mfa-email-resend:'' @ user_id) 5 (15 * 60 * SECOND);
          if \<not> ok then return (api_err ''RATE_LIMITED'' ''errors.rateLimited'' rid)
          else do {
            r \<leftarrow> resend_email_code E user_id email;
            return (case r of
              Inr _ \<Rightarrow> ok_json (JObj [(''emailSentTo'', JStr (mask_email email))])
            | Inl err \<Rightarrow> fail_with err rid)
          }
        })"

definition enroll_resend :: "app \<Rightarrow> header_map \<Rightarrow> response handler" where
  "enroll_resend E headers = do {
     rid \<leftarrow> request_id E headers;
     c \<leftarrow> auth_user_from_headers E headers;
     case c of
       None \<Rightarrow> return (api_err ''UNAUTHORIZED'' ''errors.unauthorized'' rid)
     | Some claims \<Rightarrow> do {
         u \<leftarrow> load_user_by_id E (cl_id claims);
         case u of
           Inl _ \<Rightarrow> return (api_err ''UNAUTHORIZED'' ''errors.unauthorized'' rid)
         | Inr None \<Rightarrow> return (api_err ''UNAUTHORIZED'' ''errors.unauthorized'' rid)
         | Inr (Some user) \<Rightarrow> resend_to E rid (cl_id claims) (u_email user)
       }
   }"

definition codes_json :: "string list \<Rightarrow> json" where
  "codes_json codes = JArr (map JStr codes)"

definition enroll_confirm :: "app \<Rightarrow> header_map \<Rightarrow> string \<Rightarrow> response handler" where
  "enroll_confirm E headers payload_code = do {
     rid \<leftarrow> request_id E headers;
     c \<leftarrow> auth_user_from_headers E headers;
     case c of
       None \<Rightarrow> return (api_err ''UNAUTHORIZED'' ''errors.unauthorized'' rid)
     | Some claims \<Rightarrow> do {
         r \<leftarrow> confirm_enrollment E (cl_id claims) (cl_user_code claims) payload_code;
         case r of
           Inl err \<Rightarrow> return (fail_with err rid)
         | Inr AlreadyEnabled \<Rightarrow> return (ok_json (JObj [(''recoveryCodes'', codes_json [])]))
         | Inr (Enabled codes) \<Rightarrow> do {
             a \<leftarrow> save_mandatory E (from_headers E headers (actor claims (recorder_new ''MFA_ENABLED'' ''success'' rid)));
             case a of
               Inl err \<Rightarrow> return (fail_with err rid)
             | Inr _ \<Rightarrow> return (ok_json (JObj [(''recoveryCodes'', codes_json codes)]))
           }
       }
   }"

definition disable :: "app \<Rightarrow> header_map \<Rightarrow> string \<Rightarrow> string \<Rightarrow> response handler" where
  "disable E headers password payload_code = do {
     rid \<leftarrow> request_id E headers;
     c \<leftarrow> auth_user_from_headers E headers;
     case c of
       None \<Rightarrow> return (api_err ''UNAUTHORIZED'' ''errors.unauthorized'' rid)
     | Some claims \<Rightarrow> do {
         u \<leftarrow> load_user_by_id E (cl_id claims);
         case u of
           Inl _ \<Rightarrow> return (api_err ''UNAUTHORIZED'' ''errors.unauthorized'' rid)
         | Inr None \<Rightarrow> return (api_err ''UNAUTHORIZED'' ''errors.unauthorized'' rid)
         | Inr (Some user) \<Rightarrow>
             if x_bcrypt_verify E password (u_password_hash user) \<noteq> Some True
             then return (api_err ''UNAUTHORIZED'' ''errors.invalidCredentials'' rid)
             else do {
               v \<leftarrow> verify_code E (cl_id claims) (cl_user_code claims) payload_code;
               if v = Inr Primary \<or> v = Inr Recovery
               then do {
                 d \<leftarrow> delete_mfa_credential E (cl_id claims);
                 case d of
                   Inl _ \<Rightarrow> return (api_err ''INTERNAL_ERROR'' ''errors.internal'' rid)
                 | Inr _ \<Rightarrow> do {
                     a \<leftarrow> save_mandatory E (from_headers E headers (actor claims (recorder_new ''MFA_DISABLED'' ''success'' rid)));
                     case a of
                       Inl err \<Rightarrow> return (fail_with err rid)
                     | Inr _ \<Rightarrow> return (ok_json (message_key ''auth.mfa.disabled''))
                   }
               }
               else return (api_err ''INVALID_MFA_CODE'' ''errors.invalidMfaCode'' rid)
             }
       }
   }"

section \<open>Routes: completing a login\<close>

definition load_user_or_unauthorized :: "app \<Rightarrow> string \<Rightarrow> string \<Rightarrow> (response + user_row) handler" where
  "load_user_or_unauthorized E user_id rid = do {
     u \<leftarrow> load_user_by_id E user_id;
     return (case u of
       Inr (Some user) \<Rightarrow>
         if \<not> u_is_banned user \<and> u_is_approved user then Inr user
         else Inl (api_err ''UNAUTHORIZED'' ''errors.unauthorized'' rid)
     | _ \<Rightarrow> Inl (api_err ''UNAUTHORIZED'' ''errors.unauthorized'' rid))
   }"

text \<open>The common start of the challenge routes: the token of the right purpose, then its user.\<close>

definition with_challenge ::
  "app \<Rightarrow> string \<Rightarrow> string \<Rightarrow> string \<Rightarrow> (user_row \<Rightarrow> response handler) \<Rightarrow> response handler" where
  "with_challenge E rid mfa_token purpose body = do {
     t \<leftarrow> decode_challenge_token E mfa_token purpose;
     case t of
       None \<Rightarrow> return (api_err ''UNAUTHORIZED'' ''errors.unauthorized'' rid)
     | Some user_id \<Rightarrow> do {
         u \<leftarrow> load_user_or_unauthorized E user_id rid;
         case u of Inl resp \<Rightarrow> return resp | Inr user \<Rightarrow> body user
       }
   }"

definition challenge_enroll :: "app \<Rightarrow> header_map \<Rightarrow> string \<Rightarrow> string option \<Rightarrow> response handler" where
  "challenge_enroll E headers mfa_token payload_method = do {
     rid \<leftarrow> request_id E headers;
     with_challenge E rid mfa_token PURPOSE_ENROLLMENT (\<lambda>user. do {
       r \<leftarrow> begin_enrollment E (u_id user) (u_user_code user)
              (case payload_method of None \<Rightarrow> METHOD_TOTP | Some m \<Rightarrow> m) (u_email user);
       return (enrolment_response rid r)
     })
   }"

definition challenge_enroll_resend :: "app \<Rightarrow> header_map \<Rightarrow> string \<Rightarrow> response handler" where
  "challenge_enroll_resend E headers mfa_token = do {
     rid \<leftarrow> request_id E headers;
     with_challenge E rid mfa_token PURPOSE_ENROLLMENT (\<lambda>user. resend_to E rid (u_id user) (u_email user))
   }"

definition challenge_request_code :: "app \<Rightarrow> header_map \<Rightarrow> string \<Rightarrow> response handler" where
  "challenge_request_code E headers mfa_token = do {
     rid \<leftarrow> request_id E headers;
     with_challenge E rid mfa_token PURPOSE_LOGIN (\<lambda>user. do {
       c \<leftarrow> find_mfa_credential E (u_id user);
       let is_email_method = (case c of
           Inr (Some row) \<Rightarrow> m_enabled_at row \<noteq> None \<and> m_method row = METHOD_EMAIL | _ \<Rightarrow> False);
       if \<not> is_email_method then return (api_err ''MFA_NOT_ENABLED'' ''errors.mfaNotEnabled'' rid)
       else resend_to E rid (u_id user) (u_email user)
     })
   }"

definition complete_login :: "app \<Rightarrow> user_row \<Rightarrow> header_map \<Rightarrow> string \<Rightarrow> string list option \<Rightarrow> response handler" where
  "complete_login E user headers rid codes = do {
     p1 \<leftarrow> issue_session E user headers;
     p \<leftarrow> (case p1 of Inr pair \<Rightarrow> return (Inr pair) | Inl _ \<Rightarrow> issue_session E user headers);
     case p of
       Inl _ \<Rightarrow> return (api_err ''INTERNAL_ERROR'' ''errors.internal'' rid)
     | Inr (access_token, refresh_token) \<Rightarrow> do {
         save E (from_headers E headers (by_id (u_id user) (u_user_code user) (u_role user)
           (recorder_new ''AUTH_LOGIN_SUCCESS'' ''success'' rid)));
         return (session_response E (JObj ([(''accessToken'', JStr access_token), (''user'', public_user user)]
             @ (case codes of None \<Rightarrow> [] | Some cs \<Rightarrow> [(''recoveryCodes'', codes_json cs)])))
           refresh_token headers)
       }
   }"

definition challenge_enroll_confirm :: "app \<Rightarrow> header_map \<Rightarrow> string \<Rightarrow> string \<Rightarrow> response handler" where
  "challenge_enroll_confirm E headers mfa_token payload_code = do {
     rid \<leftarrow> request_id E headers;
     with_challenge E rid mfa_token PURPOSE_ENROLLMENT (\<lambda>user. do {
       r \<leftarrow> confirm_enrollment E (u_id user) (u_user_code user) payload_code;
       case r of
         Inl err \<Rightarrow> return (fail_with err rid)
       | Inr AlreadyEnabled \<Rightarrow> complete_login E user headers rid None
       | Inr (Enabled codes) \<Rightarrow> do {
           a \<leftarrow> save_mandatory E (from_headers E headers (by_id (u_id user) (u_user_code user) (u_role user)
                  (recorder_new ''MFA_ENABLED'' ''success'' rid)));
           case a of
             Inl err \<Rightarrow> return (fail_with err rid)
           | Inr _ \<Rightarrow> complete_login E user headers rid (Some codes)
         }
     })
   }"

definition challenge_verify :: "app \<Rightarrow> header_map \<Rightarrow> string \<Rightarrow> string \<Rightarrow> response handler" where
  "challenge_verify E headers mfa_token payload_code = do {
     rid \<leftarrow> request_id E headers;
     with_challenge E rid mfa_token PURPOSE_LOGIN (\<lambda>user. do {
       ok \<leftarrow> rate_check (''mfa-verify:'' @ u_id user) 8 (15 * 60 * SECOND);
       if \<not> ok then return (api_err ''RATE_LIMITED'' ''errors.rateLimited'' rid)
       else do {
         v \<leftarrow> verify_code E (u_id user) (u_user_code user) payload_code;
         let rec = (\<lambda>action outcome. from_headers E headers (by_id (u_id user) (u_user_code user)
             (u_role user) (recorder_new action outcome rid)));
         case v of
           Inr Primary \<Rightarrow> complete_login E user headers rid None
         | Inr Recovery \<Rightarrow> do {
             save E (rec ''MFA_RECOVERY_CODE_USED'' ''success'');
             complete_login E user headers rid None
           }
         | _ \<Rightarrow> do {
             save E (rec ''MFA_CHALLENGE_FAILED'' ''denied'');
             return (api_err ''INVALID_MFA_CODE'' ''errors.invalidMfaCode'' rid)
           }
       }
     })
   }"

definition admin_reset :: "app \<Rightarrow> string \<Rightarrow> (db_error + unit) handler" where
  "admin_reset E target_user_id = delete_mfa_credential E target_user_id"

section \<open>Frames\<close>

lemma confirm_outcome_frame [frame_intros]:
  "(\<And>cs. preserves f (g cs)) \<Longrightarrow> preserves f m \<Longrightarrow>
     preserves f (case x of Enabled cs \<Rightarrow> g cs | AlreadyEnabled \<Rightarrow> m)"
  by (simp split: confirm_outcome.split)

lemma verify_outcome_frame [frame_intros]:
  "preserves f m \<Longrightarrow> preserves f n \<Longrightarrow> preserves f q \<Longrightarrow>
     preserves f (case x of Primary \<Rightarrow> m | Recovery \<Rightarrow> n | Failed \<Rightarrow> q)"
  by (simp split: verify_outcome.split)

lemma recovery_codes_frame [frame_intros]: "blind_base f \<Longrightarrow> preserves f (recovery_codes E n)"
  by (induction n) (auto simp: recovery_code_def Let_def intro!: frame_intros)

lemma mfa_read_frames [frame_intros]:
  "blind_base f \<Longrightarrow> preserves f (enabled_credential E u)"
  "blind_base f \<Longrightarrow> preserves f (login_mfa_outcome E usr)"
  "blind_base f \<Longrightarrow> preserves f (sign_challenge_token E u p)"
  "blind_base f \<Longrightarrow> preserves f (decode_challenge_token E t p)"
  "blind_base f \<Longrightarrow> preserves f (generate_secret E)"
  "blind_base f \<Longrightarrow> preserves f (generate_email_code E)"
  "blind_base f \<Longrightarrow> preserves f email_code_expiry"
  "blind_base f \<Longrightarrow> preserves f (generate_recovery_codes E)"
  "blind_base f \<Longrightarrow> preserves f (totp_code_matches E tp c)"
  "blind_base f \<Longrightarrow> preserves f (load_user_or_unauthorized E u rid)"
  unfolding enabled_credential_def login_mfa_outcome_def sign_challenge_token_def
    decode_challenge_token_def generate_secret_def generate_email_code_def email_code_expiry_def
    generate_recovery_codes_def totp_code_matches_def load_user_or_unauthorized_def Let_def
  by (intro frame_intros; simp)+

definition blind_mfa :: "(world \<Rightarrow> 'b) \<Rightarrow> bool" where
  [simp]: "blind_mfa f \<longleftrightarrow> blind_base f \<and> blind w_mfa_credentials_update f \<and> blind w_recovery_codes_update f"

lemma mfa_core_frames [frame_intros]:
  "blind_mfa f \<Longrightarrow> preserves f (begin_totp_enrollment E u a)"
  "blind_mfa f \<Longrightarrow> blind w_outbox_update f \<Longrightarrow> preserves f (begin_email_enrollment E u em)"
  "blind_mfa f \<Longrightarrow> blind w_outbox_update f \<Longrightarrow> preserves f (resend_email_code E u em)"
  "blind_mfa f \<Longrightarrow> preserves f (enable_pending E u a c pen)"
  "blind_mfa f \<Longrightarrow> preserves f (verify_primary E u a c pen)"
  unfolding begin_totp_enrollment_def begin_email_enrollment_def resend_email_code_def
    enable_pending_def verify_primary_def
  by (intro frame_intros; simp)+

lemma mfa_flow_frames [frame_intros]:
  "blind_mfa f \<Longrightarrow> blind w_outbox_update f \<Longrightarrow> preserves f (begin_enrollment E u a m em)"
  "blind_mfa f \<Longrightarrow> blind w_outbox_update f \<Longrightarrow> preserves f (send_login_challenge_email_code E usr)"
  "blind_mfa f \<Longrightarrow> preserves f (confirm_enrollment E u a c)"
  "blind_mfa f \<Longrightarrow> preserves f (verify_code E u a c)"
  "blind_mfa f \<Longrightarrow> preserves f (admin_reset E u)"
  "blind_mfa f \<Longrightarrow> blind w_outbox_update f \<Longrightarrow> blind w_windows_update f \<Longrightarrow> preserves f (resend_to E rid u oe)"
  unfolding begin_enrollment_def send_login_challenge_email_code_def confirm_enrollment_def
    verify_code_def admin_reset_def resend_to_def
  by (intro frame_intros; simp)+

lemma with_challenge_frame [frame_intros]:
  "blind_base f \<Longrightarrow> (\<And>u. preserves f (b u)) \<Longrightarrow> preserves f (with_challenge E rid t p b)"
  unfolding with_challenge_def by (intro frame_intros; simp)

lemma complete_login_frame [frame_intros]:
  "blind_audit f \<Longrightarrow> blind w_sessions_update f \<Longrightarrow> preserves f (complete_login E u h rid cs)"
  unfolding complete_login_def by (intro frame_intros; simp)

definition blind_mfa_routes :: "(world \<Rightarrow> 'b) \<Rightarrow> bool" where
  [simp]: "blind_mfa_routes f \<longleftrightarrow> blind_mfa f \<and> blind_audit f \<and> blind w_outbox_update f
     \<and> blind w_windows_update f \<and> blind w_sessions_update f"

lemma mfa_route_frames [frame_intros]:
  "blind_mfa_routes f \<Longrightarrow> preserves f (enroll E h m)"
  "blind_mfa_routes f \<Longrightarrow> preserves f (enroll_resend E h)"
  "blind_mfa_routes f \<Longrightarrow> preserves f (enroll_confirm E h c)"
  "blind_mfa_routes f \<Longrightarrow> preserves f (disable E h pw c)"
  "blind_mfa_routes f \<Longrightarrow> preserves f (challenge_enroll E h t m)"
  "blind_mfa_routes f \<Longrightarrow> preserves f (challenge_enroll_resend E h t)"
  "blind_mfa_routes f \<Longrightarrow> preserves f (challenge_request_code E h t)"
  "blind_mfa_routes f \<Longrightarrow> preserves f (challenge_enroll_confirm E h t c)"
  "blind_mfa_routes f \<Longrightarrow> preserves f (challenge_verify E h t c)"
  unfolding enroll_def enroll_resend_def enroll_confirm_def disable_def challenge_enroll_def
    challenge_enroll_resend_def challenge_request_code_def challenge_enroll_confirm_def
    challenge_verify_def Let_def
  by ((intro frame_intros; simp)+)

section \<open>A code is needed\<close>

text \<open>
  What the state must hold for a code to be accepted: an enabled credential of the user and either
  the emailed code it waits for, or a one-time password its secret accepts now, or an unused
  recovery code of the user.
\<close>

definition code_evidence :: "app \<Rightarrow> string \<Rightarrow> string \<Rightarrow> string \<Rightarrow> world \<Rightarrow> bool" where
  "code_evidence E user_id account_name c w \<longleftrightarrow> (\<exists>k. db_key E user_id = Some k \<and>
     (\<exists>cred\<in>set (w_mfa_credentials w). m_user_id cred = k \<and> m_enabled_at cred \<noteq> None \<and>
        ((m_method cred = METHOD_EMAIL \<and>
            (\<exists>r\<in>set (w_mfa_credentials w). email_code_matches E (w_now w) k (sha256_hex E (trim c)) r))
         \<or> (m_method cred \<noteq> METHOD_EMAIL \<and>
            (\<exists>totp. x_totp_build E (m_secret cred) account_name = Some totp \<and> trim c \<noteq> []
                \<and> x_totp_check E totp (w_now w) (trim c)))
         \<or> (\<exists>r\<in>set (w_recovery_codes w). k_user_id r = k \<and> k_code_hash r = sha256_hex E (trim c)
                \<and> k_used_at r = None))))"

lemma enabled_credential_Some:
  assumes "result (enabled_credential E u) w = Some row"
  shows "\<exists>k. db_key E u = Some k \<and> row \<in> set (w_mfa_credentials w) \<and> m_user_id row = k \<and> m_enabled_at row \<noteq> None"
  using assms
  by (auto simp: enabled_credential_def result_bind find_mfa_credential_def result_with_key result_query
      split: option.splits if_splits sum.splits dest: find_Some_set)

lemma consume_email_True: "result (consume_email_mfa_code E u h) w = Inr True \<Longrightarrow>
    \<exists>k. db_key E u = Some k \<and> (\<exists>r\<in>set (w_mfa_credentials w). email_code_matches E (w_now w) k h r)"
  by (auto simp: consume_email_mfa_code_def with_key_def result_def run_stmt update_credentials_def
      sql_count_pos split: option.splits if_splits)

lemma consume_recovery_True: "result (consume_recovery_code E u h) w = Inr True \<Longrightarrow>
    \<exists>k. db_key E u = Some k \<and> (\<exists>r\<in>set (w_recovery_codes w). k_user_id r = k \<and> k_code_hash r = h \<and> k_used_at r = None)"
  by (auto simp: consume_recovery_code_def with_key_def result_def run_stmt sql_count_pos
      split: option.splits if_splits)

lemma verify_primary_True:
  assumes "result (verify_primary E u a c cred) w"
  shows "if m_method cred = METHOD_EMAIL
     then \<exists>k. db_key E u = Some k \<and> (\<exists>r\<in>set (w_mfa_credentials w). email_code_matches E (w_now w) k (sha256_hex E (trim c)) r)
     else \<exists>totp. x_totp_build E (m_secret cred) a = Some totp \<and> trim c \<noteq> [] \<and> x_totp_check E totp (w_now w) (trim c)"
  using assms consume_email_True [of E u "sha256_hex E (trim c)" w]
  by (auto simp: verify_primary_def result_bind totp_code_matches_def split: if_splits option.splits)

lemma verify_code_evidence:
  assumes "result (verify_code E u a c) w \<in> {Inr Primary, Inr Recovery}"
  shows "code_evidence E u a c w"
proof -
  let ?w1 = "exec (enabled_credential E u) w"
  have same: "w_now ?w1 = w_now w" "w_mfa_credentials ?w1 = w_mfa_credentials w"
    "w_recovery_codes ?w1 = w_recovery_codes w"
    by (rule preservesD, intro frame_intros, simp)+
  obtain cred where cred: "result (enabled_credential E u) w = Some cred"
    using assms by (auto simp: verify_code_def result_bind split: option.splits)
  obtain k where k: "db_key E u = Some k" "cred \<in> set (w_mfa_credentials w)" "m_user_id cred = k"
    "m_enabled_at cred \<noteq> None"
    using enabled_credential_Some [OF cred] by blast
  let ?w2 = "exec (verify_primary E u a c cred) ?w1"
  have rec: "w_recovery_codes ?w2 = w_recovery_codes ?w1"
    unfolding verify_primary_def by (rule preservesD, intro frame_intros) simp_all
  consider (primary) "result (verify_primary E u a c cred) ?w1"
    | (recovery) "result (consume_recovery_code E u (sha256_hex E (trim c))) ?w2 = Inr True"
    using assms cred by (auto simp: verify_code_def result_bind split: if_splits)
  then show ?thesis
  proof cases
    case primary
    from verify_primary_True [OF this] k same show ?thesis
      unfolding code_evidence_def by (auto split: if_splits)
  next
    case recovery
    from consume_recovery_True [OF this] k same rec show ?thesis
      unfolding code_evidence_def by auto
  qed
qed

lemma code_evidence_frame: "blind_base (code_evidence E u a c) \<and> blind w_windows_update (code_evidence E u a c)"
  by (simp add: code_evidence_def)

definition challenge_user :: "app \<Rightarrow> string \<Rightarrow> string \<Rightarrow> world \<Rightarrow> user_row \<Rightarrow> bool" where
  "challenge_user E mfa_token purpose w user \<longleftrightarrow>
     (\<exists>claims. x_decode_challenge E (w_now w) mfa_token (x_mfa_token_secret E) = Some claims
        \<and> cc_purpose claims = purpose \<and> db_key E (cc_user_id claims) = Some (u_id user))
     \<and> user \<in> set (w_users w) \<and> live user \<and> \<not> u_is_banned user \<and> u_is_approved user"

lemma with_challenge_run:
  obtains (denied) n where "exec (with_challenge E rid t p b) w = w\<lparr>w_stmts := n\<rparr>"
      and "result (with_challenge E rid t p b) w = api_err ''UNAUTHORIZED'' ''errors.unauthorized'' rid"
  | (user) user n where "challenge_user E t p w user"
      and "exec (with_challenge E rid t p b) w = exec (b user) (w\<lparr>w_stmts := n\<rparr>)"
      and "result (with_challenge E rid t p b) w = result (b user) (w\<lparr>w_stmts := n\<rparr>)"
proof (cases "result (decode_challenge_token E t p) w")
  case None
  then have "exec (with_challenge E rid t p b) w = w\<lparr>w_stmts := w_stmts w\<rparr>"
    "result (with_challenge E rid t p b) w = api_err ''UNAUTHORIZED'' ''errors.unauthorized'' rid"
    by (simp_all add: with_challenge_def exec_bind result_bind decode_challenge_token_def)
  then show ?thesis by (rule denied)
next
  case (Some uid)
  then obtain claims where c: "x_decode_challenge E (w_now w) t (x_mfa_token_secret E) = Some claims"
    "cc_purpose claims = p" "cc_user_id claims = uid"
    by (auto simp: decode_challenge_token_def result_bind split: option.splits if_splits)
  have d: "exec (decode_challenge_token E t p) w = w"
    by (simp add: decode_challenge_token_def exec_bind)
  obtain n where n: "exec (load_user_by_id E uid) w = w\<lparr>w_stmts := n\<rparr>"
    using exec_load_user_by_id by blast
  show ?thesis
  proof (cases "result (load_user_or_unauthorized E uid rid) w")
    case (Inl resp)
    then have "resp = api_err ''UNAUTHORIZED'' ''errors.unauthorized'' rid"
      by (auto simp: load_user_or_unauthorized_def result_bind split: sum.splits option.splits if_splits)
    with Inl have "exec (with_challenge E rid t p b) w = w\<lparr>w_stmts := n\<rparr>"
      "result (with_challenge E rid t p b) w = api_err ''UNAUTHORIZED'' ''errors.unauthorized'' rid"
      using Some d n by (simp_all add: with_challenge_def exec_bind result_bind load_user_or_unauthorized_def)
    then show ?thesis by (rule denied)
  next
    case (Inr user)
    then have u: "result (load_user_by_id E uid) w = Inr (Some user)" "\<not> u_is_banned user" "u_is_approved user"
      by (auto simp: load_user_or_unauthorized_def result_bind split: sum.splits option.splits if_splits)
    show ?thesis
    proof (rule that(2))
      show "challenge_user E t p w user"
        using load_user_by_id_Some [OF u(1)] u c by (auto simp: challenge_user_def)
      show "exec (with_challenge E rid t p b) w = exec (b user) (w\<lparr>w_stmts := n\<rparr>)"
        "result (with_challenge E rid t p b) w = result (b user) (w\<lparr>w_stmts := n\<rparr>)"
        using Inr Some d n by (simp_all add: with_challenge_def exec_bind result_bind load_user_or_unauthorized_def)
    qed
  qed
qed

lemma verify_code_sessions: "w_sessions (exec (verify_code E u a c) w) = w_sessions w"
  by (rule preservesD, intro frame_intros) simp

lemma save_sessions: "w_sessions (exec (save E r) w) = w_sessions w"
  by (rule preservesD, intro frame_intros) simp

text \<open>What \<open>challenge_verify\<close> does once the challenge has named an account.\<close>

definition answer_challenge :: "app \<Rightarrow> header_map \<Rightarrow> string \<Rightarrow> string \<Rightarrow> user_row \<Rightarrow> response handler" where
  "answer_challenge E headers payload_code rid user = do {
     ok \<leftarrow> rate_check (''mfa-verify:'' @ u_id user) 8 (15 * 60 * SECOND);
     if \<not> ok then return (api_err ''RATE_LIMITED'' ''errors.rateLimited'' rid)
     else do {
       v \<leftarrow> verify_code E (u_id user) (u_user_code user) payload_code;
       let rec = (\<lambda>action outcome. from_headers E headers (by_id (u_id user) (u_user_code user)
           (u_role user) (recorder_new action outcome rid)));
       case v of
         Inr Primary \<Rightarrow> complete_login E user headers rid None
       | Inr Recovery \<Rightarrow> do {
           save E (rec ''MFA_RECOVERY_CODE_USED'' ''success'');
           complete_login E user headers rid None
         }
       | _ \<Rightarrow> do {
           save E (rec ''MFA_CHALLENGE_FAILED'' ''denied'');
           return (api_err ''INVALID_MFA_CODE'' ''errors.invalidMfaCode'' rid)
         }
     }
   }"

lemma challenge_verify_split:
  "challenge_verify E h t c = do { rid \<leftarrow> request_id E h; with_challenge E rid t PURPOSE_LOGIN (answer_challenge E h c rid) }"
  by (simp add: challenge_verify_def answer_challenge_def [abs_def])

lemma answered_challenge_had_a_code:
  assumes "w_sessions (exec (answer_challenge E h c rid user) w) \<noteq> w_sessions w"
  shows "code_evidence E (u_id user) (u_user_code user) c w"
proof -
  obtain ws where ws: "exec (rate_check (''mfa-verify:'' @ u_id user) 8 (15 * 60 * SECOND)) w = w\<lparr>w_windows := ws\<rparr>"
    using exec_rate_check by blast
  have "result (verify_code E (u_id user) (u_user_code user) c) (w\<lparr>w_windows := ws\<rparr>) \<in> {Inr Primary, Inr Recovery}"
  proof (rule ccontr)
    assume "\<not> ?thesis"
    then have "w_sessions (exec (answer_challenge E h c rid user) w) = w_sessions w"
      by (auto simp: answer_challenge_def exec_bind ws [simplified] save_sessions verify_code_sessions Let_def
          split: sum.split verify_outcome.split)
    with assms show False by simp
  qed
  then have "code_evidence E (u_id user) (u_user_code user) c (w\<lparr>w_windows := ws\<rparr>)"
    by (rule verify_code_evidence)
  then show ?thesis by (simp add: code_evidence_def)
qed

text \<open>
  C1. Completing a login with a challenge takes the second factor. If the verification route changes
  the sessions table at all, then the request carried an unexpired challenge token of the login
  purpose, its account exists, is approved and not banned, and the code was good: the emailed code
  the account waits for, a one-time password its secret accepts, or an unused recovery code.
\<close>
theorem challenge_verify_needs_a_code:
  assumes "w_sessions (exec (challenge_verify E h t c) w) \<noteq> w_sessions w"
  shows "\<exists>user. challenge_user E t PURPOSE_LOGIN w user
     \<and> code_evidence E (u_id user) (u_user_code user) c w"
proof -
  obtain m where m: "exec (request_id E h) w = w\<lparr>w_draws := m\<rparr>" using exec_request_id by blast
  let ?b = "answer_challenge E h c (result (request_id E h) w)" and ?w1 = "w\<lparr>w_draws := m\<rparr>"
  have ex: "exec (challenge_verify E h t c) w = exec (with_challenge E (result (request_id E h) w) t PURPOSE_LOGIN ?b) ?w1"
    by (simp add: challenge_verify_split exec_bind m)
  show ?thesis
  proof (rule with_challenge_run [of E "result (request_id E h) w" t PURPOSE_LOGIN ?b ?w1])
    fix n assume "exec (with_challenge E (result (request_id E h) w) t PURPOSE_LOGIN ?b) ?w1 = ?w1\<lparr>w_stmts := n\<rparr>"
    with assms ex show ?thesis by simp
  next
    fix user n
    assume user: "challenge_user E t PURPOSE_LOGIN ?w1 user"
      and run: "exec (with_challenge E (result (request_id E h) w) t PURPOSE_LOGIN ?b) ?w1 = exec (?b user) (?w1\<lparr>w_stmts := n\<rparr>)"
    have "code_evidence E (u_id user) (u_user_code user) c (?w1\<lparr>w_stmts := n\<rparr>)"
      by (rule answered_challenge_had_a_code) (use assms ex run in simp)
    then have "code_evidence E (u_id user) (u_user_code user) c w" by (simp add: code_evidence_def)
    moreover have "challenge_user E t PURPOSE_LOGIN w user" using user by (simp add: challenge_user_def)
    ultimately show ?thesis by blast
  qed
qed

definition demo_mfa :: "string \<Rightarrow> app" where
  "demo_mfa purpose = demo_app\<lparr>x_decode_challenge :=
     (\<lambda>now t key. Some \<lparr>cc_user_id = ''1'', cc_purpose = purpose, cc_exp = 0\<rparr>)\<rparr>"

definition demo_credential :: mfa_credential_row where
  "demo_credential = \<lparr>m_id = ''m'', m_user_id = ''1'', m_secret = ''S'', m_method = ''totp'',
     m_email_code_hash = None, m_email_code_expires_at = None, m_enabled_at = Some 0, m_last_used_at = None\<rparr>"

definition demo_mfa_world :: world where
  "demo_mfa_world = demo_world\<lparr>w_users := [demo_user], w_mfa_credentials := [demo_credential]\<rparr>"

lemma complete_login_ok:
  assumes "healthy w" and "x_backend E = Sqlite" and "signing_works E"
  shows "wp (complete_login E user h rid cs) (\<lambda>r w'. r_status r = 200 \<and> session_added (u_id user) w w') w"
  unfolding complete_login_def wp_bind
  by (rule wp_mono [OF issue_session_adds [OF assms]])
    (auto simp: wp_simps wp_def [of "save E r" for r] save_sessions session_added_def session_response_def)

lemma challenge_verify_ok:
  assumes "healthy w" and "x_backend E = Sqlite" and "signing_works E"
    and "x_decode_challenge E (w_now w) t (x_mfa_token_secret E) = Some claims" and "cc_purpose claims = PURPOSE_LOGIN"
    and "result (load_user_by_id E (cc_user_id claims)) w = Inr (Some user)"
    and "u_is_approved user" and "\<not> u_is_banned user"
    and "result (find_mfa_credential E (u_id user)) w = Inr (Some cred)" and "m_enabled_at cred \<noteq> None"
    and "m_method cred \<noteq> METHOD_EMAIL" and "x_totp_build E (m_secret cred) (u_user_code user) = Some totp"
    and "trim c \<noteq> []" and "x_totp_check E totp (w_now w) (trim c)"
    and "fst (check (w_windows w) (w_now w) (''mfa-verify:'' @ u_id user) 8 (15 * 60 * SECOND))"
  shows "wp (challenge_verify E h t c) (\<lambda>r w'. r_status r = 200 \<and> session_added (u_id user) w w') w"
proof -
  have u: "find (\<lambda>u. u_id u = cc_user_id claims \<and> live u) (w_users w) = Some user"
    using assms(1,2,6) by (simp add: load_user_by_id_def result_with_key result_query db_key_sqlite)
  have cr: "find (\<lambda>r. m_user_id r = u_id user) (w_mfa_credentials w) = Some cred"
    using assms(1,2,9) by (simp add: find_mfa_credential_def result_with_key result_query db_key_sqlite)
  obtain ws where ws: "check (w_windows w) (w_now w) (''mfa-verify:'' @ u_id user) 8 (15 * 60 * SECOND) = (True, ws)"
    using assms(15) by (metis prod.collapse)
  have fin: "wp (complete_login E user h rid None) (\<lambda>r w'. r_status r = 200 \<and> session_added (u_id user) w w') v"
    if "healthy v" "w_sessions v = w_sessions w" for v rid
    using complete_login_ok [OF that(1) assms(2,3), of user h rid None] that(2)
    by (simp add: wp_def session_added_def)
  show ?thesis
    using assms(1,2,4,5,7,8,10-14) u cr ws [simplified]
    by (simp add: challenge_verify_def with_challenge_def decode_challenge_token_def
        load_user_or_unauthorized_def load_user_by_id_def verify_code_def enabled_credential_def
        find_mfa_credential_def verify_primary_def totp_code_matches_def touch_mfa_last_used_def
        update_credentials_def wp_simps Let_def db_key_sqlite fin split: option.split)
qed

text \<open>
  And the right second factor is enough: for an approved account with an enabled authenticator,
  a valid challenge token and a one-time password its secret accepts now, the route answers 200 and
  adds one active session for that user, as long as the attempt limit is not used up.
\<close>
theorem challenge_verify_completes_the_login:
  assumes "healthy w" and "x_backend E = Sqlite" and "signing_works E"
    and "x_decode_challenge E (w_now w) t (x_mfa_token_secret E) = Some claims" and "cc_purpose claims = PURPOSE_LOGIN"
    and "result (load_user_by_id E (cc_user_id claims)) w = Inr (Some user)"
    and "u_is_approved user" and "\<not> u_is_banned user"
    and "result (find_mfa_credential E (u_id user)) w = Inr (Some cred)" and "m_enabled_at cred \<noteq> None"
    and "m_method cred \<noteq> METHOD_EMAIL" and "x_totp_build E (m_secret cred) (u_user_code user) = Some totp"
    and "trim c \<noteq> []" and "x_totp_check E totp (w_now w) (trim c)"
    and "fst (check (w_windows w) (w_now w) (''mfa-verify:'' @ u_id user) 8 (15 * 60 * SECOND))"
  shows "wp (challenge_verify E h t c) (\<lambda>r w'. r_status r = 200 \<and> session_added (u_id user) w w') w"
  using assms by (rule challenge_verify_ok)

lemma demo_mfa_simps [simp]:
  "healthy demo_mfa_world" "x_backend (demo_mfa p) = Sqlite" "signing_works (demo_mfa p)"
  "x_decode_challenge (demo_mfa p) now t key = Some \<lparr>cc_user_id = ''1'', cc_purpose = p, cc_exp = 0\<rparr>"
  by (simp_all add: demo_mfa_world_def demo_mfa_def demo_app_def signing_works_def)

lemma demo_mfa_user: "result (load_user_by_id (demo_mfa p) ''1'') demo_mfa_world = Inr (Some demo_user)"
  by (simp add: load_user_by_id_def result_with_key result_query db_key_sqlite)
    (simp add: demo_mfa_world_def demo_user_def live_def)

lemma demo_mfa_credential: "result (find_mfa_credential (demo_mfa p) (u_id demo_user)) demo_mfa_world = Inr (Some demo_credential)"
  by (simp add: find_mfa_credential_def result_with_key result_query db_key_sqlite)
    (simp add: demo_mfa_world_def demo_user_def demo_credential_def)

lemma demo_challenge_verify:
  "wp (challenge_verify (demo_mfa PURPOSE_LOGIN) demo_headers ''t'' ''000000'')
     (\<lambda>r w'. r_status r = 200 \<and> session_added ''1'' demo_mfa_world w') demo_mfa_world"
  using challenge_verify_ok [OF _ _ _ _ _ _ _ _ demo_mfa_credential, of PURPOSE_LOGIN
      "''t''" _ "''S''" "''000000''" demo_headers] demo_mfa_user
  by (simp add: demo_user_def demo_credential_def METHOD_EMAIL_def)
    (simp add: demo_mfa_def demo_app_def demo_mfa_world_def demo_world_def check_def trim_def is_whitespace_def code_def)

theorem challenge_verify_completes_the_login_witness:
  "wp (challenge_verify (demo_mfa PURPOSE_LOGIN) demo_headers ''t'' ''000000'')
     (\<lambda>r w'. r_status r = 200 \<and> session_added ''1'' demo_mfa_world w') demo_mfa_world"
  using challenge_verify_completes_the_login [OF _ _ _ _ _ _ _ _ demo_mfa_credential, of PURPOSE_LOGIN
      "''t''" _ "''S''" "''000000''" demo_headers] demo_mfa_user
  by (simp add: demo_user_def demo_credential_def METHOD_EMAIL_def)
    (simp add: demo_mfa_def demo_app_def demo_mfa_world_def demo_world_def check_def trim_def is_whitespace_def code_def)

theorem challenge_verify_needs_a_code_witness:
  "\<exists>user. challenge_user (demo_mfa PURPOSE_LOGIN) ''t'' PURPOSE_LOGIN demo_mfa_world user
     \<and> code_evidence (demo_mfa PURPOSE_LOGIN) (u_id user) (u_user_code user) ''000000'' demo_mfa_world"
proof (rule challenge_verify_needs_a_code [of _ demo_headers])
  show "w_sessions (exec (challenge_verify (demo_mfa PURPOSE_LOGIN) demo_headers ''t'' ''000000'') demo_mfa_world)
      \<noteq> w_sessions demo_mfa_world"
    using demo_challenge_verify by (auto simp: wp_def session_added_def)
qed

section \<open>Where the second factor can be skipped\<close>

lemma wp_generate_secret [wp_simps]: "wp (generate_secret E) Q w \<longleftrightarrow> Q (x_totp_secret E (w_draws w)) (w\<lparr>w_draws := Suc (w_draws w)\<rparr>)"
  by (simp add: generate_secret_def wp_simps)

lemma find_upsert_pending:
  "find (\<lambda>r. m_user_id r = k) (upsert i k s m h ex t) = Some r \<Longrightarrow> m_enabled_at r = None"
  using find_upsert [of k i s m h ex t] by auto

text \<open>
  An access token alone turns multi-factor authentication off. Starting an enrolment needs no
  password and no code, and it resets the existing credential to pending even when it was enabled:
  right after the call, a login of an account whose role does not require MFA asks for no second
  factor. (The route that disables MFA demands the password and a code for exactly this reason.)
\<close>
theorem enroll_switches_mfa_off:
  assumes "healthy w" and "result (auth_user_from_headers E h) w = Some claims"
    and "result (load_user_by_id E (cl_id claims)) w = Inr (Some user)"
    and "u_role user \<notin> set (x_mfa_required_roles E)" and "x_backend E = Sqlite"
  shows "wp (enroll E h None) (\<lambda>r w'. result (login_mfa_outcome E user) w' = NotRequired) w"
proof -
  have u: "find (\<lambda>u. u_id u = cl_id claims \<and> live u) (w_users w) = Some user" "u_id user = cl_id claims"
    using assms(1,3,5) by (auto simp: load_user_by_id_def result_with_key result_query db_key_sqlite dest: find_Some_set)
  have none: "result (login_mfa_outcome E user) v = NotRequired"
    if "healthy v" "w_mfa_credentials v = upsert i (cl_id claims) s m hh ex t" for v i s m hh ex t
    using that find_upsert_pending assms(4,5) u(2)
    by (fastforce simp: login_mfa_outcome_def enabled_credential_def find_mfa_credential_def result_bind
        result_with_key result_query exec_def [of "with_key E i d f" for i d f] with_key_def run_query
        db_key_sqlite list_ex_iff split: option.splits)
  show ?thesis
    using assms(1,2,5) u
    by (auto simp: enroll_def wp_simps auth_user_run begin_enrollment_def begin_totp_enrollment_def
        load_user_by_id_def upsert_pending_mfa_credential_def db_key_sqlite none method_defs
        split: option.split)
qed

text \<open>
  C38. An enrolment token completes a login without any code. Once the account's MFA is enabled (by
  whoever finished the enrolment), presenting a still valid enrolment token, which a login hands out
  for the password alone, makes the confirmation route treat the request as a retry: for every
  code, right or wrong, it answers 200 and adds a session.
\<close>
theorem enrollment_token_bypasses_the_code:
  assumes "healthy w" and "x_backend E = Sqlite" and "signing_works E"
    and "x_decode_challenge E (w_now w) t (x_mfa_token_secret E) = Some claims" and "cc_purpose claims = PURPOSE_ENROLLMENT"
    and "result (load_user_by_id E (cc_user_id claims)) w = Inr (Some user)"
    and "u_is_approved user" and "\<not> u_is_banned user"
    and "result (find_mfa_credential E (u_id user)) w = Inr (Some cred)" and "m_enabled_at cred \<noteq> None"
  shows "wp (challenge_enroll_confirm E h t c) (\<lambda>r w'. r_status r = 200 \<and> session_added (u_id user) w w') w"
proof -
  have u: "find (\<lambda>u. u_id u = cc_user_id claims \<and> live u) (w_users w) = Some user"
    using assms(1,2,6) by (simp add: load_user_by_id_def result_with_key result_query db_key_sqlite)
  have cr: "find (\<lambda>r. m_user_id r = u_id user) (w_mfa_credentials w) = Some cred"
    using assms(1,2,9) by (simp add: find_mfa_credential_def result_with_key result_query db_key_sqlite)
  have fin: "wp (complete_login E user h rid None) (\<lambda>r w'. r_status r = 200 \<and> session_added (u_id user) w w') v"
    if "healthy v" "w_sessions v = w_sessions w" for v rid
    using complete_login_ok [OF that(1) assms(2,3), of user h rid None] that(2)
    by (simp add: wp_def session_added_def)
  show ?thesis
    using assms(1,2,4,5,7,8,10) u cr
    by (simp add: challenge_enroll_confirm_def with_challenge_def decode_challenge_token_def
        load_user_or_unauthorized_def load_user_by_id_def confirm_enrollment_def find_mfa_credential_def
        wp_simps Let_def db_key_sqlite fin split: option.split)
qed

theorem enrollment_token_bypasses_the_code_witness:
  "wp (challenge_enroll_confirm (demo_mfa PURPOSE_ENROLLMENT) demo_headers ''t'' ''wrong'')
     (\<lambda>r w'. r_status r = 200 \<and> session_added ''1'' demo_mfa_world w') demo_mfa_world"
  using enrollment_token_bypasses_the_code [OF _ _ _ _ _ _ _ _ demo_mfa_credential, of PURPOSE_ENROLLMENT
      "''t''" _ demo_headers "''wrong''"] demo_mfa_user
  by (simp add: demo_user_def demo_credential_def)

theorem enroll_switches_mfa_off_witness:
  "wp (enroll (demo_as ''OPERATOR'') demo_headers None)
     (\<lambda>r w'. result (login_mfa_outcome (demo_as ''OPERATOR'') demo_user) w' = NotRequired) demo_mfa_world"
proof (rule enroll_switches_mfa_off [OF _ auth_demo])
  show "result (load_user_by_id (demo_as ''OPERATOR'') (cl_id (demo_claims ''OPERATOR''))) demo_mfa_world
      = Inr (Some demo_user)"
    by (simp add: load_user_by_id_def result_with_key result_query)
      (simp add: demo_mfa_world_def demo_user_def live_def)
qed (simp_all add: demo_as_def demo_app_def)

section \<open>Life time of an emailed code\<close>

text \<open>The instant at which a code sent at time t stops working.\<close>

definition email_code_deadline :: "app \<Rightarrow> int \<Rightarrow> int" where
  "email_code_deadline E t =
     (let e = t + EMAIL_CODE_TTL_MINUTES * MINUTE
      in (e div MINUTE) * MINUTE
         + (case x_backend E of Postgres \<Rightarrow> ((e div 1000000) mod 1000) * 1000000 | Sqlite \<Rightarrow> 0))"

lemma minute_split:
  fixes t :: int
  defines "r \<equiv> t mod 60000000000"
  shows "(t + 600000000000) div 60000000000 = t div 60000000000 + 10"
    and "(t + 600000000000) div 1000000 mod 1000 = r div 1000000 mod 1000"
    and "t div 1000000000 mod 60 = r div 1000000000"
    and "t = (t div 60000000000) * 60000000000 + r"
    and "0 \<le> r" and "r < 60000000000"
    and "r \<ge> (r div 1000000000) * 1000000000 + (r div 1000000 mod 1000) * 1000000"
proof -
  let ?q = "t div 60000000000"
  show t: "t = ?q * 60000000000 + r" "0 \<le> r" "r < 60000000000" by (simp_all add: r_def)
  show "(t + 600000000000) div 60000000000 = ?q + 10" by simp
  have "(t + 600000000000) div 1000000 = (r + (?q * 60000 + 600000) * 1000000) div 1000000"
    using t(1) by (simp add: algebra_simps)
  also have "\<dots> = r div 1000000 + (?q * 60000 + 600000)" by simp
  also have "\<dots> = r div 1000000 + (?q * 60 + 600) * 1000" by simp
  also have "\<dots> mod 1000 = r div 1000000 mod 1000" by (rule mod_mult_self1)
  finally show "(t + 600000000000) div 1000000 mod 1000 = r div 1000000 mod 1000" .
  have "t div 1000000000 = (r + (?q * 60) * 1000000000) div 1000000000"
    using t(1) by (simp add: algebra_simps)
  also have "\<dots> = r div 1000000000 + ?q * 60" by simp
  also have "\<dots> mod 60 = r div 1000000000 mod 60" by simp
  also have "\<dots> = r div 1000000000" using t(2,3) by (intro mod_pos_pos_trivial) (linarith+)
  finally show "t div 1000000000 mod 60 = r div 1000000000" .
  have "(r div 1000000) div 1000 = r div 1000000000" by (simp add: zdiv_zmult2_eq [symmetric])
  then have "r div 1000000 = (r div 1000000000) * 1000 + r div 1000000 mod 1000"
    by (metis div_mult_mod_eq)
  moreover have "r \<ge> (r div 1000000) * 1000000" by simp
  ultimately show "r \<ge> (r div 1000000000) * 1000000000 + (r div 1000000 mod 1000) * 1000000" by linarith
qed
lemma before_minute: "(now :: int) div 60000000000 < m \<longleftrightarrow> now < m * 60000000000"
proof -
  have "now = now div 60000000000 * 60000000000 + now mod 60000000000"
    "0 \<le> now mod 60000000000" "now mod 60000000000 < 60000000000" by simp_all
  then show ?thesis by linarith
qed

text \<open>
  An emailed code lives less long than it says. The stored expiry has lost its seconds, so a
  code works exactly until the beginning of the minute in which its ten minutes end (on PostgreSQL
  plus the milliseconds): always longer than nine minutes, never longer than ten, and less than ten
  whenever it was not sent in the first second of a minute.
\<close>
theorem email_code_lifetime:
  "email_code_live E now (Some (result email_code_expiry w)) = (now < email_code_deadline E (w_now w))
   \<and> w_now w + 9 * MINUTE < email_code_deadline E (w_now w)
   \<and> email_code_deadline E (w_now w) \<le> w_now w + EMAIL_CODE_TTL_MINUTES * MINUTE
   \<and> w_now w + EMAIL_CODE_TTL_MINUTES * MINUTE - email_code_deadline E (w_now w)
       \<ge> ((w_now w div SECOND) mod 60) * SECOND"
proof -
  let ?t = "w_now w"
  note sp = minute_split [of ?t]
  have live: "email_code_live E now (Some (result email_code_expiry w)) = (now < email_code_deadline E ?t)"
    by (cases "x_backend E")
      (simp_all add: email_code_live_def email_code_expiry_def result_bind Let_def email_code_deadline_def
        EMAIL_CODE_TTL_MINUTES_def time_defs before_minute)
  define Q r s ms where "Q = ?t div 60000000000" and "r = ?t mod 60000000000"
    and "s = r div 1000000000" and "ms = r div 1000000 mod 1000"
  have dl: "email_code_deadline E ?t = (Q + 10) * 60000000000
      + (case x_backend E of Postgres \<Rightarrow> ms * 1000000 | Sqlite \<Rightarrow> 0)"
    by (cases "x_backend E") (simp_all add: email_code_deadline_def Let_def EMAIL_CODE_TTL_MINUTES_def
        time_defs sp(1,2) Q_def ms_def r_def)
  have t: "?t = Q * 60000000000 + r" "0 \<le> r" "r < 60000000000" "s * 1000000000 + ms * 1000000 \<le> r"
    "?t div 1000000000 mod 60 = s"
    using sp(3-7) by (simp_all add: Q_def r_def s_def ms_def)
  have nonneg: "0 \<le> ms" "0 \<le> s"
    using t(2) by (simp_all add: ms_def s_def pos_imp_zdiv_nonneg_iff)
  have m: "MINUTE = 60000000000" "SECOND = 1000000000" "EMAIL_CODE_TTL_MINUTES = 10"
    by (simp_all add: time_defs EMAIL_CODE_TTL_MINUTES_def)
  define k where "k = (case x_backend E of Postgres \<Rightarrow> ms * 1000000 | Sqlite \<Rightarrow> 0)"
  have k: "0 \<le> k" "k \<le> ms * 1000000" "email_code_deadline E ?t = Q * 60000000000 + 600000000000 + k"
    using nonneg dl by (auto simp: k_def algebra_simps split: db_backend.split)
  have "?t + 9 * MINUTE < email_code_deadline E ?t"
    unfolding k(3) m using t(1-4) nonneg k(1,2) by linarith
  moreover have "email_code_deadline E ?t \<le> ?t + EMAIL_CODE_TTL_MINUTES * MINUTE"
    unfolding k(3) m using t(1-4) nonneg k(1,2) by linarith
  moreover have "?t + EMAIL_CODE_TTL_MINUTES * MINUTE - email_code_deadline E ?t \<ge> ((?t div SECOND) mod 60) * SECOND"
    unfolding k(3) m t(5) using t(1-4) nonneg k(1,2) by linarith
  ultimately show ?thesis using live by blast
qed

section \<open>Recovery codes\<close>

lemma length_recovery_codes [simp]: "length (result (recovery_codes E n) w) = n"
  by (induction n arbitrary: w) (simp_all add: result_bind)

text \<open>
  Confirming an enrolment hands out ten recovery codes, and the table then holds exactly their
  hashes, unused, for that user: whatever codes the user had before are gone, and nobody else's
  change.
\<close>
theorem confirmation_replaces_the_recovery_codes:
  assumes "healthy w" and "result (confirm_enrollment E u a c) w = Inr (Enabled codes)" and "db_key E u = Some k"
  shows "length codes = 10
     \<and> map (\<lambda>r. (k_code_hash r, k_used_at r)) (filter (\<lambda>r. k_user_id r = k)
          (w_recovery_codes (exec (confirm_enrollment E u a c) w))) = map (\<lambda>x. (sha256_hex E x, None)) codes
     \<and> filter (\<lambda>r. k_user_id r \<noteq> k) (w_recovery_codes (exec (confirm_enrollment E u a c) w))
          = filter (\<lambda>r. k_user_id r \<noteq> k) (w_recovery_codes w)"
proof -
  let ?w1 = "exec (find_mfa_credential E u) w"
  obtain pen where pen: "result (find_mfa_credential E u) w = Inr (Some pen)" "m_enabled_at pen = None"
    using assms(2) by (auto simp: confirm_enrollment_def result_bind split: sum.splits option.splits if_splits)
  let ?w2 = "exec (enable_pending E u a c pen) ?w1"
  have en: "result (enable_pending E u a c pen) ?w1 = Inr True"
    using assms(2) pen by (auto simp: confirm_enrollment_def result_bind split: sum.splits if_splits)
  let ?w3 = "exec (generate_recovery_codes E) ?w2"
  let ?codes = "result (generate_recovery_codes E) ?w2"
  have codes: "codes = ?codes"
    using assms(2) pen en by (auto simp: confirm_enrollment_def result_bind split: sum.splits)
  have "preserves w_faults (enable_pending E u a c pen)" "preserves w_recovery_codes (enable_pending E u a c pen)"
    unfolding enable_pending_def by (intro frame_intros; simp)+
  note this [THEN preservesD]
  moreover have "preserves w_faults (generate_recovery_codes E)" "preserves w_recovery_codes (generate_recovery_codes E)"
    "preserves w_faults (find_mfa_credential E u)" "preserves w_recovery_codes (find_mfa_credential E u)"
    by (intro frame_intros; simp)+
  note this [THEN preservesD]
  ultimately have fr: "w_faults ?w3 = w_faults w" "w_recovery_codes ?w3 = w_recovery_codes w"
    by simp_all
  have "exec (confirm_enrollment E u a c) w = exec (replace_recovery_codes E u (map (sha256_hex E) ?codes)) ?w3"
    using pen en by (simp add: confirm_enrollment_def exec_bind)
  with replace_recovery_codes_run [of ?w3 E u k "map (sha256_hex E) ?codes"] assms(1,3) fr
  show ?thesis
    by (simp add: wp_def healthy_def codes generate_recovery_codes_def RECOVERY_CODE_COUNT_def comp_def)
qed

definition demo_pending_world :: world where
  "demo_pending_world = demo_world\<lparr>w_mfa_credentials := [demo_credential\<lparr>m_enabled_at := None\<rparr>]\<rparr>"

lemma demo_confirm: "\<exists>codes. result (confirm_enrollment demo_app ''1'' ''AB1'' ''000000'') demo_pending_world = Inr (Enabled codes)"
proof -
  let ?w1 = "exec (find_mfa_credential demo_app ''1'') demo_pending_world"
  let ?pen = "demo_credential\<lparr>m_enabled_at := None\<rparr>"
  have b: "x_backend demo_app = Sqlite" by (simp add: demo_app_def)
  have h: "healthy demo_pending_world" by (simp add: demo_pending_world_def)
  have f: "result (find_mfa_credential demo_app ''1'') demo_pending_world = Inr (Some ?pen)"
    using h by (simp add: find_mfa_credential_def result_with_key result_query)
      (simp add: demo_pending_world_def demo_credential_def)
  have h1: "healthy ?w1" "w_mfa_credentials ?w1 = [?pen]"
    using h by (simp_all add: find_mfa_credential_def with_key_def exec_query) (simp add: demo_pending_world_def)
  have e: "result (enable_pending demo_app ''1'' ''AB1'' ''000000'' ?pen) ?w1 = Inr True"
  proof -
    have "wp (enable_pending demo_app ''1'' ''AB1'' ''000000'' ?pen) (\<lambda>r v. r = Inr True) ?w1"
      using h1 by (simp add: enable_pending_def METHOD_EMAIL_def totp_code_matches_def wp_simps
          enable_mfa_credential_def update_credentials_def sql_count_pos)
        (simp add: demo_credential_def trim_def is_whitespace_def code_def)
    then show ?thesis by (simp add: wp_def)
  qed
  let ?w3 = "exec (generate_recovery_codes demo_app) (exec (enable_pending demo_app ''1'' ''AB1'' ''000000'' ?pen) ?w1)"
  have "preserves w_faults (enable_pending demo_app ''1'' ''AB1'' ''000000'' ?pen)"
    "preserves w_faults (generate_recovery_codes demo_app)" by (intro frame_intros; simp)+
  note this [THEN preservesD]
  then have "healthy ?w3" using h1(1) by (simp add: healthy_def)
  then have "result (replace_recovery_codes demo_app ''1'' hs) ?w3 = Inr ()" for hs
    using replace_recovery_codes_run [of ?w3 demo_app "''1''" "''1''" hs] by (simp add: wp_def)
  with f e show ?thesis by (simp add: confirm_enrollment_def result_bind)
qed

theorem confirmation_replaces_the_recovery_codes_witness:
  "\<exists>codes. length codes = 10 \<and> result (confirm_enrollment demo_app ''1'' ''AB1'' ''000000'') demo_pending_world = Inr (Enabled codes)"
proof -
  obtain codes where "result (confirm_enrollment demo_app ''1'' ''AB1'' ''000000'') demo_pending_world = Inr (Enabled codes)"
    using demo_confirm by blast
  with confirmation_replaces_the_recovery_codes [of demo_pending_world demo_app "''1''" "''AB1''" "''000000''" codes "''1''"]
  show ?thesis by (simp add: demo_pending_world_def)
qed

end
