(* ===== verification/National_Id.thy ===== *)
theory National_Id
  imports Demo
begin

text \<open>
  \<open>server/src/national_id.rs\<close>: national ids are stored encrypted (AES-256-GCM, the nonce in front
  of the ciphertext, base64), next to a keyed hash that carries their uniqueness. The cipher, the
  MAC and base64 are parameters; what is assumed of them is stated as a hypothesis.
\<close>

definition NONCE_LEN :: nat where "NONCE_LEN = 12"

definition lookup_hash :: "app \<Rightarrow> 8 word list \<Rightarrow> string \<Rightarrow> string" where
  "lookup_hash E key val = x_hex E (x_hmac_sha256 E key val)"

definition encrypt :: "app \<Rightarrow> 8 word list \<Rightarrow> string \<Rightarrow> (string \<times> string) handler" where
  "encrypt E key plaintext = do {
     n \<leftarrow> draw;
     let nonce_bytes = x_rng E n NONCE_LEN;
     let ciphertext = x_aes_encrypt E key nonce_bytes plaintext;
     return (x_base64_encode E (nonce_bytes @ ciphertext), lookup_hash E key plaintext)
   }"

definition decrypt :: "app \<Rightarrow> 8 word list \<Rightarrow> string \<Rightarrow> string option" where
  "decrypt E key encrypted =
     (case x_base64_decode E encrypted of
        None \<Rightarrow> None
      | Some combined \<Rightarrow>
          if length combined < NONCE_LEN then None
          else (case x_aes_decrypt E key (take NONCE_LEN combined) (drop NONCE_LEN combined) of
                  None \<Rightarrow> None
                | Some plaintext \<Rightarrow> x_from_utf8 E plaintext))"

lemma encrypt_frame [frame_intros]: "blind_base f \<Longrightarrow> preserves f (encrypt E k p)"
  unfolding encrypt_def Let_def by (intro frame_intros; simp)

text \<open>
  C40. A national id survives storage: with a base64 codec and a cipher that undo themselves and a
  generator that returns the requested number of bytes, decrypting what \<open>encrypt\<close> stored gives the
  plaintext back, whatever nonce was drawn; and the lookup hash does not depend on the nonce, so
  two accounts with one national id always collide on the unique column.
\<close>
theorem national_id_roundtrip:
  assumes "\<forall>bs. x_base64_decode E (x_base64_encode E bs) = Some bs"
    and "\<forall>nonce s. Option.bind (x_aes_decrypt E key nonce (x_aes_encrypt E key nonce s)) (x_from_utf8 E) = Some s"
    and "\<forall>n. length (x_rng E n NONCE_LEN) = NONCE_LEN"
  shows "decrypt E key (fst (result (encrypt E key p) w)) = Some p
     \<and> snd (result (encrypt E key p) w) = snd (result (encrypt E key p) w')"
proof
  have out: "result (encrypt E key p) v = (x_base64_encode E (x_rng E (w_draws v) NONCE_LEN
      @ x_aes_encrypt E key (x_rng E (w_draws v) NONCE_LEN) p), lookup_hash E key p)" for v
    by (simp add: encrypt_def Let_def result_def)
  obtain y where "x_aes_decrypt E key (x_rng E (w_draws w) NONCE_LEN)
      (x_aes_encrypt E key (x_rng E (w_draws w) NONCE_LEN) p) = Some y" "x_from_utf8 E y = Some p"
    using assms(2) by (auto simp: bind_eq_Some_conv)
  with assms(1,3) show "decrypt E key (fst (result (encrypt E key p) w)) = Some p"
    by (simp add: out decrypt_def)
  show "snd (result (encrypt E key p) w) = snd (result (encrypt E key p) w')"
    by (simp add: out)
qed

theorem national_id_roundtrip_witness:
  "decrypt demo_app [7] (fst (result (encrypt demo_app [7] ''12345678901'') demo_world)) = Some ''12345678901''"
  using national_id_roundtrip [of demo_app "[7]" "''12345678901''" demo_world demo_world]
  by (simp add: demo_app_def)

end
