(* ===== verification/Auth.thy ===== *)
theory Auth
  imports Mfa National_Id
begin

text \<open>
  The handlers of \<open>server/src/auth.rs\<close>: registration, login, refresh with rotation and reuse
  detection, the session list, password reset and logout. Each is the whole handler; a
  JSON body is its parsed fields. The theorems say what a login, a refresh, a reset and a logout may
  do to the sessions, and what they need.
\<close>

definition DEFAULT_COST :: nat where "DEFAULT_COST = 12"

text \<open>\<open>Result<Option<_>>::ok().flatten()\<close>.\<close>

definition flatten :: "db_error + 'a option \<Rightarrow> 'a option" where
  "flatten r = (case r of Inl _ \<Rightarrow> None | Inr x \<Rightarrow> x)"

lemma flatten_simps [simp]: "flatten (Inl e) = None" "flatten (Inr x) = x"
  by (simp_all add: flatten_def)

lemma flatten_Some: "flatten r = Some x \<longleftrightarrow> r = Inr (Some x)"
  by (cases r) simp_all

section \<open>The caller's account and sessions\<close>

definition me :: "app \<Rightarrow> header_map \<Rightarrow> response handler" where
  "me E headers = do {
     c \<leftarrow> auth_user_from_headers E headers;
     case c of
       None \<Rightarrow> unauthorized E headers
     | Some claims \<Rightarrow> do {
         u \<leftarrow> load_user_by_id E (cl_id claims);
         case flatten u of
           Some user \<Rightarrow> return (ok_json (public_user user))
         | None \<Rightarrow> unauthorized E headers
       }
   }"

definition session_json :: "app \<Rightarrow> string option \<Rightarrow> session_row \<Rightarrow> json" where
  "session_json E current_family s = JObj
     [(''id'', JStr (s_id s)), (''createdAt'', JStr (x_format_micros E (s_created_at s))),
      (''lastUsedAt'', JStr (x_format_micros E (s_last_used_at s))),
      (''expiresAt'', JStr (x_format_micros E (s_expires_at s))),
      (''userAgent'', json_opt (s_user_agent s)), (''ipAddress'', json_opt (s_ip_address s)),
      (''isCurrent'', JBool (current_family = Some (s_token_family_id s)))]"

definition list_sessions :: "app \<Rightarrow> header_map \<Rightarrow> response handler" where
  "list_sessions E headers = do {
     c \<leftarrow> auth_user_from_headers E headers;
     case c of
       None \<Rightarrow> unauthorized E headers
     | Some claims \<Rightarrow> do {
         current_family \<leftarrow> current_session_family E headers;
         r \<leftarrow> list_active_sessions_for_user E (cl_id claims);
         case r of
           Inr sessions \<Rightarrow>
             return (ok_json (JObj [(''items'', JArr (map (session_json E current_family) sessions))]))
         | Inl _ \<Rightarrow> do {
             rid \<leftarrow> request_id E headers;
             return (api_err ''INTERNAL_ERROR'' ''errors.internal'' rid)
           }
       }
   }"

definition revoke_own_session :: "app \<Rightarrow> header_map \<Rightarrow> string \<Rightarrow> response handler" where
  "revoke_own_session E headers session_id = do {
     rid \<leftarrow> request_id E headers;
     c \<leftarrow> auth_user_from_headers E headers;
     case c of
       None \<Rightarrow> unauthorized E headers
     | Some claims \<Rightarrow> do {
         r \<leftarrow> revoke_session_owned_by_user E session_id (cl_id claims);
         case r of
           Inl _ \<Rightarrow> return (api_err ''INTERNAL_ERROR'' ''errors.internal'' rid)
         | Inr revoked \<Rightarrow>
             if revoked
             then do {
               save E (on_resource ''session'' session_id (from_headers E headers
                 (actor claims (recorder_new ''AUTH_LOGOUT'' ''success'' rid))));
               return (ok_json (message_key ''auth.loggedOut''))
             }
             else return (api_err ''NOT_FOUND'' ''errors.notFound'' rid)
       }
   }"

section \<open>Registration\<close>

record register_payload =
  rp_user_code :: string
  rp_first_name :: string
  rp_last_name :: string
  rp_email :: string
  rp_national_id :: string
  rp_password :: string

definition valid_registration :: "register_payload \<Rightarrow> bool" where
  "valid_registration p \<longleftrightarrow>
     \<not> (trim (rp_first_name p) = [] \<or> trim (rp_last_name p) = [] \<or> trim (rp_email p) = []
        \<or> rp_password p = [] \<or> trim (rp_user_code p) = [] \<or> trim (rp_national_id p) = [])
     \<and> (let national_id = trim (rp_national_id p)
        in length national_id = 11 \<and> list_all is_ascii_digit national_id)
     \<and> (let c = to_uppercase (trim (rp_user_code p))
        in 4 \<le> length c \<and> length c \<le> 20 \<and> list_all (\<lambda>x. is_ascii_uppercase x \<or> is_ascii_digit x) c)
     \<and> validate_password (rp_password p) = None"

text \<open>What follows the insertion of the account: tracking token, mail to the administrator, audit.\<close>

definition registration_created :: "app \<Rightarrow> header_map \<Rightarrow> string \<Rightarrow> user_row \<Rightarrow> response handler" where
  "registration_created E headers rid user = do {
     tracking_token \<leftarrow> random_hex E 32;
     now \<leftarrow> gets w_now;
     _ \<leftarrow> set_registration_tracking_token E (u_id user) tracking_token
            (now + REGISTRATION_TRACKING_TOKEN_TTL_DAYS * DAY);
     t \<leftarrow> sign_approval_token E (u_id user);
     (case t of
        Inl _ \<Rightarrow> return ()
      | Inr token \<Rightarrow> send_mail (RegistrationNotification (u_first_name user) (u_last_name user)
          (case u_email user of None \<Rightarrow> [] | Some e \<Rightarrow> e) (u_user_code user) token));
     save E (from_headers E headers (by_id (u_id user) (u_user_code user) PENDING
       (recorder_new ''REGISTRATION_CREATED'' ''success'' rid)));
     return ((ok_json (JObj [(''messageKey'', JStr ''auth.registrationPending''),
         (''registrationTrackingToken'', JStr tracking_token)]))\<lparr>r_status := 201\<rparr>)
   }"

definition register :: "app \<Rightarrow> header_map \<Rightarrow> register_payload \<Rightarrow> response handler" where
  "register E headers payload = do {
     rid \<leftarrow> request_id E headers;
     ok \<leftarrow> rate_check ''register'' 20 (15 * 60 * SECOND);
     if \<not> ok then return (api_err ''RATE_LIMITED'' ''errors.rateLimited'' rid)
     else if \<not> valid_registration payload
     then return (api_err ''VALIDATION_ERROR'' ''errors.validation'' rid)
     else case x_bcrypt_hash E DEFAULT_COST (rp_password payload) of
       None \<Rightarrow> return (api_err ''INTERNAL_ERROR'' ''errors.internal'' rid)
     | Some hashed \<Rightarrow> do {
         e \<leftarrow> encrypt E (x_national_id_key E) (trim (rp_national_id payload));
         u \<leftarrow> create_user E (to_uppercase (trim (rp_user_code payload)))
                (Some (to_lowercase (trim (rp_email payload)))) (trim (rp_first_name payload))
                (trim (rp_last_name payload)) (Some (fst e)) (Some (snd e)) hashed PENDING False;
         case u of
           Inr (Some user) \<Rightarrow> registration_created E headers rid user
         | Inr None \<Rightarrow> return (api_err ''INTERNAL_ERROR'' ''errors.internal'' rid)
         | Inl UniqueViolation \<Rightarrow> return (api_err ''CONFLICT'' ''errors.registrationConflict'' rid)
         | Inl DbFailure \<Rightarrow> return (api_err ''INTERNAL_ERROR'' ''errors.internal'' rid)
       }
   }"

definition registration_status_text :: "int \<Rightarrow> registration_tracking_status option \<Rightarrow> string" where
  "registration_status_text now row =
     (case row of
        None \<Rightarrow> ''not_found''
      | Some r \<Rightarrow>
          (let expired = (case rt_expires_at r of None \<Rightarrow> True | Some ex \<Rightarrow> ex < now)
           in if expired then ''not_found''
              else if rt_is_banned r then ''banned''
              else if rt_is_approved r then ''approved'' else ''pending''))"

definition registration_status :: "app \<Rightarrow> string \<Rightarrow> response handler" where
  "registration_status E tracking_token = do {
     r \<leftarrow> load_registration_tracking_status tracking_token;
     now \<leftarrow> gets w_now;
     return (ok_json (JObj [(''status'', JStr (registration_status_text now (flatten r)))]))
   }"

section \<open>Login\<close>

definition login_limits :: "app \<Rightarrow> header_map \<Rightarrow> string \<Rightarrow> bool handler" where
  "login_limits E headers rate_key = do {
     a \<leftarrow> rate_check (''login-account:'' @ rate_key) 10 (15 * 60 * SECOND);
     if \<not> a then return False
     else case client_ip E headers of
       None \<Rightarrow> return True
     | Some ip \<Rightarrow> do {
         b \<leftarrow> rate_check (''login-ip:'' @ ip) 50 (15 * 60 * SECOND);
         if \<not> b then return False
         else rate_check (''login-burst:'' @ ip) 10 (60 * SECOND)
       }
   }"

text \<open>A refused login: the audit event, the metric and the response.\<close>

definition login_refused ::
  "app \<Rightarrow> header_map \<Rightarrow> recorder \<Rightarrow> string \<Rightarrow> (string \<times> json) list \<Rightarrow> response \<Rightarrow> response handler" where
  "login_refused E headers r reason members resp = do {
     save E (with_metadata (JObj (members @ [(''reason'', JStr reason)])) (from_headers E headers r));
     count_metric ''auth_login_failures_total'' reason;
     return resp
   }"

definition login_event :: "user_row \<Rightarrow> string \<Rightarrow> string \<Rightarrow> string \<Rightarrow> recorder" where
  "login_event user action outcome rid =
     by_id (u_id user) (u_user_code user) (u_role user) (recorder_new action outcome rid)"

text \<open>The end of a login whose user needs no second factor.\<close>

definition login_session :: "app \<Rightarrow> header_map \<Rightarrow> string \<Rightarrow> user_row \<Rightarrow> response handler" where
  "login_session E headers rid user = do {
     p \<leftarrow> issue_session E user headers;
     case p of
       Inl _ \<Rightarrow> return (api_err ''INTERNAL_ERROR'' ''errors.internal'' rid)
     | Inr (access_token, refresh_token) \<Rightarrow> do {
         save E (from_headers E headers (login_event user ''AUTH_LOGIN_SUCCESS'' ''success'' rid));
         return (session_response E (JObj [(''accessToken'', JStr access_token), (''user'', public_user user)])
           refresh_token headers)
       }
   }"

definition login_mfa_gate :: "app \<Rightarrow> header_map \<Rightarrow> string \<Rightarrow> user_row \<Rightarrow> response handler" where
  "login_mfa_gate E headers rid user = do {
     outcome \<leftarrow> login_mfa_outcome E user;
     case outcome of
       NotRequired \<Rightarrow> login_session E headers rid user
     | ChallengeRequired meth \<Rightarrow> do {
         t \<leftarrow> sign_challenge_token E (u_id user) PURPOSE_LOGIN;
         case t of
           Inl _ \<Rightarrow> return (api_err ''INTERNAL_ERROR'' ''errors.internal'' rid)
         | Inr token \<Rightarrow> do {
             (if meth = METHOD_EMAIL then send_login_challenge_email_code E user else return ());
             return (ok_json (JObj [(''mfaRequired'', JBool True), (''mfaToken'', JStr token),
               (''userCode'', JStr (u_user_code user)), (''method'', JStr meth)]))
           }
       }
     | EnrollmentRequired \<Rightarrow> do {
         t \<leftarrow> sign_challenge_token E (u_id user) PURPOSE_ENROLLMENT;
         return (case t of
           Inl _ \<Rightarrow> api_err ''INTERNAL_ERROR'' ''errors.internal'' rid
         | Inr token \<Rightarrow> ok_json (JObj [(''mfaEnrollmentRequired'', JBool True), (''mfaToken'', JStr token),
               (''userCode'', JStr (u_user_code user))]))
       }
   }"

definition login_account :: "app \<Rightarrow> header_map \<Rightarrow> string \<Rightarrow> string \<Rightarrow> user_row \<Rightarrow> response handler" where
  "login_account E headers rid password user =
     (if x_bcrypt_verify E password (u_password_hash user) \<noteq> Some True
      then login_refused E headers (login_event user ''AUTH_LOGIN_FAILED'' ''failure'' rid) ''invalid_password'' []
             (api_err ''UNAUTHORIZED'' ''errors.invalidCredentials'' rid)
      else if u_is_banned user
      then login_refused E headers (login_event user ''AUTH_LOGIN_FAILED'' ''denied'' rid) ''account_banned'' []
             (api_err ''FORBIDDEN'' ''errors.accountBanned'' rid)
      else if \<not> u_is_approved user
      then login_refused E headers (login_event user ''AUTH_LOGIN_FAILED'' ''denied'' rid) ''account_not_approved'' []
             (api_err ''FORBIDDEN'' ''errors.accountNotApproved'' rid)
      else login_mfa_gate E headers rid user)"

definition login :: "app \<Rightarrow> header_map \<Rightarrow> string \<Rightarrow> string \<Rightarrow> response handler" where
  "login E headers user_code password = do {
     rid \<leftarrow> request_id E headers;
     let rate_key = to_uppercase (trim user_code);
     ok \<leftarrow> login_limits E headers rate_key;
     if \<not> ok then return (api_err ''RATE_LIMITED'' ''errors.rateLimited'' rid)
     else do {
       u \<leftarrow> load_user_by_code user_code;
       case u of
         Inl _ \<Rightarrow> return (api_err ''INTERNAL_ERROR'' ''errors.internal'' rid)
       | Inr None \<Rightarrow>
           login_refused E headers (recorder_new ''AUTH_LOGIN_FAILED'' ''failure'' rid) ''unknown_account''
             [(''userCode'', JStr rate_key)] (api_err ''UNAUTHORIZED'' ''errors.invalidCredentials'' rid)
       | Inr (Some user) \<Rightarrow> login_account E headers rid password user
     }
   }"

section \<open>Refresh\<close>

text \<open>A session row that may be refreshed with the token: not revoked, and its current token.\<close>

definition token_current :: "app \<Rightarrow> string \<Rightarrow> session_row \<Rightarrow> bool" where
  "token_current E token session \<longleftrightarrow>
     \<not> (s_revoked_at session \<noteq> None \<or> s_refresh_token_hash session \<noteq> sha256_hex E token)"

definition refresh_rotate :: "app \<Rightarrow> header_map \<Rightarrow> string \<Rightarrow> string \<Rightarrow> session_row \<Rightarrow> user_row \<Rightarrow> response handler" where
  "refresh_rotate E headers rid family session user = do {
     now \<leftarrow> gets w_now;
     let new_expires_at = now + REFRESH_TOKEN_TTL_DAYS * DAY;
     t \<leftarrow> sign_refresh E (u_id user) family new_expires_at;
     case t of
       None \<Rightarrow> return (api_err ''INTERNAL_ERROR'' ''errors.internal'' rid)
     | Some new_refresh_token \<Rightarrow> do {
         r \<leftarrow> rotate_session E (s_id session) (sha256_hex E new_refresh_token) new_expires_at;
         case r of
           Inl _ \<Rightarrow> return (api_err ''INTERNAL_ERROR'' ''errors.internal'' rid)
         | Inr _ \<Rightarrow> do {
             a \<leftarrow> sign_access E user;
             case a of
               None \<Rightarrow> return (api_err ''INTERNAL_ERROR'' ''errors.internal'' rid)
             | Some access_token \<Rightarrow> do {
                 save E (from_headers E headers (login_event user ''AUTH_REFRESH_SUCCESS'' ''success'' rid));
                 return (session_response E
                   (JObj [(''accessToken'', JStr access_token), (''user'', public_user user)])
                   new_refresh_token headers)
               }
           }
       }
   }"

definition refresh_session :: "app \<Rightarrow> header_map \<Rightarrow> string \<Rightarrow> string \<Rightarrow> refresh_claims \<Rightarrow> session_row \<Rightarrow> response handler" where
  "refresh_session E headers rid token claims session =
     (if \<not> token_current E token session
      then do {
        _ \<leftarrow> revoke_session_family E (rc_family claims);
        save E (on_resource ''session'' (rc_family claims) (from_headers E headers
          (by_id (rc_sub claims) [] [] (recorder_new ''AUTH_TOKEN_REUSE_DETECTED'' ''denied'' rid))));
        unauthorized E headers
      }
      else do {
        now \<leftarrow> gets w_now;
        if s_expires_at session < now
        then do { _ \<leftarrow> revoke_session E (s_id session); unauthorized E headers }
        else do {
          u \<leftarrow> load_user_by_id E (rc_sub claims);
          case flatten u of
            None \<Rightarrow> unauthorized E headers
          | Some user \<Rightarrow>
              if u_is_banned user \<or> \<not> u_is_approved user
              then do {
                _ \<leftarrow> revoke_session E (s_id session);
                save E (from_headers E headers (login_event user ''AUTH_REFRESH_FAILED'' ''denied'' rid));
                unauthorized E headers
              }
              else refresh_rotate E headers rid (rc_family claims) session user
        }
      })"

definition refresh :: "app \<Rightarrow> header_map \<Rightarrow> response handler" where
  "refresh E headers = do {
     rid \<leftarrow> request_id E headers;
     case extract_cookie headers ''refresh_token'' of
       None \<Rightarrow> return (api_err ''UNAUTHORIZED'' ''errors.sessionExpired'' rid)
     | Some token \<Rightarrow> do {
         c \<leftarrow> decode_refresh_token E token;
         case c of
           None \<Rightarrow> unauthorized E headers
         | Some claims \<Rightarrow> do {
             s \<leftarrow> find_session_by_family E (rc_family claims);
             case flatten s of
               None \<Rightarrow> unauthorized E headers
             | Some session \<Rightarrow> refresh_session E headers rid token claims session
           }
       }
   }"

section \<open>Password reset\<close>

definition app_url :: "app \<Rightarrow> string" where
  "app_url E = (case x_env E ''APP_URL'' of
      Some v \<Rightarrow> v
    | None \<Rightarrow> (case x_env E ''RENDER_EXTERNAL_URL'' of Some v \<Rightarrow> v | None \<Rightarrow> ''http://localhost:8080''))"

text \<open>What \<open>forgot_password\<close> does for an account it found.\<close>

definition send_reset :: "app \<Rightarrow> user_row \<Rightarrow> unit handler" where
  "send_reset E user =
     (case u_email user of
        Some email \<Rightarrow> do {
          now \<leftarrow> gets w_now;
          raw_token \<leftarrow> random_hex E 32;
          r \<leftarrow> create_approval_token E (u_id user) (sha256_hex E raw_token) PASSWORD_RESET_PURPOSE
                 (now + PASSWORD_RESET_TOKEN_TTL_HOURS * HOUR);
          case r of
            Inl _ \<Rightarrow> return ()
          | Inr _ \<Rightarrow> send_mail (PasswordResetEmail (u_first_name user) (u_last_name user) email
              (app_url E @ ''/?resetToken='' @ raw_token))
        }
      | None \<Rightarrow> send_mail (PasswordResetRequest (u_first_name user) (u_last_name user) (u_user_code user)))"

definition forgot_password :: "app \<Rightarrow> header_map \<Rightarrow> string \<Rightarrow> response handler" where
  "forgot_password E headers payload_identifier = do {
     rid \<leftarrow> request_id E headers;
     let identifier = trim payload_identifier;
     if identifier = [] then return (api_err ''VALIDATION_ERROR'' ''errors.validation'' rid)
     else do {
       ok \<leftarrow> rate_check (''forgot-password:'' @ to_lowercase identifier) 5 (15 * 60 * SECOND);
       if \<not> ok then return (api_err ''RATE_LIMITED'' ''errors.rateLimited'' rid)
       else do {
         u \<leftarrow> (if CHR ''@'' \<in> set identifier then load_user_by_email identifier
               else load_user_by_code identifier);
         (case flatten u of
            None \<Rightarrow> return ()
          | Some user \<Rightarrow> do {
              send_reset E user;
              save E (from_headers E headers (login_event user ''AUTH_PASSWORD_RESET_REQUESTED'' ''success'' rid))
            });
         return (ok_json (message_key ''auth.forgotPasswordReceived''))
       }
     }
   }"

definition usable_reset_token :: "int \<Rightarrow> approval_token_row \<Rightarrow> bool" where
  "usable_reset_token now row \<longleftrightarrow>
     \<not> (t_purpose row \<noteq> PASSWORD_RESET_PURPOSE \<or> t_consumed_at row \<noteq> None) \<and> \<not> t_expires_at row < now"

definition set_new_password :: "app \<Rightarrow> header_map \<Rightarrow> string \<Rightarrow> string \<Rightarrow> string \<Rightarrow> response handler" where
  "set_new_password E headers rid user_id new_password =
     (case x_bcrypt_hash E DEFAULT_COST new_password of
        None \<Rightarrow> return (api_err ''INTERNAL_ERROR'' ''errors.internal'' rid)
      | Some hashed \<Rightarrow> do {
          u \<leftarrow> update_user_password E user_id hashed;
          case flatten u of
            None \<Rightarrow> return (api_err ''INTERNAL_ERROR'' ''errors.internal'' rid)
          | Some user \<Rightarrow> do {
              _ \<leftarrow> revoke_all_sessions_for_user E (u_id user);
              save E (from_headers E headers (login_event user ''AUTH_PASSWORD_RESET_COMPLETED'' ''success'' rid));
              return (ok_json (message_key ''auth.passwordResetSuccess''))
            }
        })"

definition reset_password :: "app \<Rightarrow> header_map \<Rightarrow> string \<Rightarrow> string \<Rightarrow> response handler" where
  "reset_password E headers payload_token new_password = do {
     rid \<leftarrow> request_id E headers;
     if trim payload_token = [] \<or> validate_password new_password \<noteq> None
     then return (api_err ''VALIDATION_ERROR'' ''errors.validation'' rid)
     else do {
       let invalid = api_err ''VALIDATION_ERROR'' ''errors.invalidResetToken'' rid;
       r \<leftarrow> find_approval_token_by_hash (sha256_hex E (trim payload_token));
       case flatten r of
         None \<Rightarrow> return invalid
       | Some row \<Rightarrow> do {
           now \<leftarrow> gets w_now;
           if \<not> usable_reset_token now row then return invalid
           else do {
             d \<leftarrow> db_consume_approval_token E (t_id row) ''reset'';
             if d \<noteq> Inr True then return invalid
             else set_new_password E headers rid (t_user_id row) new_password
           }
         }
     }
   }"

section \<open>Logout\<close>

definition cleared_cookie :: string where
  "cleared_cookie = ''refresh_token=; Path=/; HttpOnly; Max-Age=0; SameSite=Strict''"

definition logout :: "app \<Rightarrow> header_map \<Rightarrow> response handler" where
  "logout E headers = do {
     rid \<leftarrow> request_id E headers;
     (case extract_cookie headers ''refresh_token'' of
        None \<Rightarrow> return ()
      | Some token \<Rightarrow> do {
          c \<leftarrow> decode_refresh_token E token;
          case c of
            None \<Rightarrow> return ()
          | Some claims \<Rightarrow> do {
              s \<leftarrow> find_session_by_family E (rc_family claims);
              case flatten s of
                None \<Rightarrow> return ()
              | Some session \<Rightarrow> do {
                  _ \<leftarrow> revoke_session E (s_id session);
                  save E (on_resource ''session'' (rc_family claims) (from_headers E headers
                    (by_id (rc_sub claims) [] [] (recorder_new ''AUTH_LOGOUT'' ''success'' rid))))
                }
            }
        });
     return ((ok_json (message_key ''auth.loggedOut''))\<lparr>r_set_cookie := Some cleared_cookie\<rparr>)
   }"

definition logout_all :: "app \<Rightarrow> header_map \<Rightarrow> response handler" where
  "logout_all E headers = do {
     rid \<leftarrow> request_id E headers;
     c \<leftarrow> auth_user_from_headers E headers;
     case c of
       None \<Rightarrow> unauthorized E headers
     | Some claims \<Rightarrow> do {
         _ \<leftarrow> revoke_all_sessions_for_user E (cl_id claims);
         save E (from_headers E headers (actor claims (recorder_new ''AUTH_LOGOUT_ALL'' ''success'' rid)));
         return ((ok_json (message_key ''auth.loggedOutAll''))\<lparr>r_set_cookie := Some cleared_cookie\<rparr>)
       }
   }"

section \<open>Frames\<close>

lemma login_outcome_frame [frame_intros]:
  "preserves f m \<Longrightarrow> (\<And>meth. preserves f (g meth)) \<Longrightarrow> preserves f n \<Longrightarrow>
     preserves f (case x of NotRequired \<Rightarrow> m | ChallengeRequired meth \<Rightarrow> g meth | EnrollmentRequired \<Rightarrow> n)"
  by (simp split: login_mfa_outcome.split)

lemma db_error_frame [frame_intros]:
  "preserves f m \<Longrightarrow> preserves f n \<Longrightarrow> preserves f (case x of UniqueViolation \<Rightarrow> m | DbFailure \<Rightarrow> n)"
  by (simp split: db_error.split)

lemma auth_read_frames [frame_intros]:
  "blind_base f \<Longrightarrow> preserves f (me E h)"
  "blind_base f \<Longrightarrow> preserves f (list_sessions E h)"
  "blind_base f \<Longrightarrow> preserves f (registration_status E t)"
  unfolding me_def list_sessions_def registration_status_def by (intro frame_intros; simp)+

lemma auth_step_frames [frame_intros]:
  "blind_audit f \<Longrightarrow> blind w_counters_update f \<Longrightarrow> preserves f (login_refused E h r reason ms resp)"
  "blind_audit f \<Longrightarrow> blind w_sessions_update f \<Longrightarrow> preserves f (login_session E h rid usr)"
  "blind_audit f \<Longrightarrow> blind w_sessions_update f \<Longrightarrow> preserves f (refresh_rotate E h rid fam ses usr)"
  "blind w_windows_update f \<Longrightarrow> preserves f (login_limits E h key)"
  "blind_base f \<Longrightarrow> blind w_approval_tokens_update f \<Longrightarrow> blind w_outbox_update f \<Longrightarrow> preserves f (send_reset E usr)"
  "blind_audit f \<Longrightarrow> blind w_users_update f \<Longrightarrow> blind w_approval_tokens_update f \<Longrightarrow> blind w_outbox_update f \<Longrightarrow>
     preserves f (registration_created E h rid usr)"
  "blind_audit f \<Longrightarrow> blind w_users_update f \<Longrightarrow> blind w_sessions_update f \<Longrightarrow>
     preserves f (set_new_password E h rid uid pw)"
  unfolding login_refused_def login_session_def refresh_rotate_def login_limits_def send_reset_def
    registration_created_def set_new_password_def Let_def
  by ((intro frame_intros; simp)+)

definition blind_auth :: "(world \<Rightarrow> 'b) \<Rightarrow> bool" where
  [simp]: "blind_auth f \<longleftrightarrow> blind_mfa_routes f \<and> blind w_users_update f \<and> blind w_approval_tokens_update f
     \<and> blind w_counters_update f"

lemma auth_route_frames [frame_intros]:
  "blind_audit f \<Longrightarrow> blind w_sessions_update f \<Longrightarrow> preserves f (revoke_own_session E h i)"
  "blind_audit f \<Longrightarrow> blind w_sessions_update f \<Longrightarrow> preserves f (refresh_session E h rid tok c s)"
  "blind_audit f \<Longrightarrow> blind w_sessions_update f \<Longrightarrow> preserves f (refresh E h)"
  "blind_audit f \<Longrightarrow> blind w_sessions_update f \<Longrightarrow> preserves f (logout E h)"
  "blind_audit f \<Longrightarrow> blind w_sessions_update f \<Longrightarrow> preserves f (logout_all E h)"
  "blind_auth f \<Longrightarrow> preserves f (login_mfa_gate E h rid usr)"
  "blind_auth f \<Longrightarrow> preserves f (login_account E h rid pw usr)"
  "blind_auth f \<Longrightarrow> preserves f (login E h uc pw)"
  "blind_audit f \<Longrightarrow> blind w_users_update f \<Longrightarrow> blind w_approval_tokens_update f \<Longrightarrow> blind w_outbox_update f \<Longrightarrow>
     blind w_windows_update f \<Longrightarrow> preserves f (register E h pl)"
  "blind_audit f \<Longrightarrow> blind w_approval_tokens_update f \<Longrightarrow> blind w_outbox_update f \<Longrightarrow>
     blind w_windows_update f \<Longrightarrow> preserves f (forgot_password E h i)"
  "blind_audit f \<Longrightarrow> blind w_users_update f \<Longrightarrow> blind w_approval_tokens_update f \<Longrightarrow> blind w_sessions_update f \<Longrightarrow>
     preserves f (reset_password E h tok pw)"
  unfolding revoke_own_session_def refresh_session_def refresh_def logout_def logout_all_def
    login_mfa_gate_def login_account_def login_def register_def forgot_password_def reset_password_def Let_def
  by ((intro frame_intros; simp)+)


end
