(* ===== verification/Mail_Text.thy ===== *)
theory Mail_Text
  imports Prelude
begin

text \<open>
  \<open>escape_html\<close> of \<open>server/src/email.rs\<close>: what user-supplied text goes through before it is put into
  an HTML page or mail. The code replaces one character after the other over the whole string; the
  lemmas show that this is the single pass that maps each character to its entity.
\<close>

text \<open>\<open>str::replace\<close> with a one-character pattern.\<close>

definition replace_char :: "char \<Rightarrow> string \<Rightarrow> string \<Rightarrow> string" where
  "replace_char c by s = concat (map (\<lambda>x. if x = c then by else [x]) s)"

definition escape_html :: "string \<Rightarrow> string" where
  "escape_html val =
     replace_char (CHR 0x27) ''&#39;''
       (replace_char (CHR 0x22) ''&quot;''
         (replace_char (CHR ''>'') ''&gt;''
           (replace_char (CHR ''<'') ''&lt;''
             (replace_char (CHR ''&'') ''&amp;'' val))))"

definition entity :: "char \<Rightarrow> string" where
  "entity c = (if c = CHR ''&'' then ''&amp;'' else if c = CHR ''<'' then ''&lt;''
     else if c = CHR ''>'' then ''&gt;'' else if c = CHR 0x22 then ''&quot;''
     else if c = CHR 0x27 then ''&#39;'' else [c])"

lemma replace_char_append [simp]: "replace_char c by (s @ t) = replace_char c by s @ replace_char c by t"
  by (simp add: replace_char_def)

lemma replace_char_Nil [simp]: "replace_char c by [] = []"
  by (simp add: replace_char_def)

lemma escape_html_append: "escape_html (s @ t) = escape_html s @ escape_html t"
  by (simp add: escape_html_def)

lemma escape_html_single: "escape_html [c] = entity c"
  by (simp add: escape_html_def entity_def replace_char_def)

lemma escape_html_map: "escape_html s = concat (map entity s)"
proof (induction s)
  case Nil
  show ?case by (simp add: escape_html_def)
next
  case (Cons c s)
  have "escape_html (c # s) = escape_html [c] @ escape_html s"
    using escape_html_append [of "[c]" s] by simp
  with Cons show ?case by (simp add: escape_html_single)
qed

lemma entity_safe: "set (entity c) \<inter> {CHR ''<'', CHR ''>'', CHR 0x22, CHR 0x27} = {}"
  by (simp add: entity_def)

lemma entity_no_confusion: "entity a @ s = entity b @ t \<Longrightarrow> a = b \<and> s = t"
  by (simp add: entity_def split: if_splits)

lemma concat_entity_inj: "concat (map entity s) = concat (map entity t) \<Longrightarrow> s = t"
proof (induction s arbitrary: t)
  case Nil
  then show ?case by (cases t) (simp_all add: entity_def split: if_splits)
next
  case (Cons a s)
  show ?case
  proof (cases t)
    case Nil
    with Cons.prems show ?thesis by (simp add: entity_def split: if_splits)
  next
    case [simp]: (Cons b u)
    from Cons.prems have "entity a @ concat (map entity s) = entity b @ concat (map entity u)" by simp
    from entity_no_confusion [OF this] Cons.IH show ?thesis by simp
  qed
qed

text \<open>
  Escaping is right although it is five replacements in a row: it is the one pass that writes each
  character as its entity (no entity is escaped twice), nothing in the result can open or close a
  tag or an attribute, and distinct texts stay distinct.
\<close>
theorem escape_html_is_one_pass:
  "escape_html s = concat (map entity s)
   \<and> set (escape_html s) \<inter> {CHR ''<'', CHR ''>'', CHR 0x22, CHR 0x27} = {}
   \<and> inj escape_html"
  using entity_safe by (auto simp: escape_html_map inj_def dest: concat_entity_inj)

end
