(* ===== verification/Admin.thy ===== *)
theory Admin
  imports Auth Mail_Text
begin

text \<open>
  \<open>server/src/admin.rs\<close>: account administration. Every route but the two links of the approval mail
  and the bootstrap starts with the role check; \<open>would_remove_last_admin\<close> guards banning and deleting,
  and its twin in \<open>change_role_route\<close> guards demotion. The markup around an HTML page is not modelled:
  a page is its title and its body, and the review page is its texts and the targets of its two forms.
\<close>

definition DEFAULT_USER_PAGE_SIZE :: int where "DEFAULT_USER_PAGE_SIZE = 50"

section \<open>Helpers\<close>

definition mask_national_id :: "string \<Rightarrow> string" where
  "mask_national_id val =
     (let len = length val
      in if len \<le> 2 then replicate len (CHR ''*'')
         else replicate (len - 2) (CHR ''*'') @ drop (len - 2) val)"

definition user_json :: "app \<Rightarrow> user_row \<Rightarrow> json" where
  "user_json E user = JObj
     [(''id'', JStr (u_id user)), (''userCode'', JStr (u_user_code user)),
      (''firstName'', JStr (u_first_name user)), (''lastName'', JStr (u_last_name user)),
      (''nationalId'', json_opt (map_option mask_national_id
         (Option.bind (u_national_id_encrypted user) (decrypt E (x_national_id_key E))))),
      (''email'', json_opt (u_email user)), (''role'', JStr (u_role user)),
      (''isApproved'', JBool (u_is_approved user)), (''isBanned'', JBool (u_is_banned user)),
      (''banReason'', json_opt (u_ban_reason user))]"

text \<open>Bytes are compared by \<open>OR\<close>-ing their differences.\<close>

definition constant_time_eq :: "string \<Rightarrow> string \<Rightarrow> bool" where
  "constant_time_eq a b =
     (let a = map of_char a; b = map of_char b
      in if length a \<noteq> length b then False
         else fold (\<lambda>(x, y) diff. or diff (xor x y)) (zip a b) (0 :: 8 word) = 0)"

definition require_admin :: "app \<Rightarrow> header_map \<Rightarrow> response option handler" where
  "require_admin E headers = do {
     ok \<leftarrow> require_role E headers can_administer_users;
     if ok then return None
     else do {
       rid \<leftarrow> request_id E headers;
       return (Some (api_err ''FORBIDDEN'' ''errors.forbidden'' rid))
     }
   }"

text \<open>The common start of the administration routes.\<close>

definition as_admin :: "app \<Rightarrow> header_map \<Rightarrow> response handler \<Rightarrow> response handler" where
  "as_admin E headers body = do {
     denied \<leftarrow> require_admin E headers;
     case denied of Some resp \<Rightarrow> return resp | None \<Rightarrow> body
   }"

definition actor_claims :: "app \<Rightarrow> header_map \<Rightarrow> claims option handler" where
  "actor_claims E headers = auth_user_from_headers E headers"

text \<open>An audit event of the acting administrator about a user.\<close>

definition admin_event :: "app \<Rightarrow> header_map \<Rightarrow> string \<Rightarrow> string \<Rightarrow> string \<Rightarrow> claims option \<Rightarrow> recorder" where
  "admin_event E headers action rid user_id who =
     on_resource ''user'' user_id (from_headers E headers (actor_opt who (recorder_new action ''success'' rid)))"

definition best_effort_audit :: "app \<Rightarrow> header_map \<Rightarrow> string \<Rightarrow> string \<Rightarrow> string \<Rightarrow> unit handler" where
  "best_effort_audit E headers action rid user_id = do {
     c \<leftarrow> actor_claims E headers;
     save E (admin_event E headers action rid user_id c)
   }"

text \<open>A change that must be audited: the response is a failure when the event cannot be written.\<close>

definition mandatory_audit ::
  "app \<Rightarrow> header_map \<Rightarrow> string \<Rightarrow> string \<Rightarrow> string \<Rightarrow> json option \<Rightarrow> string \<Rightarrow> response handler" where
  "mandatory_audit E headers action rid user_id metadata key = do {
     c \<leftarrow> actor_claims E headers;
     a \<leftarrow> save_mandatory E ((case metadata of None \<Rightarrow> (\<lambda>r. r) | Some j \<Rightarrow> with_metadata j)
            (admin_event E headers action rid user_id c));
     return (case a of Inl err \<Rightarrow> fail_with err rid | Inr _ \<Rightarrow> ok_json (message_key key))
   }"

section \<open>Listing and creating accounts\<close>

definition list_users_route :: "app \<Rightarrow> header_map \<Rightarrow> int option \<Rightarrow> int option \<Rightarrow> response handler" where
  "list_users_route E headers query_page query_page_size = as_admin E headers (do {
     let page = max (case query_page of None \<Rightarrow> 1 | Some p \<Rightarrow> p) 1;
     let page_size = (case query_page_size of None \<Rightarrow> DEFAULT_USER_PAGE_SIZE | Some s \<Rightarrow> s);
     r \<leftarrow> list_users_page page page_size;
     case r of
       Inr (rows, n) \<Rightarrow> return (ok_json (JObj
         [(''items'', JArr (map (user_json E) rows)), (''page'', JInt page),
          (''pageSize'', JInt (clamp 1 200 page_size)), (''total'', JInt (int n))]))
     | Inl _ \<Rightarrow> do {
         rid \<leftarrow> request_id E headers;
         return (api_err ''INTERNAL_ERROR'' ''errors.internal'' rid)
       }
   })"

record create_user_payload =
  cu_user_code :: string
  cu_password :: string
  cu_first_name :: "string option"
  cu_last_name :: "string option"
  cu_national_id :: string
  cu_email :: string
  cu_is_admin :: bool

definition valid_code :: "string \<Rightarrow> bool" where
  "valid_code c \<longleftrightarrow> 4 \<le> length c \<and> length c \<le> 20
     \<and> list_all (\<lambda>x. is_ascii_uppercase x \<or> is_ascii_digit x) c"

definition valid_national_id :: "string \<Rightarrow> bool" where
  "valid_national_id v \<longleftrightarrow> \<not> (length v \<noteq> 11 \<or> \<not> list_all is_ascii_digit v)"

text \<open>\<open>.as_deref().map(str::trim).filter(|s| !s.is_empty())\<close>.\<close>

definition non_blank :: "string option \<Rightarrow> string option" where
  "non_blank s = (case map_option trim s of None \<Rightarrow> None | Some v \<Rightarrow> if v = [] then None else Some v)"

definition create_user_route :: "app \<Rightarrow> header_map \<Rightarrow> create_user_payload \<Rightarrow> response handler" where
  "create_user_route E headers payload = as_admin E headers (do {
     rid \<leftarrow> request_id E headers;
     let c = to_uppercase (trim (cu_user_code payload));
     let national_id = trim (cu_national_id payload);
     let email = to_lowercase (trim (cu_email payload));
     if \<not> valid_code c \<or> length (cu_password payload) < 8 \<or> \<not> valid_national_id national_id \<or> email = []
     then return (api_err ''VALIDATION_ERROR'' ''errors.validation'' rid)
     else do {
       let first_name = (case non_blank (cu_first_name payload) of None \<Rightarrow> c | Some s \<Rightarrow> s);
       let last_name = (case map_option trim (cu_last_name payload) of None \<Rightarrow> [] | Some s \<Rightarrow> s);
       case x_bcrypt_hash E DEFAULT_COST (cu_password payload) of
         None \<Rightarrow> return (api_err ''INTERNAL_ERROR'' ''errors.internal'' rid)
       | Some hashed \<Rightarrow> do {
           e \<leftarrow> encrypt E (x_national_id_key E) national_id;
           u \<leftarrow> create_user E c (Some email) first_name last_name (Some (fst e)) (Some (snd e)) hashed
                  (if cu_is_admin payload then SYSTEM_ADMIN else DEFAULT_APPROVED_ROLE) True;
           case u of
             Inr (Some user) \<Rightarrow> do {
               best_effort_audit E headers ''USER_CREATED'' rid (u_id user);
               return (ok_json (JObj [(''user'', user_json E user)]))
             }
           | Inr None \<Rightarrow> return (api_err ''INTERNAL_ERROR'' ''errors.internal'' rid)
           | Inl UniqueViolation \<Rightarrow> return (api_err ''CONFLICT'' ''errors.registrationConflict'' rid)
           | Inl DbFailure \<Rightarrow> return (api_err ''INTERNAL_ERROR'' ''errors.internal'' rid)
         }
     }
   })"

section \<open>Editing, approving, rejecting\<close>

record update_user_payload =
  up_nickname :: "string option"
  up_national_id :: "string option"
  up_email :: "string option"
  up_password :: "string option"

text \<open>The national id columns after the edit: \<open>None\<close> when the given id is not valid.\<close>

definition next_national_id :: "app \<Rightarrow> string option \<Rightarrow> user_row \<Rightarrow> (string option \<times> string option) option handler" where
  "next_national_id E given current =
     (case non_blank given of
        Some v \<Rightarrow>
          if \<not> valid_national_id v then return None
          else do {
            e \<leftarrow> encrypt E (x_national_id_key E) v;
            return (Some (Some (fst e), Some (snd e)))
          }
      | None \<Rightarrow> return (Some (u_national_id_encrypted current, u_national_id_lookup_hash current)))"

text \<open>The password hash after the edit, or the error response.\<close>

definition next_password :: "app \<Rightarrow> string \<Rightarrow> string option \<Rightarrow> user_row \<Rightarrow> response + string" where
  "next_password E rid given current =
     (case given of
        None \<Rightarrow> Inr (u_password_hash current)
      | Some p \<Rightarrow>
          if p = [] then Inr (u_password_hash current)
          else if length p < 8 then Inl (api_err ''VALIDATION_ERROR'' ''errors.validation'' rid)
          else (case x_bcrypt_hash E DEFAULT_COST p of
                  None \<Rightarrow> Inl (api_err ''INTERNAL_ERROR'' ''errors.internal'' rid)
                | Some v \<Rightarrow> Inr v))"

definition update_user_route :: "app \<Rightarrow> string \<Rightarrow> header_map \<Rightarrow> update_user_payload \<Rightarrow> response handler" where
  "update_user_route E i headers payload = as_admin E headers (do {
     rid \<leftarrow> request_id E headers;
     cur \<leftarrow> load_user_by_id E i;
     case flatten cur of
       None \<Rightarrow> return (api_err ''NOT_FOUND'' ''errors.notFound'' rid)
     | Some current \<Rightarrow> do {
         let first_name = (case non_blank (up_nickname payload) of None \<Rightarrow> u_first_name current | Some s \<Rightarrow> s);
         nid \<leftarrow> next_national_id E (up_national_id payload) current;
         case nid of
           None \<Rightarrow> return (api_err ''VALIDATION_ERROR'' ''errors.validation'' rid)
         | Some (enc, lookup) \<Rightarrow> do {
             let email = (case non_blank (up_email payload) of Some v \<Rightarrow> Some (to_lowercase v) | None \<Rightarrow> u_email current);
             case next_password E rid (up_password payload) current of
               Inl resp \<Rightarrow> return resp
             | Inr password_hash \<Rightarrow> do {
                 u \<leftarrow> update_user_profile E i first_name email enc lookup password_hash;
                 case u of
                   Inr (Some user) \<Rightarrow> do {
                     best_effort_audit E headers ''USER_UPDATED'' rid (u_id user);
                     return (ok_json (JObj [(''user'', user_json E user)]))
                   }
                 | Inr None \<Rightarrow> return (api_err ''NOT_FOUND'' ''errors.notFound'' rid)
                 | Inl UniqueViolation \<Rightarrow> return (api_err ''CONFLICT'' ''errors.registrationConflict'' rid)
                 | Inl DbFailure \<Rightarrow> return (api_err ''INTERNAL_ERROR'' ''errors.internal'' rid)
               }
           }
       }
   })"

definition mail_approval :: "user_row \<Rightarrow> unit handler" where
  "mail_approval user = (case u_email user of
      None \<Rightarrow> return ()
    | Some email \<Rightarrow> send_mail (ApprovalEmail (u_first_name user) (u_last_name user) email (u_user_code user)))"

definition mail_rejection :: "user_row option \<Rightarrow> unit handler" where
  "mail_rejection u = (case u of
      None \<Rightarrow> return ()
    | Some user \<Rightarrow> (case u_email user of
        None \<Rightarrow> return ()
      | Some email \<Rightarrow> send_mail (RejectionEmail (u_first_name user) (u_last_name user) email)))"

definition approve_user :: "app \<Rightarrow> string \<Rightarrow> header_map \<Rightarrow> response handler" where
  "approve_user E i headers = as_admin E headers (do {
     rid \<leftarrow> request_id E headers;
     u \<leftarrow> update_user_flags E i (Some True) (Some False) None (Some DEFAULT_APPROVED_ROLE);
     case u of
       Inr (Some user) \<Rightarrow> do {
         mail_approval user;
         best_effort_audit E headers ''REGISTRATION_APPROVED'' rid (u_id user);
         return (ok_json (JObj [(''user'', public_user user)]))
       }
     | Inr None \<Rightarrow> return (api_err ''NOT_FOUND'' ''errors.notFound'' rid)
     | Inl _ \<Rightarrow> return (api_err ''INTERNAL_ERROR'' ''errors.internal'' rid)
   })"

definition reject_user :: "app \<Rightarrow> string \<Rightarrow> header_map \<Rightarrow> response handler" where
  "reject_user E i headers = as_admin E headers (do {
     rid \<leftarrow> request_id E headers;
     u \<leftarrow> load_user_by_id E i;
     who \<leftarrow> actor_claims E headers;
     d \<leftarrow> delete_user E i;
     case d of
       Inl _ \<Rightarrow> return (api_err ''INTERNAL_ERROR'' ''errors.internal'' rid)
     | Inr deleted \<Rightarrow>
         if deleted
         then do {
           mail_rejection (flatten u);
           save E (admin_event E headers ''REGISTRATION_REJECTED'' rid i who);
           return (ok_json (message_key ''admin.requestRejected''))
         }
         else return (api_err ''NOT_FOUND'' ''errors.notFound'' rid)
   })"

section \<open>Banning, deleting, changing roles\<close>

definition few_admins :: "bool handler" where
  "few_admins = do {
     c \<leftarrow> count_active_system_admins;
     return (case c of Inl _ \<Rightarrow> False | Inr n \<Rightarrow> n \<le> 1)
   }"

definition would_remove_last_admin :: "user_row \<Rightarrow> bool handler" where
  "would_remove_last_admin target =
     (if u_role target \<noteq> SYSTEM_ADMIN \<or> u_is_banned target then return False else few_admins)"

text \<open>\<open>if let Some(target) = load(..) { if would_remove_last_admin(..) .. }\<close>.\<close>

definition last_admin_guard :: "app \<Rightarrow> string \<Rightarrow> bool handler" where
  "last_admin_guard E i = do {
     u \<leftarrow> load_user_by_id E i;
     case flatten u of None \<Rightarrow> return False | Some target \<Rightarrow> would_remove_last_admin target
   }"

definition last_admin_protected :: "string \<Rightarrow> response" where
  "last_admin_protected rid = api_err ''LAST_ADMIN_PROTECTED'' ''errors.lastAdminProtected'' rid"

definition ban_user :: "app \<Rightarrow> string \<Rightarrow> header_map \<Rightarrow> string option \<Rightarrow> response handler" where
  "ban_user E i headers reason = as_admin E headers (do {
     rid \<leftarrow> request_id E headers;
     guarded \<leftarrow> last_admin_guard E i;
     if guarded then return (last_admin_protected rid)
     else do {
       u \<leftarrow> update_user_flags E i None (Some True) reason None;
       case u of
         Inr (Some _) \<Rightarrow> do {
           _ \<leftarrow> revoke_all_sessions_for_user E i;
           mandatory_audit E headers ''USER_BANNED'' rid i (Some (JObj [(''reason'', json_opt reason)])) ''admin.userBanned''
         }
       | Inr None \<Rightarrow> return (api_err ''NOT_FOUND'' ''errors.notFound'' rid)
       | Inl _ \<Rightarrow> return (api_err ''INTERNAL_ERROR'' ''errors.internal'' rid)
     }
   })"

definition unban_user :: "app \<Rightarrow> string \<Rightarrow> header_map \<Rightarrow> response handler" where
  "unban_user E i headers = as_admin E headers (do {
     rid \<leftarrow> request_id E headers;
     u \<leftarrow> update_user_flags E i None (Some False) None None;
     case u of
       Inr (Some _) \<Rightarrow> mandatory_audit E headers ''USER_UNBANNED'' rid i None ''admin.banLifted''
     | Inr None \<Rightarrow> return (api_err ''NOT_FOUND'' ''errors.notFound'' rid)
     | Inl _ \<Rightarrow> return (api_err ''INTERNAL_ERROR'' ''errors.internal'' rid)
   })"

definition mfa_reset_route :: "app \<Rightarrow> string \<Rightarrow> header_map \<Rightarrow> response handler" where
  "mfa_reset_route E i headers = as_admin E headers (do {
     rid \<leftarrow> request_id E headers;
     u \<leftarrow> load_user_by_id E i;
     case flatten u of
       None \<Rightarrow> return (api_err ''NOT_FOUND'' ''errors.notFound'' rid)
     | Some target \<Rightarrow> do {
         r \<leftarrow> admin_reset E (u_id target);
         case r of
           Inl _ \<Rightarrow> return (api_err ''INTERNAL_ERROR'' ''errors.internal'' rid)
         | Inr _ \<Rightarrow> mandatory_audit E headers ''MFA_RESET_BY_ADMIN'' rid (u_id target) None ''admin.mfaResetComplete''
       }
   })"

definition demotes_last_admin :: "user_row \<Rightarrow> string \<Rightarrow> bool handler" where
  "demotes_last_admin target role =
     (if u_role target = SYSTEM_ADMIN \<and> role \<noteq> SYSTEM_ADMIN then few_admins else return False)"

definition change_role_route :: "app \<Rightarrow> string \<Rightarrow> header_map \<Rightarrow> string \<Rightarrow> response handler" where
  "change_role_route E i headers role = as_admin E headers (do {
     rid \<leftarrow> request_id E headers;
     if \<not> is_assignable_role role then return (api_err ''VALIDATION_ERROR'' ''errors.invalidRole'' rid)
     else do {
       t \<leftarrow> load_user_by_id E i;
       case flatten t of
         None \<Rightarrow> return (api_err ''NOT_FOUND'' ''errors.notFound'' rid)
       | Some target \<Rightarrow>
           if u_role target = role then return (api_err ''VALIDATION_ERROR'' ''errors.roleUnchanged'' rid)
           else do {
             last \<leftarrow> demotes_last_admin target role;
             if last then return (last_admin_protected rid)
             else do {
               u \<leftarrow> update_user_flags E i None None None (Some role);
               case u of
                 Inr (Some _) \<Rightarrow> do {
                   _ \<leftarrow> revoke_all_sessions_for_user E i;
                   mandatory_audit E headers ''USER_ROLE_CHANGED'' rid i
                     (Some (JObj [(''from'', JStr (u_role target)), (''to'', JStr role)])) ''admin.roleChanged''
                 }
               | Inr None \<Rightarrow> return (api_err ''NOT_FOUND'' ''errors.notFound'' rid)
               | Inl _ \<Rightarrow> return (api_err ''INTERNAL_ERROR'' ''errors.internal'' rid)
             }
           }
     }
   })"

definition delete_user_route :: "app \<Rightarrow> string \<Rightarrow> header_map \<Rightarrow> response handler" where
  "delete_user_route E i headers = as_admin E headers (do {
     rid \<leftarrow> request_id E headers;
     guarded \<leftarrow> last_admin_guard E i;
     if guarded then return (last_admin_protected rid)
     else do {
       d \<leftarrow> soft_delete_user E i;
       case d of
         Inl _ \<Rightarrow> return (api_err ''INTERNAL_ERROR'' ''errors.internal'' rid)
       | Inr deleted \<Rightarrow>
           if deleted
           then do {
             _ \<leftarrow> revoke_all_sessions_for_user E i;
             best_effort_audit E headers ''USER_DELETED'' rid i;
             return (ok_json (message_key ''admin.userDeleted''))
           }
           else return (api_err ''NOT_FOUND'' ''errors.notFound'' rid)
     }
   })"

section \<open>Bootstrap\<close>

definition seed_refused :: "app \<Rightarrow> header_map \<Rightarrow> string \<Rightarrow> json option \<Rightarrow> response handler" where
  "seed_refused E headers rid metadata = do {
     save E ((case metadata of None \<Rightarrow> (\<lambda>r. r) | Some j \<Rightarrow> with_metadata j)
       (from_headers E headers (recorder_new ''ADMIN_SEED_FAILED'' ''denied'' rid)));
     return (api_err ''FORBIDDEN'' ''errors.forbidden'' rid)
   }"

definition already_bootstrapped :: "app \<Rightarrow> bool handler" where
  "already_bootstrapped E =
     (if x_env E ''BOOTSTRAP_ENABLED'' = Some ''true'' then return False
      else do { c \<leftarrow> count_active_system_admins; return (case c of Inl _ \<Rightarrow> False | Inr n \<Rightarrow> 0 < n) })"

definition seed_account :: "app \<Rightarrow> header_map \<Rightarrow> string \<Rightarrow> string \<Rightarrow> string \<Rightarrow> string \<Rightarrow> response handler" where
  "seed_account E headers rid user_code password email =
     (if trim user_code = [] \<or> password = [] \<or> email = []
      then return (api_err ''VALIDATION_ERROR'' ''errors.validation'' rid)
      else case x_bcrypt_hash E DEFAULT_COST password of
        None \<Rightarrow> return (api_err ''INTERNAL_ERROR'' ''errors.internal'' rid)
      | Some hashed \<Rightarrow> do {
          u \<leftarrow> create_user E (to_uppercase (trim user_code)) (Some email) ''System'' ''Administrator'' None None
                 hashed SYSTEM_ADMIN True;
          case u of
            Inr (Some user) \<Rightarrow> do {
              save E (on_resource ''user'' (u_id user) (from_headers E headers (recorder_new ''ADMIN_SEED_USED'' ''success'' rid)));
              return (ok_json (message_key ''admin.adminCreated''))
            }
          | Inr None \<Rightarrow> return (api_err ''INTERNAL_ERROR'' ''errors.internal'' rid)
          | Inl UniqueViolation \<Rightarrow> return (ok_json (message_key ''admin.alreadySeeded''))
          | Inl DbFailure \<Rightarrow> return (api_err ''INTERNAL_ERROR'' ''errors.internal'' rid)
        })"

definition seed_admin :: "app \<Rightarrow> header_map \<Rightarrow> response handler" where
  "seed_admin E headers = do {
     rid \<leftarrow> request_id E headers;
     ok \<leftarrow> rate_check ''seed-admin'' 5 (15 * 60 * SECOND);
     if \<not> ok then return (api_err ''RATE_LIMITED'' ''errors.rateLimited'' rid)
     else do {
       let expected = (case x_env E ''ADMIN_SEED_TOKEN'' of None \<Rightarrow> [] | Some v \<Rightarrow> v);
       let provided = (case headers ''x-seed-token'' of None \<Rightarrow> [] | Some v \<Rightarrow> v);
       if expected = [] \<or> \<not> constant_time_eq provided expected then seed_refused E headers rid None
       else do {
         b \<leftarrow> already_bootstrapped E;
         if b then seed_refused E headers rid (Some (JObj [(''reason'', JStr ''already_bootstrapped'')]))
         else case (x_env E ''ADMIN_USER_CODE'', x_env E ''ADMIN_PASSWORD'', x_env E ''ADMIN_EMAIL'') of
           (Some user_code, Some password, Some email) \<Rightarrow> seed_account E headers rid user_code password email
         | _ \<Rightarrow> return (api_err ''VALIDATION_ERROR'' ''errors.validation'' rid)
       }
     }
   }"

section \<open>The links of the approval mail\<close>

definition html_page :: "string \<Rightarrow> string \<Rightarrow> response" where
  "html_page title body = \<lparr>r_status = 200, r_body = HtmlBody title body, r_set_cookie = None\<rparr>"

definition invalid_link :: response where
  "invalid_link = html_page ''Invalid or expired link''
     ''<p>This approval link is invalid, has expired, or has already been used.</p>''"

definition gone_page :: response where
  "gone_page = html_page ''Not found'' ''<p>This registration request no longer exists.</p>''"

definition name_page :: "string \<Rightarrow> user_row \<Rightarrow> string \<Rightarrow> response" where
  "name_page title user text = html_page title
     (''<p>'' @ escape_html (u_first_name user) @ '' '' @ escape_html (u_last_name user) @ text @ ''</p>'')"

text \<open>The texts of the page and the targets of its forms; the table markup and styles are left out.\<close>

definition review_page :: "string \<Rightarrow> user_row \<Rightarrow> response" where
  "review_page token user = html_page ''Review registration request''
     (''Full name '' @ escape_html (u_first_name user) @ '' '' @ escape_html (u_last_name user)
      @ '' Email '' @ escape_html (case u_email user of None \<Rightarrow> ''-'' | Some e \<Rightarrow> e)
      @ '' User code '' @ escape_html (u_user_code user)
      @ ''<form method=post action=/api/v1/admin/quick-approve/'' @ token
      @ ''><form method=post action=/api/v1/admin/quick-reject/'' @ token @ ''>'')"

definition review :: "app \<Rightarrow> string \<Rightarrow> response handler" where
  "review E token = do {
     p \<leftarrow> peek_approval_token E token;
     case p of
       None \<Rightarrow> return invalid_link
     | Some user_id \<Rightarrow> do {
         u \<leftarrow> load_user_by_id E user_id;
         return (case flatten u of
           None \<Rightarrow> gone_page
         | Some user \<Rightarrow>
             if u_is_approved user then name_page ''Already approved'' user '' has already been approved.''
             else review_page token user)
       }
   }"

text \<open>The database error's own text is not modelled.\<close>

definition error_page :: response where
  "error_page = html_page ''Error'' []"

definition link_event :: "app \<Rightarrow> header_map \<Rightarrow> string \<Rightarrow> string \<Rightarrow> string \<Rightarrow> recorder" where
  "link_event E headers action rid user_id =
     with_metadata (JObj [(''source'', JStr ''email_link'')])
       (on_resource ''user'' user_id (from_headers E headers (recorder_new action ''success'' rid)))"

definition quick_approve :: "app \<Rightarrow> string \<Rightarrow> header_map \<Rightarrow> response handler" where
  "quick_approve E token headers = do {
     rid \<leftarrow> request_id E headers;
     p \<leftarrow> consume_approval_token E token ''approved'';
     case p of
       None \<Rightarrow> return invalid_link
     | Some user_id \<Rightarrow> do {
         u \<leftarrow> update_user_flags E user_id (Some True) (Some False) None (Some DEFAULT_APPROVED_ROLE);
         case u of
           Inr (Some user) \<Rightarrow> do {
             mail_approval user;
             save E (link_event E headers ''REGISTRATION_APPROVED'' rid (u_id user));
             return (name_page ''Approved'' user '' has been approved and notified by email.'')
           }
         | Inr None \<Rightarrow> return gone_page
         | Inl _ \<Rightarrow> return error_page
       }
   }"

definition quick_reject :: "app \<Rightarrow> string \<Rightarrow> header_map \<Rightarrow> response handler" where
  "quick_reject E token headers = do {
     rid \<leftarrow> request_id E headers;
     p \<leftarrow> consume_approval_token E token ''rejected'';
     case p of
       None \<Rightarrow> return invalid_link
     | Some user_id \<Rightarrow> do {
         u \<leftarrow> load_user_by_id E user_id;
         d \<leftarrow> delete_user E user_id;
         case d of
           Inl _ \<Rightarrow> return error_page
         | Inr deleted \<Rightarrow>
             if deleted
             then do {
               save E (link_event E headers ''REGISTRATION_REJECTED'' rid user_id);
               mail_rejection (flatten u);
               return (case flatten u of
                 Some user \<Rightarrow> name_page ''Rejected'' user '' has been rejected and notified by email.''
               | None \<Rightarrow> html_page ''Rejected'' ''<p>Registration request rejected.</p>'')
             }
             else return gone_page
       }
   }"


section \<open>Frames\<close>

lemma admin_helper_frames [frame_intros]:
  "blind_base f \<Longrightarrow> preserves f (require_admin E h)"
  "preserves f (actor_claims E h)"
  "blind_base f \<Longrightarrow> preserves f few_admins"
  "blind_base f \<Longrightarrow> preserves f (would_remove_last_admin t)"
  "blind_base f \<Longrightarrow> preserves f (last_admin_guard E i)"
  "blind_base f \<Longrightarrow> preserves f (demotes_last_admin t role)"
  "blind_base f \<Longrightarrow> preserves f (already_bootstrapped E)"
  "blind_base f \<Longrightarrow> preserves f (next_national_id E g c)"
  "blind w_outbox_update f \<Longrightarrow> preserves f (mail_approval u)"
  "blind w_outbox_update f \<Longrightarrow> preserves f (mail_rejection ou)"
  "blind_base f \<Longrightarrow> preserves f (list_users_route E h pg sz)"
  "blind_base f \<Longrightarrow> preserves f (review E tok)"
  "blind_audit f \<Longrightarrow> preserves f (best_effort_audit E h a rid i)"
  "blind_audit f \<Longrightarrow> preserves f (mandatory_audit E h a rid i md key)"
  "blind_audit f \<Longrightarrow> preserves f (seed_refused E h rid md)"
  unfolding require_admin_def actor_claims_def few_admins_def would_remove_last_admin_def
    last_admin_guard_def demotes_last_admin_def already_bootstrapped_def next_national_id_def
    mail_approval_def mail_rejection_def list_users_route_def as_admin_def review_def
    best_effort_audit_def mandatory_audit_def seed_refused_def Let_def
  by (intro frame_intros; simp)+

lemma as_admin_frame [frame_intros]:
  "blind_base f \<Longrightarrow> preserves f b \<Longrightarrow> preserves f (as_admin E h b)"
  unfolding as_admin_def by (intro frame_intros)

definition blind_admin :: "(world \<Rightarrow> 'b) \<Rightarrow> bool" where
  [simp]: "blind_admin f \<longleftrightarrow> blind_audit f \<and> blind w_users_update f \<and> blind w_sessions_update f
     \<and> blind w_outbox_update f \<and> blind w_approval_tokens_update f \<and> blind_mfa f \<and> blind w_windows_update f"

lemma admin_route_frames [frame_intros]:
  "blind_admin f \<Longrightarrow> preserves f (create_user_route E h pl)"
  "blind_admin f \<Longrightarrow> preserves f (update_user_route E i h ul)"
  "blind_admin f \<Longrightarrow> preserves f (approve_user E i h)"
  "blind_admin f \<Longrightarrow> preserves f (reject_user E i h)"
  "blind_admin f \<Longrightarrow> preserves f (ban_user E i h reason)"
  "blind_admin f \<Longrightarrow> preserves f (unban_user E i h)"
  "blind_admin f \<Longrightarrow> preserves f (mfa_reset_route E i h)"
  "blind_admin f \<Longrightarrow> preserves f (change_role_route E i h role)"
  "blind_admin f \<Longrightarrow> preserves f (delete_user_route E i h)"
  "blind_admin f \<Longrightarrow> preserves f (seed_admin E h)"
  "blind_admin f \<Longrightarrow> preserves f (quick_approve E tok h)"
  "blind_admin f \<Longrightarrow> preserves f (quick_reject E tok h)"
  unfolding create_user_route_def update_user_route_def approve_user_def reject_user_def ban_user_def
    unban_user_def mfa_reset_route_def change_role_route_def delete_user_route_def seed_admin_def
    seed_account_def quick_approve_def quick_reject_def Let_def
  by ((intro frame_intros; simp)+)

section \<open>Helpers\<close>

lemma or_zero_iff: "or a b = 0 \<longleftrightarrow> a = 0 \<and> b = (0 :: 8 word)"
  by (rule or_eq_0_iff)

lemma xor_zero_iff: "xor a b = 0 \<longleftrightarrow> a = (b :: 8 word)"
proof
  assume "xor a b = 0"
  then have "xor (xor a b) b = xor 0 b" by simp
  then show "a = b" by (simp add: xor.assoc)
qed simp

lemma fold_diff_zero:
  "fold (\<lambda>(x, y) diff. or diff (xor x y)) ps (d :: 8 word) = 0 \<longleftrightarrow> d = 0 \<and> (\<forall>(x, y)\<in>set ps. x = y)"
  by (induction ps arbitrary: d) (auto simp: or_zero_iff xor_zero_iff)

lemma byte_inj: "(of_char a :: 8 word) = of_char b \<longleftrightarrow> a = b"
proof
  assume "(of_char a :: 8 word) = of_char b"
  then have "demo_text (demo_bytes [a]) = demo_text (demo_bytes [b])" by (simp add: demo_bytes_def)
  then show "a = b" by simp
qed simp

lemma constant_time_eq_iff: "constant_time_eq a b \<longleftrightarrow> a = b"
proof
  assume *: "constant_time_eq a b"
  then have len: "length a = length b" by (auto simp: constant_time_eq_def Let_def split: if_splits)
  with * have "\<forall>(x, y)\<in>set (zip (map of_char a) (map of_char b)). x = (y :: 8 word)"
    by (simp add: constant_time_eq_def Let_def fold_diff_zero)
  with len have "map of_char a = (map of_char b :: 8 word list)"
    by (intro list_eq_iff_zip_eq [THEN iffD2]) auto
  then show "a = b" by (metis (no_types, lifting) byte_inj inj_map_eq_map injI)
next
  assume "a = b"
  then show "constant_time_eq a b" by (auto simp: constant_time_eq_def Let_def fold_diff_zero set_zip)
qed

text \<open>
  The constant-time comparison of the seed token is equality: \<open>OR\<close>-ing the byte differences over
  the whole length accepts exactly the equal strings.
\<close>
theorem constant_time_eq_is_equality: "constant_time_eq = (=)"
  by (intro ext) (rule constant_time_eq_iff)

lemma mask_alt: "mask_national_id v = replicate (length v - 2) (CHR ''*'') @
    (if length v \<le> 2 then replicate (length v) (CHR ''*'') else drop (length v - 2) v)"
  by (simp add: mask_national_id_def Let_def)

text \<open>
  A masked national id keeps its length and shows nothing but its last two characters: two ids of
  one length have the same mask exactly when they agree on those two.
\<close>
theorem mask_reveals_two_digits:
  "length (mask_national_id v) = length v
   \<and> take (length v - 2) (mask_national_id v) = replicate (length v - 2) (CHR ''*'')
   \<and> {v'. length v' = length v \<and> mask_national_id v' = mask_national_id v}
       = {v'. length v' = length v \<and> (length v \<le> 2 \<or> drop (length v - 2) v' = drop (length v - 2) v)}"
  by (auto simp: mask_alt)

end
