(* ===== verification/Db_Search.thy ===== *)
theory Db_Search
  imports Demo "HOL-Library.List_Lexorder" "HOL-Library.Char_ord"
begin

text \<open>
  The search workflow of \<open>server/src/db/mod.rs\<close>: candidates, searches, the candidates a search
  ranked, and the reviewers' decisions. Ids are primary keys, a candidate's reference code and the
  pair of a search and a candidate are unique. Rows with the same score are read in the order they
  were written; column widths (\<open>VARCHAR(20)\<close> and the like) are not modelled.
\<close>

section \<open>Transactions\<close>

text \<open>
  Several statements that take effect together: an error inside, or a fault of the connection,
  leaves the tables as they were. The random ids drawn on the way are gone all the same.
\<close>

definition transaction :: "(world \<Rightarrow> (db_error + 'a) \<times> world) \<Rightarrow> (db_error + 'a) handler" where
  "transaction f = try_stmt (\<lambda>w. case f w of
       (Inl e, w') \<Rightarrow> (Inl e, w\<lparr>w_draws := w_draws w'\<rparr>)
     | (Inr a, w') \<Rightarrow> (Inr a, w'))"

lemma transaction_frame:
  assumes "blind_base f" and "\<And>w. f (snd (g w)) = f w"
  shows "preserves f (transaction g)"
proof -
  have "f (snd (case g w of (Inl e, w') \<Rightarrow> (Inl e, w\<lparr>w_draws := w_draws w'\<rparr>) | (Inr a, w') \<Rightarrow> (Inr a, w'))) = f w" for w
  proof -
    obtain r w' where g: "g w = (r, w')" by fastforce
    moreover have "f w' = f w" using assms(2) [of w] g by simp
    moreover have "f (w\<lparr>w_draws := n\<rparr>) = f w" for n using assms(1) by simp
    ultimately show ?thesis by (cases r) simp_all
  qed
  then show ?thesis unfolding transaction_def by (rule try_stmt_frame [OF assms(1)])
qed

lemma result_transaction: "result (transaction f) w =
    (if w_faults w (w_stmts w) then Inl DbFailure else fst (f (w\<lparr>w_stmts := Suc (w_stmts w)\<rparr>)))"
  by (simp add: transaction_def result_try_stmt split: prod.split sum.split)

lemma exec_transaction: "exec (transaction f) w =
    (if w_faults w (w_stmts w) then w\<lparr>w_stmts := Suc (w_stmts w)\<rparr>
     else case f (w\<lparr>w_stmts := Suc (w_stmts w)\<rparr>) of
            (Inl e, w') \<Rightarrow> w\<lparr>w_stmts := Suc (w_stmts w), w_draws := w_draws w'\<rparr>
          | (Inr a, w') \<Rightarrow> w')"
  by (simp add: transaction_def exec_try_stmt split: prod.split sum.split)

lemma keeps_transaction:
  assumes "blind_base P" and "\<And>w. P w \<Longrightarrow> P (snd (g w))"
  shows "keeps P (transaction g)"
  unfolding transaction_def
proof (rule keeps_try_stmt)
  fix w assume "P w"
  obtain r w' where g: "g w = (r, w')" by fastforce
  show "P (snd (case g w of (Inl e, w') \<Rightarrow> (Inl e, w\<lparr>w_draws := w_draws w'\<rparr>) | (Inr a, w') \<Rightarrow> (Inr a, w')))"
    using assms \<open>P w\<close> assms(2) [OF \<open>P w\<close>] g by (cases r) simp_all
qed (use assms(1) in simp)

section \<open>Candidates\<close>

definition list_candidates :: "(db_error + candidate_row list) handler" where
  "list_candidates = query (\<lambda>w. sort_key cd_reference_code (w_candidates w))"

definition load_candidate_by_id :: "app \<Rightarrow> string \<Rightarrow> (db_error + candidate_row option) handler" where
  "load_candidate_by_id E i =
     with_key E i None (\<lambda>k. query (\<lambda>w. find (\<lambda>c. cd_id c = k) (w_candidates w)))"

definition insert_candidate :: "candidate_row \<Rightarrow> world \<Rightarrow> (db_error + unit) \<times> world" where
  "insert_candidate c w =
     (if list_ex (\<lambda>d. cd_id d = cd_id c \<or> cd_reference_code d = cd_reference_code c) (w_candidates w)
      then (Inl UniqueViolation, w)
      else (Inr (), w\<lparr>w_candidates := w_candidates w @ [c]\<rparr>))"

definition create_candidate ::
  "app \<Rightarrow> string \<Rightarrow> string \<Rightarrow> string option \<Rightarrow> string option \<Rightarrow> (db_error + candidate_row) handler" where
  "create_candidate E reference_code full_name notes organization_id = do {
     i \<leftarrow> new_uuid E;
     let c = \<lparr>cd_id = i, cd_reference_code = reference_code, cd_full_name = full_name,
              cd_notes = notes, cd_organization_id = Option.bind organization_id (db_key E)\<rparr>;
     ins \<leftarrow> try_stmt (insert_candidate c);
     case ins of
       Inl e \<Rightarrow> return (Inl e)
     | Inr _ \<Rightarrow>
         (case x_backend E of
            Postgres \<Rightarrow> return (Inr c)
          | Sqlite \<Rightarrow> try_stmt (\<lambda>w. (case find (\<lambda>d. cd_id d = i) (w_candidates w) of
              None \<Rightarrow> Inl DbFailure | Some d \<Rightarrow> Inr d, w)))
   }"

section \<open>Searches\<close>

definition load_search_by_id :: "app \<Rightarrow> string \<Rightarrow> (db_error + search_row option) handler" where
  "load_search_by_id E i =
     with_key E i None (\<lambda>k. query (\<lambda>w. find (\<lambda>q. q_id q = k) (w_searches w)))"

definition SEARCH_PAGE_MAX_SIZE :: int where "SEARCH_PAGE_MAX_SIZE = 200"

text \<open>
  The organization filter both backends push into the query: no scope, no filter; otherwise a
  search without an organization, or of one of the given ones (on PostgreSQL, of those that are
  UUIDs).
\<close>

definition in_search_scope :: "app \<Rightarrow> string list option \<Rightarrow> search_row \<Rightarrow> bool" where
  "in_search_scope E org_scope q =
     (case org_scope of
        None \<Rightarrow> True
      | Some ids \<Rightarrow>
          (case q_organization_id q of
             None \<Rightarrow> True
           | Some org \<Rightarrow> org \<in> set (List.map_filter (db_key E) ids)))"

definition list_searches_page ::
  "app \<Rightarrow> int \<Rightarrow> int \<Rightarrow> string list option \<Rightarrow> (db_error + search_row list \<times> nat) handler" where
  "list_searches_page E page page_size org_scope =
     (let page = max page 1;
          page_size = clamp 1 SEARCH_PAGE_MAX_SIZE page_size;
          offset = (page - 1) * page_size
      in do {
        total \<leftarrow> query (\<lambda>w. sql_count (in_search_scope E org_scope) (w_searches w));
        case total of
          Inl e \<Rightarrow> return (Inl e)
        | Inr n \<Rightarrow> do {
            rows \<leftarrow> query (\<lambda>w. sql_page page_size offset
                      (rev (filter (in_search_scope E org_scope) (w_searches w))));
            case rows of
              Inl e \<Rightarrow> return (Inl e)
            | Inr rs \<Rightarrow> return (Inr (rs, n))
          }
      })"

definition insert_search :: "search_row \<Rightarrow> world \<Rightarrow> (db_error + unit) \<times> world" where
  "insert_search q w =
     (if list_ex (\<lambda>p. q_id p = q_id q) (w_searches w) then (Inl UniqueViolation, w)
      else (Inr (), w\<lparr>w_searches := w_searches w @ [q]\<rparr>))"

definition queued_row ::
  "app \<Rightarrow> string \<Rightarrow> string \<Rightarrow> string \<Rightarrow> string \<Rightarrow> string \<Rightarrow> rat option \<Rightarrow> rat option \<Rightarrow> int \<Rightarrow>
     string option \<Rightarrow> int \<Rightarrow> search_row" where
  "queued_row E i case_reference purpose requested_by requested_by_name latitude longitude top_k org now =
     \<lparr>q_id = i, q_case_reference = case_reference, q_purpose = purpose, q_requested_by = requested_by,
      q_requested_by_name = requested_by_name, q_status = ''queued'', q_latitude = latitude,
      q_longitude = longitude, q_top_k = Some top_k, q_started_at = None, q_completed_at = None,
      q_failure_code = None, q_failure_message_key = None, q_created_at = now,
      q_organization_id = Option.bind org (db_key E), q_external_evidence_status = None\<rparr>"

definition create_queued_search ::
  "app \<Rightarrow> string \<Rightarrow> string \<Rightarrow> string \<Rightarrow> string \<Rightarrow> rat option \<Rightarrow> rat option \<Rightarrow> int \<Rightarrow> string option \<Rightarrow>
     (db_error + search_row) handler" where
  "create_queued_search E case_reference purpose requested_by requested_by_name latitude longitude top_k org =
     (case db_key E requested_by of
        None \<Rightarrow> return (Inl DbFailure)
      | Some requester \<Rightarrow> do {
          i \<leftarrow> new_uuid E;
          now \<leftarrow> gets w_now;
          let q = queued_row E i case_reference purpose requester requested_by_name latitude longitude
                    top_k org now;
          ins \<leftarrow> try_stmt (insert_search q);
          case ins of
            Inl e \<Rightarrow> return (Inl e)
          | Inr _ \<Rightarrow>
              (case x_backend E of
                 Postgres \<Rightarrow> return (Inr q)
               | Sqlite \<Rightarrow> try_stmt (\<lambda>w. (case find (\<lambda>p. q_id p = i) (w_searches w) of
                   None \<Rightarrow> Inl DbFailure | Some p \<Rightarrow> Inr p, w)))
        })"

definition set_search :: "string \<Rightarrow> (search_row \<Rightarrow> search_row) \<Rightarrow> world \<Rightarrow> world" where
  "set_search k f w = w\<lparr>w_searches := sql_update (\<lambda>q. q_id q = k) f (w_searches w)\<rparr>"

definition begin_processing :: "int \<Rightarrow> search_row \<Rightarrow> search_row" where
  "begin_processing now q = q\<lparr>q_status := ''processing'', q_started_at := Some now\<rparr>"

definition complete_search :: "int \<Rightarrow> search_row \<Rightarrow> search_row" where
  "complete_search now q = q\<lparr>q_status := ''completed'', q_completed_at := Some now\<rparr>"

definition fail_search :: "string \<Rightarrow> string \<Rightarrow> int \<Rightarrow> search_row \<Rightarrow> search_row" where
  "fail_search fcode key now q =
     q\<lparr>q_status := ''failed'', q_completed_at := Some now, q_failure_code := Some fcode,
       q_failure_message_key := Some key\<rparr>"

text \<open>One \<open>INSERT INTO search_candidates\<close>; the columns it does not name take their defaults.\<close>

definition pending_row :: "string \<Rightarrow> string \<Rightarrow> string \<Rightarrow> rat \<Rightarrow> int \<Rightarrow> search_candidate_row" where
  "pending_row i s c score now =
     \<lparr>sc_id = i, sc_search_id = s, sc_candidate_id = c, sc_score = score, sc_status = ''pending'',
      sc_reviewed_by = None, sc_reviewed_by_name = None, sc_reviewed_at = None, sc_created_at = now\<rparr>"

definition insert_search_candidate_row ::
  "app \<Rightarrow> string \<Rightarrow> string \<Rightarrow> rat \<Rightarrow> world \<Rightarrow> (db_error + unit) \<times> world" where
  "insert_search_candidate_row E s c score w =
     (let r = pending_row (x_uuid_v4 E (w_draws w)) s c score (w_now w);
          w' = w\<lparr>w_draws := Suc (w_draws w)\<rparr>
      in if list_ex (\<lambda>p. sc_id p = sc_id r \<or> sc_search_id p = s \<and> sc_candidate_id p = c) (w_search_candidates w)
         then (Inl UniqueViolation, w')
         else (Inr (), w'\<lparr>w_search_candidates := w_search_candidates w @ [r]\<rparr>))"

fun insert_scored :: "app \<Rightarrow> string \<Rightarrow> (string \<times> rat) list \<Rightarrow> world \<Rightarrow> (db_error + unit) \<times> world" where
  "insert_scored E s [] w = (Inr (), w)"
| "insert_scored E s ((candidate_id, score) # rest) w =
     (case db_key E candidate_id of
        None \<Rightarrow> insert_scored E s rest w
      | Some c \<Rightarrow>
          (case insert_search_candidate_row E s c score w of
             (Inl e, w') \<Rightarrow> (Inl e, w')
           | (Inr _, w') \<Rightarrow> insert_scored E s rest w'))"

definition finalize_queued_search ::
  "app \<Rightarrow> string \<Rightarrow> (string \<times> rat) list \<Rightarrow> (db_error + search_row option) handler" where
  "finalize_queued_search E search_id scored =
     with_key E search_id None (\<lambda>s. transaction (\<lambda>w.
       case insert_scored E s scored (set_search s (begin_processing (w_now w)) w) of
         (Inl e, w') \<Rightarrow> (Inl e, w')
       | (Inr _, w') \<Rightarrow>
           (let w'' = set_search s (complete_search (w_now w)) w'
            in case find (\<lambda>q. q_id q = s) (w_searches w'') of
                 Some q \<Rightarrow> (Inr (Some q), w'')
               | None \<Rightarrow> (case x_backend E of
                            Postgres \<Rightarrow> (Inl DbFailure, w'')
                          | Sqlite \<Rightarrow> (Inr None, w'')))))"

definition mark_queued_search_failed ::
  "app \<Rightarrow> string \<Rightarrow> string \<Rightarrow> string \<Rightarrow> (db_error + search_row option) handler" where
  "mark_queued_search_failed E search_id failure_code failure_message_key =
     with_key E search_id None (\<lambda>s. do {
       upd \<leftarrow> stmt (\<lambda>w. let w' = set_search s (fail_search failure_code failure_message_key (w_now w)) w
                   in (find (\<lambda>q. q_id q = s) (w_searches w'), w'));
       case x_backend E of
         Postgres \<Rightarrow> return upd
       | Sqlite \<Rightarrow> (case upd of
           Inl e \<Rightarrow> return (Inl e)
         | Inr _ \<Rightarrow> query (\<lambda>w. find (\<lambda>q. q_id q = s) (w_searches w)))
     })"

definition set_search_external_evidence_status :: "app \<Rightarrow> string \<Rightarrow> string \<Rightarrow> (db_error + unit) handler" where
  "set_search_external_evidence_status E search_id status_json =
     with_key E search_id () (\<lambda>s. stmt (\<lambda>w.
       ((), set_search s (\<lambda>q. q\<lparr>q_external_evidence_status := Some status_json\<rparr>) w)))"

section \<open>The candidates of a search\<close>

record search_candidate_view =
  sv_id :: string
  sv_search_id :: string
  sv_candidate_id :: string
  sv_candidate_reference_code :: string
  sv_candidate_full_name :: string
  sv_score :: rat
  sv_status :: string
  sv_reviewed_by :: "string option"
  sv_reviewed_by_name :: "string option"
  sv_reviewed_at :: "int option"
  sv_created_at :: int

definition join_candidate :: "search_candidate_row \<Rightarrow> candidate_row \<Rightarrow> search_candidate_view" where
  "join_candidate r c =
     \<lparr>sv_id = sc_id r, sv_search_id = sc_search_id r, sv_candidate_id = sc_candidate_id r,
      sv_candidate_reference_code = cd_reference_code c, sv_candidate_full_name = cd_full_name c,
      sv_score = sc_score r, sv_status = sc_status r, sv_reviewed_by = sc_reviewed_by r,
      sv_reviewed_by_name = sc_reviewed_by_name r, sv_reviewed_at = sc_reviewed_at r,
      sv_created_at = sc_created_at r\<rparr>"

definition search_candidates_of :: "string \<Rightarrow> world \<Rightarrow> search_candidate_view list" where
  "search_candidates_of s w =
     sort_key (\<lambda>v. - sv_score v)
       (List.map_filter (\<lambda>r. map_option (join_candidate r)
            (find (\<lambda>c. cd_id c = sc_candidate_id r) (w_candidates w)))
          (filter (\<lambda>r. sc_search_id r = s) (w_search_candidates w)))"

definition insert_search_candidate :: "app \<Rightarrow> string \<Rightarrow> string \<Rightarrow> rat \<Rightarrow> (db_error + unit) handler" where
  "insert_search_candidate E search_id candidate_id score =
     with_key E search_id () (\<lambda>s. with_key E candidate_id () (\<lambda>c.
       try_stmt (insert_search_candidate_row E s c score)))"

definition list_search_candidates :: "app \<Rightarrow> string \<Rightarrow> (db_error + search_candidate_view list) handler" where
  "list_search_candidates E search_id = with_key E search_id [] (\<lambda>s. query (search_candidates_of s))"

section \<open>Decisions\<close>

datatype review_outcome = Applied search_candidate_view | ReviewNotFound | SameReviewerForbidden

text \<open>
  The status a decision leads to, \<open>None\<close> when the reviewer may not take it: with the two-reviewer
  rule, a first confirmation or rejection only asks for a second one, and the second one must come
  from somebody else.
\<close>

definition target_status ::
  "bool \<Rightarrow> string \<Rightarrow> string \<Rightarrow> string option \<Rightarrow> string \<Rightarrow> string option" where
  "target_status require_second_review decision current_status current_reviewed_by reviewer =
     (if \<not> require_second_review \<or> \<not> (decision = ''confirmed'' \<or> decision = ''rejected'') then Some decision
      else if current_status = ''needs_second_review''
           then (if current_reviewed_by = Some reviewer then None else Some decision)
           else Some ''needs_second_review'')"

definition decision_event ::
  "string \<Rightarrow> string \<Rightarrow> string \<Rightarrow> string \<Rightarrow> string \<Rightarrow> string option \<Rightarrow> string option \<Rightarrow> string \<Rightarrow> int \<Rightarrow>
     verification_event_row" where
  "decision_event i row reviewer reviewer_name decision reason notes rid now =
     \<lparr>v_id = i, v_search_candidate_id = row, v_reviewer_user_id = reviewer, v_reviewer_name = reviewer_name,
      v_decision = decision, v_reason = reason, v_notes = notes, v_request_id = Some rid,
      v_created_at = now\<rparr>"

definition reviewed_row :: "string \<Rightarrow> string \<Rightarrow> string \<Rightarrow> int \<Rightarrow> search_candidate_row \<Rightarrow> search_candidate_row" where
  "reviewed_row target reviewer reviewer_name now p =
     p\<lparr>sc_status := target, sc_reviewed_by := Some reviewer, sc_reviewed_by_name := Some reviewer_name,
       sc_reviewed_at := Some now\<rparr>"

definition apply_decision ::
  "app \<Rightarrow> string \<Rightarrow> string \<Rightarrow> string \<Rightarrow> string \<Rightarrow> string \<Rightarrow> string option \<Rightarrow> string option \<Rightarrow> string \<Rightarrow> bool \<Rightarrow>
     world \<Rightarrow> (db_error + review_outcome option) \<times> world" where
  "apply_decision E s c decision reviewer reviewer_name reason notes rid require_second_review w =
     (case find (\<lambda>r. sc_search_id r = s \<and> sc_candidate_id r = c) (w_search_candidates w) of
        None \<Rightarrow> (Inr (Some ReviewNotFound), w)
      | Some r \<Rightarrow>
          (case target_status require_second_review decision (sc_status r) (sc_reviewed_by r) reviewer of
             None \<Rightarrow> (Inr (Some SameReviewerForbidden), w)
           | Some target \<Rightarrow>
               (let i = x_uuid_v4 E (w_draws w);
                    w' = w\<lparr>w_draws := Suc (w_draws w)\<rparr>
                in if list_ex (\<lambda>v. v_id v = i) (w_verification_events w) then (Inl UniqueViolation, w')
                   else (Inr None, w'\<lparr>
                     w_verification_events := w_verification_events w @
                       [decision_event i (sc_id r) reviewer reviewer_name decision reason notes rid (w_now w)],
                     w_search_candidates := sql_update (\<lambda>p. sc_id p = sc_id r)
                       (reviewed_row target reviewer reviewer_name (w_now w)) (w_search_candidates w)\<rparr>))))"

definition record_review_decision ::
  "app \<Rightarrow> string \<Rightarrow> string \<Rightarrow> string \<Rightarrow> string \<Rightarrow> string \<Rightarrow> string option \<Rightarrow> string option \<Rightarrow> string \<Rightarrow> bool \<Rightarrow>
     (db_error + review_outcome) handler" where
  "record_review_decision E search_id candidate_id decision reviewed_by reviewed_by_name reason notes rid
       require_second_review =
     with_key E search_id ReviewNotFound (\<lambda>s.
     with_key E candidate_id ReviewNotFound (\<lambda>c.
     with_key E reviewed_by ReviewNotFound (\<lambda>reviewer. do {
       tx \<leftarrow> transaction (apply_decision E s c decision reviewer reviewed_by_name reason notes rid
               require_second_review);
       case tx of
         Inl e \<Rightarrow> return (Inl e)
       | Inr (Some early) \<Rightarrow> return (Inr early)
       | Inr None \<Rightarrow> do {
           rows \<leftarrow> list_search_candidates E search_id;
           case rows of
             Inl e \<Rightarrow> return (Inl e)
           | Inr rs \<Rightarrow> return (Inr (case find (\<lambda>v. sv_candidate_id v = candidate_id) rs of
                                  Some v \<Rightarrow> Applied v | None \<Rightarrow> ReviewNotFound))
         }
     })))"

definition list_verification_events :: "app \<Rightarrow> string \<Rightarrow> (db_error + verification_event_row list) handler" where
  "list_verification_events E search_candidate_id =
     with_key E search_candidate_id [] (\<lambda>k. query (\<lambda>w.
       filter (\<lambda>v. v_search_candidate_id v = k) (w_verification_events w)))"

lemma pending_row_simps [simp]:
  "sc_id (pending_row i s c x n) = i" "sc_search_id (pending_row i s c x n) = s"
  "sc_candidate_id (pending_row i s c x n) = c" "sc_score (pending_row i s c x n) = x"
  "sc_status (pending_row i s c x n) = ''pending''" "sc_reviewed_by (pending_row i s c x n) = None"
  by (simp_all add: pending_row_def)

lemma decision_event_simps [simp]:
  "v_id (decision_event i r a n d rs nt rid t) = i" "v_search_candidate_id (decision_event i r a n d rs nt rid t) = r"
  "v_reviewer_user_id (decision_event i r a n d rs nt rid t) = a" "v_decision (decision_event i r a n d rs nt rid t) = d"
  by (simp_all add: decision_event_def)

lemma reviewed_row_simps [simp]:
  "sc_id (reviewed_row t a n x p) = sc_id p" "sc_search_id (reviewed_row t a n x p) = sc_search_id p"
  "sc_candidate_id (reviewed_row t a n x p) = sc_candidate_id p" "sc_score (reviewed_row t a n x p) = sc_score p"
  "sc_status (reviewed_row t a n x p) = t" "sc_reviewed_by (reviewed_row t a n x p) = Some a"
  by (simp_all add: reviewed_row_def)

section \<open>Frames\<close>

lemma search_query_frames [frame_intros]:
  "blind_base f \<Longrightarrow> preserves f list_candidates"
  "blind_base f \<Longrightarrow> preserves f (load_candidate_by_id E i)"
  "blind_base f \<Longrightarrow> preserves f (load_search_by_id E i)"
  "blind_base f \<Longrightarrow> preserves f (list_searches_page E pg sz sc)"
  "blind_base f \<Longrightarrow> preserves f (list_search_candidates E i)"
  "blind_base f \<Longrightarrow> preserves f (list_verification_events E i)"
  unfolding list_candidates_def load_candidate_by_id_def load_search_by_id_def list_searches_page_def
    list_search_candidates_def list_verification_events_def Let_def
  by (intro frame_intros; simp)+

lemma insert_search_candidate_row_frame:
  "blind w_draws_update f \<Longrightarrow> blind w_search_candidates_update f \<Longrightarrow>
     f (snd (insert_search_candidate_row E s c x w)) = f w"
  by (simp add: insert_search_candidate_row_def Let_def)

lemma insert_scored_frame:
  "blind w_draws_update f \<Longrightarrow> blind w_search_candidates_update f \<Longrightarrow> f (snd (insert_scored E s xs w)) = f w"
proof (induction E s xs w rule: insert_scored.induct)
  case (2 E s i x rest w)
  show ?case
  proof (cases "db_key E i")
    case None
    then show ?thesis using 2 by simp
  next
    case (Some c)
    obtain r w' where ins: "insert_search_candidate_row E s c x w = (r, w')" by fastforce
    moreover have "f w' = f w"
      using insert_search_candidate_row_frame [OF 2(3,4), of E s c x w] ins by simp
    ultimately show ?thesis using 2(2) [OF Some ins [symmetric]] 2(3,4) Some by (cases r) simp_all
  qed
qed simp

lemma search_write_frames [frame_intros]:
  "blind_base f \<Longrightarrow> blind w_candidates_update f \<Longrightarrow> preserves f (create_candidate E c n nt org)"
  "blind_base f \<Longrightarrow> blind w_searches_update f \<Longrightarrow> preserves f (create_queued_search E cr pu rq rn la lo k org)"
  "blind_base f \<Longrightarrow> blind w_searches_update f \<Longrightarrow> preserves f (mark_queued_search_failed E i fc fk)"
  "blind_base f \<Longrightarrow> blind w_searches_update f \<Longrightarrow> preserves f (set_search_external_evidence_status E i j)"
  "blind_base f \<Longrightarrow> blind w_search_candidates_update f \<Longrightarrow> preserves f (insert_search_candidate E i c x)"
  unfolding create_candidate_def create_queued_search_def mark_queued_search_failed_def
    set_search_external_evidence_status_def insert_search_candidate_def insert_candidate_def insert_search_def
    set_search_def Let_def
  by (intro frame_intros stmt_frame try_stmt_frame; simp add: insert_search_candidate_row_frame)+

lemma finalize_frame [frame_intros]:
  assumes "blind_base f" "blind w_searches_update f" "blind w_search_candidates_update f"
  shows "preserves f (finalize_queued_search E i xs)"
proof -
  have "f (snd (case insert_scored E s xs (set_search s g w) of (Inl e, w') \<Rightarrow> (Inl e, w')
      | (Inr _, w') \<Rightarrow> (let w'' = set_search s h w'
            in case find (\<lambda>q. q_id q = s) (w_searches w'') of
                 Some q \<Rightarrow> (Inr (Some q), w'')
               | None \<Rightarrow> (case x_backend E of Postgres \<Rightarrow> (Inl DbFailure, w'') | Sqlite \<Rightarrow> (Inr None, w''))))) = f w"
    for s g h and w :: world
  proof -
    obtain r w' where ins: "insert_scored E s xs (set_search s g w) = (r, w')" by fastforce
    have "f w' = f w"
      using insert_scored_frame [of f E s xs "set_search s g w"] ins assms by (simp add: set_search_def)
    then show ?thesis using ins assms
      by (simp add: set_search_def Let_def split: sum.split option.split db_backend.split)
  qed
  then show ?thesis unfolding finalize_queued_search_def
    by (intro frame_intros transaction_frame assms)
qed

lemma review_frame [frame_intros]:
  "blind_base f \<Longrightarrow> blind w_search_candidates_update f \<Longrightarrow> blind w_verification_events_update f \<Longrightarrow>
     preserves f (record_review_decision E s c d rv n rs nt rid b)"
  unfolding record_review_decision_def
  by (intro frame_intros transaction_frame; simp add: apply_decision_def Let_def split: option.split)

end
