(* ===== verification/Db_Evidence.thy ===== *)
theory Db_Evidence
  imports Db_Search
begin

text \<open>
  \<open>server/src/db/evidence.rs\<close> and \<open>server/src/db/entity_graph.rs\<close>: the evidence collected about a
  candidate and the relations of its entity graph. On PostgreSQL both tables reference the
  candidate, and a relation its evidence; SQLite has no such constraint.
\<close>

section \<open>Relations\<close>

definition ALIAS :: string where "ALIAS = ''alias''"
definition USERNAME :: string where "USERNAME = ''username''"
definition ORGANIZATION :: string where "ORGANIZATION = ''organization''"
definition WEBSITE :: string where "WEBSITE = ''website''"

definition is_valid_relation_type :: "string \<Rightarrow> bool" where
  "is_valid_relation_type v \<longleftrightarrow> v \<in> set [ALIAS, USERNAME, ORGANIZATION, WEBSITE]"

definition candidate_known :: "app \<Rightarrow> string \<Rightarrow> world \<Rightarrow> bool" where
  "candidate_known E c w \<longleftrightarrow>
     (case x_backend E of
        Postgres \<Rightarrow> list_ex (\<lambda>r. cd_id r = c) (w_candidates w)
      | Sqlite \<Rightarrow> True)"

definition evidence_known :: "app \<Rightarrow> string option \<Rightarrow> world \<Rightarrow> bool" where
  "evidence_known E evidence_id w \<longleftrightarrow>
     (case (x_backend E, evidence_id) of
        (Postgres, Some e) \<Rightarrow> list_ex (\<lambda>r. e_id r = e) (w_evidence w)
      | _ \<Rightarrow> True)"

definition insert_relation_row :: "app \<Rightarrow> entity_relation_row \<Rightarrow> world \<Rightarrow> (db_error + unit) \<times> world" where
  "insert_relation_row E r w =
     (if list_ex (\<lambda>p. g_id p = g_id r) (w_relations w) then (Inl UniqueViolation, w)
      else if \<not> candidate_known E (g_candidate_id r) w \<or> \<not> evidence_known E (g_evidence_id r) w
           then (Inl DbFailure, w)
      else (Inr (), w\<lparr>w_relations := w_relations w @ [r]\<rparr>))"

definition insert_relation ::
  "app \<Rightarrow> string \<Rightarrow> string \<Rightarrow> string \<Rightarrow> string option \<Rightarrow> string option \<Rightarrow>
     (db_error + entity_relation_row option) handler" where
  "insert_relation E candidate_id relation_type value evidence_id added_by =
     with_key E candidate_id None (\<lambda>c. do {
       i \<leftarrow> new_uuid E;
       now \<leftarrow> gets w_now;
       let r = \<lparr>g_id = i, g_candidate_id = c, g_relation_type = relation_type, g_value = value,
                g_evidence_id = Option.bind evidence_id (db_key E),
                g_added_by = Option.bind added_by (db_key E), g_created_at = now, g_revoked_at = None\<rparr>;
       ins \<leftarrow> try_stmt (insert_relation_row E r);
       case ins of
         Inl e \<Rightarrow> return (Inl e)
       | Inr _ \<Rightarrow> (case x_backend E of
           Postgres \<Rightarrow> return (Inr (Some r))
         | Sqlite \<Rightarrow> query (\<lambda>w. find (\<lambda>p. g_id p = i) (w_relations w)))
     })"

definition list_relations_for_candidate :: "app \<Rightarrow> string \<Rightarrow> (db_error + entity_relation_row list) handler" where
  "list_relations_for_candidate E candidate_id =
     with_key E candidate_id [] (\<lambda>c. query (\<lambda>w.
       rev (filter (\<lambda>r. g_candidate_id r = c \<and> g_revoked_at r = None) (w_relations w))))"

section \<open>Evidence\<close>

definition detail_json :: "evidence_detail \<Rightarrow> json" where
  "detail_json d = JObj [(''key'', JStr (ed_key d)), (''params'', ed_params d)]"

definition evidence_row_of :: "app \<Rightarrow> string \<Rightarrow> string \<Rightarrow> evidence_item \<Rightarrow> string option \<Rightarrow> int \<Rightarrow> evidence_row" where
  "evidence_row_of E i c item collected_by now =
     \<lparr>e_id = i, e_candidate_id = c, e_source_type = ei_source_type item,
      e_provider_name = ei_provider_name item, e_title = ei_title item, e_title_key = ei_title_key item,
      e_title_params = map_option (x_json_text E) (ei_title_params item), e_url = ei_url item,
      e_snippet = ei_snippet item,
      e_details = (if ei_details item = [] then None
                   else Some (x_json_text E (JArr (map detail_json (ei_details item))))),
      e_confidence_score = ei_confidence item, e_collected_by = Option.bind collected_by (db_key E),
      e_created_at = now\<rparr>"

definition insert_evidence_values :: "app \<Rightarrow> evidence_row \<Rightarrow> world \<Rightarrow> (db_error + unit) \<times> world" where
  "insert_evidence_values E r w =
     (if list_ex (\<lambda>p. e_id p = e_id r) (w_evidence w) then (Inl UniqueViolation, w)
      else if \<not> candidate_known E (e_candidate_id r) w then (Inl DbFailure, w)
      else (Inr (), w\<lparr>w_evidence := w_evidence w @ [r]\<rparr>))"

definition insert_evidence_row ::
  "app \<Rightarrow> string \<Rightarrow> evidence_item \<Rightarrow> string option \<Rightarrow> (db_error + evidence_row option) handler" where
  "insert_evidence_row E candidate_id item collected_by =
     with_key E candidate_id None (\<lambda>c. do {
       i \<leftarrow> new_uuid E;
       now \<leftarrow> gets w_now;
       let r = evidence_row_of E i c item collected_by now;
       ins \<leftarrow> try_stmt (insert_evidence_values E r);
       case ins of
         Inl e \<Rightarrow> return (Inl e)
       | Inr _ \<Rightarrow> (case x_backend E of
           Postgres \<Rightarrow> return (Inr (Some r))
         | Sqlite \<Rightarrow> query (\<lambda>w. find (\<lambda>p. e_id p = i) (w_evidence w)))
     })"

text \<open>The website relation is best effort: its failure is ignored.\<close>

definition insert_evidence ::
  "app \<Rightarrow> string \<Rightarrow> evidence_item \<Rightarrow> string option \<Rightarrow> (db_error + evidence_row option) handler" where
  "insert_evidence E candidate_id item collected_by = do {
     r \<leftarrow> insert_evidence_row E candidate_id item collected_by;
     case r of
       Inl e \<Rightarrow> return (Inl e)
     | Inr None \<Rightarrow> return (Inr None)
     | Inr (Some row) \<Rightarrow> do {
         _ \<leftarrow> (case ei_url item of
                None \<Rightarrow> return ()
              | Some url \<Rightarrow> do {
                  _ \<leftarrow> insert_relation E candidate_id WEBSITE url (Some (e_id row)) collected_by;
                  return ()
                });
         return (Inr (Some row))
       }
   }"

definition list_evidence_for_candidate :: "app \<Rightarrow> string \<Rightarrow> (db_error + evidence_row list) handler" where
  "list_evidence_for_candidate E candidate_id =
     with_key E candidate_id [] (\<lambda>c. query (\<lambda>w.
       rev (filter (\<lambda>r. e_candidate_id r = c) (w_evidence w))))"

section \<open>Frames\<close>

lemma evidence_frames [frame_intros]:
  "blind_base f \<Longrightarrow> blind w_relations_update f \<Longrightarrow> preserves f (insert_relation E c t v e a)"
  "blind_base f \<Longrightarrow> preserves f (list_relations_for_candidate E c)"
  "blind_base f \<Longrightarrow> blind w_evidence_update f \<Longrightarrow> preserves f (insert_evidence_row E c item a)"
  "blind_base f \<Longrightarrow> preserves f (list_evidence_for_candidate E c)"
  unfolding insert_relation_def list_relations_for_candidate_def insert_evidence_row_def
    list_evidence_for_candidate_def insert_relation_row_def insert_evidence_values_def Let_def
  by (intro frame_intros try_stmt_frame; simp)+

lemma insert_evidence_frame [frame_intros]:
  "blind_base f \<Longrightarrow> blind w_relations_update f \<Longrightarrow> blind w_evidence_update f \<Longrightarrow>
     preserves f (insert_evidence E c item a)"
  unfolding insert_evidence_def by (intro frame_intros; assumption?)

end
