(* ===== verification/Db_Biometric.thy ===== *)
theory Db_Biometric
  imports Db_Evidence
begin

text \<open>
  \<open>server/src/db/biometric.rs\<close> and the vector arithmetic of \<open>server/src/biometric/embedding.rs\<close>: the
  enrolled templates, the ranking of candidates against a probe, and the calibrated thresholds.
  Floating-point numbers are rationals computed exactly, with the square root a parameter. The hash
  map that collects the best score per candidate is a list in the order candidates first appear.
\<close>

section \<open>Similarity\<close>

definition EMBEDDING_DIM :: nat where "EMBEDDING_DIM = 128"

definition NORM_EPSILON :: rat where "NORM_EPSILON = 1 / 1000000000000"

definition norm_of :: "app \<Rightarrow> rat list \<Rightarrow> rat" where
  "norm_of E v = x_sqrt E (sum_list (map (\<lambda>x. x * x) v))"

definition l2_normalize :: "app \<Rightarrow> rat list \<Rightarrow> rat list" where
  "l2_normalize E v = (if NORM_EPSILON < norm_of E v then map (\<lambda>x. x / norm_of E v) v else v)"

definition cosine_similarity :: "app \<Rightarrow> rat list \<Rightarrow> rat list \<Rightarrow> rat" where
  "cosine_similarity E a b =
     (if length a \<noteq> length b \<or> a = [] then 0
      else let dot = sum_list (map2 (*) a b);
               norm_a = norm_of E a;
               norm_b = norm_of E b
           in if norm_a \<le> NORM_EPSILON \<or> norm_b \<le> NORM_EPSILON then 0
              else let q = dot / (norm_a * norm_b) in if q < - 1 then - 1 else if 1 < q then 1 else q)"

section \<open>Templates\<close>

definition embedding_vec :: "app \<Rightarrow> template_row \<Rightarrow> rat list" where
  "embedding_vec E t = (case x_floats_parse E (p_embedding t) of Some v \<Rightarrow> v | None \<Rightarrow> [])"

definition insert_template_row :: "app \<Rightarrow> template_row \<Rightarrow> world \<Rightarrow> (db_error + unit) \<times> world" where
  "insert_template_row E t w =
     (if list_ex (\<lambda>p. p_id p = p_id t) (w_templates w) then (Inl UniqueViolation, w)
      else if \<not> candidate_known E (p_candidate_id t) w then (Inl DbFailure, w)
      else (Inr (), w\<lparr>w_templates := w_templates w @ [t]\<rparr>))"

definition insert_template ::
  "app \<Rightarrow> string \<Rightarrow> string \<Rightarrow> string \<Rightarrow> rat list \<Rightarrow> rat \<Rightarrow> string option \<Rightarrow> bool \<Rightarrow>
     (db_error + template_row option) handler" where
  "insert_template E candidate_id model_name model_version embedding quality_score source_reference
       pgvector_ready =
     with_key E candidate_id None (\<lambda>c. do {
       i \<leftarrow> new_uuid E;
       now \<leftarrow> gets w_now;
       let t = \<lparr>p_id = i, p_candidate_id = c, p_model_name = model_name, p_model_version = model_version,
                p_embedding_dimension = int (length embedding),
                p_embedding = (case x_backend E of
                    Postgres \<Rightarrow> x_jsonb_text E (x_floats_text E embedding)
                  | Sqlite \<Rightarrow> x_floats_text E embedding),
                p_quality_score = quality_score, p_source_reference = source_reference,
                p_created_at = now, p_revoked_at = None,
                p_embedding_vector = (case x_backend E of
                    Postgres \<Rightarrow> if length embedding = EMBEDDING_DIM \<and> pgvector_ready then Some embedding else None
                  | Sqlite \<Rightarrow> None)\<rparr>;
       ins \<leftarrow> try_stmt (insert_template_row E t);
       case ins of
         Inl e \<Rightarrow> return (Inl e)
       | Inr _ \<Rightarrow> (case x_backend E of
           Postgres \<Rightarrow> return (Inr (Some t))
         | Sqlite \<Rightarrow> query (\<lambda>w. find (\<lambda>p. p_id p = i) (w_templates w)))
     })"

definition active_template :: "string \<Rightarrow> string \<Rightarrow> template_row \<Rightarrow> bool" where
  "active_template model_name model_version t \<longleftrightarrow>
     p_model_name t = model_name \<and> p_model_version t = model_version \<and> p_revoked_at t = None"

definition list_active_templates :: "string \<Rightarrow> string \<Rightarrow> (db_error + template_row list) handler" where
  "list_active_templates model_name model_version =
     query (\<lambda>w. filter (active_template model_name model_version) (w_templates w))"

definition list_templates_for_candidate :: "app \<Rightarrow> string \<Rightarrow> (db_error + template_row list) handler" where
  "list_templates_for_candidate E candidate_id =
     with_key E candidate_id [] (\<lambda>c. query (\<lambda>w.
       rev (filter (\<lambda>t. p_candidate_id t = c) (w_templates w))))"

definition revoke_template :: "app \<Rightarrow> string \<Rightarrow> (db_error + bool) handler" where
  "revoke_template E template_id =
     with_key E template_id False (\<lambda>k. stmt (\<lambda>w.
       (list_ex (\<lambda>t. p_id t = k \<and> p_revoked_at t = None) (w_templates w),
        w\<lparr>w_templates := sql_update (\<lambda>t. p_id t = k \<and> p_revoked_at t = None)
            (\<lambda>t. t\<lparr>p_revoked_at := Some (w_now w)\<rparr>) (w_templates w)\<rparr>)))"

section \<open>Ranking\<close>

fun keep_best :: "string \<Rightarrow> rat \<Rightarrow> (string \<times> rat) list \<Rightarrow> (string \<times> rat) list" where
  "keep_best c x [] = [(c, x)]"
| "keep_best c x ((d, y) # rest) =
     (if d = c then (d, if y < x then x else y) # rest else (d, y) # keep_best c x rest)"

definition rank_scores :: "nat \<Rightarrow> (string \<times> rat) list \<Rightarrow> (string \<times> rat) list" where
  "rank_scores top_k scores =
     take top_k (sort_key (\<lambda>m. - snd m) (foldl (\<lambda>best (c, x). keep_best c x best) [] scores))"

definition top_k_matches :: "app \<Rightarrow> template_row list \<Rightarrow> rat list \<Rightarrow> nat \<Rightarrow> (string \<times> rat) list" where
  "top_k_matches E templates probe top_k =
     rank_scores top_k (map (\<lambda>t. (p_candidate_id t, cosine_similarity E (embedding_vec E t) probe)) templates)"

text \<open>
  The indexed search of PostgreSQL: the closest template of each candidate by the extension's
  distance, over the templates that have a vector.
\<close>

definition search_top_k_indexed ::
  "app \<Rightarrow> string \<Rightarrow> string \<Rightarrow> rat list \<Rightarrow> nat \<Rightarrow> (db_error + (string \<times> rat) list) handler" where
  "search_top_k_indexed E model_name model_version probe top_k = query (\<lambda>w.
     rank_scores top_k (List.map_filter (\<lambda>t. map_option
         (\<lambda>v. (p_candidate_id t, 1 - x_pgvector_distance E v probe)) (p_embedding_vector t))
       (filter (active_template model_name model_version) (w_templates w))))"

definition search_top_k ::
  "app \<Rightarrow> string \<Rightarrow> string \<Rightarrow> rat list \<Rightarrow> nat \<Rightarrow> bool \<Rightarrow> (db_error + (string \<times> rat) list) handler" where
  "search_top_k E model_name model_version probe top_k pgvector_ready =
     (if x_backend E = Postgres \<and> pgvector_ready \<and> length probe = EMBEDDING_DIM
      then search_top_k_indexed E model_name model_version probe top_k
      else do {
        templates \<leftarrow> list_active_templates model_name model_version;
        case templates of
          Inl e \<Rightarrow> return (Inl e)
        | Inr ts \<Rightarrow> return (Inr (top_k_matches E ts probe top_k))
      })"

section \<open>Thresholds\<close>

definition save_calibrated_threshold ::
  "app \<Rightarrow> string \<Rightarrow> string \<Rightarrow> rat \<Rightarrow> rat \<Rightarrow> int \<Rightarrow> (db_error + unit) handler" where
  "save_calibrated_threshold E model_name model_version threshold equal_error_rate pair_count = do {
     i \<leftarrow> new_uuid E;
     stmt (\<lambda>w. ((), w\<lparr>w_thresholds :=
       (if list_ex (\<lambda>h. h_model_name h = model_name \<and> h_model_version h = model_version) (w_thresholds w)
        then sql_update (\<lambda>h. h_model_name h = model_name \<and> h_model_version h = model_version)
               (\<lambda>h. h\<lparr>h_threshold := threshold, h_equal_error_rate := equal_error_rate,
                      h_pair_count := pair_count, h_created_at := w_now w\<rparr>) (w_thresholds w)
        else w_thresholds w @
          [\<lparr>h_id = i, h_model_name = model_name, h_model_version = model_version,
            h_threshold = threshold, h_equal_error_rate = equal_error_rate,
            h_pair_count = pair_count, h_created_at = w_now w\<rparr>])\<rparr>))
   }"

definition list_calibrated_thresholds :: "(db_error + threshold_row list) handler" where
  "list_calibrated_thresholds = query (\<lambda>w.
     sort_key h_model_name (sort_key h_model_version (w_thresholds w)))"

section \<open>Frames\<close>

lemma biometric_frames [frame_intros]:
  "blind_base f \<Longrightarrow> blind w_templates_update f \<Longrightarrow> preserves f (insert_template E c mn mv em q sr pg)"
  "blind_base f \<Longrightarrow> preserves f (list_active_templates mn mv)"
  "blind_base f \<Longrightarrow> preserves f (list_templates_for_candidate E c)"
  "blind_base f \<Longrightarrow> blind w_templates_update f \<Longrightarrow> preserves f (revoke_template E i)"
  "blind_base f \<Longrightarrow> preserves f (search_top_k E mn mv pr k pg)"
  "blind_base f \<Longrightarrow> blind w_thresholds_update f \<Longrightarrow> preserves f (save_calibrated_threshold E mn mv th er pc)"
  "blind_base f \<Longrightarrow> preserves f list_calibrated_thresholds"
  unfolding insert_template_def list_active_templates_def list_templates_for_candidate_def
    revoke_template_def search_top_k_def search_top_k_indexed_def save_calibrated_threshold_def
    list_calibrated_thresholds_def insert_template_row_def Let_def
  by (intro frame_intros stmt_frame try_stmt_frame; simp)+

end
