(* ===== verification/Biometric.thy ===== *)
theory Biometric
  imports Db_Biometric
begin

text \<open>
  \<open>server/src/biometric/mod.rs\<close>, \<open>quality.rs\<close> and \<open>onnx_provider.rs\<close>: the provider interface, the mock
  provider, the quality gates and the pipeline of the real provider. Decoding the picture, face
  detection, alignment and the embedding network are parameters; the numbers are exact rationals.
\<close>

section \<open>Errors\<close>

datatype biometric_error =
    NoFaceDetected
  | MultipleFacesDetected nat
  | FaceTooSmall
  | ImageTooBlurry
  | ExcessivePose
  | PoorLighting
  | LowFaceQuality
  | BiometricUnavailable string
  | BiometricInternal string

fun biometric_code :: "biometric_error \<Rightarrow> string" where
  "biometric_code NoFaceDetected = ''NO_FACE_DETECTED''"
| "biometric_code (MultipleFacesDetected n) = ''MULTIPLE_FACES_DETECTED''"
| "biometric_code FaceTooSmall = ''FACE_TOO_SMALL''"
| "biometric_code ImageTooBlurry = ''IMAGE_TOO_BLURRY''"
| "biometric_code ExcessivePose = ''EXCESSIVE_POSE''"
| "biometric_code PoorLighting = ''POOR_LIGHTING''"
| "biometric_code LowFaceQuality = ''LOW_FACE_QUALITY''"
| "biometric_code (BiometricUnavailable m) = ''BIOMETRIC_PROVIDER_UNAVAILABLE''"
| "biometric_code (BiometricInternal m) = ''INTERNAL_ERROR''"

fun biometric_message_key :: "biometric_error \<Rightarrow> string" where
  "biometric_message_key NoFaceDetected = ''errors.noFaceDetected''"
| "biometric_message_key (MultipleFacesDetected n) = ''errors.multipleFacesDetected''"
| "biometric_message_key FaceTooSmall = ''errors.faceTooSmall''"
| "biometric_message_key ImageTooBlurry = ''errors.imageTooBlurry''"
| "biometric_message_key ExcessivePose = ''errors.excessivePose''"
| "biometric_message_key PoorLighting = ''errors.poorLighting''"
| "biometric_message_key LowFaceQuality = ''errors.lowFaceQuality''"
| "biometric_message_key (BiometricUnavailable m) = ''errors.biometricProviderUnavailable''"
| "biometric_message_key (BiometricInternal m) = ''errors.internal''"

section \<open>The provider interface\<close>

record enrollment_result =
  en_embedding :: "rat list"
  en_quality_score :: rat
  en_model_name :: string
  en_model_version :: string

record biometric_provider =
  bp_search :: "string \<Rightarrow> nat \<Rightarrow> (biometric_error + (candidate_row \<times> rat) list) handler"
  bp_enroll :: "string \<Rightarrow> (biometric_error + enrollment_result) handler"

section \<open>The mock provider\<close>

definition mock_score :: "app \<Rightarrow> string \<Rightarrow> candidate_row \<Rightarrow> rat" where
  "mock_score E probe c = 40 / 100 + rat_of_nat (unat (x_siphash_probe E probe (cd_id c)) mod 5501) / 10000"

definition mock_biometric :: "app \<Rightarrow> biometric_provider" where
  "mock_biometric E =
     \<lparr>bp_search = (\<lambda>probe top_k. do {
        candidates \<leftarrow> list_candidates;
        return (case candidates of
          Inl e \<Rightarrow> Inl (BiometricInternal [])
        | Inr cs \<Rightarrow> Inr (take top_k (sort_key (\<lambda>m. - snd m) (map (\<lambda>c. (c, mock_score E probe c)) cs))))
      }),
      bp_enroll = (\<lambda>photo. return (Inl (BiometricUnavailable
        ''the mock provider performs no real face embedding; enrollment requires BIOMETRIC_PROVIDER=onnx'')))\<rparr>"

section \<open>Quality gates\<close>

record face_box =
  fb_x :: rat
  fb_y :: rat
  fb_width :: rat
  fb_height :: rat
  fb_score :: rat
  fb_right_eye :: "rat \<times> rat"
  fb_left_eye :: "rat \<times> rat"
  fb_nose :: "rat \<times> rat"
  fb_right_mouth :: "rat \<times> rat"
  fb_left_mouth :: "rat \<times> rat"

definition MIN_FACE_SIZE_RATIO :: rat where "MIN_FACE_SIZE_RATIO = 10 / 100"
definition MIN_LAPLACIAN_VARIANCE :: rat where "MIN_LAPLACIAN_VARIANCE = 60"
definition MIN_MEAN_BRIGHTNESS :: rat where "MIN_MEAN_BRIGHTNESS = 40"
definition MAX_MEAN_BRIGHTNESS :: rat where "MAX_MEAN_BRIGHTNESS = 215"
definition MIN_EYE_SYMMETRY_RATIO :: rat where "MIN_EYE_SYMMETRY_RATIO = 35 / 100"

definition check_detection_confidence :: "face_box \<Rightarrow> rat \<Rightarrow> biometric_error option" where
  "check_detection_confidence face min_score = (if fb_score face < min_score then Some LowFaceQuality else None)"

definition check_face_size :: "face_box \<Rightarrow> nat \<Rightarrow> nat \<Rightarrow> biometric_error option" where
  "check_face_size face image_width image_height =
     (let shorter = rat_of_nat (min image_width image_height)
      in if shorter \<le> 0 \<or> fb_height face / shorter < MIN_FACE_SIZE_RATIO then Some FaceTooSmall else None)"

definition check_pose :: "face_box \<Rightarrow> biometric_error option" where
  "check_pose face =
     (let d_right = \<bar>fst (fb_nose face) - fst (fb_right_eye face)\<bar>;
          d_left = \<bar>fst (fb_left_eye face) - fst (fb_nose face)\<bar>;
          (shorter, longer) = (if d_right < d_left then (d_right, d_left) else (d_left, d_right))
      in if longer \<le> 0 then Some ExcessivePose
         else if shorter / longer < MIN_EYE_SYMMETRY_RATIO then Some ExcessivePose
         else None)"

text \<open>A picture is its bytes in rows, three per pixel; what is left of an incomplete pixel is dropped.\<close>

fun to_grayscale :: "nat list \<Rightarrow> rat list" where
  "to_grayscale (r # g # b # rest) =
     (299 / 1000 * rat_of_nat r + 587 / 1000 * rat_of_nat g + 114 / 1000 * rat_of_nat b) # to_grayscale rest"
| "to_grayscale rest = []"

definition mean :: "rat list \<Rightarrow> rat" where
  "mean xs = sum_list xs / rat_of_nat (length xs)"

definition laplacian_variance :: "rat list \<Rightarrow> nat \<Rightarrow> nat \<Rightarrow> rat" where
  "laplacian_variance gray width height =
     (let px = (\<lambda>x y. gray ! nat (clamp 0 (int height - 1) y * int width + clamp 0 (int width - 1) x));
          responses = concat (map (\<lambda>y. map (\<lambda>x.
              - 4 * px x y + px (x - 1) y + px (x + 1) y + px x (y - 1) + px x (y + 1))
            [0..int width - 1]) [0..int height - 1]);
          m = mean responses
      in mean (map (\<lambda>v. (v - m) * (v - m)) responses))"

definition check_blur_and_lighting :: "nat list \<Rightarrow> nat \<Rightarrow> biometric_error option" where
  "check_blur_and_lighting aligned_rgb side =
     (let gray = to_grayscale aligned_rgb;
          brightness = mean gray
      in if gray = [] \<or> \<not> (MIN_MEAN_BRIGHTNESS \<le> brightness \<and> brightness \<le> MAX_MEAN_BRIGHTNESS)
         then Some PoorLighting
         else if laplacian_variance gray side side < MIN_LAPLACIAN_VARIANCE then Some ImageTooBlurry
         else None)"

section \<open>The real provider\<close>

text \<open>
  What the pipeline calls: the picture decoder (pixels, width, height), the detector, the
  alignment and the embedding network; a failure carries its message.
\<close>

record vision_pipeline =
  vp_decode :: "string \<Rightarrow> string + (nat list \<times> nat \<times> nat)"
  vp_detect :: "nat list \<Rightarrow> nat \<Rightarrow> nat \<Rightarrow> string + face_box list"
  vp_align :: "nat list \<Rightarrow> nat \<Rightarrow> nat \<Rightarrow> face_box \<Rightarrow> nat list"
  vp_embed :: "nat list \<Rightarrow> string + rat list"

definition ALIGNED_SIZE :: nat where "ALIGNED_SIZE = 112"
definition MODEL_NAME :: string where "MODEL_NAME = ''sface''"
definition MODEL_VERSION :: string where "MODEL_VERSION = ''2021dec''"
definition MIN_SEARCH_CONFIDENCE :: rat where "MIN_SEARCH_CONFIDENCE = 92 / 100"
definition MIN_ENROLLMENT_CONFIDENCE :: rat where "MIN_ENROLLMENT_CONFIDENCE = 9 / 10"

definition first_error :: "biometric_error option list \<Rightarrow> biometric_error option" where
  "first_error checks = find_map (\<lambda>c. c) checks"

definition process_image ::
  "vision_pipeline \<Rightarrow> nat list \<Rightarrow> nat \<Rightarrow> nat \<Rightarrow> rat \<Rightarrow> biometric_error + rat list \<times> rat" where
  "process_image V rgb width height min_confidence =
     (case vp_detect V rgb width height of
        Inl e \<Rightarrow> Inl (BiometricInternal e)
      | Inr boxes \<Rightarrow>
          (case boxes of
             [] \<Rightarrow> Inl NoFaceDetected
           | face # others \<Rightarrow>
               if others \<noteq> [] then Inl (MultipleFacesDetected (length boxes))
               else (case first_error [check_detection_confidence face min_confidence,
                                       check_face_size face width height, check_pose face] of
                  Some e \<Rightarrow> Inl e
                | None \<Rightarrow>
                    (let aligned = vp_align V rgb width height face
                     in case check_blur_and_lighting aligned ALIGNED_SIZE of
                          Some e \<Rightarrow> Inl e
                        | None \<Rightarrow> (case vp_embed V aligned of
                            Inl e \<Rightarrow> Inl (BiometricInternal e)
                          | Inr embedding \<Rightarrow> Inr (embedding, fb_score face))))))"

definition process_bytes :: "vision_pipeline \<Rightarrow> string \<Rightarrow> rat \<Rightarrow> biometric_error + rat list \<times> rat" where
  "process_bytes V bytes min_confidence =
     (case vp_decode V bytes of
        Inl e \<Rightarrow> Inl (BiometricInternal e)
      | Inr (rgb, width, height) \<Rightarrow> process_image V rgb width height min_confidence)"

fun load_matches :: "app \<Rightarrow> (string \<times> rat) list \<Rightarrow> (candidate_row \<times> rat) list handler" where
  "load_matches E [] = return []"
| "load_matches E ((c, score) # rest) = do {
     row \<leftarrow> load_candidate_by_id E c;
     found \<leftarrow> load_matches E rest;
     return (case row of Inr (Some candidate) \<Rightarrow> (candidate, score) # found | _ \<Rightarrow> found)
   }"

definition onnx_biometric :: "app \<Rightarrow> vision_pipeline \<Rightarrow> biometric_provider" where
  "onnx_biometric E V =
     \<lparr>bp_search = (\<lambda>probe top_k.
        (case process_bytes V probe MIN_SEARCH_CONFIDENCE of
           Inl e \<Rightarrow> return (Inl e)
         | Inr (embedding, confidence) \<Rightarrow> do {
             matches \<leftarrow> search_top_k E MODEL_NAME MODEL_VERSION embedding top_k (x_pgvector_ready E);
             case matches of
               Inl e \<Rightarrow> return (Inl (BiometricInternal []))
             | Inr ms \<Rightarrow> do { scored \<leftarrow> load_matches E ms; return (Inr scored) }
           })),
      bp_enroll = (\<lambda>photo. return
        (case process_bytes V photo MIN_ENROLLMENT_CONFIDENCE of
           Inl e \<Rightarrow> Inl e
         | Inr (embedding, confidence) \<Rightarrow> Inr
             \<lparr>en_embedding = embedding, en_quality_score = confidence, en_model_name = MODEL_NAME,
              en_model_version = MODEL_VERSION\<rparr>))\<rparr>"

section \<open>What the handlers need to know about a provider\<close>

text \<open>A provider reads the tables and changes none of them.\<close>

definition reads_only :: "'a handler \<Rightarrow> bool" where
  "reads_only m \<longleftrightarrow> preserves (\<lambda>w. w\<lparr>w_draws := 0, w_stmts := 0\<rparr>) m"

lemma reads_only_preserves:
  assumes "reads_only m" and "blind_base f"
  shows "preserves f m"
proof -
  have "f (w\<lparr>w_draws := 0, w_stmts := 0\<rparr>) = f w" for w using assms(2) by simp
  then show ?thesis using assms(1) unfolding reads_only_def preserves_def by metis
qed

locale biometric_source =
  fixes P :: biometric_provider
  assumes search_reads: "reads_only (bp_search P probe k)"
    and enroll_reads: "reads_only (bp_enroll P photo)"
begin

lemma provider_frames:
  assumes "blind_base f"
  shows "preserves f (bp_search P probe k)" "preserves f (bp_enroll P photo)"
  by (rule reads_only_preserves [OF _ assms], rule search_reads enroll_reads)+

end

interpretation mock_source: biometric_source "mock_biometric E" for E
  by standard (simp_all add: mock_biometric_def reads_only_def, (intro frame_intros; simp)+)

lemma load_matches_frame [frame_intros]: "blind_base f \<Longrightarrow> preserves f (load_matches E ms)"
  by (induction ms) (auto intro!: frame_intros)

interpretation onnx_source: biometric_source "onnx_biometric E V" for E V
  by standard (simp_all add: onnx_biometric_def reads_only_def, (intro frame_intros; simp)+)

end
