(* ===== verification/Image_Validation.thy ===== *)
theory Image_Validation
  imports Prelude Complex_Main
begin

text \<open>
  \<open>server/src/image_validation.rs\<close>: what an uploaded picture must be, and the re-encoded picture
  everything else works with. The decoder and the encoder of the \<open>image\<close> crate are parameters: a
  decoded picture is its width, its height and whatever else the crate keeps.
\<close>

record raster =
  ra_width :: nat
  ra_height :: nat
  ra_pixels :: string

text \<open>
  \<open>io_open\<close> is the reader and the decoder it makes (\<open>None\<close> when either fails): the orientation, when
  the file has one, and the decoded picture, when the data decode.
\<close>

record image_codec =
  io_open :: "string \<Rightarrow> (nat option \<times> raster option) option"
  io_apply_orientation :: "nat \<Rightarrow> raster \<Rightarrow> raster"
  io_encode_png :: "raster \<Rightarrow> string option"

definition MAX_IMAGE_BYTES :: nat where "MAX_IMAGE_BYTES = 10 * 1024 * 1024"
definition MIN_DIMENSION :: nat where "MIN_DIMENSION = 32"
definition MAX_DIMENSION :: nat where "MAX_DIMENSION = 8000"
definition MAX_PIXELS :: nat where "MAX_PIXELS = 40000000"

text \<open>\<open>Orientation::NoTransforms\<close>, the first of the eight orientations.\<close>

definition NO_TRANSFORMS :: nat where "NO_TRANSFORMS = 1"

definition sniff_format :: "string \<Rightarrow> string option" where
  "sniff_format bytes =
     (if strip_prefix [CHR 0xFF, CHR 0xD8, CHR 0xFF] bytes \<noteq> None then Some ''jpeg''
      else if strip_prefix [CHR 0x89, CHR 0x50, CHR 0x4E, CHR 0x47, CHR 0x0D, CHR 0x0A, CHR 0x1A, CHR 0x0A] bytes \<noteq> None
           then Some ''png''
      else if 12 \<le> length bytes \<and> take 4 bytes = ''RIFF'' \<and> take 4 (drop 8 bytes) = ''WEBP'' then Some ''webp''
      else None)"

definition validate_and_sanitize_probe_image :: "image_codec \<Rightarrow> string \<Rightarrow> string + string" where
  "validate_and_sanitize_probe_image C bytes =
     (if MAX_IMAGE_BYTES < length bytes then Inl ''IMAGE_TOO_LARGE''
      else if sniff_format bytes = None then Inl ''UNSUPPORTED_IMAGE_TYPE''
      else (case io_open C bytes of
          None \<Rightarrow> Inl ''IMAGE_DECODE_FAILED''
        | Some (orientation, None) \<Rightarrow> Inl ''IMAGE_DECODE_FAILED''
        | Some (orientation, Some raw) \<Rightarrow>
            (let decoded = io_apply_orientation C (case orientation of None \<Rightarrow> NO_TRANSFORMS | Some q \<Rightarrow> q) raw;
                 width = ra_width decoded;
                 height = ra_height decoded
             in if width < MIN_DIMENSION \<or> height < MIN_DIMENSION \<or> MAX_DIMENSION < width \<or> MAX_DIMENSION < height
                then Inl ''IMAGE_DIMENSIONS_INVALID''
                else if MAX_PIXELS < width * height then Inl ''IMAGE_DIMENSIONS_INVALID''
                else (case io_encode_png C decoded of
                    None \<Rightarrow> Inl ''IMAGE_DECODE_FAILED''
                  | Some png \<Rightarrow> Inr png))))"

definition code_message_key :: "string \<Rightarrow> string" where
  "code_message_key c =
     (if c = ''IMAGE_TOO_LARGE'' then ''errors.imageTooLarge''
      else if c = ''UNSUPPORTED_IMAGE_TYPE'' then ''errors.unsupportedImageType''
      else if c = ''IMAGE_DECODE_FAILED'' then ''errors.imageDecodeFailed''
      else if c = ''IMAGE_DIMENSIONS_INVALID'' then ''errors.imageDimensionsInvalid''
      else ''errors.validation'')"

text \<open>
  Only a fresh encoding of a decoded picture of bounded size leaves the validation: whatever is
  accepted is the encoder's output for a picture between 32 and 8000 pixels on each side and of at
  most 40 million pixels, made from at most ten megabytes in one of the three formats.
\<close>

theorem accepted_images_are_reencoded_and_bounded:
  assumes "validate_and_sanitize_probe_image C bytes = Inr png"
  shows "\<exists>decoded. io_encode_png C decoded = Some png
      \<and> ra_width decoded \<in> {32..8000} \<and> ra_height decoded \<in> {32..8000}
      \<and> ra_width decoded * ra_height decoded \<le> 40000000
      \<and> length bytes \<le> 10485760 \<and> sniff_format bytes \<noteq> None"
  using assms
  by (auto simp: validate_and_sanitize_probe_image_def Let_def MAX_IMAGE_BYTES_def MIN_DIMENSION_def
      MAX_DIMENSION_def MAX_PIXELS_def not_less split: if_splits option.splits)

text \<open>A codec for the example: every file is one grey picture of 64 times 64.\<close>

definition demo_codec :: image_codec where
  "demo_codec = \<lparr>io_open = (\<lambda>b. Some (None, Some \<lparr>ra_width = 64, ra_height = 64, ra_pixels = []\<rparr>)),
     io_apply_orientation = (\<lambda>q r. r), io_encode_png = (\<lambda>r. Some ''png'')\<rparr>"

lemma accepted_images_are_reencoded_and_bounded_witness:
  "\<exists>decoded. io_encode_png demo_codec decoded = Some ''png''
      \<and> ra_width decoded \<in> {32..8000} \<and> ra_height decoded \<in> {32..8000}
      \<and> ra_width decoded * ra_height decoded \<le> 40000000
      \<and> length [CHR 0xFF, CHR 0xD8, CHR 0xFF] \<le> 10485760 \<and> sniff_format [CHR 0xFF, CHR 0xD8, CHR 0xFF] \<noteq> None"
  by (rule accepted_images_are_reencoded_and_bounded)
     (simp add: validate_and_sanitize_probe_image_def sniff_format_def demo_codec_def MAX_IMAGE_BYTES_def
        MIN_DIMENSION_def MAX_DIMENSION_def MAX_PIXELS_def)

end
