(* ===== verification/Osint.thy ===== *)
theory Osint
  imports Demo
begin

text \<open>
  \<open>server/src/osint\<close>: the circuit breaker (\<open>resilience.rs\<close>), the queries sent to text providers
  (\<open>query_builder.rs\<close>), the orchestrator that runs every configured provider (\<open>mod.rs\<close>) and the mock
  providers (\<open>mock.rs\<close>). A provider is its name and its search, as in the provider traits. Futures
  joined by the orchestrator run one after the other, in the order of the list.
\<close>

section \<open>The circuit breaker\<close>

text \<open>
  One breaker per provider, kept under the provider's name: its consecutive failures and the
  instant until which it is open.
\<close>

definition is_open :: "string \<Rightarrow> bool handler" where
  "is_open name = gets (\<lambda>w. case snd (w_breakers w name) of None \<Rightarrow> False | Some until \<Rightarrow> w_now w < until)"

definition record_success :: "string \<Rightarrow> unit handler" where
  "record_success name = modify (\<lambda>w. w\<lparr>w_breakers := (w_breakers w)(name := (0, None))\<rparr>)"

definition record_failure :: "nat \<Rightarrow> int \<Rightarrow> string \<Rightarrow> unit handler" where
  "record_failure failure_threshold cooldown name = modify (\<lambda>w.
     case w_breakers w name of (failures, open_until) \<Rightarrow>
       w\<lparr>w_breakers := (w_breakers w)(name :=
         (Suc failures, if failure_threshold \<le> Suc failures then Some (w_now w + cooldown) else open_until))\<rparr>)"

type_synonym attempt = "(osint_error + evidence_item list) handler"

fun attempts :: "string \<Rightarrow> nat \<Rightarrow> attempt \<Rightarrow> osint_error option \<Rightarrow> (osint_error option + evidence_item list) handler" where
  "attempts name 0 attempt last_err = return (Inl last_err)"
| "attempts name (Suc n) attempt last_err = do {
     r \<leftarrow> attempt;
     case r of
       Inr items \<Rightarrow> do { record_success name; return (Inr items) }
     | Inl err \<Rightarrow> attempts name n attempt (Some err)
   }"

definition breaker_open_message :: "string \<Rightarrow> string" where
  "breaker_open_message name =
     name @ '': circuit breaker open (too many recent failures); not attempting a request''"

definition call_breaker :: "nat \<Rightarrow> int \<Rightarrow> string \<Rightarrow> nat \<Rightarrow> attempt \<Rightarrow> attempt" where
  "call_breaker failure_threshold cooldown name max_attempts attempt = do {
     opened \<leftarrow> is_open name;
     if opened then return (Inl (ProviderUnavailable (breaker_open_message name)))
     else do {
       r \<leftarrow> attempts name (max max_attempts 1) attempt None;
       case r of
         Inr items \<Rightarrow> return (Inr items)
       | Inl last_err \<Rightarrow> do {
           record_failure failure_threshold cooldown name;
           return (Inl (case last_err of
             Some err \<Rightarrow> err
           | None \<Rightarrow> OsintInternal ''provider call failed with no recorded error''))
         }
     }
   }"

section \<open>Queries\<close>

definition build_query :: "string \<Rightarrow> string option" where
  "build_query full_name = (let name = trim full_name in if name = [] then None else Some name)"

fun contains_text :: "string \<Rightarrow> string \<Rightarrow> bool" where
  "contains_text needle [] \<longleftrightarrow> needle = []"
| "contains_text needle (c # s) \<longleftrightarrow> strip_prefix needle (c # s) \<noteq> None \<or> contains_text needle s"

fun trim_start_matches :: "string \<Rightarrow> string \<Rightarrow> string" where
  "trim_start_matches p s =
     (case strip_prefix p s of
        None \<Rightarrow> s
      | Some t \<Rightarrow> if length t < length s then trim_start_matches p t else s)"

declare trim_start_matches.simps [simp del]

definition normalized :: "string \<Rightarrow> string" where
  "normalized v =
     map (\<lambda>c. if c \<in> {CHR 0x0A, CHR 0x0D, CHR 0x09} then CHR '' '' else c) (to_lowercase (trim v))"

definition GENERIC_LABELS :: "string list" where
  "GENERIC_LABELS =
     [''screenshot'', ''screen shot'', ''screen capture'', ''photo'', ''image'', ''picture'', ''person'',
      ''people'', ''man'', ''woman'', ''face'', ''selfie'', ''gentleman'', ''lady'', ''portrait'']"

definition MATCH_LABELS :: "string list" where
  "MATCH_LABELS =
     [''full matching image'', ''partial matching image'', ''visually similar image'',
      ''web page containing a matching image'']"

definition is_generic_visual_context :: "string \<Rightarrow> bool" where
  "is_generic_visual_context v =
     (let low = normalized v
      in if low = [] then True
         else if strip_prefix ''best guess:'' low \<noteq> None
              then trim (trim_start_matches ''best guess:'' low) \<in> set GENERIC_LABELS
         else low \<in> set (MATCH_LABELS @ GENERIC_LABELS))"

definition has_explicit_image_match :: "string \<Rightarrow> bool" where
  "has_explicit_image_match v =
     (let low = normalized v
      in contains_text ''full image match'' low \<or> contains_text ''partial image match'' low)"

definition usable :: "string \<Rightarrow> string option" where
  "usable v =
     (let v = trim v
      in if length v < 3 \<or> is_generic_visual_context v then None else Some (take 180 v))"

definition build_reverse_context_query :: "string \<Rightarrow> string option \<Rightarrow> string option" where
  "build_reverse_context_query title snippet =
     (case snippet of
        None \<Rightarrow> None
      | Some s \<Rightarrow> if \<not> has_explicit_image_match s then None else usable title)"

section \<open>The orchestrator\<close>

record provider =
  pv_name :: string
  pv_search :: "string \<Rightarrow> attempt"

record orchestrator =
  or_web_search :: "provider list"
  or_news :: "provider list"
  or_social :: "provider list"
  or_reverse_image :: "provider list"

record connector_status =
  cs_slot :: string
  cs_provider_name :: string
  cs_is_mock :: bool

definition connector_status_new :: "string \<Rightarrow> string \<Rightarrow> connector_status" where
  "connector_status_new slot name =
     \<lparr>cs_slot = slot, cs_provider_name = name, cs_is_mock = (strip_prefix ''mock-'' name \<noteq> None)\<rparr>"

record provider_outcome =
  po_provider_name :: string
  po_items :: "evidence_item list"
  po_error :: "string option"

definition display_osint_error :: "osint_error \<Rightarrow> string" where
  "display_osint_error e =
     (case e of
        ProviderUnavailable msg \<Rightarrow> ''provider unavailable: '' @ msg
      | OsintInternal msg \<Rightarrow> ''internal OSINT error: '' @ msg)"

definition run_provider :: "string \<Rightarrow> osint_error + evidence_item list \<Rightarrow> provider_outcome handler" where
  "run_provider name r =
     (case r of
        Inr items \<Rightarrow> do {
          count_metric ''osint_provider_outcomes_total'' ''success'';
          return \<lparr>po_provider_name = name, po_items = items, po_error = None\<rparr>
        }
      | Inl err \<Rightarrow> do {
          count_metric ''osint_provider_outcomes_total'' ''failure'';
          return \<lparr>po_provider_name = name, po_items = [], po_error = Some (display_osint_error err)\<rparr>
        })"

fun run_all :: "string \<Rightarrow> provider list \<Rightarrow> provider_outcome list handler" where
  "run_all input [] = return []"
| "run_all input (p # ps) = do {
     r \<leftarrow> pv_search p input;
     out \<leftarrow> run_provider (pv_name p) r;
     rest \<leftarrow> run_all input ps;
     return (out # rest)
   }"

definition collect_all :: "orchestrator \<Rightarrow> string \<Rightarrow> provider_outcome list handler" where
  "collect_all orch phrase = run_all phrase (or_web_search orch @ or_news orch @ or_social orch)"

definition collect_web_and_news ::
  "orchestrator \<Rightarrow> string \<Rightarrow> (provider_outcome list \<times> provider_outcome list) handler" where
  "collect_web_and_news orch phrase = do {
     web \<leftarrow> run_all phrase (or_web_search orch);
     news \<leftarrow> run_all phrase (or_news orch);
     return (web, news)
   }"

definition collect_reverse_image :: "orchestrator \<Rightarrow> string \<Rightarrow> provider_outcome list handler" where
  "collect_reverse_image orch image_bytes = run_all image_bytes (or_reverse_image orch)"

definition provider_status :: "orchestrator \<Rightarrow> connector_status list" where
  "provider_status orch =
     map (\<lambda>p. connector_status_new ''web_search'' (pv_name p)) (or_web_search orch)
   @ map (\<lambda>p. connector_status_new ''news'' (pv_name p)) (or_news orch)
   @ map (\<lambda>p. connector_status_new ''social'' (pv_name p)) (or_social orch)
   @ (if or_reverse_image orch = []
      then [\<lparr>cs_slot = ''reverse_image'', cs_provider_name = ''not-configured'', cs_is_mock = False\<rparr>]
      else map (\<lambda>p. connector_status_new ''reverse_image'' (pv_name p)) (or_reverse_image orch))"

definition enabled_sources :: "orchestrator \<Rightarrow> string list" where
  "enabled_sources orch =
     map pv_name (or_web_search orch) @ map pv_name (or_news orch) @ map pv_name (or_social orch)
   @ map pv_name (or_reverse_image orch)"

section \<open>The mock providers\<close>

text \<open>The hash is the standard library's SipHash; the division is exact here, not rounded.\<close>

definition deterministic_confidence :: "app \<Rightarrow> string \<Rightarrow> rat" where
  "deterministic_confidence E seed =
     30 / 100 + rat_of_nat (unat (x_siphash_str E seed) mod 5001) / 10000"

text \<open>The bytes of the dash in the mock snippets.\<close>

definition em_dash :: string where "em_dash = [CHR 0xE2, CHR 0x80, CHR 0x94]"

definition mock_item :: "app \<Rightarrow> string \<Rightarrow> string \<Rightarrow> string \<Rightarrow> string option \<Rightarrow> string \<Rightarrow> string \<Rightarrow> evidence_item" where
  "mock_item E source name title url snippet seed =
     \<lparr>ei_source_type = source, ei_provider_name = name, ei_title = title, ei_title_key = None,
      ei_title_params = None, ei_url = url, ei_snippet = Some snippet, ei_details = [],
      ei_confidence = deterministic_confidence E seed\<rparr>"

definition mock_web_search :: "app \<Rightarrow> provider" where
  "mock_web_search E = \<lparr>pv_name = ''mock-web-search'', pv_search = (\<lambda>phrase. return (Inr
     [mock_item E ''web_search'' ''mock-web-search'' (''Mock web result for '' @ [CHR 0x22] @ phrase @ [CHR 0x22])
        (Some ''https://example.test/mock-web-result'')
        (''This is a synthetic result from MockWebSearchProvider '' @ em_dash @
         '' no real web search was performed.'')
        (''web:'' @ phrase)]))\<rparr>"

definition mock_news :: "app \<Rightarrow> provider" where
  "mock_news E = \<lparr>pv_name = ''mock-news'', pv_search = (\<lambda>phrase. return (Inr
     [mock_item E ''news'' ''mock-news'' (''Mock news article for '' @ [CHR 0x22] @ phrase @ [CHR 0x22])
        (Some ''https://example.test/mock-news-result'')
        (''This is a synthetic result from MockNewsProvider '' @ em_dash @
         '' no real news search was performed.'')
        (''news:'' @ phrase)]))\<rparr>"

definition mock_social :: "app \<Rightarrow> provider" where
  "mock_social E = \<lparr>pv_name = ''mock-social'', pv_search = (\<lambda>phrase. return (Inr
     [mock_item E ''social'' ''mock-social'' (''Mock social profile match for '' @ [CHR 0x22] @ phrase @ [CHR 0x22])
        None
        (''This is a synthetic result from MockSocialProvider '' @ em_dash @
         '' no real, authorized social platform was queried.'')
        (''social:'' @ phrase)]))\<rparr>"

definition mock_orchestrator :: "app \<Rightarrow> orchestrator" where
  "mock_orchestrator E =
     \<lparr>or_web_search = [mock_web_search E], or_news = [mock_news E], or_social = [mock_social E],
      or_reverse_image = []\<rparr>"

end
