(* ===== verification/Osint_Providers.thy ===== *)
theory Osint_Providers
  imports Osint
begin

text \<open>
  The providers that query real services: Tavily, Brave, Currents and NewsAPI (text), TinEye,
  Google Vision and Yandex (reverse image), and \<open>EvidenceOrchestrator::from_env\<close>, which chooses
  them. The HTTP client and the JSON parser are parameters: for the n-th exchange with a service
  they give a failure, a refusal, a body that cannot be parsed, or the parsed body. What the
  providers make of it is modelled.
\<close>

section \<open>What a service answers\<close>

datatype 'r http_reply =
    SendFailed string
  | ReadFailed string
  | Refused string string
  | Unparsable string
  | Reply 'r

text \<open>The common reading of an answer: \<open>api\<close> names the service in a refusal, \<open>parse\<close> a parse error.\<close>

definition open_reply :: "string \<Rightarrow> string \<Rightarrow> 'r http_reply \<Rightarrow> osint_error + 'r" where
  "open_reply api parse_error reply =
     (case reply of
        SendFailed e \<Rightarrow> Inl (ProviderUnavailable e)
      | ReadFailed e \<Rightarrow> Inl (OsintInternal (parse_error @ e))
      | Refused status body \<Rightarrow> Inl (ProviderUnavailable (api @ '' returned '' @ status))
      | Unparsable e \<Rightarrow> Inl (OsintInternal (parse_error @ e))
      | Reply r \<Rightarrow> Inr r)"

record text_result =
  tr_title :: string
  tr_url :: string
  tr_description :: "string option"

record tavily_result =
  tv_title :: string
  tv_url :: string
  tv_content :: "string option"
  tv_score :: rat

record tavily_image =
  ti_url :: string
  ti_description :: "string option"

record tavily_response =
  tvr_results :: "tavily_result list"
  tvr_images :: "tavily_image list"

record tineye_backlink =
  tb_backlink :: string
  tb_url :: "string option"
  tb_crawl_date :: "string option"

record tineye_match =
  tm_score :: rat
  tm_domain :: "string option"
  tm_backlinks :: "tineye_backlink list"

record web_page =
  wp_url :: string
  wp_page_title :: "string option"
  wp_full_matching_images :: "string list"
  wp_partial_matching_images :: "string list"

record web_detection =
  wd_full_matching_images :: "string list"
  wd_partial_matching_images :: "string list"
  wd_pages_with_matching_images :: "web_page list"
  wd_best_guess_labels :: "string list"

datatype annotate_response =
  Annotate_Response (an_web_detection: "web_detection option") (an_error: "string option")

record yandex_image =
  yi_url :: string
  yi_host :: "string option"
  yi_page_title :: "string option"
  yi_page_url :: "string option"
  yi_passage :: "string option"
  yi_width :: "string option"
  yi_height :: "string option"

text \<open>
  The client: one function per service, of the number of the exchange, the credentials and what is
  sent. \<open>hc_score_text\<close> is the formatter's one-decimal rendering of a score.
\<close>

record http_client =
  hc_tavily :: "nat \<Rightarrow> string \<Rightarrow> string \<Rightarrow> tavily_response http_reply"
  hc_brave :: "nat \<Rightarrow> string \<Rightarrow> string \<Rightarrow> text_result list option http_reply"
  hc_currents :: "nat \<Rightarrow> string \<Rightarrow> string \<Rightarrow> text_result list http_reply"
  hc_newsapi :: "nat \<Rightarrow> string \<Rightarrow> string \<Rightarrow> text_result list http_reply"
  hc_tineye :: "nat \<Rightarrow> string \<Rightarrow> string \<Rightarrow> tineye_match list http_reply"
  hc_vision :: "nat \<Rightarrow> string \<Rightarrow> string \<Rightarrow> annotate_response list http_reply"
  hc_yandex :: "nat \<Rightarrow> string \<Rightarrow> string \<Rightarrow> string \<Rightarrow> yandex_image list http_reply"
  hc_score_text :: "rat \<Rightarrow> string"

section \<open>Text providers\<close>

definition clamp_rat :: "rat \<Rightarrow> rat \<Rightarrow> rat \<Rightarrow> rat" where
  "clamp_rat lo hi x = (if x < lo then lo else if hi < x then hi else x)"

definition RETRY_ATTEMPTS :: nat where "RETRY_ATTEMPTS = 2"
definition FAILURE_THRESHOLD :: nat where "FAILURE_THRESHOLD = 3"
definition COOLDOWN :: int where "COOLDOWN = 30 * SECOND"
definition MAX_IMAGE_RESULTS :: nat where "MAX_IMAGE_RESULTS = 12"

text \<open>Items ranked by the service's order, for services that report no score of their own.\<close>

definition rank_confidence :: "nat \<Rightarrow> rat" where
  "rank_confidence rank = clamp_rat (10 / 100) (85 / 100) (85 / 100 - rat_of_nat rank * (5 / 100))"

definition ranked_items :: "string \<Rightarrow> string \<Rightarrow> text_result list \<Rightarrow> evidence_item list" where
  "ranked_items source name results =
     map (\<lambda>(rank, r).
       \<lparr>ei_source_type = source, ei_provider_name = name, ei_title = tr_title r, ei_title_key = None,
        ei_title_params = None, ei_url = Some (tr_url r), ei_snippet = tr_description r,
        ei_details = [], ei_confidence = rank_confidence rank\<rparr>)
     (List.enumerate 0 results)"

definition tavily_items :: "tavily_response \<Rightarrow> evidence_item list" where
  "tavily_items body =
     map (\<lambda>r.
       \<lparr>ei_source_type = ''web_search'', ei_provider_name = ''tavily-web-search'', ei_title = tv_title r,
        ei_title_key = None, ei_title_params = None, ei_url = Some (tv_url r), ei_snippet = tv_content r,
        ei_details = [], ei_confidence = clamp_rat 0 1 (tv_score r)\<rparr>) (tvr_results body)
   @ map (\<lambda>i.
       \<lparr>ei_source_type = ''web_image'', ei_provider_name = ''tavily-image-search'',
        ei_title = (case ti_description i of
           Some d \<Rightarrow> if trim d = [] then ''Public web image'' else d
         | None \<Rightarrow> ''Public web image''),
        ei_title_key = None, ei_title_params = None, ei_url = Some (ti_url i),
        ei_snippet = ti_description i, ei_details = [], ei_confidence = 1 / 2\<rparr>)
     (take MAX_IMAGE_RESULTS (tvr_images body))"

definition tavily_fetch :: "http_client \<Rightarrow> string \<Rightarrow> string \<Rightarrow> attempt" where
  "tavily_fetch H key phrase = do {
     n \<leftarrow> draw;
     return (case hc_tavily H n key phrase of
       ReadFailed e \<Rightarrow> Inl (ProviderUnavailable (''failed to read Tavily response: '' @ e))
     | Refused status body \<Rightarrow> Inl (ProviderUnavailable
         (let detail = trim body
          in if detail = [] then ''Tavily Search API returned '' @ status
             else ''Tavily Search API returned '' @ status @ '': '' @ detail))
     | other \<Rightarrow> map_sum id tavily_items
         (open_reply ''Tavily Search API'' ''failed to parse Tavily response: '' other))
   }"

definition brave_fetch :: "http_client \<Rightarrow> string \<Rightarrow> string \<Rightarrow> attempt" where
  "brave_fetch H key phrase = do {
     n \<leftarrow> draw;
     return (map_sum id (\<lambda>web. ranked_items ''web_search'' ''brave-web-search'' (case web of None \<Rightarrow> [] | Some rs \<Rightarrow> rs))
       (open_reply ''Brave Search API'' ''failed to parse response: '' (hc_brave H n key phrase)))
   }"

definition currents_fetch :: "http_client \<Rightarrow> string \<Rightarrow> string \<Rightarrow> attempt" where
  "currents_fetch H key phrase = do {
     n \<leftarrow> draw;
     return (map_sum id (ranked_items ''news'' ''currents-news'')
       (open_reply ''Currents API'' ''failed to parse response: '' (hc_currents H n key phrase)))
   }"

definition newsapi_fetch :: "http_client \<Rightarrow> string \<Rightarrow> string \<Rightarrow> attempt" where
  "newsapi_fetch H key phrase = do {
     n \<leftarrow> draw;
     return (map_sum id (ranked_items ''news'' ''newsapi'')
       (open_reply ''NewsAPI'' ''failed to parse response: '' (hc_newsapi H n key phrase)))
   }"

text \<open>Each text provider makes its requests through its breaker.\<close>

definition guarded :: "string \<Rightarrow> (string \<Rightarrow> attempt) \<Rightarrow> provider" where
  "guarded name fetch =
     \<lparr>pv_name = name,
      pv_search = (\<lambda>phrase. call_breaker FAILURE_THRESHOLD COOLDOWN name RETRY_ATTEMPTS (fetch phrase))\<rparr>"

definition tavily :: "http_client \<Rightarrow> string \<Rightarrow> provider" where
  "tavily H key = guarded ''tavily-web-search'' (tavily_fetch H key)"

definition brave :: "http_client \<Rightarrow> string \<Rightarrow> provider" where
  "brave H key = guarded ''brave-web-search'' (brave_fetch H key)"

definition currents :: "http_client \<Rightarrow> string \<Rightarrow> provider" where
  "currents H key = guarded ''currents-news'' (currents_fetch H key)"

definition newsapi :: "http_client \<Rightarrow> string \<Rightarrow> provider" where
  "newsapi H key = guarded ''newsapi'' (newsapi_fetch H key)"

section \<open>Reverse-image providers\<close>

definition MAX_RESULTS :: nat where "MAX_RESULTS = 20"

definition non_empty :: "string option \<Rightarrow> string option" where
  "non_empty v = (case v of Some s \<Rightarrow> if trim s = [] then None else Some s | None \<Rightarrow> None)"

definition reverse_item ::
  "string \<Rightarrow> string \<Rightarrow> string option \<Rightarrow> json option \<Rightarrow> string \<Rightarrow> string option \<Rightarrow> evidence_detail list \<Rightarrow> rat \<Rightarrow>
     evidence_item" where
  "reverse_item name title title_key title_params url snippet details confidence =
     \<lparr>ei_source_type = ''reverse_image'', ei_provider_name = name, ei_title = title,
      ei_title_key = title_key, ei_title_params = title_params, ei_url = Some url,
      ei_snippet = snippet, ei_details = details, ei_confidence = confidence\<rparr>"

definition tineye_item :: "http_client \<Rightarrow> tineye_match \<Rightarrow> tineye_backlink \<Rightarrow> evidence_item" where
  "tineye_item H m b =
     (let (title_key, title_params) =
        (case non_empty (tm_domain m) of
           Some domain \<Rightarrow> (''osint.evidence.title.tineyeWithDomain'', Some (JObj [(''domain'', JStr domain)]))
         | None \<Rightarrow> (''osint.evidence.title.tineyeGeneric'', None))
      in reverse_item ''tineye-reverse-image'' [] (Some title_key) title_params (tb_backlink b) None
        ([Evidence_Detail ''osint.evidence.detail.tineyeScore''
            (JObj [(''score'', JStr (hc_score_text H (tm_score m)))])]
         @ (case tb_url b of None \<Rightarrow> [] | Some u \<Rightarrow>
              [Evidence_Detail ''osint.evidence.detail.matchedImage'' (JObj [(''url'', JStr u)])])
         @ (case tb_crawl_date b of None \<Rightarrow> [] | Some d \<Rightarrow>
              [Evidence_Detail ''osint.evidence.detail.crawled'' (JObj [(''date'', JStr d)])]))
        (clamp_rat 0 1 (tm_score m / 100)))"

definition tineye_items :: "http_client \<Rightarrow> tineye_match list \<Rightarrow> evidence_item list" where
  "tineye_items H matches =
     foldl (\<lambda>items m.
       foldl (\<lambda>items b. if MAX_RESULTS \<le> length items then items else items @ [tineye_item H m b])
         items (take MAX_RESULTS (tm_backlinks m)))
     [] (take MAX_RESULTS matches)"

definition tineye_search :: "http_client \<Rightarrow> string \<Rightarrow> string \<Rightarrow> attempt" where
  "tineye_search H key photo = do {
     n \<leftarrow> draw;
     return (map_sum id (tineye_items H)
       (open_reply ''TinEye API'' ''failed to parse TinEye response: '' (hc_tineye H n key photo)))
   }"

text \<open>Keeping the first item of every url: the set of urls seen so far and the items so far.\<close>

definition push_new :: "string \<Rightarrow> evidence_item \<Rightarrow> string set \<times> evidence_item list \<Rightarrow> string set \<times> evidence_item list" where
  "push_new url item acc =
     (case acc of (seen, items) \<Rightarrow>
        if url \<in> seen then (seen, items) else (insert url seen, items @ [item]))"

definition best_guess_detail :: "string option \<Rightarrow> evidence_detail list" where
  "best_guess_detail guess =
     (case guess of None \<Rightarrow> []
      | Some l \<Rightarrow> [Evidence_Detail ''osint.evidence.detail.bestGuess'' (JObj [(''label'', JStr l)])])"

definition vision_page :: "string option \<Rightarrow> web_page \<Rightarrow> string set \<times> evidence_item list \<Rightarrow> string set \<times> evidence_item list" where
  "vision_page best_guess page acc =
     (let exact_matches = length (wp_full_matching_images page);
          partial_matches = length (wp_partial_matching_images page)
      in if exact_matches = 0 \<and> partial_matches = 0 then acc
         else push_new (wp_url page)
           (let (title, title_key) =
              (case non_empty (wp_page_title page) of
                 Some t \<Rightarrow> (t, None)
               | None \<Rightarrow> ([], Some ''osint.evidence.title.webPageWithMatch''))
            in reverse_item ''google-vision-web-detection'' title title_key None (wp_url page) None
              ((if 0 < exact_matches then [Evidence_Detail ''osint.evidence.detail.fullMatches''
                  (JObj [(''count'', JInt (int exact_matches))])] else [])
               @ (if 0 < partial_matches then [Evidence_Detail ''osint.evidence.detail.partialMatches''
                  (JObj [(''count'', JInt (int partial_matches))])] else [])
               @ best_guess_detail best_guess)
              (if 0 < exact_matches then 95 / 100 else 75 / 100))
           acc)"

definition vision_image :: "string option \<Rightarrow> string \<Rightarrow> rat \<Rightarrow> string \<Rightarrow> string set \<times> evidence_item list \<Rightarrow> string set \<times> evidence_item list" where
  "vision_image best_guess title_key confidence url acc =
     push_new url
       (reverse_item ''google-vision-web-detection'' [] (Some title_key) None url None
          (best_guess_detail best_guess) confidence) acc"

definition vision_items :: "web_detection \<Rightarrow> evidence_item list" where
  "vision_items web =
     (let best_guess = (case wd_best_guess_labels web of [] \<Rightarrow> None | l # _ \<Rightarrow> Some l);
          pages = fold (vision_page best_guess) (wd_pages_with_matching_images web) ({}, []);
          full = fold (vision_image best_guess ''osint.evidence.title.fullMatchingImage'' (95 / 100))
                   (wd_full_matching_images web) pages;
          (seen, items) = fold (vision_image best_guess ''osint.evidence.title.partialMatchingImage'' (75 / 100))
                   (wd_partial_matching_images web) full
      in take MAX_RESULTS items)"

definition vision_annotated :: "annotate_response list \<Rightarrow> osint_error + evidence_item list" where
  "vision_annotated responses =
     (case responses of
        [] \<Rightarrow> Inr []
      | first # _ \<Rightarrow>
          (case an_error first of
             Some message \<Rightarrow> Inl (ProviderUnavailable message)
           | None \<Rightarrow> (case an_web_detection first of None \<Rightarrow> Inr [] | Some web \<Rightarrow> Inr (vision_items web))))"

definition vision_search :: "http_client \<Rightarrow> string \<Rightarrow> string \<Rightarrow> attempt" where
  "vision_search H key photo = do {
     n \<leftarrow> draw;
     return (case open_reply ''Google Vision API'' ''failed to parse Google Vision response: ''
                (hc_vision H n key photo) of
       Inl e \<Rightarrow> Inl e
     | Inr responses \<Rightarrow> vision_annotated responses)
   }"

definition yandex_image_item :: "yandex_image \<Rightarrow> string set \<times> evidence_item list \<Rightarrow> string set \<times> evidence_item list" where
  "yandex_image_item i =
     (let target_url = (case yi_page_url i of Some u \<Rightarrow> u | None \<Rightarrow> yi_url i);
          (title, title_key) =
            (case non_empty (yi_page_title i) of
               Some t \<Rightarrow> (t, None)
             | None \<Rightarrow> (case non_empty (yi_host i) of
                 Some h \<Rightarrow> (h, None)
               | None \<Rightarrow> ([], Some ''osint.evidence.title.publicPageWithImage'')))
      in push_new target_url
        (reverse_item ''yandex-images-reverse-search'' title title_key None target_url
          (non_empty (yi_passage i))
          ((if trim (yi_url i) = [] then []
            else [Evidence_Detail ''osint.evidence.detail.image'' (JObj [(''url'', JStr (yi_url i))])])
           @ (case (yi_width i, yi_height i) of
                (Some wd, Some ht) \<Rightarrow> [Evidence_Detail ''osint.evidence.detail.dimensions''
                  (JObj [(''width'', JStr wd), (''height'', JStr ht)])]
              | _ \<Rightarrow> []))
          (7 / 10)))"

definition yandex_items :: "yandex_image list \<Rightarrow> evidence_item list" where
  "yandex_items images = snd (fold yandex_image_item (take MAX_RESULTS images) ({}, []))"

definition yandex_search :: "http_client \<Rightarrow> string \<Rightarrow> string \<Rightarrow> string \<Rightarrow> attempt" where
  "yandex_search H key folder_id photo = do {
     n \<leftarrow> draw;
     return (map_sum id yandex_items
       (open_reply ''Yandex Search API'' ''failed to parse Yandex image-search response: ''
         (hc_yandex H n key folder_id photo)))
   }"

section \<open>Choosing the providers\<close>

definition env_key :: "app \<Rightarrow> string \<Rightarrow> string option" where
  "env_key E name = non_empty (x_env E name)"

definition when_key :: "app \<Rightarrow> string \<Rightarrow> (string \<Rightarrow> provider) \<Rightarrow> provider list" where
  "when_key E name build = (case env_key E name of None \<Rightarrow> [] | Some key \<Rightarrow> [build key])"

definition orchestrator_from_env :: "app \<Rightarrow> http_client \<Rightarrow> orchestrator" where
  "orchestrator_from_env E H =
     (let web = when_key E ''TAVILY_API_KEY'' (tavily H) @ when_key E ''BRAVE_SEARCH_API_KEY'' (brave H);
          news = when_key E ''CURRENTS_API_KEY'' (currents H) @ when_key E ''NEWS_API_KEY'' (newsapi H)
      in \<lparr>or_web_search = (if web = [] then [mock_web_search E] else web),
          or_news = (if news = [] then [mock_news E] else news),
          or_social = [mock_social E],
          or_reverse_image =
            when_key E ''TINEYE_API_KEY'' (\<lambda>key. \<lparr>pv_name = ''tineye-reverse-image'', pv_search = tineye_search H key\<rparr>)
          @ when_key E ''GOOGLE_CLOUD_VISION_API_KEY''
              (\<lambda>key. \<lparr>pv_name = ''google-vision-web-detection'', pv_search = vision_search H key\<rparr>)
          @ (case env_key E ''YANDEX_SEARCH_FOLDER_ID'' of None \<Rightarrow> []
             | Some folder_id \<Rightarrow> when_key E ''YANDEX_SEARCH_API_KEY''
                 (\<lambda>key. \<lparr>pv_name = ''yandex-images-reverse-search'', pv_search = yandex_search H key folder_id\<rparr>))\<rparr>)"

end
