(* ===== verification/Osint_Rules.thy ===== *)
theory Osint_Rules
  imports Osint_Providers
begin

text \<open>
  What the OSINT orchestrator promises: providers do not touch the tables (the interface
  \<open>osint_sources\<close>, which the configured and the mock orchestrator satisfy), each one reports once, a
  failing one is left alone for a while, and which reverse-image results seed a text search.
\<close>

section \<open>The interface of the orchestrator\<close>

text \<open>
  A provider only draws (a request identifies itself by its number) and moves its breaker; the
  tables are none of its business. This is all the handlers need to know about an orchestrator.
\<close>

definition aside :: "world \<Rightarrow> world" where
  "aside w = w\<lparr>w_draws := 0, w_breakers := (\<lambda>_. (0, None))\<rparr>"

definition quiet :: "'a handler \<Rightarrow> bool" where
  "quiet m \<longleftrightarrow> preserves aside m"

lemma quiet_preserves:
  assumes "quiet m" and "blind w_draws_update f" and "blind w_breakers_update f"
  shows "preserves f m"
proof -
  have "f (aside w) = f w" for w using assms(2,3) by (simp add: aside_def)
  then show ?thesis using assms(1) unfolding quiet_def preserves_def by metis
qed

locale osint_sources =
  fixes orch :: orchestrator
  assumes quiet_provider:
    "p \<in> set (or_web_search orch @ or_news orch @ or_social orch @ or_reverse_image orch) \<Longrightarrow>
       quiet (pv_search p x)"
begin

lemma run_all_frame:
  assumes "blind w_draws_update f" "blind w_breakers_update f" "blind w_counters_update f"
    and "set ps \<subseteq> set (or_web_search orch @ or_news orch @ or_social orch @ or_reverse_image orch)"
  shows "preserves f (run_all x ps)"
  using assms(4)
proof (induction ps)
  case (Cons p ps)
  have "preserves f (pv_search p x)"
    using Cons.prems assms(1,2) by (intro quiet_preserves quiet_provider) auto
  moreover have "preserves f (run_provider nm r)" for nm r
    unfolding run_provider_def using assms(3) by (intro frame_intros) simp_all
  moreover have "preserves f (run_all x ps)" using Cons by simp
  ultimately show ?case by (auto intro!: frame_intros)
qed (simp add: frame_intros)

lemma collect_frames:
  assumes "blind w_draws_update f" "blind w_breakers_update f" "blind w_counters_update f"
  shows "preserves f (collect_all orch x)" "preserves f (collect_web_and_news orch x)"
    "preserves f (collect_reverse_image orch x)"
  unfolding collect_all_def collect_web_and_news_def collect_reverse_image_def
  by (intro frame_intros run_all_frame assms; auto)+

end

lemma quiet_return [simp]: "quiet (return a)"
  by (simp add: quiet_def frame_intros)

lemma attempts_quiet: "quiet a \<Longrightarrow> quiet (attempts name n a e)"
proof (induction n arbitrary: e)
  case (Suc n)
  have "preserves aside (record_success name)"
    unfolding record_success_def by (intro preserves_modify) (simp add: aside_def)
  then show ?case using Suc by (auto simp: quiet_def intro!: frame_intros)
qed simp

lemma call_breaker_quiet: "quiet a \<Longrightarrow> quiet (call_breaker thr cd name n a)"
proof -
  assume "quiet a"
  then have "preserves aside (attempts name k a None)" for k using attempts_quiet by (simp add: quiet_def)
  moreover have "preserves aside (record_failure thr cd name)"
    unfolding record_failure_def by (intro preserves_modify) (simp add: aside_def case_prod_unfold)
  ultimately show ?thesis
    unfolding call_breaker_def is_open_def quiet_def by (intro frame_intros)
qed

lemma draw_quiet: "quiet (do { n \<leftarrow> draw; return (g n) })"
  unfolding quiet_def by (intro frame_intros preserves_draw) (simp add: aside_def)

lemma fetches_quiet:
  "quiet (tavily_fetch H key x)" "quiet (brave_fetch H key x)" "quiet (currents_fetch H key x)"
  "quiet (newsapi_fetch H key x)" "quiet (tineye_search H key x)" "quiet (vision_search H key x)"
  "quiet (yandex_search H key folder x)"
  unfolding tavily_fetch_def brave_fetch_def currents_fetch_def newsapi_fetch_def tineye_search_def
    vision_search_def yandex_search_def
  by (rule draw_quiet)+

lemma mocks_quiet:
  "quiet (pv_search (mock_web_search E) x)" "quiet (pv_search (mock_news E) x)" "quiet (pv_search (mock_social E) x)"
  by (simp_all add: mock_web_search_def mock_news_def mock_social_def)

lemma text_providers_quiet:
  "quiet (pv_search (tavily H key) x)" "quiet (pv_search (brave H key) x)"
  "quiet (pv_search (currents H key) x)" "quiet (pv_search (newsapi H key) x)"
  by (simp_all add: tavily_def brave_def currents_def newsapi_def guarded_def call_breaker_quiet fetches_quiet)

lemma when_key_quiet: "(\<And>k. quiet (pv_search (b k) x)) \<Longrightarrow> p \<in> set (when_key E n b) \<Longrightarrow> quiet (pv_search p x)"
  by (auto simp: when_key_def split: option.splits)

interpretation from_env: osint_sources "orchestrator_from_env E H" for E H
proof
  fix p x
  assume "p \<in> set (or_web_search (orchestrator_from_env E H) @ or_news (orchestrator_from_env E H)
    @ or_social (orchestrator_from_env E H) @ or_reverse_image (orchestrator_from_env E H))"
  then show "quiet (pv_search p x)"
    by (auto simp: orchestrator_from_env_def Let_def mocks_quiet text_providers_quiet fetches_quiet
        split: if_splits option.splits elim!: when_key_quiet [rotated])
qed

interpretation mock: osint_sources "mock_orchestrator E" for E
  by standard (auto simp: mock_orchestrator_def mocks_quiet)

section \<open>Every provider reports\<close>

text \<open>
  Whatever the providers answer, failures included, a collection has exactly one outcome per
  configured provider, under its name and in the order of the configuration.
\<close>

theorem every_provider_reports:
  "map po_provider_name (result (collect_all orch phrase) w) =
     map pv_name (or_web_search orch @ or_news orch @ or_social orch)"
proof -
  have "map po_provider_name (result (run_all x ps) v) = map pv_name ps" for x ps v
    by (induction ps arbitrary: v)
       (simp_all add: result_bind run_provider_def split: sum.split)
  then show ?thesis by (simp add: collect_all_def)
qed

section \<open>The breaker\<close>

definition always_fails :: "attempt \<Rightarrow> bool" where
  "always_fails a \<longleftrightarrow> (\<forall>w. isl (result a w)) \<and> preserves (\<lambda>w. (w_breakers w, w_now w)) a"

lemma failing_attempts:
  assumes "always_fails a"
  shows "(\<exists>e. result (attempts name n a l) w = Inl e) \<and> w_breakers (exec (attempts name n a l) w) = w_breakers w
     \<and> w_now (exec (attempts name n a l) w) = w_now w"
proof (induction n arbitrary: l w)
  case (Suc n)
  obtain e where e: "result a w = Inl e" using assms by (auto simp: always_fails_def isl_def)
  moreover have "w_breakers (exec a w) = w_breakers w" "w_now (exec a w) = w_now w"
    using assms by (auto simp: always_fails_def preserves_def)
  ultimately show ?case using Suc [of "Some e" "exec a w"] by (simp add: exec_bind result_bind)
qed simp

lemma failing_call:
  assumes "always_fails a" and "w_breakers w name = (n, if n < threshold then None else Some (w_now w + cooldown))"
    and "0 < cooldown" and "n \<le> threshold"
  shows "w_breakers (exec (call_breaker threshold cooldown name k a) w) name =
      (min (Suc n) threshold, if Suc n < threshold then None else Some (w_now w + cooldown))
    \<and> w_now (exec (call_breaker threshold cooldown name k a) w) = w_now w"
proof (cases "n < threshold")
  case False
  then show ?thesis using assms by (simp add: call_breaker_def is_open_def exec_bind result_bind)
next
  case True
  then show ?thesis using assms(2,4) failing_attempts [OF assms(1), of name "max k 1" None w]
    by (auto simp: call_breaker_def is_open_def exec_bind result_bind record_failure_def split: option.split)
qed

text \<open>
  A service that keeps failing is called through a fresh breaker until as many calls as the
  threshold have failed; from then on the breaker is open for the cooldown, counted from the last
  failure, and further calls leave it as it is.
\<close>

theorem failing_calls_open_the_breaker:
  assumes "always_fails a" and "w_breakers w name = (0, None)" and "0 < threshold" and "0 < cooldown"
  shows "w_breakers ((exec (call_breaker threshold cooldown name k a) ^^ n) w) name =
      (min n threshold, if n < threshold then None else Some (w_now w + cooldown))"
proof -
  have "w_breakers ((exec (call_breaker threshold cooldown name k a) ^^ n) w) name =
      (min n threshold, if n < threshold then None else Some (w_now w + cooldown))
    \<and> w_now ((exec (call_breaker threshold cooldown name k a) ^^ n) w) = w_now w"
  proof (induction n)
    case (Suc n)
    let ?v = "(exec (call_breaker threshold cooldown name k a) ^^ n) w"
    have "w_breakers ?v name = (min n threshold, if min n threshold < threshold then None else Some (w_now ?v + cooldown))"
      using Suc by auto
    from failing_call [OF assms(1) this assms(4), of k] Suc show ?case by auto
  qed (use assms(2,3) in simp)
  then show ?thesis by simp
qed

lemma failing_calls_open_the_breaker_witness:
  "w_breakers ((exec (call_breaker 3 (30 * SECOND) ''newsapi'' 2 (return (Inl (ProviderUnavailable []))) ) ^^ 5) demo_world)
     ''newsapi'' = (3, Some (30 * SECOND))"
proof -
  have "always_fails (return (Inl (ProviderUnavailable [])))" by (simp add: always_fails_def frame_intros)
  from failing_calls_open_the_breaker [OF this, of demo_world "''newsapi''" 3 "30 * SECOND" 5 2]
  show ?thesis by (simp add: demo_world_def SECOND_def)
qed

text \<open>
  The breaker as its documentation has it: closed, with the failures in a row so far, or open until an
  instant. A call that is let through either gets an answer or fails.
\<close>

datatype circuit = Circuit_Closed nat | Circuit_Open int

fun blocks :: "int \<Rightarrow> circuit \<Rightarrow> bool" where
  "blocks now (Circuit_Closed n) = False"
| "blocks now (Circuit_Open until) = (now < until)"

fun circuit_step :: "nat \<Rightarrow> int \<Rightarrow> int \<Rightarrow> bool \<Rightarrow> circuit \<Rightarrow> circuit" where
  "circuit_step threshold cooldown now answered (Circuit_Closed n) =
     (if answered then Circuit_Closed 0 else if Suc n < threshold then Circuit_Closed (Suc n) else Circuit_Open (now + cooldown))"
| "circuit_step threshold cooldown now answered (Circuit_Open until) =
     (if now < until then Circuit_Open until else if answered then Circuit_Closed 0 else Circuit_Open (now + cooldown))"

text \<open>What the two fields of the code stand for, and which pairs occur.\<close>

fun circuit_of :: "nat \<times> int option \<Rightarrow> circuit" where
  "circuit_of (n, None) = Circuit_Closed n"
| "circuit_of (n, Some until) = Circuit_Open until"

fun breaker_ok :: "nat \<Rightarrow> nat \<times> int option \<Rightarrow> bool" where
  "breaker_ok threshold (n, None) = (n < threshold)"
| "breaker_ok threshold (n, Some until) = (0 < threshold \<and> threshold \<le> n)"

text \<open>Whether one of up to n requests is answered, and how many are made: the first answer ends them.\<close>

fun requests :: "attempt \<Rightarrow> nat \<Rightarrow> world \<Rightarrow> nat \<times> bool" where
  "requests a 0 w = (0, False)"
| "requests a (Suc n) w =
     (if isl (result a w) then (case requests a n (exec a w) of (k, ok) \<Rightarrow> (Suc k, ok)) else (1, True))"

definition leaves_breakers :: "attempt \<Rightarrow> bool" where
  "leaves_breakers a \<longleftrightarrow> preserves (\<lambda>w. (w_breakers w, w_now w)) a"

lemma leaves_breakersD: "leaves_breakers a \<Longrightarrow> w_breakers (exec a w) = w_breakers w \<and> w_now (exec a w) = w_now w"
  by (simp add: leaves_breakers_def preserves_def)

lemma requests_bounded: "requests a n w = (k, ok) \<Longrightarrow> k \<le> n \<and> (0 < n \<longrightarrow> 0 < k)"
  by (induction n arbitrary: w k) (auto split: if_splits prod.splits)

lemma attempts_run:
  assumes "leaves_breakers a" and "requests a n w = (k, ok)"
  shows "isl (result (attempts name n a l) w) = (\<not> ok)"
    and "exec (attempts name n a l) w = (if ok then (exec a ^^ k) w\<lparr>w_breakers := (w_breakers w)(name := (0, None))\<rparr> else (exec a ^^ k) w)"
    and "w_breakers ((exec a ^^ k) w) = w_breakers w \<and> w_now ((exec a ^^ k) w) = w_now w"
proof -
  have "isl (result (attempts name n a l) w) = (\<not> ok)
    \<and> exec (attempts name n a l) w = (if ok then (exec a ^^ k) w\<lparr>w_breakers := (w_breakers w)(name := (0, None))\<rparr> else (exec a ^^ k) w)
    \<and> w_breakers ((exec a ^^ k) w) = w_breakers w \<and> w_now ((exec a ^^ k) w) = w_now w"
    using assms(2)
  proof (induction n arbitrary: w k l)
    case (Suc n)
    note frame = leaves_breakersD [OF assms(1), of w]
    show ?case
    proof (cases "result a w")
      case (Inl e)
      obtain j where j: "requests a n (exec a w) = (j, ok)" "k = Suc j"
        using Suc.prems Inl by (auto split: prod.splits)
      have shift: "(exec a ^^ Suc j) w = (exec a ^^ j) (exec a w)" by (simp add: funpow_swap1)
      show ?thesis
        using Suc.IH [OF j(1), of "Some e"] frame Inl
        unfolding j(2) shift by (auto simp: result_bind exec_bind)
    next
      case (Inr items)
      then show ?thesis using Suc.prems frame
        by (auto simp: result_bind exec_bind record_success_def)
    qed
  qed simp
  then show "isl (result (attempts name n a l) w) = (\<not> ok)"
    "exec (attempts name n a l) w = (if ok then (exec a ^^ k) w\<lparr>w_breakers := (w_breakers w)(name := (0, None))\<rparr> else (exec a ^^ k) w)"
    "w_breakers ((exec a ^^ k) w) = w_breakers w \<and> w_now ((exec a ^^ k) w) = w_now w" by blast+
qed

text \<open>
  C25. The breaker does what its documentation says. Its two fields are an automaton that is closed or open:
  an answered call closes it, an unanswered one counts, the threshold opens it for the cooldown, and after
  the cooldown one call is let through, which closes it or opens it again. An open breaker makes no request
  and changes nothing; otherwise a call makes at least one and at most \<open>max_attempts\<close> requests, none after
  the first answer, and nothing else happens. (\<open>answered\<close> and the number j of the requests are those of the
  service alone.)
\<close>

theorem breaker_refines_the_circuit:
  assumes "leaves_breakers a" and "breaker_ok threshold (w_breakers w name)"
    and "requests a (max k 1) w = (j, answered)"
    and "w' = exec (call_breaker threshold cooldown name k a) w"
  shows "circuit_of (w_breakers w' name) = circuit_step threshold cooldown (w_now w) answered (circuit_of (w_breakers w name))
    \<and> breaker_ok threshold (w_breakers w' name)
    \<and> (if blocks (w_now w) (circuit_of (w_breakers w name)) then w' = w
       else w'\<lparr>w_breakers := w_breakers w\<rparr> = (exec a ^^ j) w \<and> 0 < j \<and> j \<le> max k 1)"
proof -
  obtain n opened where b: "w_breakers w name = (n, opened)" by fastforce
  note run = attempts_run(1) [OF assms(1,3), where name = name and l = None]
    attempts_run(2) [OF assms(1,3), where name = name and l = None] attempts_run(3) [OF assms(1,3)]
  have "result (attempts name (max k 1) a None) w = Inr (projr (result (attempts name (max k 1) a None) w))" if answered
    using run(1) that by (metis sum.collapse(2))
  moreover have "result (attempts name (max k 1) a None) w = Inl (projl (result (attempts name (max k 1) a None) w))" if "\<not> answered"
    using run(1) that by (metis sum.collapse(1))
  ultimately show ?thesis
    using assms(2) b run(2,3) requests_bounded [OF assms(3)]
    by (cases opened; cases answered)
      (auto simp: assms(4) call_breaker_def is_open_def exec_bind result_bind record_failure_def not_less split: sum.split)
qed
lemma breaker_refines_the_circuit_witness:
  "circuit_of (w_breakers (exec (call_breaker 3 (30 * SECOND) ''newsapi'' 2 (return (Inl (ProviderUnavailable []))))
     (demo_world\<lparr>w_breakers := (\<lambda>_. (3, Some 0))\<rparr>)) ''newsapi'') = Circuit_Open (30 * SECOND)"
proof -
  let ?w = "demo_world\<lparr>w_breakers := (\<lambda>_. (3, Some 0))\<rparr>"
  let ?a = "return (Inl (ProviderUnavailable [])) :: attempt"
  have "leaves_breakers ?a" by (simp add: leaves_breakers_def frame_intros)
  from breaker_refines_the_circuit [OF this, of 3 ?w "''newsapi''" 2 2 False _ "30 * SECOND"]
  show ?thesis by (simp add: demo_world_def SECOND_def numeral_2_eq_2)
qed

text \<open>
  An open breaker fails fast: no request is made and nothing changes.
\<close>

theorem open_breaker_makes_no_request:
  assumes "w_breakers w name = (n, Some until)" and "w_now w < until"
  shows "run_state (call_breaker threshold cooldown name k a) w =
      (Inl (ProviderUnavailable (breaker_open_message name)), w)"
  using assms by (simp add: call_breaker_def is_open_def gets_def return_def)

lemma open_breaker_makes_no_request_witness:
  "run_state (call_breaker 3 (30 * SECOND) ''newsapi'' 2 (return (Inr []))) (demo_world\<lparr>w_breakers := (\<lambda>_. (3, Some 7))\<rparr>) =
     (Inl (ProviderUnavailable (breaker_open_message ''newsapi'')), demo_world\<lparr>w_breakers := (\<lambda>_. (3, Some 7))\<rparr>)"
  by (rule open_breaker_makes_no_request [of _ _ 3 7]) (simp_all add: demo_world_def)

section \<open>Reverse-image results that seed a search\<close>

lemma reverse_item_no_snippet [simp]: "ei_snippet (reverse_item n t tk tp u sn d c) = sn"
  by (simp add: reverse_item_def)

lemma push_new_all: "list_all P (snd acc) \<Longrightarrow> P i \<Longrightarrow> list_all P (snd (push_new u i acc))"
  by (auto simp: push_new_def split: prod.split)

lemma fold_all: "(\<And>x acc. list_all P (snd acc) \<Longrightarrow> list_all P (snd (f x acc))) \<Longrightarrow> list_all P (snd acc) \<Longrightarrow>
    list_all P (snd (fold f xs acc))"
  by (induction xs arbitrary: acc) auto

lemma foldl_all: "(\<And>acc x. list_all P acc \<Longrightarrow> list_all P (f acc x)) \<Longrightarrow> list_all P acc \<Longrightarrow> list_all P (foldl f acc xs)"
  by (induction xs arbitrary: acc) auto

lemma list_all_take: "list_all P xs \<Longrightarrow> list_all P (take n xs)"
  by (auto simp: list_all_iff dest: in_set_takeD)

lemma vision_no_snippet: "list_all (\<lambda>i. ei_snippet i = None) (vision_items web)"
proof -
  have "list_all (\<lambda>i. ei_snippet i = None) (snd (vision_page g p acc))"
    if "list_all (\<lambda>i. ei_snippet i = None) (snd acc)" for g p acc
    using that by (auto simp: vision_page_def Let_def intro!: push_new_all split: prod.split option.split)
  moreover have "list_all (\<lambda>i. ei_snippet i = None) (snd (vision_image g k c u acc))"
    if "list_all (\<lambda>i. ei_snippet i = None) (snd acc)" for g k c u acc
    using that by (auto simp: vision_image_def intro!: push_new_all)
  ultimately show ?thesis
    unfolding vision_items_def Let_def case_prod_unfold by (intro list_all_take fold_all) simp_all
qed

lemma tineye_no_snippet: "list_all (\<lambda>i. ei_snippet i = None) (tineye_items H ms)"
  unfolding tineye_items_def
  by (intro foldl_all) (simp_all add: tineye_item_def case_prod_unfold Let_def)

text \<open>
  The fan-out of a reverse-image hit into a text search never happens for Google Vision and
  TinEye: it needs the words ''full image match'' or ''partial image match'' in the snippet of the
  hit, and neither provider sets a snippet.
\<close>

theorem reverse_hits_never_seed_a_search:
  "list_all (\<lambda>i. build_reverse_context_query (ei_title i) (ei_snippet i) = None)
     (vision_items web @ tineye_items H matches)"
  using vision_no_snippet [of web] tineye_no_snippet [of H matches]
  by (auto simp: list_all_iff build_reverse_context_query_def)


end
