(* ===== verification/Scoped.thy ===== *)
theory Scoped
  imports Audit_Trail Biometric Image_Validation Osint_Rules
begin

text \<open>
  What the routes about searches, candidates and evidence share: the check of the caller and of the
  organization a resource belongs to, the audit events they write, and the uploaded form.
\<close>

section \<open>The caller\<close>

definition as_role :: "app \<Rightarrow> header_map \<Rightarrow> (string \<Rightarrow> bool) \<Rightarrow> (string \<Rightarrow> claims \<Rightarrow> response handler) \<Rightarrow> response handler" where
  "as_role E headers allowed body = do {
     rid \<leftarrow> request_id E headers;
     c \<leftarrow> auth_user_from_headers E headers;
     case c of
       None \<Rightarrow> return (api_err ''UNAUTHORIZED'' ''errors.unauthorized'' rid)
     | Some claims \<Rightarrow>
         if \<not> allowed (cl_role claims) then return (api_err ''FORBIDDEN'' ''errors.forbidden'' rid)
         else body rid claims
   }"

definition internal_error :: "string \<Rightarrow> response" where
  "internal_error rid = api_err ''INTERNAL_ERROR'' ''errors.internal'' rid"

definition not_found :: "string \<Rightarrow> response" where
  "not_found rid = api_err ''NOT_FOUND'' ''errors.notFound'' rid"

definition forbidden :: "string \<Rightarrow> response" where
  "forbidden rid = api_err ''FORBIDDEN'' ''errors.forbidden'' rid"

definition invalid :: "string \<Rightarrow> response" where
  "invalid rid = api_err ''VALIDATION_ERROR'' ''errors.validation'' rid"

text \<open>\<open>format!("{} {}", first_name, last_name).trim()\<close> of the caller's account, else the user code.\<close>

definition display_name :: "app \<Rightarrow> claims \<Rightarrow> string handler" where
  "display_name E claims = do {
     u \<leftarrow> load_user_by_id E (cl_id claims);
     return (case u of
       Inr (Some user) \<Rightarrow> trim (u_first_name user @ '' '' @ u_last_name user)
     | _ \<Rightarrow> cl_user_code claims)
   }"

text \<open>A failed lookup of the memberships counts as none.\<close>

definition organization_ids_or_none :: "app \<Rightarrow> claims \<Rightarrow> string list handler" where
  "organization_ids_or_none E claims = do {
     ids \<leftarrow> user_organization_ids E (cl_id claims);
     return (case ids of Inl _ \<Rightarrow> [] | Inr xs \<Rightarrow> xs)
   }"

definition authorize_candidate_scope :: "app \<Rightarrow> claims \<Rightarrow> candidate_row \<Rightarrow> bool handler" where
  "authorize_candidate_scope E claims candidate = do {
     actor_org_ids \<leftarrow> organization_ids_or_none E claims;
     return (can_view_scoped_resource (cl_role claims) actor_org_ids (cd_organization_id candidate))
   }"

text \<open>
  The start of the routes about one candidate. Two of them report a failed lookup as an internal
  error, the others as not found.
\<close>

definition on_candidate ::
  "app \<Rightarrow> bool \<Rightarrow> string \<Rightarrow> claims \<Rightarrow> string \<Rightarrow> (candidate_row \<Rightarrow> response handler) \<Rightarrow> response handler" where
  "on_candidate E report_failure rid claims candidate_id body = do {
     c \<leftarrow> load_candidate_by_id E candidate_id;
     case c of
       Inl _ \<Rightarrow> return (if report_failure then internal_error rid else not_found rid)
     | Inr None \<Rightarrow> return (not_found rid)
     | Inr (Some candidate) \<Rightarrow> do {
         ok \<leftarrow> authorize_candidate_scope E claims candidate;
         if \<not> ok then return (forbidden rid) else body candidate
       }
   }"

section \<open>Audit events\<close>

definition actor_event :: "app \<Rightarrow> header_map \<Rightarrow> claims \<Rightarrow> string \<Rightarrow> string \<Rightarrow> string \<Rightarrow> recorder" where
  "actor_event E headers claims action outcome rid =
     from_headers E headers (actor claims (recorder_new action outcome rid))"

text \<open>A change that must be audited before it is reported.\<close>

definition audited :: "app \<Rightarrow> string \<Rightarrow> recorder \<Rightarrow> response handler \<Rightarrow> response handler" where
  "audited E rid event ok = do {
     a \<leftarrow> save_mandatory E event;
     case a of Inl err \<Rightarrow> return (fail_with err rid) | Inr _ \<Rightarrow> ok
   }"

section \<open>Uploaded forms\<close>

text \<open>
  The fields of a multipart body in order, each with its name and its bytes (\<open>None\<close> when they could
  not be read), and whether reading the next field failed at the end.
\<close>

type_synonym multipart = "(string \<times> string option) list \<times> bool"

definition form_field :: "string \<Rightarrow> multipart \<Rightarrow> string option" where
  "form_field name form =
     (case rev (filter (\<lambda>f. fst f = name) (fst form)) of [] \<Rightarrow> None | f # _ \<Rightarrow> snd f)"

text \<open>The checked and re-encoded picture of the field \<open>image\<close>.\<close>

definition form_image :: "image_codec \<Rightarrow> string \<Rightarrow> multipart \<Rightarrow> response + string" where
  "form_image C rid form =
     (case form_field ''image'' form of
        None \<Rightarrow> Inl (invalid rid)
      | Some bytes \<Rightarrow>
          if bytes = [] then Inl (invalid rid)
          else (case validate_and_sanitize_probe_image C bytes of
              Inl c \<Rightarrow> Inl (api_err c (code_message_key c) rid)
            | Inr sanitized \<Rightarrow> Inr sanitized))"

section \<open>Frames\<close>

lemma scoped_frames [frame_intros]:
  "blind_base f \<Longrightarrow> preserves f (display_name E c)"
  "blind_base f \<Longrightarrow> preserves f (organization_ids_or_none E c)"
  "blind_base f \<Longrightarrow> preserves f (authorize_candidate_scope E c d)"
  unfolding display_name_def organization_ids_or_none_def authorize_candidate_scope_def
  by (intro frame_intros; simp)+

lemma as_role_frame [frame_intros]:
  "blind_base f \<Longrightarrow> (\<And>rid c. preserves f (b rid c)) \<Longrightarrow> preserves f (as_role E h p b)"
  unfolding as_role_def by (intro frame_intros; assumption?)

lemma on_candidate_frame [frame_intros]:
  "blind_base f \<Longrightarrow> (\<And>c. preserves f (b c)) \<Longrightarrow> preserves f (on_candidate E x rid cl i b)"
  unfolding on_candidate_def by (intro frame_intros; assumption?)

lemma audited_frame [frame_intros]:
  "blind_audit f \<Longrightarrow> preserves f m \<Longrightarrow> preserves f (audited E rid e m)"
  unfolding audited_def by (intro frame_intros; assumption?)

end
