(* ===== verification/Candidates.thy ===== *)
theory Candidates
  imports Scoped
begin

text \<open>
  \<open>server/src/candidates.rs\<close> and \<open>server/src/entity_resolution.rs\<close>: creating candidates, enrolling and
  revoking their reference templates, and looking for other records of the same person. The
  biometric provider and the picture codec are arguments.
\<close>

section \<open>Possible duplicates\<close>

definition DEFAULT_NAME_SIMILARITY_THRESHOLD :: rat where "DEFAULT_NAME_SIMILARITY_THRESHOLD = 90 / 100"

text \<open>\<open>split_whitespace\<close> and \<open>join(" ")\<close>.\<close>

fun words_of :: "string \<Rightarrow> string \<Rightarrow> string list" where
  "words_of acc [] = (if acc = [] then [] else [rev acc])"
| "words_of acc (c # s) =
     (if is_whitespace c then (if acc = [] then words_of [] s else rev acc # words_of [] s)
      else words_of (c # acc) s)"

fun join_words :: "string list \<Rightarrow> string" where
  "join_words [] = []"
| "join_words [x] = x"
| "join_words (x # y # r) = x @ '' '' @ join_words (y # r)"

definition normalize_name :: "string \<Rightarrow> string" where
  "normalize_name v = to_lowercase (join_words (words_of [] v))"

record possible_duplicate =
  pd_candidate :: candidate_row
  pd_name_similarity :: rat
  pd_shared_evidence_urls :: "string list"
  pd_matched_signals :: "string list"

text \<open>\<open>?\<close> on a database result.\<close>

definition try_db :: "(db_error + 'a) handler \<Rightarrow> ('a \<Rightarrow> (db_error + 'b) handler) \<Rightarrow> (db_error + 'b) handler" where
  "try_db m f = do { r \<leftarrow> m; case r of Inl e \<Rightarrow> return (Inl e) | Inr a \<Rightarrow> f a }"

definition relation_values :: "app \<Rightarrow> string \<Rightarrow> string \<Rightarrow> (db_error + string set) handler" where
  "relation_values E candidate_id relation_type =
     try_db (list_relations_for_candidate E candidate_id) (\<lambda>rs. return (Inr
       (set (map (\<lambda>r. normalize_name (g_value r)) (filter (\<lambda>r. g_relation_type r = relation_type) rs)))))"

definition evidence_urls :: "evidence_row list \<Rightarrow> string list" where
  "evidence_urls rows = List.map_filter e_url rows"

definition compare_candidate ::
  "app \<Rightarrow> rat \<Rightarrow> string \<Rightarrow> string set \<Rightarrow> string set \<Rightarrow> string set \<Rightarrow> string set \<Rightarrow> candidate_row \<Rightarrow>
     (db_error + possible_duplicate option) handler" where
  "compare_candidate E threshold target_name urls aliases usernames organizations candidate =
     try_db (list_evidence_for_candidate E (cd_id candidate)) (\<lambda>other_evidence.
     try_db (relation_values E (cd_id candidate) ALIAS) (\<lambda>other_aliases.
     try_db (relation_values E (cd_id candidate) USERNAME) (\<lambda>other_usernames.
     try_db (relation_values E (cd_id candidate) ORGANIZATION) (\<lambda>other_organizations.
       let similarity = x_jaro_winkler E target_name (normalize_name (cd_full_name candidate));
           shared_urls = filter (\<lambda>u. u \<in> urls) (evidence_urls other_evidence);
           signals = (if threshold \<le> similarity then [''name_similarity''] else [])
             @ (if shared_urls \<noteq> [] then [''shared_evidence_url''] else [])
             @ (if aliases \<inter> other_aliases \<noteq> {} then [''shared_alias''] else [])
             @ (if usernames \<inter> other_usernames \<noteq> {} then [''shared_username''] else [])
             @ (if organizations \<inter> other_organizations \<noteq> {} then [''shared_organization''] else [])
       in return (Inr (if signals = [] then None else Some
            \<lparr>pd_candidate = candidate, pd_name_similarity = similarity,
             pd_shared_evidence_urls = shared_urls, pd_matched_signals = signals\<rparr>))))))"

fun compare_all ::
  "(candidate_row \<Rightarrow> (db_error + possible_duplicate option) handler) \<Rightarrow> string \<Rightarrow> candidate_row list \<Rightarrow>
     (db_error + possible_duplicate list) handler" where
  "compare_all compare target_id [] = return (Inr [])"
| "compare_all compare target_id (c # rest) =
     (if cd_id c = target_id then compare_all compare target_id rest
      else try_db (compare c) (\<lambda>m. try_db (compare_all compare target_id rest) (\<lambda>found.
             return (Inr (case m of None \<Rightarrow> found | Some d \<Rightarrow> d # found)))))"

definition find_possible_duplicates :: "app \<Rightarrow> string \<Rightarrow> rat \<Rightarrow> (db_error + possible_duplicate list) handler" where
  "find_possible_duplicates E candidate_id threshold =
     try_db (load_candidate_by_id E candidate_id) (\<lambda>t. case t of
       None \<Rightarrow> return (Inr [])
     | Some target \<Rightarrow>
         try_db list_candidates (\<lambda>all.
         try_db (list_evidence_for_candidate E candidate_id) (\<lambda>target_evidence.
         try_db (relation_values E candidate_id ALIAS) (\<lambda>aliases.
         try_db (relation_values E candidate_id USERNAME) (\<lambda>usernames.
         try_db (relation_values E candidate_id ORGANIZATION) (\<lambda>organizations.
         try_db (compare_all (compare_candidate E threshold (normalize_name (cd_full_name target))
                    (set (evidence_urls target_evidence)) aliases usernames organizations) (cd_id target) all)
           (\<lambda>found. return (Inr (sort_key (\<lambda>m. - pd_name_similarity m) found)))))))))"

section \<open>Routes\<close>

definition DUPLICATE_TEMPLATE_SIMILARITY_THRESHOLD :: rat where
  "DUPLICATE_TEMPLATE_SIMILARITY_THRESHOLD = 90 / 100"

definition template_fields :: "app \<Rightarrow> template_row \<Rightarrow> (string \<times> json) list" where
  "template_fields E t =
     [(''id'', JStr (p_id t)), (''candidateId'', JStr (p_candidate_id t)),
      (''modelName'', JStr (p_model_name t)), (''modelVersion'', JStr (p_model_version t)),
      (''embeddingDimension'', JInt (p_embedding_dimension t)), (''qualityScore'', JNum (p_quality_score t)),
      (''sourceReference'', json_opt (p_source_reference t)),
      (''createdAt'', JStr (x_format_micros E (p_created_at t))),
      (''revokedAt'', json_opt (map_option (x_format_micros E) (p_revoked_at t)))]"

record create_candidate_payload =
  cp_reference_code :: string
  cp_full_name :: string
  cp_notes :: "string option"

definition create_candidate_route :: "app \<Rightarrow> header_map \<Rightarrow> create_candidate_payload \<Rightarrow> response handler" where
  "create_candidate_route E headers payload = as_role E headers can_manage_candidates (\<lambda>rid claims.
     let reference_code = trim (cp_reference_code payload);
         full_name = trim (cp_full_name payload)
     in if reference_code = [] \<or> full_name = [] then return (invalid rid)
        else do {
          org \<leftarrow> primary_organization_id E (cl_id claims);
          r \<leftarrow> create_candidate E reference_code full_name (cp_notes payload)
                 (case org of Inl _ \<Rightarrow> None | Inr v \<Rightarrow> v);
          case r of
            Inr candidate \<Rightarrow> audited E rid
              (with_metadata (JObj [(''referenceCode'', JStr (cd_reference_code candidate))])
                (on_resource ''candidate'' (cd_id candidate)
                  (actor_event E headers claims ''CANDIDATE_CREATED'' ''success'' rid)))
              (return (ok_json (JObj
                [(''id'', JStr (cd_id candidate)), (''referenceCode'', JStr (cd_reference_code candidate)),
                 (''fullName'', JStr (cd_full_name candidate)), (''notes'', json_opt (cd_notes candidate))])))
          | Inl _ \<Rightarrow> return (api_err ''CONFLICT'' ''errors.candidateReferenceCodeTaken'' rid)
        })"

definition duplicate_warnings :: "app \<Rightarrow> string \<Rightarrow> template_row \<Rightarrow> json list handler" where
  "duplicate_warnings E candidate_id t = do {
     r \<leftarrow> list_active_templates (p_model_name t) (p_model_version t);
     return (case r of
       Inl _ \<Rightarrow> []
     | Inr rows \<Rightarrow>
         map (\<lambda>(c, score). JObj [(''candidateId'', JStr c), (''similarity'', JNum score)])
           (filter (\<lambda>m. DUPLICATE_TEMPLATE_SIMILARITY_THRESHOLD \<le> snd m)
             (top_k_matches E (filter (\<lambda>o'. p_candidate_id o' \<noteq> candidate_id) rows) (embedding_vec E t) 5)))
   }"

definition store_template ::
  "app \<Rightarrow> header_map \<Rightarrow> string \<Rightarrow> claims \<Rightarrow> string \<Rightarrow> enrollment_result \<Rightarrow> response handler" where
  "store_template E headers rid claims candidate_id en = do {
     r \<leftarrow> insert_template E candidate_id (en_model_name en) (en_model_version en) (en_embedding en)
            (en_quality_score en) None (x_pgvector_ready E);
     case r of
       Inr (Some t) \<Rightarrow> audited E rid
         (with_metadata (JObj
            [(''templateId'', JStr (p_id t)), (''modelName'', JStr (p_model_name t)),
             (''modelVersion'', JStr (p_model_version t)), (''qualityScore'', JNum (p_quality_score t))])
           (on_resource ''candidate'' candidate_id
             (actor_event E headers claims ''CANDIDATE_REFERENCE_PHOTO_ENROLLED'' ''success'' rid)))
         (do {
            dups \<leftarrow> duplicate_warnings E candidate_id t;
            return (ok_json (JObj (template_fields E t @ [(''possibleDuplicates'', JArr dups)])))
          })
     | _ \<Rightarrow> return (internal_error rid)
   }"

definition upload_reference_photo_route ::
  "app \<Rightarrow> image_codec \<Rightarrow> biometric_provider \<Rightarrow> string \<Rightarrow> header_map \<Rightarrow> multipart \<Rightarrow> response handler" where
  "upload_reference_photo_route E C P candidate_id headers form =
     as_role E headers can_manage_candidates (\<lambda>rid claims.
     on_candidate E True rid claims candidate_id (\<lambda>candidate.
       if snd form then return (invalid rid)
       else (case form_image C rid form of
           Inl resp \<Rightarrow> return resp
         | Inr image_bytes \<Rightarrow> do {
             en \<leftarrow> bp_enroll P image_bytes;
             case en of
               Inl err \<Rightarrow> return (api_err (biometric_code err) (biometric_message_key err) rid)
             | Inr enrollment \<Rightarrow> store_template E headers rid claims candidate_id enrollment
           })))"

definition list_templates_route :: "app \<Rightarrow> string \<Rightarrow> header_map \<Rightarrow> response handler" where
  "list_templates_route E candidate_id headers = as_role E headers can_view_search (\<lambda>rid claims.
     on_candidate E False rid claims candidate_id (\<lambda>candidate. do {
       r \<leftarrow> list_templates_for_candidate E candidate_id;
       return (case r of
         Inr rows \<Rightarrow> ok_json (JObj [(''items'', JArr (map (\<lambda>t. JObj (template_fields E t)) rows))])
       | Inl _ \<Rightarrow> internal_error rid)
     }))"

definition revoke_template_route :: "app \<Rightarrow> string \<Rightarrow> string \<Rightarrow> header_map \<Rightarrow> response handler" where
  "revoke_template_route E candidate_id template_id headers =
     as_role E headers can_manage_candidates (\<lambda>rid claims.
     on_candidate E False rid claims candidate_id (\<lambda>candidate. do {
       r \<leftarrow> revoke_template E template_id;
       case r of
         Inl _ \<Rightarrow> return (internal_error rid)
       | Inr revoked \<Rightarrow>
           if \<not> revoked then return (not_found rid)
           else audited E rid
             (with_metadata (JObj [(''templateId'', JStr template_id)])
               (on_resource ''candidate'' candidate_id
                 (actor_event E headers claims ''CANDIDATE_TEMPLATE_REVOKED'' ''success'' rid)))
             (return (ok_json (JObj [(''revoked'', JBool True)])))
     }))"

definition duplicate_json :: "possible_duplicate \<Rightarrow> json" where
  "duplicate_json m = JObj
     [(''candidateId'', JStr (cd_id (pd_candidate m))),
      (''referenceCode'', JStr (cd_reference_code (pd_candidate m))),
      (''fullName'', JStr (cd_full_name (pd_candidate m))),
      (''nameSimilarity'', JNum (pd_name_similarity m)),
      (''sharedEvidenceUrls'', JArr (map JStr (pd_shared_evidence_urls m))),
      (''matchedSignals'', JArr (map JStr (pd_matched_signals m)))]"

definition possible_duplicates_route :: "app \<Rightarrow> string \<Rightarrow> header_map \<Rightarrow> response handler" where
  "possible_duplicates_route E candidate_id headers = as_role E headers can_view_search (\<lambda>rid claims.
     on_candidate E False rid claims candidate_id (\<lambda>candidate. do {
       r \<leftarrow> find_possible_duplicates E candidate_id DEFAULT_NAME_SIMILARITY_THRESHOLD;
       return (case r of
         Inr found \<Rightarrow> ok_json (JObj [(''items'', JArr (map duplicate_json found))])
       | Inl _ \<Rightarrow> internal_error rid)
     }))"

section \<open>Frames\<close>

lemma try_db_frame [frame_intros]:
  "preserves f m \<Longrightarrow> (\<And>a. preserves f (g a)) \<Longrightarrow> preserves f (try_db m g)"
  unfolding try_db_def by (intro frame_intros; assumption?)

lemma compare_all_frame:
  "(\<And>c. preserves f (g c)) \<Longrightarrow> preserves f (compare_all g t cs)"
  by (induction cs) (auto intro!: frame_intros)

lemma duplicate_frames [frame_intros]:
  "blind_base f \<Longrightarrow> preserves f (relation_values E c t)"
  "blind_base f \<Longrightarrow> preserves f (find_possible_duplicates E c x)"
  "blind_base f \<Longrightarrow> preserves f (duplicate_warnings E c tr)"
  unfolding relation_values_def find_possible_duplicates_def duplicate_warnings_def compare_candidate_def Let_def
  by (intro frame_intros compare_all_frame; simp)+

lemma candidate_route_frames [frame_intros]:
  "blind_audit f \<Longrightarrow> blind w_candidates_update f \<Longrightarrow> preserves f (create_candidate_route E h cp)"
  "blind_base f \<Longrightarrow> preserves f (list_templates_route E i h)"
  "blind_audit f \<Longrightarrow> blind w_templates_update f \<Longrightarrow> preserves f (revoke_template_route E i j h)"
  "blind_base f \<Longrightarrow> preserves f (possible_duplicates_route E i h)"
  "blind_audit f \<Longrightarrow> blind w_templates_update f \<Longrightarrow> preserves f (store_template E h rid cl i en)"
  unfolding create_candidate_route_def list_templates_route_def revoke_template_route_def
    possible_duplicates_route_def store_template_def Let_def
  by (intro frame_intros; simp)+

context biometric_source
begin

lemma upload_frame:
  assumes "blind_audit f" "blind w_templates_update f"
  shows "preserves f (upload_reference_photo_route E C P i h form)"
proof -
  have "blind_base f" using assms(1) by simp
  then show ?thesis unfolding upload_reference_photo_route_def
    by (intro frame_intros provider_frames assms)
qed

end

end
