(* ===== verification/Evidence.thy ===== *)
theory Evidence
  imports Candidates
begin

text \<open>
  \<open>server/src/evidence.rs\<close> and \<open>server/src/entity_graph.rs\<close>: storing what the OSINT providers report
  about a candidate without storing the same item twice, and the routes over evidence and relations.
\<close>

section \<open>Storing evidence once\<close>

definition trim_end_slashes :: "string \<Rightarrow> string" where
  "trim_end_slashes s = rev (dropWhile (\<lambda>c. c = CHR ''/'') (rev s))"

definition dedupe_key :: "string option \<Rightarrow> string \<Rightarrow> string" where
  "dedupe_key url title =
     (case url of
        Some u \<Rightarrow> if trim u \<noteq> [] then ''url:'' @ trim_end_slashes (to_lowercase (trim u))
                  else ''title:'' @ to_lowercase (trim title)
      | None \<Rightarrow> ''title:'' @ to_lowercase (trim title))"

definition item_key :: "evidence_item \<Rightarrow> string \<times> string" where
  "item_key i = (ei_provider_name i, dedupe_key (ei_url i) (ei_title i))"

definition row_key :: "evidence_row \<Rightarrow> string \<times> string" where
  "row_key r = (e_provider_name r, dedupe_key (e_url r) (e_title r))"

text \<open>The loops over outcomes and items; a provider that failed only contributes its error.\<close>

fun store_items ::
  "app \<Rightarrow> string \<Rightarrow> string option \<Rightarrow> evidence_item list \<Rightarrow> (string \<times> string) set \<Rightarrow> evidence_row list \<Rightarrow>
     ((string \<times> string) set \<times> evidence_row list) handler" where
  "store_items E candidate_id collected_by [] seen stored = return (seen, stored)"
| "store_items E candidate_id collected_by (item # rest) seen stored =
     (if item_key item \<in> seen then store_items E candidate_id collected_by rest seen stored
      else do {
        r \<leftarrow> insert_evidence E candidate_id item collected_by;
        store_items E candidate_id collected_by rest (insert (item_key item) seen)
          (case r of Inr (Some row) \<Rightarrow> stored @ [row] | _ \<Rightarrow> stored)
      })"

definition provider_error_json :: "provider_outcome \<Rightarrow> string \<Rightarrow> json" where
  "provider_error_json out error =
     JObj [(''provider'', JStr (po_provider_name out)), (''error'', JStr error)]"

fun store_outcomes ::
  "app \<Rightarrow> string \<Rightarrow> string option \<Rightarrow> provider_outcome list \<Rightarrow> (string \<times> string) set \<Rightarrow>
     evidence_row list \<times> json list \<Rightarrow> (evidence_row list \<times> json list) handler" where
  "store_outcomes E candidate_id collected_by [] seen (stored, errors) = return (stored, errors)"
| "store_outcomes E candidate_id collected_by (out # rest) seen (stored, errors) =
     (case po_error out of
        Some error \<Rightarrow> store_outcomes E candidate_id collected_by rest seen
                        (stored, errors @ [provider_error_json out error])
      | None \<Rightarrow> do {
          acc \<leftarrow> store_items E candidate_id collected_by (po_items out) seen stored;
          store_outcomes E candidate_id collected_by rest (fst acc) (snd acc, errors)
        })"

definition collect_and_store_candidate_evidence ::
  "app \<Rightarrow> string \<Rightarrow> string option \<Rightarrow> provider_outcome list \<Rightarrow> (evidence_row list \<times> json list) handler" where
  "collect_and_store_candidate_evidence E candidate_id collected_by outcomes = do {
     existing \<leftarrow> list_evidence_for_candidate E candidate_id;
     store_outcomes E candidate_id collected_by outcomes
       (set (map row_key (case existing of Inl _ \<Rightarrow> [] | Inr rows \<Rightarrow> rows))) ([], [])
   }"

section \<open>Evidence routes\<close>

definition parsed_or :: "json \<Rightarrow> app \<Rightarrow> string option \<Rightarrow> json" where
  "parsed_or dflt E raw = (case Option.bind raw (x_json_parse E) of None \<Rightarrow> dflt | Some j \<Rightarrow> j)"

text \<open>The details parse as an array or count as none.\<close>

definition details_of :: "app \<Rightarrow> string option \<Rightarrow> json" where
  "details_of E raw = (case Option.bind raw (x_json_parse E) of Some (JArr js) \<Rightarrow> JArr js | _ \<Rightarrow> JArr [])"

definition evidence_json :: "app \<Rightarrow> evidence_row \<Rightarrow> json" where
  "evidence_json E r = JObj
     [(''id'', JStr (e_id r)), (''candidateId'', JStr (e_candidate_id r)),
      (''sourceType'', JStr (e_source_type r)), (''providerName'', JStr (e_provider_name r)),
      (''title'', JStr (e_title r)), (''titleKey'', json_opt (e_title_key r)),
      (''titleParams'', parsed_or JNull E (e_title_params r)), (''url'', json_opt (e_url r)),
      (''snippet'', json_opt (e_snippet r)), (''details'', details_of E (e_details r)),
      (''confidenceScore'', JNum (e_confidence_score r)), (''collectedBy'', json_opt (e_collected_by r)),
      (''createdAt'', JStr (x_format_micros E (e_created_at r)))]"

definition collect_evidence_route ::
  "app \<Rightarrow> orchestrator \<Rightarrow> string \<Rightarrow> header_map \<Rightarrow> string \<Rightarrow> response handler" where
  "collect_evidence_route E orch candidate_id headers payload_query =
     as_role E headers can_manage_candidates (\<lambda>rid claims.
     on_candidate E True rid claims candidate_id (\<lambda>candidate.
       let phrase = trim payload_query
       in if phrase = [] then return (invalid rid)
          else do {
            outcomes \<leftarrow> collect_all orch phrase;
            collected \<leftarrow> collect_and_store_candidate_evidence E candidate_id (Some (cl_id claims)) outcomes;
            _ \<leftarrow> save E (with_metadata (JObj
                  [(''query'', JStr phrase), (''itemsStored'', JInt (int (length (fst collected)))),
                   (''providerErrors'', JArr (snd collected))])
                (on_resource ''candidate'' candidate_id
                  (actor_event E headers claims ''CANDIDATE_EVIDENCE_COLLECTED'' ''success'' rid)));
            return (ok_json (JObj
              [(''items'', JArr (map (evidence_json E) (fst collected))),
               (''providerErrors'', JArr (snd collected))]))
          }))"

definition list_evidence_route :: "app \<Rightarrow> string \<Rightarrow> header_map \<Rightarrow> response handler" where
  "list_evidence_route E candidate_id headers = as_role E headers can_view_search (\<lambda>rid claims.
     on_candidate E False rid claims candidate_id (\<lambda>candidate. do {
       r \<leftarrow> list_evidence_for_candidate E candidate_id;
       return (case r of
         Inr rows \<Rightarrow> ok_json (JObj [(''items'', JArr (map (evidence_json E) rows))])
       | Inl _ \<Rightarrow> internal_error rid)
     }))"

section \<open>Entity graph routes\<close>

definition relation_json :: "app \<Rightarrow> entity_relation_row \<Rightarrow> json" where
  "relation_json E r = JObj
     [(''id'', JStr (g_id r)), (''candidateId'', JStr (g_candidate_id r)),
      (''relationType'', JStr (g_relation_type r)), (''value'', JStr (g_value r)),
      (''evidenceId'', json_opt (g_evidence_id r)), (''addedBy'', json_opt (g_added_by r)),
      (''createdAt'', JStr (x_format_micros E (g_created_at r)))]"

definition entity_graph_route :: "app \<Rightarrow> string \<Rightarrow> header_map \<Rightarrow> response handler" where
  "entity_graph_route E candidate_id headers = as_role E headers can_view_search (\<lambda>rid claims.
     on_candidate E False rid claims candidate_id (\<lambda>candidate. do {
       r \<leftarrow> list_relations_for_candidate E candidate_id;
       return (case r of
         Inr rows \<Rightarrow> ok_json (JObj
           [(''candidateId'', JStr (cd_id candidate)), (''items'', JArr (map (relation_json E) rows))])
       | Inl _ \<Rightarrow> internal_error rid)
     }))"

definition add_entity_relation_route ::
  "app \<Rightarrow> string \<Rightarrow> header_map \<Rightarrow> string \<Rightarrow> string \<Rightarrow> response handler" where
  "add_entity_relation_route E candidate_id headers payload_relation_type payload_value =
     as_role E headers can_manage_candidates (\<lambda>rid claims.
     on_candidate E False rid claims candidate_id (\<lambda>candidate.
       let relation_type = to_lowercase (trim payload_relation_type);
           value = trim payload_value
       in if \<not> is_valid_relation_type relation_type \<or> value = [] then return (invalid rid)
          else do {
            r \<leftarrow> insert_relation E candidate_id relation_type value None (Some (cl_id claims));
            case r of
              Inr (Some row) \<Rightarrow> do {
                save E (with_metadata (JObj [(''relationType'', JStr relation_type), (''value'', JStr value)])
                  (on_resource ''candidate'' candidate_id
                    (actor_event E headers claims ''CANDIDATE_ENTITY_RELATION_ADDED'' ''success'' rid)));
                return (ok_json (relation_json E row))
              }
            | Inr None \<Rightarrow> return (not_found rid)
            | Inl _ \<Rightarrow> return (internal_error rid)
          }))"

section \<open>Frames\<close>

lemma store_items_frame:
  "blind_base f \<Longrightarrow> blind w_relations_update f \<Longrightarrow> blind w_evidence_update f \<Longrightarrow>
     preserves f (store_items E c a xs seen stored)"
  by (induction xs arbitrary: seen stored) (auto intro!: frame_intros)

lemma store_outcomes_frame:
  "blind_base f \<Longrightarrow> blind w_relations_update f \<Longrightarrow> blind w_evidence_update f \<Longrightarrow>
     preserves f (store_outcomes E c a xs seen acc)"
proof (induction xs arbitrary: seen acc)
  case Nil
  then show ?case by (cases acc) (simp add: frame_intros)
next
  case (Cons x xs)
  then show ?case
    by (cases acc; cases "po_error x") (auto intro!: frame_intros store_items_frame)
qed

lemma evidence_route_frames [frame_intros]:
  "blind_base f \<Longrightarrow> blind w_relations_update f \<Longrightarrow> blind w_evidence_update f \<Longrightarrow>
     preserves f (collect_and_store_candidate_evidence E c a outs)"
  "blind_base f \<Longrightarrow> preserves f (list_evidence_route E c h)"
  "blind_base f \<Longrightarrow> preserves f (entity_graph_route E c h)"
  "blind_audit f \<Longrightarrow> blind w_relations_update f \<Longrightarrow> preserves f (add_entity_relation_route E c h t v)"
  unfolding collect_and_store_candidate_evidence_def list_evidence_route_def entity_graph_route_def
    add_entity_relation_route_def Let_def
  by (intro frame_intros store_outcomes_frame; simp)+

context osint_sources
begin

lemma collect_route_frame:
  assumes "blind_audit f" "blind w_relations_update f" "blind w_evidence_update f"
    "blind w_breakers_update f" "blind w_counters_update f"
  shows "preserves f (collect_evidence_route E orch c h q)"
proof -
  have "blind_base f" "blind w_draws_update f" using assms(1) by simp_all
  then show ?thesis unfolding collect_evidence_route_def Let_def
    by (intro frame_intros collect_frames assms)
qed

end

end
