(* ===== verification/Review_Rules.thy ===== *)
theory Review_Rules
  imports Db_Search
begin

text \<open>
  What the decisions in the search tables of \<open>server/src/db/mod.rs\<close> promise: the status columns
  are the verdict of the logged decisions, the two-reviewer rule is an invariant, and a
  search is finalized completely or not at all.
\<close>

section \<open>The history decides the status\<close>

definition finalizing :: "string \<Rightarrow> bool" where
  "finalizing d \<longleftrightarrow> d = ''confirmed'' \<or> d = ''rejected''"

lemma finalizing_simps [simp]: "finalizing ''confirmed''" "finalizing ''rejected''"
  "\<not> finalizing ''pending''" "\<not> finalizing ''needs_second_review''" "\<not> finalizing ''inconclusive''"
  by (simp_all add: finalizing_def)

text \<open>
  The specification reads the log of decisions, the newest first, and nothing else. With the
  two-reviewer rule, confirmations and rejections come in pairs: a candidate waits for a second
  review when the decisions since the last inconclusive one are odd in number, and the second
  decision of every pair is by somebody else than the first. Otherwise the newest decision is the
  status. The tables keep a status and a reviewer per row, and the code only ever looks at these; it
  implements the specification when the columns and the log agree.
\<close>

definition waits :: "verification_event_row list \<Rightarrow> bool" where
  "waits vs \<longleftrightarrow> odd (length (takeWhile (\<lambda>v. finalizing (v_decision v)) vs))"

fun verdict :: "bool \<Rightarrow> verification_event_row list \<Rightarrow> string" where
  "verdict second [] = ''pending''"
| "verdict second (v # vs) = (if second \<and> waits (v # vs) then ''needs_second_review'' else v_decision v)"

fun decided_last :: "verification_event_row list \<Rightarrow> string option" where
  "decided_last [] = None"
| "decided_last (v # vs) = Some (v_reviewer_user_id v)"

fun seconded :: "verification_event_row list \<Rightarrow> bool" where
  "seconded [] = True"
| "seconded (v # vs) =
     ((finalizing (v_decision v) \<and> waits vs \<longrightarrow> decided_last vs \<noteq> Some (v_reviewer_user_id v)) \<and> seconded vs)"

definition log_of :: "world \<Rightarrow> string \<Rightarrow> verification_event_row list" where
  "log_of w i = rev (filter (\<lambda>v. v_search_candidate_id v = i) (w_verification_events w))"

definition tables_agree :: "bool \<Rightarrow> world \<Rightarrow> bool" where
  "tables_agree second w \<longleftrightarrow>
     v_search_candidate_id ` set (w_verification_events w) \<subseteq> sc_id ` set (w_search_candidates w)
   \<and> (\<forall>v\<in>set (w_verification_events w). v_decision v \<noteq> ''needs_second_review'')
   \<and> (\<forall>r\<in>set (w_search_candidates w). sc_status r = verdict second (log_of w (sc_id r))
        \<and> sc_reviewed_by r = decided_last (log_of w (sc_id r))
        \<and> (second \<longrightarrow> seconded (log_of w (sc_id r))))"

lemma waits_Cons: "waits (v # vs) \<longleftrightarrow> finalizing (v_decision v) \<and> \<not> waits vs"
  by (simp add: waits_def)

lemma verdict_waits:
  "(\<forall>v\<in>set vs. v_decision v \<noteq> ''needs_second_review'') \<Longrightarrow> verdict True vs = ''needs_second_review'' \<longleftrightarrow> waits vs"
  by (cases vs) (auto simp: waits_def)

text \<open>The two-person rule of the code keeps the columns at the verdict of the log.\<close>

lemma target_status_verdict:
  assumes "target_status b (v_decision v) (verdict b vs) (decided_last vs) (v_reviewer_user_id v) = Some target"
    and "\<forall>v\<in>set vs. v_decision v \<noteq> ''needs_second_review''" and "b \<longrightarrow> seconded vs"
  shows "verdict b (v # vs) = target" "b \<longrightarrow> seconded (v # vs)"
  using assms verdict_waits [OF assms(2)]
  by (cases b; auto simp: target_status_def waits_Cons finalizing_def [symmetric] split: if_splits)+

lemma tables_agree_counters [simp]:
  "tables_agree b (w\<lparr>w_stmts := n\<rparr>) = tables_agree b w" "tables_agree b (w\<lparr>w_draws := n\<rparr>) = tables_agree b w"
  "tables_agree b (w\<lparr>w_searches := qs\<rparr>) = tables_agree b w"
  by (simp_all add: tables_agree_def log_of_def)

lemma apply_decision_agrees:
  assumes agree: "tables_agree b w" and d: "d \<noteq> ''needs_second_review''"
  shows "tables_agree b (snd (apply_decision E s c d rv n rs nt rid b w))"
proof (cases "find (\<lambda>r. sc_search_id r = s \<and> sc_candidate_id r = c) (w_search_candidates w)")
  case None
  then show ?thesis using assms by (simp add: apply_decision_def)
next
  case (Some r)
  then have r_in: "r \<in> set (w_search_candidates w)" by (blast dest: find_Some_set)
  then have r: "sc_status r = verdict b (log_of w (sc_id r))" "sc_reviewed_by r = decided_last (log_of w (sc_id r))"
      "b \<longrightarrow> seconded (log_of w (sc_id r))"
    and ds: "\<forall>v\<in>set (log_of w (sc_id r)). v_decision v \<noteq> ''needs_second_review''"
    using agree by (auto simp: tables_agree_def log_of_def)
  show ?thesis
  proof (cases "target_status b d (sc_status r) (sc_reviewed_by r) rv")
    case None
    then show ?thesis using Some assms by (simp add: apply_decision_def)
  next
    case tgt: (Some target)
    let ?w = "snd (apply_decision E s c d rv n rs nt rid b w)"
    let ?set = "reviewed_row target rv n (w_now w)"
    show ?thesis
    proof (cases "list_ex (\<lambda>v. v_id v = x_uuid_v4 E (w_draws w)) (w_verification_events w)")
      case True
      then show ?thesis using Some tgt assms by (simp add: apply_decision_def)
    next
      case False
      define v where "v = decision_event (x_uuid_v4 E (w_draws w)) (sc_id r) rv n d rs nt rid (w_now w)"
      have v: "v_search_candidate_id v = sc_id r" "v_reviewer_user_id v = rv" "v_decision v = d"
        by (simp_all add: v_def)
      have evs: "w_verification_events ?w = w_verification_events w @ [v]"
        and rows: "w_search_candidates ?w = map (\<lambda>p. if sc_id p = sc_id r then ?set p else p) (w_search_candidates w)"
        using Some tgt False by (simp_all add: apply_decision_def Let_def sql_update_def v_def)
      have log: "log_of ?w i = (if i = sc_id r then v # log_of w i else log_of w i)" for i
        using v(1) evs by (auto simp: log_of_def)
      have "target_status b (v_decision v) (verdict b (log_of w (sc_id r))) (decided_last (log_of w (sc_id r)))
          (v_reviewer_user_id v) = Some target"
        using tgt v r(1,2) by simp
      note new = target_status_verdict [OF this ds r(3)]
      let ?row = "\<lambda>p. if sc_id p = sc_id r then ?set p else p"
      have "sc_status (?row p) = verdict b (log_of ?w (sc_id p)) \<and> sc_reviewed_by (?row p) = decided_last (log_of ?w (sc_id p))
          \<and> (b \<longrightarrow> seconded (log_of ?w (sc_id p)))" if "p \<in> set (w_search_candidates w)" for p
        using that agree log [of "sc_id p"] new v(2) by (auto simp: tables_agree_def)
      moreover have "sc_id ` set (w_search_candidates ?w) = sc_id ` set (w_search_candidates w)"
        unfolding rows set_map image_image by (intro image_cong refl) simp
      moreover have "sc_id (?row p) = sc_id p" for p by simp
      ultimately show ?thesis
        using agree evs v(1,3) d r_in unfolding tables_agree_def rows set_map ball_simps by simp
    qed
  qed
qed

lemma insert_row_agrees:
  assumes "tables_agree b w"
  shows "tables_agree b (snd (insert_search_candidate_row E s c x w))"
proof (cases "list_ex (\<lambda>p. sc_id p = x_uuid_v4 E (w_draws w) \<or> sc_search_id p = s \<and> sc_candidate_id p = c) (w_search_candidates w)")
  case True
  then show ?thesis using assms by (simp add: insert_search_candidate_row_def Let_def)
next
  case False
  let ?w = "snd (insert_search_candidate_row E s c x w)" and ?i = "x_uuid_v4 E (w_draws w)"
  have fresh: "?i \<notin> sc_id ` set (w_search_candidates w)" using False by (auto simp: list_ex_iff)
  have rows: "w_search_candidates ?w = w_search_candidates w @ [pending_row ?i s c x (w_now w)]"
    using False by (simp add: insert_search_candidate_row_def Let_def)
  have hist: "log_of ?w = log_of w" and evs: "w_verification_events ?w = w_verification_events w"
    using False by (simp_all add: insert_search_candidate_row_def Let_def log_of_def [abs_def])
  have "?i \<notin> v_search_candidate_id ` set (w_verification_events w)"
    using fresh assms by (auto simp only: tables_agree_def)
  then have "log_of w ?i = []" by (force simp: log_of_def filter_empty_conv)
  then show ?thesis using assms unfolding tables_agree_def rows hist evs
    by auto
qed

section \<open>Two reviewers\<close>

definition decided_by :: "world \<Rightarrow> string \<Rightarrow> string \<Rightarrow> string \<Rightarrow> bool" where
  "decided_by w i reviewer d \<longleftrightarrow> (\<exists>v\<in>set (w_verification_events w).
     v_search_candidate_id v = i \<and> v_reviewer_user_id v = reviewer \<and> v_decision v = d)"
text \<open>
  A row that waits for a second review names the first reviewer, whose decision is on record. A
  confirmed or rejected row carries the decision of its last reviewer, and another reviewer has
  confirmed or rejected it before.
\<close>

definition row_reviewed :: "world \<Rightarrow> search_candidate_row \<Rightarrow> bool" where
  "row_reviewed w r \<longleftrightarrow>
     (sc_status r = ''needs_second_review'' \<longrightarrow>
        (\<exists>a d. sc_reviewed_by r = Some a \<and> finalizing d \<and> decided_by w (sc_id r) a d))
   \<and> (finalizing (sc_status r) \<longrightarrow>
        (\<exists>a b d. sc_reviewed_by r = Some b \<and> a \<noteq> b \<and> finalizing d \<and> decided_by w (sc_id r) a d
           \<and> decided_by w (sc_id r) b (sc_status r)))"

definition four_eyes :: "world \<Rightarrow> bool" where
  "four_eyes w \<longleftrightarrow> (\<forall>r\<in>set (w_search_candidates w). row_reviewed w r)"

lemma decided_by_mono:
  "set (w_verification_events w) \<subseteq> set (w_verification_events w') \<Longrightarrow> decided_by w i a d \<Longrightarrow> decided_by w' i a d"
  by (auto simp: decided_by_def)

lemma row_reviewed_mono:
  "set (w_verification_events w) \<subseteq> set (w_verification_events w') \<Longrightarrow> row_reviewed w r \<Longrightarrow> row_reviewed w' r"
  unfolding row_reviewed_def by (meson decided_by_mono)

lemma row_reviewed_pending: "sc_status r = ''pending'' \<Longrightarrow> row_reviewed w r"
  by (simp add: row_reviewed_def)

lemma target_status_reviewed:
  assumes "row_reviewed w r" and "target_status True d (sc_status r) (sc_reviewed_by r) rv = Some target"
    and "decided_by w (sc_id r) rv d" and "d \<noteq> ''needs_second_review''"
    and "sc_id p = sc_id r" "sc_status p = target" "sc_reviewed_by p = Some rv"
  shows "row_reviewed w p"
proof (cases "finalizing d")
  case False
  then have "target = d" using assms(2) by (simp add: target_status_def finalizing_def)
  then show ?thesis using False assms(4,6) by (simp add: row_reviewed_def)
next
  case fin: True
  show ?thesis
  proof (cases "sc_status r = ''needs_second_review''")
    case False
    then have "target = ''needs_second_review''" using assms(2) fin
      by (auto simp: target_status_def finalizing_def split: if_splits)
    then show ?thesis using fin assms by (auto simp: row_reviewed_def)
  next
    case True
    then have t: "target = d" "sc_reviewed_by r \<noteq> Some rv" using assms(2) fin
      by (auto simp: target_status_def finalizing_def split: if_splits)
    obtain a e where a: "sc_reviewed_by r = Some a" "finalizing e" "decided_by w (sc_id r) a e"
      using assms(1) True by (auto simp: row_reviewed_def)
    then show ?thesis using t fin assms by (auto simp: row_reviewed_def)
  qed
qed

lemma apply_decision_four_eyes:
  assumes "four_eyes w" and d: "d \<noteq> ''needs_second_review''"
  shows "four_eyes (snd (apply_decision E s c d rv n rs nt rid True w))"
proof (cases "find (\<lambda>r. sc_search_id r = s \<and> sc_candidate_id r = c) (w_search_candidates w)")
  case None
  then show ?thesis using assms by (simp add: apply_decision_def)
next
  case (Some r)
  then have "r \<in> set (w_search_candidates w)" by (blast dest: find_Some_set)
  then have r: "row_reviewed w r" using assms(1) by (simp add: four_eyes_def)
  show ?thesis
  proof (cases "target_status True d (sc_status r) (sc_reviewed_by r) rv")
    case None
    then show ?thesis using Some assms by (simp add: apply_decision_def)
  next
    case tgt: (Some target)
    let ?w = "snd (apply_decision E s c d rv n rs nt rid True w)"
    show ?thesis
    proof (cases "list_ex (\<lambda>v. v_id v = x_uuid_v4 E (w_draws w)) (w_verification_events w)")
      case True
      then show ?thesis using Some tgt assms by (simp add: apply_decision_def four_eyes_def row_reviewed_def decided_by_def)
    next
      case False
      have grow: "set (w_verification_events w) \<subseteq> set (w_verification_events ?w)"
        and dec: "decided_by ?w (sc_id r) rv d"
        and rows: "w_search_candidates ?w = sql_update (\<lambda>p. sc_id p = sc_id r)
             (reviewed_row target rv n (w_now w)) (w_search_candidates w)"
        using Some tgt False by (auto simp: apply_decision_def Let_def decided_by_def)
      have "row_reviewed ?w p" if "p \<in> set (w_search_candidates w)" for p
        using that assms(1) row_reviewed_mono [OF grow] by (simp add: four_eyes_def)
      moreover have "row_reviewed ?w (reviewed_row target rv n (w_now w) p)" if "sc_id p = sc_id r" for p
        using target_status_reviewed [OF row_reviewed_mono [OF grow r] tgt dec d] that by simp
      ultimately show ?thesis unfolding four_eyes_def rows sql_update_def by auto
    qed
  qed
qed


section \<open>Every write keeps them\<close>

lemma record_review_keeps:
  assumes "blind_base P"
    and "\<And>s c rv w. P w \<Longrightarrow> P (snd (apply_decision E s c d rv n rs nt rid b w))"
  shows "keeps P (record_review_decision E i j d u n rs nt rid b)"
proof -
  have list: "keeps P (list_search_candidates E i)"
    by (rule keeps_of_preserves) (rule search_query_frames [OF assms(1)])
  show ?thesis unfolding record_review_decision_def
    by (intro keeps_with_key keeps_bind keeps_transaction keeps_sum keeps_option keeps_return assms list)
qed

lemma insert_scored_keeps:
  "(\<And>c x w. P w \<Longrightarrow> P (snd (insert_search_candidate_row E s c x w))) \<Longrightarrow> P w \<Longrightarrow> P (snd (insert_scored E s xs w))"
proof (induction E s xs w rule: insert_scored.induct)
  case (2 E s i x rest w)
  show ?case
  proof (cases "db_key E i")
    case (Some c)
    obtain r w' where ins: "insert_search_candidate_row E s c x w = (r, w')" by fastforce
    moreover have "P w'" using 2(3) [OF 2(4), of c x] ins by simp
    ultimately show ?thesis using 2(2) [OF Some ins [symmetric] _ 2(3)] Some by (cases r) simp_all
  qed (use 2 in simp)
qed simp

lemma finalize_keeps:
  assumes "blind_base P" and "\<And>w f. P (w\<lparr>w_searches := f\<rparr>) = P w"
    and "\<And>s c x w. P w \<Longrightarrow> P (snd (insert_search_candidate_row E s c x w))"
  shows "keeps P (finalize_queued_search E i xs)"
proof -
  have "P (snd (case insert_scored E s xs (set_search s g w) of (Inl e, w') \<Rightarrow> (Inl e, w')
      | (Inr _, w') \<Rightarrow> (let w'' = set_search s h w'
            in case find (\<lambda>q. q_id q = s) (w_searches w'') of
                 Some q \<Rightarrow> (Inr (Some q), w'')
               | None \<Rightarrow> (case x_backend E of Postgres \<Rightarrow> (Inl DbFailure, w'') | Sqlite \<Rightarrow> (Inr None, w'')))))"
    if "P w" for s g h and w :: world
  proof -
    obtain r w' where ins: "insert_scored E s xs (set_search s g w) = (r, w')" by fastforce
    have "P (set_search s g w)" using that assms(2) by (simp add: set_search_def)
    then have "P w'" using insert_scored_keeps [of P E s "set_search s g w" xs] assms(3) ins by simp
    then show ?thesis using ins assms(2)
      by (simp add: set_search_def Let_def split: sum.split option.split db_backend.split)
  qed
  then show ?thesis unfolding finalize_queued_search_def
    by (intro keeps_with_key keeps_transaction assms)
qed

lemma insert_row_four_eyes:
  "four_eyes w \<Longrightarrow> four_eyes (snd (insert_search_candidate_row E s c x w))"
  by (auto simp: insert_search_candidate_row_def Let_def four_eyes_def row_reviewed_def decided_by_def)

lemma four_eyes_blind: "blind_base four_eyes" "four_eyes (w\<lparr>w_searches := q\<rparr>) = four_eyes w"
  by (simp_all add: four_eyes_def row_reviewed_def decided_by_def)

lemma tables_agree_blind: "blind_base (tables_agree b)"
  by (simp add: tables_agree_def log_of_def)

lemmas four_eyes_keeps =
  record_review_keeps [where b = True, OF four_eyes_blind(1) apply_decision_four_eyes]
  finalize_keeps [OF four_eyes_blind insert_row_four_eyes]

lemmas tables_agree_keeps =
  record_review_keeps [OF tables_agree_blind apply_decision_agrees]
  finalize_keeps [OF tables_agree_blind tables_agree_counters(3) insert_row_agrees]

section \<open>The life of a search\<close>

text \<open>
  Readers only ever see a search that waits, that is completed, or that failed: \<open>processing\<close> is
  written and overwritten in one transaction.
\<close>

definition search_ok :: "search_row \<Rightarrow> bool" where
  "search_ok q \<longleftrightarrow>
     (q_status q = ''queued'' \<and> q_started_at q = None \<and> q_completed_at q = None \<and> q_failure_code q = None)
   \<or> (q_status q = ''completed'' \<and> q_started_at q \<noteq> None \<and> q_completed_at q \<noteq> None)
   \<or> (q_status q = ''failed'' \<and> q_completed_at q \<noteq> None \<and> q_failure_code q \<noteq> None)"

definition searches_ok :: "world \<Rightarrow> bool" where
  "searches_ok w \<longleftrightarrow> list_all search_ok (w_searches w)"

lemma searches_ok_blind: "blind_base searches_ok"
  by (simp add: searches_ok_def)

lemma searches_ok_counters [simp]:
  "searches_ok (w\<lparr>w_stmts := n\<rparr>) = searches_ok w" "searches_ok (w\<lparr>w_draws := n\<rparr>) = searches_ok w"
  by (simp_all add: searches_ok_def)

lemma searches_ok_set:
  "searches_ok w \<Longrightarrow> (\<And>q. search_ok q \<Longrightarrow> search_ok (f q)) \<Longrightarrow> searches_ok (set_search s f w)"
  by (auto simp: searches_ok_def set_search_def sql_update_def list_all_iff)

lemma insert_scored_searches: "w_searches (snd (insert_scored E s xs w)) = w_searches w"
  by (rule insert_scored_frame) simp_all

lemma insert_scored_sees: "insert_scored E s xs w = (r, w') \<Longrightarrow> w_searches w' = w_searches w"
  using insert_scored_searches [of E s xs w] by simp

lemma complete_after_begin: "w_searches w' = w_searches (set_search s (begin_processing t) w) \<Longrightarrow>
    w_searches (set_search s (complete_search u) w') =
    w_searches (set_search s (\<lambda>q. complete_search u (begin_processing t q)) w)"
  by (simp add: set_search_def sql_update_def comp_def begin_processing_def complete_search_def)

lemma search_ok_completed: "search_ok (complete_search u (begin_processing t q))"
  by (simp add: search_ok_def complete_search_def begin_processing_def)

lemma finalize_searches_ok: "keeps searches_ok (finalize_queued_search E i xs)"
proof -
  have "searches_ok (exec (transaction (\<lambda>w. case insert_scored E s xs (set_search s (begin_processing (w_now w)) w) of
         (Inl e, w') \<Rightarrow> (Inl e, w')
       | (Inr _, w') \<Rightarrow>
           (let w'' = set_search s (complete_search (w_now w)) w'
            in case find (\<lambda>q. q_id q = s) (w_searches w'') of
                 Some q \<Rightarrow> (Inr (Some q), w'')
               | None \<Rightarrow> (case x_backend E of Postgres \<Rightarrow> (Inl DbFailure, w'') | Sqlite \<Rightarrow> (Inr None, w''))))) v)"
    if ok: "searches_ok v" for s v
  proof -
    let ?v = "v\<lparr>w_stmts := Suc (w_stmts v)\<rparr>"
    obtain r w' where ins: "insert_scored E s xs (set_search s (begin_processing (w_now v)) ?v) = (r, w')" by fastforce
    have "w_searches (set_search s (complete_search (w_now v)) w') =
        w_searches (set_search s (\<lambda>q. complete_search (w_now v) (begin_processing (w_now v) q)) ?v)"
      by (rule complete_after_begin) (rule insert_scored_sees [OF ins])
    moreover have "searches_ok (set_search s (\<lambda>q. complete_search (w_now v) (begin_processing (w_now v) q)) ?v)"
      using ok by (intro searches_ok_set search_ok_completed) (simp add: searches_ok_def)
    ultimately have "searches_ok (set_search s (complete_search (w_now v)) w')" by (simp add: searches_ok_def)
    then show ?thesis using ok ins
      by (simp add: exec_transaction Let_def searches_ok_def split: sum.split option.split db_backend.split)
  qed
  then show ?thesis unfolding finalize_queued_search_def by (intro keeps_with_key) (simp add: keeps_def)
qed

lemma create_queued_search_ok: "keeps searches_ok (create_queued_search E cr pu rq rn la lo k org)"
  unfolding create_queued_search_def Let_def
  by (auto intro!: keeps_intros keeps_try_stmt keeps_of_preserves [OF base_frames(2)] keeps_backend
      simp: searches_ok_def insert_search_def queued_row_def search_ok_def split: option.split)

lemma mark_failed_ok: "keeps searches_ok (mark_queued_search_failed E i c m)"
proof -
  have "search_ok (fail_search c m t q)" for t q by (simp add: search_ok_def fail_search_def)
  then show ?thesis unfolding mark_queued_search_failed_def query_def Let_def
    by (auto intro!: keeps_intros keeps_with_key keeps_stmt keeps_backend searches_ok_set
        simp: blind_def)
qed

lemma external_status_ok: "keeps searches_ok (set_search_external_evidence_status E i j)"
  unfolding set_search_external_evidence_status_def
  by (auto intro!: keeps_with_key keeps_stmt searches_ok_set simp: search_ok_def)

lemmas searches_ok_keeps = finalize_searches_ok create_queued_search_ok mark_failed_ok external_status_ok

section \<open>All or nothing\<close>

text \<open>The rows a ranking stands for: one per candidate id the backend accepts, in order, all pending.\<close>

definition ranked_rows :: "app \<Rightarrow> string \<Rightarrow> (string \<times> rat) list \<Rightarrow> search_candidate_row list \<Rightarrow> bool" where
  "ranked_rows E s scored rows \<longleftrightarrow>
     map (\<lambda>r. (sc_candidate_id r, sc_score r)) rows =
       List.map_filter (\<lambda>(c, x). map_option (\<lambda>k. (k, x)) (db_key E c)) scored
   \<and> list_all (\<lambda>r. sc_search_id r = s \<and> sc_status r = ''pending'') rows"

lemma insert_scored_appends:
  "insert_scored E s xs w = (Inr u, w') \<Longrightarrow>
     \<exists>rows. w_search_candidates w' = w_search_candidates w @ rows \<and> ranked_rows E s xs rows"
proof (induction E s xs w arbitrary: u w' rule: insert_scored.induct)
  case (2 E s i x rest w)
  show ?case
  proof (cases "db_key E i")
    case None
    then show ?thesis using 2(1) [OF None] 2(3) by (simp add: ranked_rows_def)
  next
    case (Some c)
    obtain r v where ins: "insert_search_candidate_row E s c x w = (r, v)" by fastforce
    then obtain y where r: "r = Inr y" using 2(3) Some by (cases r) auto
    then have "insert_scored E s rest v = (Inr u, w')" using 2(3) Some ins by simp
    from 2(2) [OF Some ins [symmetric] r this]
    obtain rows where rows: "w_search_candidates w' = w_search_candidates v @ rows"
      "ranked_rows E s rest rows" by blast
    have "w_search_candidates v = w_search_candidates w @ [pending_row (x_uuid_v4 E (w_draws w)) s c x (w_now w)]"
      using ins r by (auto simp: insert_search_candidate_row_def Let_def split: if_splits)
    then show ?thesis using rows Some
      by (intro exI [of _ "pending_row (x_uuid_v4 E (w_draws w)) s c x (w_now w) # rows"]) (simp add: ranked_rows_def)
  qed
qed (simp add: ranked_rows_def)

text \<open>
  Finalizing a search is all or nothing: either every candidate of the ranking that has a valid
  id is stored, in the order of the ranking and waiting for review, or, on any error (a fault of
  the database, a candidate ranked twice), the search keeps the candidates it had.
\<close>

theorem finalize_all_or_nothing:
  "case (db_key E i, result (finalize_queued_search E i scored) w) of
     (Some s, Inr found) \<Rightarrow>
       (\<exists>rows. w_search_candidates (exec (finalize_queued_search E i scored) w) = w_search_candidates w @ rows
          \<and> ranked_rows E s scored rows)
   | _ \<Rightarrow> w_search_candidates (exec (finalize_queued_search E i scored) w) = w_search_candidates w"
proof (cases "db_key E i")
  case None
  then show ?thesis by (simp add: finalize_queued_search_def with_key_def)
next
  case (Some s)
  let ?w = "w\<lparr>w_stmts := Suc (w_stmts w)\<rparr>"
  obtain r v where ins: "insert_scored E s scored (set_search s (begin_processing (w_now w)) ?w) = (r, v)" by fastforce
  show ?thesis
  proof (cases r)
    case (Inl e)
    then show ?thesis using Some ins
      by (simp add: finalize_queued_search_def with_key_def result_transaction exec_transaction)
  next
    case (Inr u)
    obtain rows where "w_search_candidates v = w_search_candidates w @ rows" "ranked_rows E s scored rows"
      using insert_scored_appends [OF ins [unfolded Inr]] by (auto simp: set_search_def)
    then show ?thesis using Some ins Inr
      by (auto simp: finalize_queued_search_def with_key_def result_transaction exec_transaction Let_def set_search_def
          split: option.split db_backend.split)
  qed
qed

end
