(* ===== verification/Search.thy ===== *)
theory Search
  imports Evidence Review_Rules
begin

text \<open>
  \<open>server/src/search.rs\<close>: creating a search, running it in the background, collecting external
  evidence for it, reading it back, and reviewing its candidates. The background half is a handler of
  its own: the route returns what to run, and it runs at any later moment.
\<close>

section \<open>Responses\<close>

definition json_get :: "string \<Rightarrow> json \<Rightarrow> json option" where
  "json_get key j = (case j of JObj kvs \<Rightarrow> map_of kvs key | _ \<Rightarrow> None)"

definition json_get_or :: "json \<Rightarrow> string \<Rightarrow> json \<Rightarrow> json" where
  "json_get_or dflt key j = (case json_get key j of None \<Rightarrow> dflt | Some v \<Rightarrow> v)"

definition json_num_opt :: "rat option \<Rightarrow> json" where
  "json_num_opt v = (case v of None \<Rightarrow> JNull | Some x \<Rightarrow> JNum x)"

definition time_opt :: "app \<Rightarrow> int option \<Rightarrow> json" where
  "time_opt E t = json_opt (map_option (x_format_micros E) t)"

definition search_json :: "app \<Rightarrow> search_row \<Rightarrow> json" where
  "search_json E q =
     (let external_payload = Option.bind (q_external_evidence_status q) (x_json_parse E)
      in JObj
       [(''id'', JStr (q_id q)), (''caseReference'', JStr (q_case_reference q)),
        (''purpose'', JStr (q_purpose q)), (''requestedByName'', JStr (q_requested_by_name q)),
        (''status'', JStr (q_status q)), (''latitude'', json_num_opt (q_latitude q)),
        (''longitude'', json_num_opt (q_longitude q)), (''topK'', json_int_opt (q_top_k q)),
        (''startedAt'', time_opt E (q_started_at q)), (''completedAt'', time_opt E (q_completed_at q)),
        (''failureCode'', json_opt (q_failure_code q)),
        (''failureMessageKey'', json_opt (q_failure_message_key q)),
        (''createdAt'', JStr (x_format_micros E (q_created_at q))),
        (''organizationId'', json_opt (q_organization_id q)),
        (''externalEvidenceStatus'', (case external_payload of
           None \<Rightarrow> JNull
         | Some p \<Rightarrow> JObj
             [(''web'', json_get_or (JStr ''not_run'') ''web'' p),
              (''news'', json_get_or (JStr ''not_run'') ''news'' p),
              (''social'', json_get_or (JStr ''not_configured'') ''social'' p),
              (''reverseImage'', json_get_or (JStr ''not_configured'') ''reverseImage'' p)])),
        (''externalEvidence'', (case Option.bind external_payload (json_get ''items'') of
           None \<Rightarrow> JArr [] | Some items \<Rightarrow> items))])"

definition search_candidate_json :: "app \<Rightarrow> search_candidate_view \<Rightarrow> json" where
  "search_candidate_json E v = JObj
     [(''id'', JStr (sv_id v)), (''candidateId'', JStr (sv_candidate_id v)),
      (''referenceCode'', JStr (sv_candidate_reference_code v)),
      (''fullName'', JStr (sv_candidate_full_name v)), (''score'', JNum (sv_score v)),
      (''status'', JStr (sv_status v)), (''reviewedByName'', json_opt (sv_reviewed_by_name v)),
      (''reviewedAt'', time_opt E (sv_reviewed_at v))]"

definition candidate_json :: "candidate_row \<Rightarrow> json" where
  "candidate_json c = JObj
     [(''id'', JStr (cd_id c)), (''referenceCode'', JStr (cd_reference_code c)),
      (''fullName'', JStr (cd_full_name c)), (''notes'', json_opt (cd_notes c))]"

definition verification_event_json :: "app \<Rightarrow> verification_event_row \<Rightarrow> json" where
  "verification_event_json E v = JObj
     [(''id'', JStr (v_id v)), (''reviewerName'', JStr (v_reviewer_name v)),
      (''decision'', JStr (v_decision v)), (''reason'', json_opt (v_reason v)),
      (''notes'', json_opt (v_notes v)), (''createdAt'', JStr (x_format_micros E (v_created_at v)))]"

section \<open>Creating a search\<close>

record search_task =
  st_search_id :: string
  st_image_bytes :: string
  st_top_k :: int
  st_claims :: claims
  st_headers :: header_map
  st_case_reference :: string

definition valid_coordinates :: "rat option \<Rightarrow> rat option \<Rightarrow> bool" where
  "valid_coordinates latitude longitude =
     (case (latitude, longitude) of
        (Some lat, Some lon) \<Rightarrow> - 90 \<le> lat \<and> lat \<le> 90 \<and> - 180 \<le> lon \<and> lon \<le> 180
      | (None, None) \<Rightarrow> True
      | _ \<Rightarrow> False)"

definition clamp_top_k :: "app \<Rightarrow> int option \<Rightarrow> int" where
  "clamp_top_k E requested =
     min (case requested of Some k \<Rightarrow> if 0 < k then k else x_default_top_k E | None \<Rightarrow> x_default_top_k E)
       (x_max_top_k E)"

definition form_text :: "string \<Rightarrow> multipart \<Rightarrow> string" where
  "form_text name form = trim (case form_field name form of None \<Rightarrow> [] | Some v \<Rightarrow> v)"

text \<open>The common part of the audit events of a search.\<close>

definition search_event ::
  "app \<Rightarrow> header_map \<Rightarrow> claims \<Rightarrow> string \<Rightarrow> string \<Rightarrow> string \<Rightarrow> string \<Rightarrow> string \<Rightarrow> recorder" where
  "search_event E headers claims action outcome rid case_reference search_id =
     on_resource ''search'' search_id (on_case case_reference (actor_event E headers claims action outcome rid))"

definition queue_search ::
  "app \<Rightarrow> header_map \<Rightarrow> string \<Rightarrow> claims \<Rightarrow> string \<Rightarrow> string \<Rightarrow> string \<Rightarrow> rat option \<Rightarrow> rat option \<Rightarrow> int \<Rightarrow>
     (response \<times> search_task option) handler" where
  "queue_search E headers rid claims case_reference purpose image_bytes latitude longitude top_k = do {
     requester_name \<leftarrow> display_name E claims;
     org \<leftarrow> primary_organization_id E (cl_id claims);
     r \<leftarrow> create_queued_search E case_reference purpose (cl_id claims) requester_name latitude longitude
            top_k (case org of Inl _ \<Rightarrow> None | Inr v \<Rightarrow> v);
     case r of
       Inl _ \<Rightarrow> do {
         save E (search_event E headers claims ''SEARCH_FAILED'' ''failure'' rid case_reference ''unknown'');
         return (internal_error rid, None)
       }
     | Inr queued \<Rightarrow> do {
         save E (with_metadata (JObj [(''topK'', JInt top_k)])
           (search_event E headers claims ''SEARCH_CREATED'' ''success'' rid case_reference (q_id queued)));
         return
           (\<lparr>r_status = 202,
             r_body = JsonBody (JObj [(''search'', search_json E queued), (''autoOsintEnabled'', JBool (x_auto_osint E))]),
             r_set_cookie = None\<rparr>,
            Some \<lparr>st_search_id = q_id queued, st_image_bytes = image_bytes, st_top_k = top_k,
                  st_claims = claims, st_headers = headers, st_case_reference = case_reference\<rparr>)
       }
   }"

definition refuse :: "response \<Rightarrow> (response \<times> search_task option) handler" where
  "refuse resp = return (resp, None)"

definition create_search_route ::
  "app \<Rightarrow> image_codec \<Rightarrow> header_map \<Rightarrow> multipart \<Rightarrow> (response \<times> search_task option) handler" where
  "create_search_route E C headers form = do {
     rid \<leftarrow> request_id E headers;
     c \<leftarrow> auth_user_from_headers E headers;
     case c of
       None \<Rightarrow> refuse (api_err ''UNAUTHORIZED'' ''errors.unauthorized'' rid)
     | Some claims \<Rightarrow>
         if \<not> can_create_search (cl_role claims) then refuse (forbidden rid)
         else if snd form then refuse (invalid rid)
         else (case form_image C rid form of
             Inl resp \<Rightarrow> refuse resp
           | Inr image_bytes \<Rightarrow>
               (let case_reference = form_text ''caseReference'' form;
                    purpose = form_text ''purpose'' form;
                    latitude = Option.bind (form_field ''latitude'' form) (x_parse_f64 E);
                    longitude = Option.bind (form_field ''longitude'' form) (x_parse_f64 E);
                    top_k = clamp_top_k E (Option.bind (form_field ''topK'' form) (x_parse_i64 E))
                in if case_reference = [] \<or> purpose = [] then refuse (invalid rid)
                   else if \<not> valid_coordinates latitude longitude
                        then refuse (api_err ''VALIDATION_ERROR'' ''errors.invalidCoordinates'' rid)
                   else queue_search E headers rid claims case_reference purpose image_bytes latitude
                          longitude top_k))
   }"

section \<open>The automatic external evidence phase\<close>

text \<open>
  The per-candidate tasks the code spawns run one after the other here, in the order of the ranking.
\<close>

record tally =
  ta_web_success :: nat
  ta_web_fail :: nat
  ta_news_success :: nat
  ta_news_fail :: nat
  ta_stored :: bool
  ta_provider_error :: bool

definition succeeded :: "provider_outcome list \<Rightarrow> nat" where
  "succeeded outs = length (filter (\<lambda>r. po_error r = None) outs)"

definition failed :: "provider_outcome list \<Rightarrow> nat" where
  "failed outs = length outs - succeeded outs"

definition add_outcomes :: "provider_outcome list \<Rightarrow> provider_outcome list \<Rightarrow> bool \<Rightarrow> bool \<Rightarrow> tally \<Rightarrow> tally" where
  "add_outcomes web news stored provider_error t =
     t\<lparr>ta_web_success := ta_web_success t + succeeded web, ta_web_fail := ta_web_fail t + failed web,
       ta_news_success := ta_news_success t + succeeded news, ta_news_fail := ta_news_fail t + failed news,
       ta_stored := (ta_stored t \<or> stored), ta_provider_error := (ta_provider_error t \<or> provider_error)\<rparr>"

definition evidence_item_json :: "evidence_item \<Rightarrow> json" where
  "evidence_item_json i = JObj
     [(''sourceType'', JStr (ei_source_type i)), (''providerName'', JStr (ei_provider_name i)),
      (''title'', JStr (ei_title i)), (''titleKey'', json_opt (ei_title_key i)),
      (''titleParams'', (case ei_title_params i of None \<Rightarrow> JNull | Some j \<Rightarrow> j)),
      (''url'', json_opt (ei_url i)), (''snippet'', json_opt (ei_snippet i)),
      (''details'', JArr (map detail_json (ei_details i))), (''confidenceScore'', JNum (ei_confidence i))]"

fun enrich_candidates ::
  "app \<Rightarrow> orchestrator \<Rightarrow> claims \<Rightarrow> search_candidate_view list \<Rightarrow> tally \<Rightarrow> tally handler" where
  "enrich_candidates E orch claims [] t = return t"
| "enrich_candidates E orch claims (v # rest) t =
     (case build_query (sv_candidate_full_name v) of
        None \<Rightarrow> enrich_candidates E orch claims rest t
      | Some phrase \<Rightarrow> do {
          outs \<leftarrow> collect_web_and_news orch phrase;
          r \<leftarrow> collect_and_store_candidate_evidence E (sv_candidate_id v) (Some (cl_id claims))
                 (fst outs @ snd outs);
          enrich_candidates E orch claims rest
            (add_outcomes (fst outs) (snd outs) (fst r \<noteq> []) (snd r \<noteq> []) t)
        })"

definition context_queries :: "provider_outcome list \<Rightarrow> string list" where
  "context_queries outcomes =
     fold (\<lambda>q acc. if q \<in> set acc then acc else acc @ [q])
       (List.map_filter (\<lambda>i. build_reverse_context_query (ei_title i) (ei_snippet i))
         (concat (map po_items outcomes))) []"

fun expand_context :: "orchestrator \<Rightarrow> string list \<Rightarrow> tally \<Rightarrow> json list \<Rightarrow> (tally \<times> json list) handler" where
  "expand_context orch [] t items = return (t, items)"
| "expand_context orch (phrase # rest) t items = do {
     outs \<leftarrow> collect_web_and_news orch phrase;
     expand_context orch rest
       (add_outcomes (fst outs) (snd outs) False (0 < failed (fst outs) \<or> 0 < failed (snd outs)) t)
       (items @ map evidence_item_json (concat (map po_items (fst outs @ snd outs))))
   }"

definition slot_status :: "bool \<Rightarrow> nat \<Rightarrow> nat \<Rightarrow> string" where
  "slot_status is_mock success fail =
     (if is_mock then ''mock'' else if fail = 0 then ''completed''
      else if success = 0 then ''failed'' else ''partial'')"

definition text_slot_status :: "bool \<Rightarrow> nat \<Rightarrow> nat \<Rightarrow> nat \<Rightarrow> string" where
  "text_slot_status is_mock eligible_count success fail =
     (if eligible_count = 0 \<and> success + fail = 0 then (if is_mock then ''mock'' else ''not_run'')
      else slot_status is_mock success fail)"

definition evidence_status :: "orchestrator \<Rightarrow> nat \<Rightarrow> provider_outcome list \<Rightarrow> tally \<Rightarrow> json list \<Rightarrow> json" where
  "evidence_status orch eligible_count reverse t items =
     (let statuses = provider_status orch;
          web_is_mock = list_ex (\<lambda>s. cs_slot s = ''web_search'' \<and> cs_is_mock s) statuses;
          news_is_mock = list_ex (\<lambda>s. cs_slot s = ''news'' \<and> cs_is_mock s) statuses;
          reverse_configured = list_ex (\<lambda>s. cs_slot s = ''reverse_image'' \<and> cs_provider_name s \<noteq> ''not-configured'') statuses
      in JObj
       [(''web'', JStr (text_slot_status web_is_mock eligible_count (ta_web_success t) (ta_web_fail t))),
        (''news'', JStr (text_slot_status news_is_mock eligible_count (ta_news_success t) (ta_news_fail t))),
        (''social'', JStr ''not_configured''),
        (''reverseImage'', JStr (if \<not> reverse_configured then ''not_configured''
                                 else slot_status False (succeeded reverse) (failed reverse))),
        (''items'', JArr items)])"

definition auto_event :: "app \<Rightarrow> header_map \<Rightarrow> claims \<Rightarrow> string \<Rightarrow> string \<Rightarrow> string \<Rightarrow> json \<Rightarrow> unit handler" where
  "auto_event E headers claims search_id action outcome metadata = do {
     rid \<leftarrow> new_uuid E;
     save E (with_metadata metadata (on_resource ''search'' search_id
       (actor_event E headers claims action outcome rid)))
   }"

definition collect_external_evidence ::
  "app \<Rightarrow> orchestrator \<Rightarrow> search_row \<Rightarrow> claims \<Rightarrow> header_map \<Rightarrow> string \<Rightarrow> search_candidate_view list \<Rightarrow> unit handler" where
  "collect_external_evidence E orch q claims headers image_bytes eligible = do {
     auto_event E headers claims (q_id q) ''OSINT_AUTO_STARTED'' ''success''
       (JObj [(''candidateCount'', JInt (int (length eligible)))]);
     reverse \<leftarrow> collect_reverse_image orch image_bytes;
     let items = map evidence_item_json (concat (map po_items reverse));
     t \<leftarrow> enrich_candidates E orch claims eligible
            \<lparr>ta_web_success = 0, ta_web_fail = 0, ta_news_success = 0, ta_news_fail = 0,
             ta_stored = False, ta_provider_error = (0 < failed reverse)\<rparr>;
     expanded \<leftarrow> (if eligible = [] \<and> items \<noteq> []
                  then expand_context orch (take 3 (context_queries reverse)) t items
                  else return (t, items));
     let status = evidence_status orch (length eligible) reverse (fst expanded) (snd expanded);
     _ \<leftarrow> set_search_external_evidence_status E (q_id q) (x_json_text E status);
     auto_event E headers claims (q_id q)
       (if ta_provider_error (fst expanded) then ''OSINT_AUTO_PARTIAL'' else ''OSINT_AUTO_COMPLETED'')
       (if ta_provider_error (fst expanded) then ''failure'' else ''success'')
       (JObj [(''candidateEvidenceStored'', JBool (ta_stored (fst expanded))),
              (''reverseImageResultCount'', JInt (int (length items))), (''status'', status)])
   }"

definition run_auto_osint ::
  "app \<Rightarrow> orchestrator \<Rightarrow> search_row \<Rightarrow> claims \<Rightarrow> header_map \<Rightarrow> string \<Rightarrow> unit handler" where
  "run_auto_osint E orch q claims headers image_bytes =
     (if \<not> x_auto_osint E then return ()
      else do {
        r \<leftarrow> list_search_candidates E (q_id q);
        case r of
          Inl _ \<Rightarrow> return ()
        | Inr rows \<Rightarrow> collect_external_evidence E orch q claims headers image_bytes
            (take (nat (max (x_osint_auto_max_candidates E) 0)) rows)
      })"

section \<open>The background half of a search\<close>

definition search_failed_event :: "app \<Rightarrow> search_task \<Rightarrow> string \<Rightarrow> recorder" where
  "search_failed_event E task rid =
     search_event E (st_headers task) (st_claims task) ''SEARCH_FAILED'' ''failure'' rid
       (st_case_reference task) (st_search_id task)"

definition reject_search :: "app \<Rightarrow> search_task \<Rightarrow> string \<Rightarrow> biometric_error \<Rightarrow> unit handler" where
  "reject_search E task rid err = do {
     count_metric ''biometric_search_outcomes_total'' ''rejected'';
     _ \<leftarrow> mark_queued_search_failed E (st_search_id task) (biometric_code err) (biometric_message_key err);
     save E (with_metadata (JObj [(''failureCode'', JStr (biometric_code err))]) (search_failed_event E task rid))
   }"

definition finish_search :: "app \<Rightarrow> orchestrator \<Rightarrow> search_task \<Rightarrow> string \<Rightarrow> search_row \<Rightarrow> unit handler" where
  "finish_search E orch task rid q = do {
     rows \<leftarrow> list_search_candidates E (q_id q);
     a \<leftarrow> save_mandatory E (with_metadata (JObj
            [(''candidateCount'', JInt (int (case rows of Inl _ \<Rightarrow> 0 | Inr rs \<Rightarrow> length rs))),
             (''topK'', JInt (st_top_k task))])
          (search_event E (st_headers task) (st_claims task) ''SEARCH_COMPLETED'' ''success'' rid
             (st_case_reference task) (q_id q)));
     case a of
       Inl _ \<Rightarrow> do {
         _ \<leftarrow> mark_queued_search_failed E (q_id q) ''AUDIT_WRITE_FAILED'' ''errors.auditWriteFailed'';
         return ()
       }
     | Inr _ \<Rightarrow> run_auto_osint E orch q (st_claims task) (st_headers task) (st_image_bytes task)
   }"

definition run_queued_search :: "app \<Rightarrow> biometric_provider \<Rightarrow> orchestrator \<Rightarrow> search_task \<Rightarrow> unit handler" where
  "run_queued_search E P orch task = do {
     rid \<leftarrow> new_uuid E;
     r \<leftarrow> bp_search P (st_image_bytes task) (nat (st_top_k task));
     case r of
       Inl err \<Rightarrow> reject_search E task rid err
     | Inr ranked \<Rightarrow> do {
         count_metric ''biometric_search_outcomes_total'' ''success'';
         f \<leftarrow> finalize_queued_search E (st_search_id task) (map (\<lambda>(c, score). (cd_id c, score)) ranked);
         case f of
           Inr (Some q) \<Rightarrow> finish_search E orch task rid q
         | Inr None \<Rightarrow> return ()
         | Inl _ \<Rightarrow> do {
             _ \<leftarrow> mark_queued_search_failed E (st_search_id task) ''SEARCH_PERSIST_FAILED'' ''errors.internal'';
             save E (search_failed_event E task rid)
           }
       }
   }"

section \<open>Reading searches\<close>

definition SEARCHES_PAGE_SIZE :: int where "SEARCHES_PAGE_SIZE = 50"

definition actor_org_ids :: "app \<Rightarrow> claims \<Rightarrow> string list handler" where
  "actor_org_ids E claims =
     (if cl_role claims = SYSTEM_ADMIN then return [] else organization_ids_or_none E claims)"

text \<open>The start of the routes about one search: it must exist, and be in the caller's scope.\<close>

definition on_search ::
  "app \<Rightarrow> string \<Rightarrow> claims \<Rightarrow> string \<Rightarrow> (search_row \<Rightarrow> response handler) \<Rightarrow> response handler" where
  "on_search E rid claims search_id body = do {
     r \<leftarrow> load_search_by_id E search_id;
     case r of
       Inl _ \<Rightarrow> return (internal_error rid)
     | Inr None \<Rightarrow> return (not_found rid)
     | Inr (Some q) \<Rightarrow> do {
         org_ids \<leftarrow> actor_org_ids E claims;
         if \<not> can_view_scoped_resource (cl_role claims) org_ids (q_organization_id q)
         then return (forbidden rid) else body q
       }
   }"

definition get_search_status_route :: "app \<Rightarrow> string \<Rightarrow> header_map \<Rightarrow> response handler" where
  "get_search_status_route E search_id headers = as_role E headers can_view_search (\<lambda>rid claims.
     on_search E rid claims search_id (\<lambda>q. do {
       r \<leftarrow> list_search_candidates E (q_id q);
       return (case r of
         Inr rows \<Rightarrow> ok_json (JObj
           [(''search'', search_json E q), (''candidates'', JArr (map (search_candidate_json E) rows)),
            (''autoOsintEnabled'', JBool (x_auto_osint E))])
       | Inl _ \<Rightarrow> internal_error rid)
     }))"

definition list_searches_route :: "app \<Rightarrow> header_map \<Rightarrow> int option \<Rightarrow> int option \<Rightarrow> response handler" where
  "list_searches_route E headers query_page query_page_size = as_role E headers can_view_search (\<lambda>rid claims. do {
     org_scope \<leftarrow> org_scope_of E claims;
     let page = max (case query_page of None \<Rightarrow> 1 | Some p \<Rightarrow> p) 1;
     let page_size = (case query_page_size of None \<Rightarrow> SEARCHES_PAGE_SIZE | Some s \<Rightarrow> s);
     r \<leftarrow> list_searches_page E page page_size org_scope;
     return (case r of
       Inr (rows, n) \<Rightarrow> ok_json (JObj
         [(''items'', JArr (map (search_json E) rows)), (''page'', JInt page),
          (''pageSize'', JInt (clamp 1 200 page_size)), (''total'', JInt (int n))])
     | Inl _ \<Rightarrow> internal_error rid)
   })"

definition get_search_route :: "app \<Rightarrow> string \<Rightarrow> header_map \<Rightarrow> response handler" where
  "get_search_route E search_id headers = as_role E headers can_view_search (\<lambda>rid claims.
     on_search E rid claims search_id (\<lambda>q. return (ok_json (search_json E q))))"

definition get_search_candidates_route :: "app \<Rightarrow> string \<Rightarrow> header_map \<Rightarrow> response handler" where
  "get_search_candidates_route E search_id headers = as_role E headers can_view_search (\<lambda>rid claims.
     on_search E rid claims search_id (\<lambda>q. do {
       r \<leftarrow> list_search_candidates E search_id;
       return (case r of
         Inr rows \<Rightarrow> ok_json (JArr (map (search_candidate_json E) rows))
       | Inl _ \<Rightarrow> internal_error rid)
     }))"

definition get_candidate_history_route :: "app \<Rightarrow> string \<Rightarrow> string \<Rightarrow> header_map \<Rightarrow> response handler" where
  "get_candidate_history_route E search_id candidate_id headers = as_role E headers can_view_search (\<lambda>rid claims.
     on_search E rid claims search_id (\<lambda>q. do {
       r \<leftarrow> list_search_candidates E search_id;
       case r of
         Inl _ \<Rightarrow> return (internal_error rid)
       | Inr rows \<Rightarrow>
           (case find (\<lambda>v. sv_candidate_id v = candidate_id) rows of
              None \<Rightarrow> return (not_found rid)
            | Some v \<Rightarrow> do {
                h \<leftarrow> list_verification_events E (sv_id v);
                return (case h of
                  Inr events \<Rightarrow> ok_json (JArr (map (verification_event_json E) events))
                | Inl _ \<Rightarrow> internal_error rid)
              })
     }))"

definition get_candidate_route :: "app \<Rightarrow> string \<Rightarrow> header_map \<Rightarrow> response handler" where
  "get_candidate_route E candidate_id headers = as_role E headers can_view_search (\<lambda>rid claims. do {
     r \<leftarrow> load_candidate_by_id E candidate_id;
     return (case r of
       Inr (Some candidate) \<Rightarrow> ok_json (candidate_json candidate)
     | Inr None \<Rightarrow> not_found rid
     | Inl _ \<Rightarrow> internal_error rid)
   })"

section \<open>Reviewing\<close>

record review_payload =
  rv_search_id :: string
  rv_reason :: "string option"
  rv_notes :: "string option"

definition review_action :: "string \<Rightarrow> string \<Rightarrow> string" where
  "review_action status row_status =
     (if (status = ''confirmed'' \<or> status = ''rejected'') \<and> row_status = ''needs_second_review''
      then ''CANDIDATE_FIRST_REVIEW_RECORDED''
      else if status = ''confirmed'' then ''CANDIDATE_CONFIRMED''
      else if status = ''inconclusive'' then ''CANDIDATE_MARKED_INCONCLUSIVE''
      else ''CANDIDATE_REJECTED'')"

definition review_candidate ::
  "app \<Rightarrow> header_map \<Rightarrow> string \<Rightarrow> review_payload \<Rightarrow> string \<Rightarrow> response handler" where
  "review_candidate E headers candidate_id payload status =
     as_role E headers can_review_candidate (\<lambda>rid claims. do {
       reviewer_name \<leftarrow> display_name E claims;
       r \<leftarrow> record_review_decision E (rv_search_id payload) candidate_id status (cl_id claims) reviewer_name
              (rv_reason payload) (rv_notes payload) rid (x_require_second_review E);
       let metadata = JObj [(''searchId'', JStr (rv_search_id payload)), (''candidateId'', JStr candidate_id)];
       case r of
         Inl _ \<Rightarrow> return (internal_error rid)
       | Inr (Applied v) \<Rightarrow> audited E rid
           (with_metadata metadata (on_resource ''search_candidate'' (sv_id v)
             (actor_event E headers claims (review_action status (sv_status v)) ''success'' rid)))
           (return (ok_json (search_candidate_json E v)))
       | Inr ReviewNotFound \<Rightarrow> return (not_found rid)
       | Inr SameReviewerForbidden \<Rightarrow> do {
           save E (with_metadata metadata
             (actor_event E headers claims ''CANDIDATE_SECOND_REVIEW_DENIED'' ''denied'' rid));
           return (api_err ''SAME_REVIEWER_FORBIDDEN'' ''errors.sameReviewerForbidden'' rid)
         }
     })"

definition verify_candidate_route :: "app \<Rightarrow> string \<Rightarrow> header_map \<Rightarrow> review_payload \<Rightarrow> response handler" where
  "verify_candidate_route E i headers payload = review_candidate E headers i payload ''confirmed''"

definition reject_candidate_route :: "app \<Rightarrow> string \<Rightarrow> header_map \<Rightarrow> review_payload \<Rightarrow> response handler" where
  "reject_candidate_route E i headers payload = review_candidate E headers i payload ''rejected''"

definition mark_candidate_inconclusive_route :: "app \<Rightarrow> string \<Rightarrow> header_map \<Rightarrow> review_payload \<Rightarrow> response handler" where
  "mark_candidate_inconclusive_route E i headers payload = review_candidate E headers i payload ''inconclusive''"

section \<open>Frames\<close>

lemma org_scope_frames [frame_intros]:
  "blind_base f \<Longrightarrow> preserves f (org_scope_of E c)"
  "blind_base f \<Longrightarrow> preserves f (actor_org_ids E c)"
  unfolding org_scope_of_def actor_org_ids_def by (intro frame_intros; simp)+

lemma on_search_frame [frame_intros]:
  "blind_base f \<Longrightarrow> (\<And>q. preserves f (b q)) \<Longrightarrow> preserves f (on_search E rid c i b)"
  unfolding on_search_def by (intro frame_intros; assumption?)

lemma search_read_frames [frame_intros]:
  "blind_base f \<Longrightarrow> preserves f (get_search_status_route E i h)"
  "blind_base f \<Longrightarrow> preserves f (list_searches_route E h pg sz)"
  "blind_base f \<Longrightarrow> preserves f (get_search_route E i h)"
  "blind_base f \<Longrightarrow> preserves f (get_search_candidates_route E i h)"
  "blind_base f \<Longrightarrow> preserves f (get_candidate_history_route E i j h)"
  "blind_base f \<Longrightarrow> preserves f (get_candidate_route E i h)"
  unfolding get_search_status_route_def list_searches_route_def get_search_route_def
    get_search_candidates_route_def get_candidate_history_route_def get_candidate_route_def Let_def
  by (intro frame_intros; simp)+

lemma preserves_outcome [frame_intros]:
  "(\<And>v. preserves f (a v)) \<Longrightarrow> preserves f m \<Longrightarrow> preserves f n \<Longrightarrow>
     preserves f (case x of Applied v \<Rightarrow> a v | ReviewNotFound \<Rightarrow> m | SameReviewerForbidden \<Rightarrow> n)"
  by (simp split: review_outcome.split)

lemma search_write_route_frames [frame_intros]:
  "blind_audit f \<Longrightarrow> blind w_searches_update f \<Longrightarrow> preserves f (create_search_route E C h form)"
  "blind_audit f \<Longrightarrow> blind w_search_candidates_update f \<Longrightarrow> blind w_verification_events_update f \<Longrightarrow>
     preserves f (review_candidate E h i p s)"
  unfolding create_search_route_def queue_search_def refuse_def review_candidate_def Let_def
  by (intro frame_intros; simp)+

section \<open>The worker\<close>

text \<open>What runs the background half: a provider that only reads, and quiet OSINT sources.\<close>

locale search_worker = biometric_source P + osint_sources orch
  for P :: biometric_provider and orch :: orchestrator
begin

lemma enrich_frame:
  assumes "blind_base f" "blind w_relations_update f" "blind w_evidence_update f"
    "blind w_breakers_update f" "blind w_counters_update f"
  shows "preserves f (enrich_candidates E orch c vs t)"
proof -
  have "blind w_draws_update f" using assms(1) by simp
  then have web: "preserves f (collect_web_and_news orch x)" for x by (intro collect_frames assms)
  show ?thesis
  proof (induction vs arbitrary: t)
    case (Cons v vs)
    then show ?case
      by (simp only: enrich_candidates.simps) (intro frame_intros web assms; assumption?)
  qed (simp add: frame_intros)
qed

lemma expand_frame:
  assumes "blind w_draws_update f" "blind w_breakers_update f" "blind w_counters_update f"
  shows "preserves f (expand_context orch qs t items)"
  by (induction qs arbitrary: t items) (auto intro!: frame_intros collect_frames assms)

text \<open>Whatever only the writes to the search tables could break, the background half keeps if they do.\<close>

lemma quiet_keeps:
  assumes blind: "blind_audit I" "blind w_relations_update I" "blind w_evidence_update I"
      "blind w_breakers_update I" "blind w_counters_update I"
  shows "keeps I (collect_reverse_image orch x)" "keeps I (enrich_candidates E orch c vs t)"
    "keeps I (expand_context orch qs t items)" "keeps I (bp_search P x n)"
    "keeps I (list_search_candidates E i)" "keeps I (save_mandatory E r)" "keeps I (save E r)"
    "keeps I (new_uuid E)" "keeps I (count_metric n' l)" "keeps I (auto_event E h c i a out m)"
proof -
  have base: "blind_base I" "blind w_draws_update I" using blind(1) by simp_all
  show "keeps I (auto_event E h c i a out m)"
    unfolding auto_event_def by (intro keeps_of_preserves frame_intros base blind)
qed (intro keeps_of_preserves collect_frames enrich_frame expand_frame provider_frames frame_intros;
     use blind in simp)+

lemma run_auto_osint_keeps:
  assumes "blind_audit I" "blind w_relations_update I" "blind w_evidence_update I"
      "blind w_breakers_update I" "blind w_counters_update I"
    and external: "\<And>i j. keeps I (set_search_external_evidence_status E i j)"
  shows "keeps I (run_auto_osint E orch q c h b)"
  unfolding run_auto_osint_def collect_external_evidence_def
  by (intro keeps_intros quiet_keeps [OF assms(1-5)] external)

lemma run_queued_search_keeps:
  assumes "blind_audit I" "blind w_relations_update I" "blind w_evidence_update I"
      "blind w_breakers_update I" "blind w_counters_update I"
    and "\<And>xs. keeps I (finalize_queued_search E (st_search_id task) xs)"
    and "\<And>i c m. keeps I (mark_queued_search_failed E i c m)"
    and external: "\<And>i j. keeps I (set_search_external_evidence_status E i j)"
  shows "keeps I (run_queued_search E P orch task)"
  unfolding run_queued_search_def reject_search_def finish_search_def
  by (intro keeps_intros quiet_keeps run_auto_osint_keeps assms)

lemma run_queued_search_frame:
  assumes "blind_audit f" "blind w_relations_update f" "blind w_evidence_update f"
    "blind w_breakers_update f" "blind w_counters_update f" "blind w_searches_update f"
    "blind w_search_candidates_update f"
  shows "preserves f (run_queued_search E P orch task)"
proof -
  have base: "blind_base f" "blind w_draws_update f" using assms(1) by simp_all
  have "preserves f (auto_event E h c i a out m)" for h c i a out m
    unfolding auto_event_def by (intro frame_intros base assms)
  then have "preserves f (collect_external_evidence E orch q c h b vs)" for q c h b vs
    unfolding collect_external_evidence_def
    by (intro frame_intros collect_frames enrich_frame expand_frame base assms)
  then have "preserves f (run_auto_osint E orch q c h b)" for q c h b
    unfolding run_auto_osint_def by (intro frame_intros base)
  then show ?thesis
    unfolding run_queued_search_def reject_search_def finish_search_def
    by (intro frame_intros provider_frames base assms)
qed

end

interpretation mock_worker: search_worker "mock_biometric E" "orchestrator_from_env E H" for E H
  by (intro search_worker.intro mock_source.biometric_source_axioms from_env.osint_sources_axioms)

interpretation onnx_worker: search_worker "onnx_biometric E V" "orchestrator_from_env E H" for E V H
  by (intro search_worker.intro onnx_source.biometric_source_axioms from_env.osint_sources_axioms)

end
