(* ===== verification/Org_Routes.thy ===== *)
theory Org_Routes
  imports Scoped
begin

text \<open>
  \<open>server/src/org.rs\<close>: the routes over organizations, their units and the memberships, all of them
  for a \<open>SYSTEM_ADMIN\<close> only.
\<close>

definition require_org_admin :: "app \<Rightarrow> header_map \<Rightarrow> response option handler" where
  "require_org_admin E headers = do {
     c \<leftarrow> auth_user_from_headers E headers;
     case c of
       Some claims \<Rightarrow>
         if can_manage_organizations (cl_role claims) then return None
         else do { rid \<leftarrow> request_id E headers; return (Some (forbidden rid)) }
     | None \<Rightarrow> do { rid \<leftarrow> request_id E headers; return (Some (forbidden rid)) }
   }"

definition as_org_admin :: "app \<Rightarrow> header_map \<Rightarrow> (string \<Rightarrow> response handler) \<Rightarrow> response handler" where
  "as_org_admin E headers body = do {
     denied \<leftarrow> require_org_admin E headers;
     case denied of
       Some resp \<Rightarrow> return resp
     | None \<Rightarrow> do { rid \<leftarrow> request_id E headers; body rid }
   }"

text \<open>\<open>auth_user_from_headers(..).as_ref()\<close> as the actor of a best-effort event.\<close>

definition org_event ::
  "app \<Rightarrow> header_map \<Rightarrow> string \<Rightarrow> string \<Rightarrow> string \<Rightarrow> string \<Rightarrow> json option \<Rightarrow> unit handler" where
  "org_event E headers action rid ty i metadata = do {
     c \<leftarrow> auth_user_from_headers E headers;
     save E ((case metadata of None \<Rightarrow> (\<lambda>r. r) | Some j \<Rightarrow> with_metadata j)
       (on_resource ty i (from_headers E headers (actor_opt c (recorder_new action ''success'' rid)))))
   }"

definition organization_json :: "app \<Rightarrow> organization_row \<Rightarrow> json" where
  "organization_json E o' = JObj
     [(''id'', JStr (o_id o')), (''name'', JStr (o_name o')),
      (''createdAt'', JStr (x_format_micros E (o_created_at o')))]"

definition unit_json :: "app \<Rightarrow> organization_unit_row \<Rightarrow> json" where
  "unit_json E u = JObj
     [(''id'', JStr (ou_id u)), (''organizationId'', JStr (ou_organization_id u)),
      (''parentUnitId'', json_opt (ou_parent_unit_id u)), (''name'', JStr (ou_name u)),
      (''createdAt'', JStr (x_format_micros E (ou_created_at u)))]"

definition create_organization_route :: "app \<Rightarrow> header_map \<Rightarrow> string \<Rightarrow> response handler" where
  "create_organization_route E headers payload_name = as_org_admin E headers (\<lambda>rid.
     let name = trim payload_name
     in if name = [] then return (invalid rid)
        else do {
          r \<leftarrow> create_organization E name;
          case r of
            Inr org \<Rightarrow> do {
              org_event E headers ''ORGANIZATION_CREATED'' rid ''organization'' (o_id org) None;
              return (ok_json (organization_json E org))
            }
          | Inl _ \<Rightarrow> return (internal_error rid)
        })"

definition list_organizations_route :: "app \<Rightarrow> header_map \<Rightarrow> response handler" where
  "list_organizations_route E headers = as_org_admin E headers (\<lambda>rid. do {
     r \<leftarrow> list_organizations;
     return (case r of
       Inr orgs \<Rightarrow> ok_json (JArr (map (organization_json E) orgs))
     | Inl _ \<Rightarrow> internal_error rid)
   })"

definition create_unit_route :: "app \<Rightarrow> string \<Rightarrow> header_map \<Rightarrow> string \<Rightarrow> string option \<Rightarrow> response handler" where
  "create_unit_route E organization_id headers payload_name parent_unit_id = as_org_admin E headers (\<lambda>rid.
     let name = trim payload_name
     in if name = [] then return (invalid rid)
        else do {
          r \<leftarrow> create_organization_unit E organization_id parent_unit_id name;
          case r of
            Inr (Some u) \<Rightarrow> do {
              org_event E headers ''ORGANIZATION_UNIT_CREATED'' rid ''organization_unit'' (ou_id u) None;
              return (ok_json (unit_json E u))
            }
          | Inr None \<Rightarrow> return (invalid rid)
          | Inl _ \<Rightarrow> return (internal_error rid)
        })"

definition list_units_route :: "app \<Rightarrow> string \<Rightarrow> header_map \<Rightarrow> response handler" where
  "list_units_route E organization_id headers = as_org_admin E headers (\<lambda>rid. do {
     r \<leftarrow> list_organization_units E organization_id;
     return (case r of
       Inr units \<Rightarrow> ok_json (JArr (map (unit_json E) units))
     | Inl _ \<Rightarrow> internal_error rid)
   })"

definition assign_membership_route ::
  "app \<Rightarrow> header_map \<Rightarrow> string \<Rightarrow> string \<Rightarrow> string option \<Rightarrow> response handler" where
  "assign_membership_route E headers user_id organization_id unit_id = as_org_admin E headers (\<lambda>rid. do {
     r \<leftarrow> assign_membership E user_id organization_id unit_id;
     case r of
       Inr _ \<Rightarrow> do {
         org_event E headers ''MEMBERSHIP_ASSIGNED'' rid ''user'' user_id
           (Some (JObj [(''organizationId'', JStr organization_id)]));
         return (ok_json (message_key ''admin.org.membershipAssigned''))
       }
     | Inl _ \<Rightarrow> return (internal_error rid)
   })"

definition remove_membership_route :: "app \<Rightarrow> header_map \<Rightarrow> string \<Rightarrow> string \<Rightarrow> response handler" where
  "remove_membership_route E headers user_id organization_id = as_org_admin E headers (\<lambda>rid. do {
     r \<leftarrow> remove_membership E user_id organization_id;
     case r of
       Inr _ \<Rightarrow> do {
         org_event E headers ''MEMBERSHIP_REMOVED'' rid ''user'' user_id
           (Some (JObj [(''organizationId'', JStr organization_id)]));
         return (ok_json (message_key ''admin.org.membershipRemoved''))
       }
     | Inl _ \<Rightarrow> return (internal_error rid)
   })"

section \<open>Frames\<close>

lemma org_route_helper_frames [frame_intros]:
  "blind_base f \<Longrightarrow> preserves f (require_org_admin E h)"
  "blind_audit f \<Longrightarrow> preserves f (org_event E h a rid ty i m)"
  unfolding require_org_admin_def org_event_def by (intro frame_intros; simp)+

lemma as_org_admin_frame [frame_intros]:
  "blind_base f \<Longrightarrow> (\<And>rid. preserves f (b rid)) \<Longrightarrow> preserves f (as_org_admin E h b)"
  unfolding as_org_admin_def by (intro frame_intros; assumption?)

lemma org_route_frames [frame_intros]:
  "blind_audit f \<Longrightarrow> blind w_organizations_update f \<Longrightarrow> preserves f (create_organization_route E h n)"
  "blind_base f \<Longrightarrow> preserves f (list_organizations_route E h)"
  "blind_audit f \<Longrightarrow> blind w_units_update f \<Longrightarrow> preserves f (create_unit_route E i h n pu)"
  "blind_base f \<Longrightarrow> preserves f (list_units_route E i h)"
  "blind_audit f \<Longrightarrow> blind w_memberships_update f \<Longrightarrow> preserves f (assign_membership_route E h u i ou)"
  "blind_audit f \<Longrightarrow> blind w_memberships_update f \<Longrightarrow> preserves f (remove_membership_route E h u i)"
  unfolding create_organization_route_def list_organizations_route_def create_unit_route_def
    list_units_route_def assign_membership_route_def remove_membership_route_def Let_def
  by (intro frame_intros; simp)+

end
