(* ===== verification/Monitoring.thy ===== *)
theory Monitoring
  imports Admin Search Org_Routes
begin

text \<open>
  What operators look at: the two read-only listings of \<open>server/src/admin.rs\<close>, the health routes of
  \<open>routes/health.rs\<close>, the metrics endpoint and the request counter of \<open>metrics.rs\<close>, and the
  response headers of \<open>middleware.rs\<close>. The build's commit, the process start and the connection pool
  are given; the Prometheus registry renders itself.
\<close>

section \<open>Administration listings\<close>

definition threshold_json :: "app \<Rightarrow> threshold_row \<Rightarrow> json" where
  "threshold_json E h = JObj
     [(''id'', JStr (h_id h)), (''modelName'', JStr (h_model_name h)),
      (''modelVersion'', JStr (h_model_version h)), (''threshold'', JNum (h_threshold h)),
      (''equalErrorRate'', JNum (h_equal_error_rate h)), (''pairCount'', JInt (h_pair_count h)),
      (''createdAt'', JStr (x_format_micros E (h_created_at h)))]"

definition list_biometric_thresholds :: "app \<Rightarrow> header_map \<Rightarrow> response handler" where
  "list_biometric_thresholds E headers = as_admin E headers (do {
     r \<leftarrow> list_calibrated_thresholds;
     case r of
       Inr rows \<Rightarrow> return (ok_json (JObj [(''items'', JArr (map (threshold_json E) rows))]))
     | Inl _ \<Rightarrow> do { rid \<leftarrow> request_id E headers; return (internal_error rid) }
   })"

definition connector_json :: "connector_status \<Rightarrow> json" where
  "connector_json s = JObj
     [(''slot'', JStr (cs_slot s)), (''providerName'', JStr (cs_provider_name s)),
      (''isMock'', JBool (cs_is_mock s))]"

definition list_connectors :: "app \<Rightarrow> orchestrator \<Rightarrow> header_map \<Rightarrow> response handler" where
  "list_connectors E orch headers = as_admin E headers
     (return (ok_json (JObj [(''items'', JArr (map connector_json (provider_status orch)))])))"

section \<open>Health\<close>

record process_info =
  pi_commit :: string
  pi_started :: int
  pi_format_secs :: "int \<Rightarrow> string"
  pi_pool_size :: "world \<Rightarrow> nat"
  pi_pool_idle :: "world \<Rightarrow> nat"
  pi_biometric_provider_name :: string
  pi_render_metrics :: "(string \<times> string) list \<Rightarrow> string"

definition health :: "process_info \<Rightarrow> response handler" where
  "health I = do {
     now \<leftarrow> gets w_now;
     return (ok_json (JObj
       [(''status'', JStr ''ok''), (''version'', JStr (pi_commit I)),
        (''timestamp'', JStr (pi_format_secs I now))]))
   }"

definition ready_json :: "app \<Rightarrow> process_info \<Rightarrow> string \<Rightarrow> int \<Rightarrow> nat \<times> nat \<Rightarrow> json" where
  "ready_json E I status now pool = JObj
     [(''status'', JStr status), (''version'', JStr (pi_commit I)),
      (''timestamp'', JStr (pi_format_secs I now)),
      (''biometricProvider'', JStr (pi_biometric_provider_name I)),
      (''biometricSearch'', JStr (if x_pgvector_ready E then ''pgvector-hnsw'' else ''brute-force'')),
      (''uptimeSeconds'', JInt ((now - pi_started I) div SECOND)),
      (''dbPool'', JObj [(''size'', JInt (int (fst pool))), (''idle'', JInt (int (snd pool)))])]"

definition ready :: "app \<Rightarrow> process_info \<Rightarrow> response handler" where
  "ready E I = do {
     r \<leftarrow> query (\<lambda>w. ());
     pool \<leftarrow> gets (\<lambda>w. (pi_pool_size I w, pi_pool_idle I w));
     now \<leftarrow> gets w_now;
     return (case r of
       Inr _ \<Rightarrow> ok_json (ready_json E I ''ready'' now pool)
     | Inl _ \<Rightarrow> \<lparr>r_status = 503, r_body = JsonBody (ready_json E I ''not_ready'' now pool), r_set_cookie = None\<rparr>)
   }"

section \<open>Metrics\<close>

definition text_response :: "nat \<Rightarrow> string \<Rightarrow> response" where
  "text_response status t = \<lparr>r_status = status, r_body = TextBody t, r_set_cookie = None\<rparr>"

definition metrics_route :: "app \<Rightarrow> process_info \<Rightarrow> header_map \<Rightarrow> response handler" where
  "metrics_route E I headers =
     (let unauthorized =
        (case x_env E ''METRICS_TOKEN'' of
           None \<Rightarrow> False
         | Some expected \<Rightarrow>
             trim expected \<noteq> [] \<and>
             \<not> constant_time_eq (case bearer_token headers of None \<Rightarrow> [] | Some t \<Rightarrow> t) expected)
      in if unauthorized then return (text_response 401 [])
         else gets (\<lambda>w. text_response 200 (pi_render_metrics I (w_counters w))))"

text \<open>
  Every request is counted under its method, the template of the matched route and the status. The
  three labels are joined here with spaces; none of them contains one.
\<close>

definition http_metrics_middleware :: "string \<Rightarrow> string \<Rightarrow> ('a \<Rightarrow> nat) \<Rightarrow> 'a handler \<Rightarrow> 'a handler" where
  "http_metrics_middleware meth path status next = do {
     response \<leftarrow> next;
     count_metric ''http_requests_total'' (meth @ '' '' @ path @ '' '' @ show_nat (status response));
     return response
   }"

section \<open>Security headers\<close>

definition CONTENT_SECURITY_POLICY :: string where
  "CONTENT_SECURITY_POLICY = concat
     [''default-src 'self'; '', ''base-uri 'self'; '', ''frame-ancestors 'none'; '', ''object-src 'none'; '',
      ''form-action 'self'; '', ''script-src 'self'; '', ''style-src 'self' https://fonts.googleapis.com; '',
      ''img-src 'self' data:; '', ''font-src 'self' https://fonts.gstatic.com; '', ''connect-src 'self'; '']"

definition PERMISSIONS_POLICY :: string where
  "PERMISSIONS_POLICY = ''microphone=(), camera=(), payment=(), usb=(), geolocation=(self)''"

definition security_headers :: "app \<Rightarrow> header_map \<Rightarrow> header_map" where
  "security_headers E headers =
     (let headers = headers
        (''x-content-type-options'' \<mapsto> ''nosniff'', ''x-frame-options'' \<mapsto> ''DENY'',
         ''referrer-policy'' \<mapsto> ''no-referrer'', ''cross-origin-opener-policy'' \<mapsto> ''same-origin'',
         ''content-security-policy'' \<mapsto> CONTENT_SECURITY_POLICY, ''permissions-policy'' \<mapsto> PERMISSIONS_POLICY)
      in if is_production E
         then headers(''strict-transport-security'' \<mapsto> ''max-age=63072000; includeSubDomains'')
         else headers)"

section \<open>Frames\<close>

lemma monitoring_frames [frame_intros]:
  "blind_base f \<Longrightarrow> preserves f (list_biometric_thresholds E h)"
  "blind_base f \<Longrightarrow> preserves f (list_connectors E orch h)"
  "blind_base f \<Longrightarrow> preserves f (health I)"
  "blind_base f \<Longrightarrow> preserves f (ready E I)"
  "blind_base f \<Longrightarrow> preserves f (metrics_route E I h)"
  unfolding list_biometric_thresholds_def list_connectors_def health_def ready_def metrics_route_def Let_def
  by (intro frame_intros; simp)+

lemma http_metrics_frame [frame_intros]:
  "blind w_counters_update f \<Longrightarrow> preserves f m \<Longrightarrow> preserves f (http_metrics_middleware meth path st m)"
  unfolding http_metrics_middleware_def by (intro frame_intros; simp)

end
