(* ===== verification/Config.thy ===== *)
theory Config
  imports Demo
begin

text \<open>
  \<open>server/src/config.rs\<close> and the start-up decisions of \<open>AppState::new\<close> (\<open>db/mod.rs\<close>): the configuration
  is read once, and a production process that is not configured for production refuses to start. A
  panic is a value of the sum. Number and hex parsing are parameters.
\<close>

section \<open>The environment\<close>

type_synonym environment = "string \<Rightarrow> string option"

datatype startup_panic =
    UnknownProvider string
  | MockInProduction
  | WeakSecret string
  | MissingSecret string
  | MalformedKey
  | KeyLength
  | NoDatabaseUrl
  | SqliteInProduction
  | ProviderFailed string

record parsers =
  pr_u16 :: "string \<Rightarrow> nat option"
  pr_i64 :: "string \<Rightarrow> int option"
  pr_hex :: "string \<Rightarrow> 8 word list option"

definition production :: "environment \<Rightarrow> bool" where
  "production env \<longleftrightarrow> env ''NODE_ENV'' = Some ''production'' \<or> env ''RENDER'' \<noteq> None"

definition env_true :: "environment \<Rightarrow> string \<Rightarrow> bool" where
  "env_true env name \<longleftrightarrow> env name = Some ''true''"

text \<open>Comma-separated values: trimmed, empty ones dropped.\<close>

definition env_list :: "string \<Rightarrow> string list" where
  "env_list v = filter (\<lambda>s. s \<noteq> []) (map trim (split_on (CHR '','') v))"

definition positive_or :: "int \<Rightarrow> int option \<Rightarrow> int" where
  "positive_or dflt v = (case v of Some n \<Rightarrow> if 0 < n then n else dflt | None \<Rightarrow> dflt)"

section \<open>Constants\<close>

definition MIN_SECRET_BYTES :: nat where "MIN_SECRET_BYTES = 32"

definition DEV_JWT_SECRET :: string where
  "DEV_JWT_SECRET = ''anatolia-bis-local-access-secret-dev-only-not-for-prod''"
definition DEV_JWT_REFRESH_SECRET :: string where
  "DEV_JWT_REFRESH_SECRET = ''anatolia-bis-local-refresh-secret-dev-only-not-for-prod''"
definition DEV_APPROVAL_TOKEN_SECRET :: string where
  "DEV_APPROVAL_TOKEN_SECRET = ''anatolia-bis-local-approval-secret-dev-only-not-for-prod''"
definition DEV_MFA_TOKEN_SECRET :: string where
  "DEV_MFA_TOKEN_SECRET = ''anatolia-bis-local-mfa-secret-dev-only-not-for-prod''"
definition DEV_NATIONAL_ID_ENCRYPTION_KEY :: string where
  "DEV_NATIONAL_ID_ENCRYPTION_KEY = ''616e61746f6c69612d6269732d6e61746c2d69642d6465762d6b657921212121''"

definition DEFAULT_MFA_REQUIRED_ROLES :: "string list" where
  "DEFAULT_MFA_REQUIRED_ROLES = [''SYSTEM_ADMIN'', ''SECURITY_ADMIN'', ''REVIEWER'']"
definition DEFAULT_SEARCH_DEFAULT_TOP_K :: int where "DEFAULT_SEARCH_DEFAULT_TOP_K = 10"
definition DEFAULT_SEARCH_MAX_TOP_K :: int where "DEFAULT_SEARCH_MAX_TOP_K = 50"
definition DEFAULT_OSINT_AUTO_MAX_CANDIDATES :: int where "DEFAULT_OSINT_AUTO_MAX_CANDIDATES = 5"

section \<open>Resolving one setting\<close>

definition resolve_secret :: "environment \<Rightarrow> string \<Rightarrow> string \<Rightarrow> bool \<Rightarrow> startup_panic + string" where
  "resolve_secret env env_var dev_default in_production =
     (case env env_var of
        Some v \<Rightarrow>
          if trim v \<noteq> [] then (if in_production \<and> length v < MIN_SECRET_BYTES then Inl (WeakSecret env_var) else Inr v)
          else if in_production then Inl (MissingSecret env_var) else Inr dev_default
      | None \<Rightarrow> if in_production then Inl (MissingSecret env_var) else Inr dev_default)"

definition dev_national_id_key :: "parsers \<Rightarrow> 8 word list" where
  "dev_national_id_key R = (case pr_hex R DEV_NATIONAL_ID_ENCRYPTION_KEY of Some k \<Rightarrow> k | None \<Rightarrow> [])"

definition resolve_national_id_key :: "parsers \<Rightarrow> environment \<Rightarrow> bool \<Rightarrow> startup_panic + 8 word list" where
  "resolve_national_id_key R env in_production =
     (let hex_value =
        (case env ''NATIONAL_ID_ENCRYPTION_KEY'' of
           Some v \<Rightarrow> if trim v \<noteq> [] then Some v else if in_production then None else Some DEV_NATIONAL_ID_ENCRYPTION_KEY
         | None \<Rightarrow> if in_production then None else Some DEV_NATIONAL_ID_ENCRYPTION_KEY)
      in case hex_value of
           None \<Rightarrow> Inl (MissingSecret ''NATIONAL_ID_ENCRYPTION_KEY'')
         | Some v \<Rightarrow>
             (case pr_hex R (trim v) of
                None \<Rightarrow> if in_production then Inl MalformedKey else Inr (dev_national_id_key R)
              | Some k \<Rightarrow>
                  if length k = 32 then Inr k
                  else if in_production then Inl KeyLength else Inr (dev_national_id_key R)))"

definition resolve_biometric_provider :: "environment \<Rightarrow> bool \<Rightarrow> startup_panic + string" where
  "resolve_biometric_provider env in_production =
     (let provider = (case env ''BIOMETRIC_PROVIDER'' of
        Some v \<Rightarrow> if trim v \<noteq> [] then v else ''mock'' | None \<Rightarrow> ''mock'')
      in if provider \<noteq> ''mock'' \<and> provider \<noteq> ''onnx'' then Inl (UnknownProvider provider)
         else if in_production \<and> provider = ''mock'' \<and> \<not> env_true env ''ALLOW_MOCK_BIOMETRICS'' then Inl MockInProduction
         else Inr provider)"

section \<open>The configuration\<close>

record config =
  cf_port :: nat
  cf_allowed_origins :: "string list"
  cf_jwt_secret :: string
  cf_jwt_refresh_secret :: string
  cf_approval_token_secret :: string
  cf_mfa_token_secret :: string
  cf_national_id_encryption_key :: "8 word list"
  cf_search_default_top_k :: int
  cf_search_max_top_k :: int
  cf_biometric_provider :: string
  cf_require_second_review :: bool
  cf_mfa_required_roles :: "string list"
  cf_auto_osint_after_biometric_search :: bool
  cf_osint_auto_max_candidates :: int

text \<open>The first panic in the order the settings are resolved.\<close>

definition or_panic :: "startup_panic + 'a \<Rightarrow> ('a \<Rightarrow> startup_panic + 'b) \<Rightarrow> startup_panic + 'b" where
  "or_panic r f = (case r of Inl e \<Rightarrow> Inl e | Inr a \<Rightarrow> f a)"

definition from_env :: "parsers \<Rightarrow> environment \<Rightarrow> startup_panic + config" where
  "from_env R env =
     (let in_production = production env;
          number = (\<lambda>name. Option.bind (env name) (pr_i64 R));
          max_top_k = positive_or DEFAULT_SEARCH_MAX_TOP_K (number ''SEARCH_MAX_TOP_K'')
      in or_panic (resolve_secret env ''JWT_SECRET'' DEV_JWT_SECRET in_production) (\<lambda>jwt_secret.
         or_panic (resolve_secret env ''JWT_REFRESH_SECRET'' DEV_JWT_REFRESH_SECRET in_production) (\<lambda>jwt_refresh_secret.
         or_panic (resolve_secret env ''APPROVAL_TOKEN_SECRET'' DEV_APPROVAL_TOKEN_SECRET in_production) (\<lambda>approval_token_secret.
         or_panic (resolve_secret env ''MFA_TOKEN_SECRET'' DEV_MFA_TOKEN_SECRET in_production) (\<lambda>mfa_token_secret.
         or_panic (resolve_national_id_key R env in_production) (\<lambda>national_id_encryption_key.
         or_panic (resolve_biometric_provider env in_production) (\<lambda>biometric_provider. Inr
           \<lparr>cf_port = (case Option.bind (env ''PORT'') (pr_u16 R) of Some p \<Rightarrow> p | None \<Rightarrow> 8080),
            cf_allowed_origins = env_list (case env ''ALLOWED_ORIGINS'' of Some v \<Rightarrow> v | None \<Rightarrow> []),
            cf_jwt_secret = jwt_secret, cf_jwt_refresh_secret = jwt_refresh_secret,
            cf_approval_token_secret = approval_token_secret, cf_mfa_token_secret = mfa_token_secret,
            cf_national_id_encryption_key = national_id_encryption_key,
            cf_search_default_top_k =
              min (positive_or DEFAULT_SEARCH_DEFAULT_TOP_K (number ''SEARCH_DEFAULT_TOP_K'')) max_top_k,
            cf_search_max_top_k = max_top_k, cf_biometric_provider = biometric_provider,
            cf_require_second_review = env_true env ''REQUIRE_SECOND_REVIEW'',
            cf_mfa_required_roles = (case env ''MFA_REQUIRED_ROLES'' of
               Some v \<Rightarrow> env_list v | None \<Rightarrow> DEFAULT_MFA_REQUIRED_ROLES),
            cf_auto_osint_after_biometric_search = env_true env ''AUTO_OSINT_AFTER_BIOMETRIC_SEARCH'',
            cf_osint_auto_max_candidates =
              positive_or DEFAULT_OSINT_AUTO_MAX_CANDIDATES (number ''OSINT_AUTO_MAX_CANDIDATES'')\<rparr>)))))))"

section \<open>The application state\<close>

text \<open>Which database a process uses, before it connects.\<close>

definition choose_backend :: "environment \<Rightarrow> startup_panic + db_backend" where
  "choose_backend env =
     (if (case env ''DATABASE_URL'' of Some url \<Rightarrow> trim url \<noteq> [] | None \<Rightarrow> False) then Inr Postgres
      else if env ''RENDER_EXTERNAL_URL'' \<noteq> None then Inl NoDatabaseUrl
      else if production env then Inl SqliteInProduction
      else Inr Sqlite)"

text \<open>
  \<open>AppState::new\<close> after the configuration is read: the backend and the settings the handlers use.
  The rest of \<open>app\<close> stands for libraries and does not depend on the configuration.
\<close>

definition app_state :: "environment \<Rightarrow> config \<Rightarrow> bool \<Rightarrow> app \<Rightarrow> startup_panic + app" where
  "app_state env c pgvector_ready libs =
     or_panic (choose_backend env) (\<lambda>backend. Inr (libs\<lparr>
       x_backend := backend, x_env := env, x_jwt_secret := cf_jwt_secret c,
       x_jwt_refresh_secret := cf_jwt_refresh_secret c,
       x_approval_token_secret := cf_approval_token_secret c, x_mfa_token_secret := cf_mfa_token_secret c,
       x_national_id_key := cf_national_id_encryption_key c,
       x_mfa_required_roles := cf_mfa_required_roles c,
       x_require_second_review := cf_require_second_review c,
       x_default_top_k := cf_search_default_top_k c, x_max_top_k := cf_search_max_top_k c,
       x_auto_osint := cf_auto_osint_after_biometric_search c,
       x_osint_auto_max_candidates := cf_osint_auto_max_candidates c,
       x_pgvector_ready := (backend = Postgres \<and> pgvector_ready)\<rparr>))"

definition boot :: "parsers \<Rightarrow> environment \<Rightarrow> bool \<Rightarrow> app \<Rightarrow> startup_panic + app" where
  "boot R env pgvector_ready libs = or_panic (from_env R env) (\<lambda>c. app_state env c pgvector_ready libs)"

section \<open>What a production process runs with\<close>

lemma or_panic_Inr: "or_panic r f = Inr b \<longleftrightarrow> (\<exists>a. r = Inr a \<and> f a = Inr b)"
  by (auto simp: or_panic_def split: sum.split)

lemma resolve_secret_prod: "resolve_secret env v d True = Inr s \<Longrightarrow> env v = Some s \<and> MIN_SECRET_BYTES \<le> length s"
  by (auto simp: resolve_secret_def not_less split: option.splits if_splits)

lemma national_id_key_prod: "resolve_national_id_key R env True = Inr k \<Longrightarrow>
    length k = 32 \<and> (\<exists>v. env ''NATIONAL_ID_ENCRYPTION_KEY'' = Some v \<and> pr_hex R (trim v) = Some k)"
  by (auto simp: resolve_national_id_key_def Let_def split: option.splits if_splits)

text \<open>
  C17. A process that starts in production runs with what production demands: PostgreSQL, the four
  token secrets and the encryption key of the environment (never the development values of the
  source, which need not be secret), each secret of at least 32 bytes and the key of exactly 32, and
  the mock biometric provider only where it is explicitly allowed.
\<close>

theorem production_never_boots_with_development_settings:
  assumes "from_env R env = Inr c" and "app_state env c pg libs = Inr E" and "production env"
  shows "x_backend E = Postgres
     \<and> env ''JWT_SECRET'' = Some (x_jwt_secret E) \<and> env ''JWT_REFRESH_SECRET'' = Some (x_jwt_refresh_secret E)
     \<and> env ''APPROVAL_TOKEN_SECRET'' = Some (x_approval_token_secret E)
     \<and> env ''MFA_TOKEN_SECRET'' = Some (x_mfa_token_secret E)
     \<and> list_all (\<lambda>s. 32 \<le> length s)
         [x_jwt_secret E, x_jwt_refresh_secret E, x_approval_token_secret E, x_mfa_token_secret E]
     \<and> length (x_national_id_key E) = 32
     \<and> Option.bind (env ''NATIONAL_ID_ENCRYPTION_KEY'') (pr_hex R \<circ> trim) = Some (x_national_id_key E)
     \<and> (cf_biometric_provider c = ''mock'' \<longrightarrow> env ''ALLOW_MOCK_BIOMETRICS'' = Some ''true'')"
proof -
  have env: "resolve_secret env ''JWT_SECRET'' DEV_JWT_SECRET True = Inr (cf_jwt_secret c)"
    "resolve_secret env ''JWT_REFRESH_SECRET'' DEV_JWT_REFRESH_SECRET True = Inr (cf_jwt_refresh_secret c)"
    "resolve_secret env ''APPROVAL_TOKEN_SECRET'' DEV_APPROVAL_TOKEN_SECRET True = Inr (cf_approval_token_secret c)"
    "resolve_secret env ''MFA_TOKEN_SECRET'' DEV_MFA_TOKEN_SECRET True = Inr (cf_mfa_token_secret c)"
    "resolve_national_id_key R env True = Inr (cf_national_id_encryption_key c)"
    and bio: "resolve_biometric_provider env True = Inr (cf_biometric_provider c)"
    using assms(1,3) by (auto simp: from_env_def Let_def or_panic_Inr)
  have E: "x_jwt_secret E = cf_jwt_secret c" "x_jwt_refresh_secret E = cf_jwt_refresh_secret c"
    "x_approval_token_secret E = cf_approval_token_secret c" "x_mfa_token_secret E = cf_mfa_token_secret c"
    "x_national_id_key E = cf_national_id_encryption_key c" "choose_backend env = Inr (x_backend E)"
    using assms(2) by (auto simp: app_state_def or_panic_Inr)
  then have "x_backend E = Postgres" using assms(3) by (auto simp: choose_backend_def split: if_splits)
  moreover have "cf_biometric_provider c = ''mock'' \<longrightarrow> env ''ALLOW_MOCK_BIOMETRICS'' = Some ''true''"
    using bio by (auto simp: resolve_biometric_provider_def Let_def env_true_def split: if_splits)
  ultimately show ?thesis
    using E env(1-4) [THEN resolve_secret_prod] env(5) [THEN national_id_key_prod]
    by (auto simp: MIN_SECRET_BYTES_def)
qed

text \<open>A production environment that boots.\<close>

definition demo_secret :: string where "demo_secret = replicate 32 (CHR ''s'')"

definition demo_environment :: environment where
  "demo_environment = [''RENDER'' \<mapsto> ''1'', ''DATABASE_URL'' \<mapsto> ''pg'', ''JWT_SECRET'' \<mapsto> demo_secret,
     ''JWT_REFRESH_SECRET'' \<mapsto> demo_secret, ''APPROVAL_TOKEN_SECRET'' \<mapsto> demo_secret,
     ''MFA_TOKEN_SECRET'' \<mapsto> demo_secret, ''NATIONAL_ID_ENCRYPTION_KEY'' \<mapsto> ''00'',
     ''BIOMETRIC_PROVIDER'' \<mapsto> ''onnx'']"

definition demo_parsers :: parsers where
  "demo_parsers = \<lparr>pr_u16 = (\<lambda>_. None), pr_i64 = (\<lambda>_. None), pr_hex = (\<lambda>_. Some (replicate 32 0))\<rparr>"

lemma dropWhile_none: "list_all (\<lambda>c. \<not> P c) s \<Longrightarrow> dropWhile P s = s"
  by (cases s) simp_all

lemma trim_plain: "list_all (\<lambda>c. \<not> is_whitespace c) s \<Longrightarrow> trim s = s"
  by (simp add: trim_def dropWhile_none)

lemma trim_demo [simp]: "trim demo_secret = demo_secret" "length demo_secret = 32" "demo_secret \<noteq> []"
  "trim ''00'' = ''00''" "trim ''onnx'' = ''onnx''" "trim ''pg'' = ''pg''"
  by (simp_all add: demo_secret_def trim_plain list_all_iff is_whitespace_def code_def)

lemma production_never_boots_with_development_settings_witness:
  "\<exists>c E. from_env demo_parsers demo_environment = Inr c \<and> app_state demo_environment c False demo_app = Inr E
     \<and> x_backend E = Postgres \<and> x_jwt_secret E = demo_secret"
proof -
  have prod: "production demo_environment" by (simp add: production_def demo_environment_def)
  have "resolve_secret demo_environment v d True = Inr demo_secret" if "demo_environment v = Some demo_secret" for v d
    using that by (simp add: resolve_secret_def MIN_SECRET_BYTES_def)
  moreover have "resolve_national_id_key demo_parsers demo_environment True = Inr (replicate 32 0)"
    by (simp add: resolve_national_id_key_def demo_environment_def demo_parsers_def)
  moreover have "resolve_biometric_provider demo_environment True = Inr ''onnx''"
    by (simp add: resolve_biometric_provider_def demo_environment_def)
  ultimately obtain c where c: "from_env demo_parsers demo_environment = Inr c"
    using prod by (simp add: from_env_def or_panic_def Let_def demo_environment_def)
  moreover have "choose_backend demo_environment = Inr Postgres"
    by (simp add: choose_backend_def demo_environment_def)
  then obtain E where E: "app_state demo_environment c False demo_app = Inr E" by (simp add: app_state_def or_panic_def)
  ultimately show ?thesis
    using production_never_boots_with_development_settings [OF c E prod] by (auto simp: demo_environment_def)
qed

end
