(* ===== verification/Db_Seed.thy ===== *)
theory Db_Seed
  imports Db_Search
begin

text \<open>
  The demo candidates \<open>db/mod.rs\<close> inserts at every start into an empty table.
\<close>

definition MOCK_CANDIDATE_NAMES :: "string list" where
  "MOCK_CANDIDATE_NAMES =
     [''Demo Candidate Alfa'', ''Demo Candidate Bravo'', ''Demo Candidate Charlie'', ''Demo Candidate Delta'',
      ''Demo Candidate Echo'', ''Demo Candidate Foxtrot'', ''Demo Candidate Golf'', ''Demo Candidate Hotel'']"

definition SEED_NOTE :: string where
  "SEED_NOTE = ''Synthetic seed record for the mock biometric provider '' @ [CHR 0xE2, CHR 0x80, CHR 0x94]
     @ '' not a real person.''"

text \<open>\<open>format!("CAND-{:04}", n)\<close>.\<close>

definition seed_code :: "nat \<Rightarrow> string" where
  "seed_code n = ''CAND-'' @ replicate (4 - length (show_nat n)) (CHR ''0'') @ show_nat n"

fun insert_seeds :: "app \<Rightarrow> (nat \<times> string) list \<Rightarrow> (db_error + unit) handler" where
  "insert_seeds E [] = return (Inr ())"
| "insert_seeds E ((i, name) # rest) = do {
     k \<leftarrow> new_uuid E;
     r \<leftarrow> try_stmt (insert_candidate
       \<lparr>cd_id = k, cd_reference_code = seed_code (i + 1), cd_full_name = name,
        cd_notes = Some SEED_NOTE, cd_organization_id = None\<rparr>);
     case r of Inl e \<Rightarrow> return (Inl e) | Inr _ \<Rightarrow> insert_seeds E rest
   }"

definition seed_mock_candidates :: "app \<Rightarrow> (db_error + unit) handler" where
  "seed_mock_candidates E = do {
     n \<leftarrow> query (\<lambda>w. sql_count (\<lambda>_. True) (w_candidates w));
     case n of
       Inl e \<Rightarrow> return (Inl e)
     | Inr n \<Rightarrow> if 0 < n then return (Inr ()) else insert_seeds E (List.enumerate 0 MOCK_CANDIDATE_NAMES)
   }"

lemma insert_seeds_grow:
  "(\<exists>cs. w_candidates (exec (insert_seeds E xs) w) = w_candidates w @ cs \<and> length cs \<le> length xs
      \<and> (result (insert_seeds E xs) w = Inr () \<longrightarrow> length cs = length xs))"
proof (induction xs arbitrary: w)
  case (Cons x xs)
  obtain i name where x: "x = (i, name)" by fastforce
  let ?row = "\<lparr>cd_id = x_uuid_v4 E (w_draws w), cd_reference_code = seed_code (i + 1), cd_full_name = name,
      cd_notes = Some SEED_NOTE, cd_organization_id = None\<rparr>"
  let ?v = "exec (try_stmt (insert_candidate ?row)) (w\<lparr>w_draws := Suc (w_draws w)\<rparr>)"
  show ?case
  proof (cases "result (try_stmt (insert_candidate ?row)) (w\<lparr>w_draws := Suc (w_draws w)\<rparr>)")
    case (Inl e)
    then have "w_candidates ?v = w_candidates w"
      by (auto simp: result_try_stmt exec_try_stmt insert_candidate_def split: if_splits)
    then show ?thesis using Inl by (simp add: x exec_bind result_bind)
  next
    case (Inr u)
    then have "w_candidates ?v = w_candidates w @ [?row]"
      by (auto simp: result_try_stmt exec_try_stmt insert_candidate_def split: if_splits)
    moreover obtain cs where "w_candidates (exec (insert_seeds E xs) ?v) = w_candidates ?v @ cs"
      "length cs \<le> length xs" "result (insert_seeds E xs) ?v = Inr () \<longrightarrow> length cs = length xs"
      using Cons [of ?v] by blast
    ultimately show ?thesis using Inr
      by (intro exI [of _ "?row # cs"]) (simp add: x exec_bind result_bind)
  qed
qed simp

text \<open>
  Seeding never touches a table that holds a candidate, whether it was seeded before or not. So a
  start that failed between two inserts has left some of the demo candidates, and no later start
  adds the others.
\<close>

lemma seeding_only_fills_an_empty_table:
  assumes "w_candidates w \<noteq> []"
  shows "w_candidates ((exec (seed_mock_candidates E) ^^ n) w) = w_candidates w"
proof (induction n)
  case (Suc n)
  have "w_candidates (exec (seed_mock_candidates E) v) = w_candidates v" if "w_candidates v \<noteq> []" for v
    using that by (auto simp: seed_mock_candidates_def exec_bind result_query exec_query sql_count_def)
  then show ?case using Suc assms by simp
qed simp

lemma seeding_fills_an_empty_table:
  assumes "w_candidates w = []" and "result (seed_mock_candidates E) w = Inr ()"
  shows "length (w_candidates (exec (seed_mock_candidates E) w)) = length MOCK_CANDIDATE_NAMES"
  using assms insert_seeds_grow [of E "List.enumerate 0 MOCK_CANDIDATE_NAMES" "exec (query (\<lambda>w. sql_count (\<lambda>_. True) (w_candidates w))) w"]
  by (auto simp: seed_mock_candidates_def exec_bind result_bind result_query exec_query split: if_splits)

lemma seed_frame [frame_intros]:
  "blind_base f \<Longrightarrow> blind w_candidates_update f \<Longrightarrow> preserves f (seed_mock_candidates E)"
proof -
  assume f: "blind_base f" "blind w_candidates_update f"
  have "preserves f (insert_seeds E xs)" for xs
    using f by (induction E xs rule: insert_seeds.induct)
      (auto intro!: frame_intros try_stmt_frame simp: insert_candidate_def)
  then show ?thesis unfolding seed_mock_candidates_def by (intro frame_intros f)
qed

end
