(* ===== verification/System.thy ===== *)
theory System
  imports Monitoring Config Db_Seed Review_Rules
begin

text \<open>
  The whole server: \<open>server/src/routes/mod.rs\<close> and \<open>main.rs\<close>. A request is a route with what axum's
  extractors made of the path, the query and the body; a request they refuse never reaches a handler
  and has no effect. \<open>step\<close> is one thing that happens: a request, a background search that
  gets its turn, the retention job, the passing of time, or a restart of the process.
\<close>

section \<open>Requests\<close>

datatype auth_request =
    Register register_payload
  | Login string string
  | Refresh
  | Forgot_Password string
  | Reset_Password string string
  | Logout
  | Logout_All
  | Registration_Status string
  | Mfa_Enroll "string option"
  | Mfa_Enroll_Resend
  | Mfa_Enroll_Confirm string
  | Mfa_Disable string string
  | Challenge_Enroll string "string option"
  | Challenge_Enroll_Resend string
  | Challenge_Enroll_Confirm string string
  | Challenge_Verify string string
  | Challenge_Request_Code string

datatype admin_request =
    Seed_Admin
  | List_Users "int option" "int option"
  | Create_User create_user_payload
  | Approve_User string
  | Reject_User string
  | Ban_User string "string option"
  | Unban_User string
  | Mfa_Reset string
  | Change_Role string string
  | List_Thresholds
  | List_Connectors
  | Delete_User string
  | Update_User string update_user_payload
  | Review_Link string
  | Quick_Approve string
  | Quick_Reject string
  | List_Organizations
  | Create_Organization string
  | List_Units string
  | Create_Unit string string "string option"
  | Assign_Membership string string "string option"
  | Remove_Membership string string

datatype search_request =
    Create_Search multipart
  | List_Searches "int option" "int option"
  | Get_Search string
  | Get_Search_Status string
  | Get_Search_Candidates string
  | Get_Candidate_History string string

datatype candidate_request =
    Create_Candidate create_candidate_payload
  | Get_Candidate string
  | Verify_Candidate string review_payload
  | Reject_Candidate string review_payload
  | Mark_Candidate_Inconclusive string review_payload
  | Upload_Reference_Photo string multipart
  | List_Templates string
  | Revoke_Template string string
  | Collect_Evidence string string
  | List_Evidence string
  | Possible_Duplicates string
  | Entity_Graph string
  | Add_Entity_Relation string string string

datatype request =
    Health
  | Ready
  | Metrics
  | Me
  | List_Sessions
  | Revoke_Own_Session string
  | List_Audit_Events audit_query
  | Verify_Audit_Integrity
  | Auth auth_request
  | Admin admin_request
  | Search search_request
  | Candidate candidate_request

section \<open>The routers\<close>

text \<open>What \<open>AppState\<close> holds besides the settings: the chosen provider, the OSINT sources, the codec.\<close>

record server =
  se_app :: app
  se_info :: process_info
  se_codec :: image_codec
  se_provider :: biometric_provider
  se_orchestrator :: orchestrator

definition new_server ::
  "app \<Rightarrow> process_info \<Rightarrow> image_codec \<Rightarrow> vision_pipeline \<Rightarrow> http_client \<Rightarrow> string \<Rightarrow> server" where
  "new_server E I C V H provider_name =
     \<lparr>se_app = E, se_info = I\<lparr>pi_biometric_provider_name := (if provider_name = ''onnx'' then ''onnx'' else ''mock'')\<rparr>,
      se_codec = C,
      se_provider = (if provider_name = ''onnx'' then onnx_biometric E V else mock_biometric E),
      se_orchestrator = orchestrator_from_env E H\<rparr>"

fun auth_routes :: "server \<Rightarrow> header_map \<Rightarrow> auth_request \<Rightarrow> response handler" where
  "auth_routes S headers (Register payload) = register (se_app S) headers payload"
| "auth_routes S headers (Login user_code password) = login (se_app S) headers user_code password"
| "auth_routes S headers Refresh = refresh (se_app S) headers"
| "auth_routes S headers (Forgot_Password identifier) = forgot_password (se_app S) headers identifier"
| "auth_routes S headers (Reset_Password token password) = reset_password (se_app S) headers token password"
| "auth_routes S headers Logout = logout (se_app S) headers"
| "auth_routes S headers Logout_All = logout_all (se_app S) headers"
| "auth_routes S headers (Registration_Status tracking_token) = registration_status (se_app S) tracking_token"
| "auth_routes S headers (Mfa_Enroll meth) = enroll (se_app S) headers meth"
| "auth_routes S headers Mfa_Enroll_Resend = enroll_resend (se_app S) headers"
| "auth_routes S headers (Mfa_Enroll_Confirm c) = enroll_confirm (se_app S) headers c"
| "auth_routes S headers (Mfa_Disable password c) = disable (se_app S) headers password c"
| "auth_routes S headers (Challenge_Enroll token meth) = challenge_enroll (se_app S) headers token meth"
| "auth_routes S headers (Challenge_Enroll_Resend token) = challenge_enroll_resend (se_app S) headers token"
| "auth_routes S headers (Challenge_Enroll_Confirm token c) = challenge_enroll_confirm (se_app S) headers token c"
| "auth_routes S headers (Challenge_Verify token c) = challenge_verify (se_app S) headers token c"
| "auth_routes S headers (Challenge_Request_Code token) = challenge_request_code (se_app S) headers token"

fun admin_routes :: "server \<Rightarrow> header_map \<Rightarrow> admin_request \<Rightarrow> response handler" where
  "admin_routes S headers Seed_Admin = seed_admin (se_app S) headers"
| "admin_routes S headers (List_Users page sz) = list_users_route (se_app S) headers page sz"
| "admin_routes S headers (Create_User payload) = create_user_route (se_app S) headers payload"
| "admin_routes S headers (Approve_User i) = approve_user (se_app S) i headers"
| "admin_routes S headers (Reject_User i) = reject_user (se_app S) i headers"
| "admin_routes S headers (Ban_User i reason) = ban_user (se_app S) i headers reason"
| "admin_routes S headers (Unban_User i) = unban_user (se_app S) i headers"
| "admin_routes S headers (Mfa_Reset i) = mfa_reset_route (se_app S) i headers"
| "admin_routes S headers (Change_Role i role) = change_role_route (se_app S) i headers role"
| "admin_routes S headers List_Thresholds = list_biometric_thresholds (se_app S) headers"
| "admin_routes S headers List_Connectors = list_connectors (se_app S) (se_orchestrator S) headers"
| "admin_routes S headers (Delete_User i) = delete_user_route (se_app S) i headers"
| "admin_routes S headers (Update_User i payload) = update_user_route (se_app S) i headers payload"
| "admin_routes S headers (Review_Link token) = review (se_app S) token"
| "admin_routes S headers (Quick_Approve token) = quick_approve (se_app S) token headers"
| "admin_routes S headers (Quick_Reject token) = quick_reject (se_app S) token headers"
| "admin_routes S headers List_Organizations = list_organizations_route (se_app S) headers"
| "admin_routes S headers (Create_Organization name) = create_organization_route (se_app S) headers name"
| "admin_routes S headers (List_Units org) = list_units_route (se_app S) org headers"
| "admin_routes S headers (Create_Unit org name parent) = create_unit_route (se_app S) org headers name parent"
| "admin_routes S headers (Assign_Membership user org unit) = assign_membership_route (se_app S) headers user org unit"
| "admin_routes S headers (Remove_Membership user org) = remove_membership_route (se_app S) headers user org"

definition plain :: "response handler \<Rightarrow> (response \<times> search_task list) handler" where
  "plain m = do { r \<leftarrow> m; return (r, []) }"

text \<open>Creating a search spawns its background half; no other route spawns anything.\<close>

fun search_routes :: "server \<Rightarrow> header_map \<Rightarrow> search_request \<Rightarrow> (response \<times> search_task list) handler" where
  "search_routes S headers (Create_Search form) = do {
     r \<leftarrow> create_search_route (se_app S) (se_codec S) headers form;
     return (fst r, case snd r of None \<Rightarrow> [] | Some task \<Rightarrow> [task])
   }"
| "search_routes S headers (List_Searches page sz) = plain (list_searches_route (se_app S) headers page sz)"
| "search_routes S headers (Get_Search i) = plain (get_search_route (se_app S) i headers)"
| "search_routes S headers (Get_Search_Status i) = plain (get_search_status_route (se_app S) i headers)"
| "search_routes S headers (Get_Search_Candidates i) = plain (get_search_candidates_route (se_app S) i headers)"
| "search_routes S headers (Get_Candidate_History i j) = plain (get_candidate_history_route (se_app S) i j headers)"

fun candidate_routes :: "server \<Rightarrow> header_map \<Rightarrow> candidate_request \<Rightarrow> response handler" where
  "candidate_routes S headers (Create_Candidate payload) = create_candidate_route (se_app S) headers payload"
| "candidate_routes S headers (Get_Candidate i) = get_candidate_route (se_app S) i headers"
| "candidate_routes S headers (Verify_Candidate i payload) = verify_candidate_route (se_app S) i headers payload"
| "candidate_routes S headers (Reject_Candidate i payload) = reject_candidate_route (se_app S) i headers payload"
| "candidate_routes S headers (Mark_Candidate_Inconclusive i payload) =
     mark_candidate_inconclusive_route (se_app S) i headers payload"
| "candidate_routes S headers (Upload_Reference_Photo i form) =
     upload_reference_photo_route (se_app S) (se_codec S) (se_provider S) i headers form"
| "candidate_routes S headers (List_Templates i) = list_templates_route (se_app S) i headers"
| "candidate_routes S headers (Revoke_Template i j) = revoke_template_route (se_app S) i j headers"
| "candidate_routes S headers (Collect_Evidence i phrase) =
     collect_evidence_route (se_app S) (se_orchestrator S) i headers phrase"
| "candidate_routes S headers (List_Evidence i) = list_evidence_route (se_app S) i headers"
| "candidate_routes S headers (Possible_Duplicates i) = possible_duplicates_route (se_app S) i headers"
| "candidate_routes S headers (Entity_Graph i) = entity_graph_route (se_app S) i headers"
| "candidate_routes S headers (Add_Entity_Relation i ty v) = add_entity_relation_route (se_app S) i headers ty v"

fun router :: "server \<Rightarrow> header_map \<Rightarrow> request \<Rightarrow> (response \<times> search_task list) handler" where
  "router S headers Health = plain (health (se_info S))"
| "router S headers Ready = plain (ready (se_app S) (se_info S))"
| "router S headers Metrics = plain (metrics_route (se_app S) (se_info S) headers)"
| "router S headers Me = plain (me (se_app S) headers)"
| "router S headers List_Sessions = plain (list_sessions (se_app S) headers)"
| "router S headers (Revoke_Own_Session i) = plain (revoke_own_session (se_app S) headers i)"
| "router S headers (List_Audit_Events q) = plain (list_audit_events_route (se_app S) headers q)"
| "router S headers Verify_Audit_Integrity = plain (verify_audit_integrity_route (se_app S) headers)"
| "router S headers (Auth r) = plain (auth_routes S headers r)"
| "router S headers (Admin r) = plain (admin_routes S headers r)"
| "router S headers (Search r) = search_routes S headers r"
| "router S headers (Candidate r) = plain (candidate_routes S headers r)"

section \<open>Method and route template\<close>

text \<open>The registration of each route: what \<open>MatchedPath\<close> reports and the metrics are labelled with.\<close>

fun auth_endpoint :: "auth_request \<Rightarrow> string \<times> string" where
  "auth_endpoint (Register p) = (''POST'', ''/register'')"
| "auth_endpoint (Login c p) = (''POST'', ''/login'')"
| "auth_endpoint Refresh = (''POST'', ''/refresh'')"
| "auth_endpoint (Forgot_Password i) = (''POST'', ''/forgot-password'')"
| "auth_endpoint (Reset_Password t p) = (''POST'', ''/reset-password'')"
| "auth_endpoint Logout = (''POST'', ''/logout'')"
| "auth_endpoint Logout_All = (''POST'', ''/logout-all'')"
| "auth_endpoint (Registration_Status t) = (''GET'', ''/registration-status/:tracking_token'')"
| "auth_endpoint (Mfa_Enroll m) = (''POST'', ''/mfa/enroll'')"
| "auth_endpoint Mfa_Enroll_Resend = (''POST'', ''/mfa/enroll/resend'')"
| "auth_endpoint (Mfa_Enroll_Confirm c) = (''POST'', ''/mfa/enroll/confirm'')"
| "auth_endpoint (Mfa_Disable p c) = (''POST'', ''/mfa/disable'')"
| "auth_endpoint (Challenge_Enroll t m) = (''POST'', ''/mfa/challenge/enroll'')"
| "auth_endpoint (Challenge_Enroll_Resend t) = (''POST'', ''/mfa/challenge/enroll/resend'')"
| "auth_endpoint (Challenge_Enroll_Confirm t c) = (''POST'', ''/mfa/challenge/enroll/confirm'')"
| "auth_endpoint (Challenge_Verify t c) = (''POST'', ''/mfa/challenge/verify'')"
| "auth_endpoint (Challenge_Request_Code t) = (''POST'', ''/mfa/challenge/request-code'')"

fun admin_endpoint :: "admin_request \<Rightarrow> string \<times> string" where
  "admin_endpoint Seed_Admin = (''POST'', ''/seed-admin'')"
| "admin_endpoint (List_Users p s) = (''GET'', ''/users'')"
| "admin_endpoint (Create_User p) = (''POST'', ''/users'')"
| "admin_endpoint (Approve_User i) = (''POST'', ''/users/:id/approve'')"
| "admin_endpoint (Reject_User i) = (''POST'', ''/users/:id/reject'')"
| "admin_endpoint (Ban_User i r) = (''POST'', ''/users/:id/ban'')"
| "admin_endpoint (Unban_User i) = (''POST'', ''/users/:id/unban'')"
| "admin_endpoint (Mfa_Reset i) = (''POST'', ''/users/:id/mfa-reset'')"
| "admin_endpoint (Change_Role i r) = (''POST'', ''/users/:id/role'')"
| "admin_endpoint List_Thresholds = (''GET'', ''/biometric-thresholds'')"
| "admin_endpoint List_Connectors = (''GET'', ''/connectors'')"
| "admin_endpoint (Delete_User i) = (''DELETE'', ''/users/:id'')"
| "admin_endpoint (Update_User i p) = (''PATCH'', ''/users/:id'')"
| "admin_endpoint (Review_Link t) = (''GET'', ''/review/:token'')"
| "admin_endpoint (Quick_Approve t) = (''POST'', ''/quick-approve/:token'')"
| "admin_endpoint (Quick_Reject t) = (''POST'', ''/quick-reject/:token'')"
| "admin_endpoint List_Organizations = (''GET'', ''/organizations'')"
| "admin_endpoint (Create_Organization n) = (''POST'', ''/organizations'')"
| "admin_endpoint (List_Units g) = (''GET'', ''/organizations/:organization_id/units'')"
| "admin_endpoint (Create_Unit g n p) = (''POST'', ''/organizations/:organization_id/units'')"
| "admin_endpoint (Assign_Membership u g n) = (''POST'', ''/memberships'')"
| "admin_endpoint (Remove_Membership u g) = (''DELETE'', ''/memberships'')"

fun search_endpoint :: "search_request \<Rightarrow> string \<times> string" where
  "search_endpoint (Create_Search f) = (''POST'', ''/face'')"
| "search_endpoint (List_Searches p s) = (''GET'', ''/'')"
| "search_endpoint (Get_Search i) = (''GET'', ''/:search_id'')"
| "search_endpoint (Get_Search_Status i) = (''GET'', ''/:search_id/status'')"
| "search_endpoint (Get_Search_Candidates i) = (''GET'', ''/:search_id/candidates'')"
| "search_endpoint (Get_Candidate_History i j) = (''GET'', ''/:search_id/candidates/:candidate_id/history'')"

fun candidate_endpoint :: "candidate_request \<Rightarrow> string \<times> string" where
  "candidate_endpoint (Create_Candidate p) = (''POST'', ''/'')"
| "candidate_endpoint (Get_Candidate i) = (''GET'', ''/:candidate_id'')"
| "candidate_endpoint (Verify_Candidate i p) = (''POST'', ''/:candidate_id/verify'')"
| "candidate_endpoint (Reject_Candidate i p) = (''POST'', ''/:candidate_id/reject'')"
| "candidate_endpoint (Mark_Candidate_Inconclusive i p) = (''POST'', ''/:candidate_id/inconclusive'')"
| "candidate_endpoint (Upload_Reference_Photo i f) = (''POST'', ''/:candidate_id/reference-photos'')"
| "candidate_endpoint (List_Templates i) = (''GET'', ''/:candidate_id/templates'')"
| "candidate_endpoint (Revoke_Template i j) = (''POST'', ''/:candidate_id/templates/:template_id/revoke'')"
| "candidate_endpoint (Collect_Evidence i q) = (''POST'', ''/:candidate_id/evidence/collect'')"
| "candidate_endpoint (List_Evidence i) = (''GET'', ''/:candidate_id/evidence'')"
| "candidate_endpoint (Possible_Duplicates i) = (''GET'', ''/:candidate_id/possible-duplicates'')"
| "candidate_endpoint (Entity_Graph i) = (''GET'', ''/:candidate_id/entity-graph'')"
| "candidate_endpoint (Add_Entity_Relation i t v) = (''POST'', ''/:candidate_id/entity-graph'')"

definition under :: "string \<Rightarrow> string \<times> string \<Rightarrow> string \<times> string" where
  "under prefix e = (fst e, if snd e = ''/'' then prefix else prefix @ snd e)"

fun endpoint :: "request \<Rightarrow> string \<times> string" where
  "endpoint Health = (''GET'', ''/api/health'')"
| "endpoint Ready = (''GET'', ''/api/health/ready'')"
| "endpoint Metrics = (''GET'', ''/metrics'')"
| "endpoint Me = (''GET'', ''/api/v1/users/me'')"
| "endpoint List_Sessions = (''GET'', ''/api/v1/users/me/sessions'')"
| "endpoint (Revoke_Own_Session i) = (''DELETE'', ''/api/v1/users/me/sessions/:session_id'')"
| "endpoint (List_Audit_Events q) = (''GET'', ''/api/v1/audit'')"
| "endpoint Verify_Audit_Integrity = (''GET'', ''/api/v1/audit/integrity'')"
| "endpoint (Auth r) = under ''/api/v1/auth'' (auth_endpoint r)"
| "endpoint (Admin r) = under ''/api/v1/admin'' (admin_endpoint r)"
| "endpoint (Search r) = under ''/api/v1/search'' (search_endpoint r)"
| "endpoint (Candidate r) = under ''/api/v1/candidates'' (candidate_endpoint r)"

definition serve :: "server \<Rightarrow> header_map \<Rightarrow> request \<Rightarrow> (response \<times> search_task list) handler" where
  "serve S headers req =
     http_metrics_middleware (fst (endpoint req)) (snd (endpoint req)) (r_status \<circ> fst) (router S headers req)"

section \<open>The running system\<close>

record system =
  sy_world :: world
  sy_pending :: "search_task list"

text \<open>
  A restart empties what the process keeps in memory (the limiter, the breakers, the metrics, and
  the searches that wait for their turn) and seeds the candidates like every start.
\<close>

definition restart :: "server \<Rightarrow> world \<Rightarrow> world" where
  "restart S w = exec (seed_mock_candidates (se_app S))
     (w\<lparr>w_windows := [], w_breakers := (\<lambda>_. (0, None)), w_counters := []\<rparr>)"

definition work :: "server \<Rightarrow> search_task \<Rightarrow> unit handler" where
  "work S task = run_queued_search (se_app S) (se_provider S) (se_orchestrator S) task"

inductive step :: "server \<Rightarrow> system \<Rightarrow> system \<Rightarrow> bool" for S :: server where
  request: "step S s \<lparr>sy_world = exec (serve S headers req) (sy_world s),
      sy_pending = sy_pending s @ snd (result (serve S headers req) (sy_world s))\<rparr>"
| background: "sy_pending s = before @ task # after \<Longrightarrow>
    step S s \<lparr>sy_world = exec (work S task) (sy_world s), sy_pending = before @ after\<rparr>"
| retention: "step S s (s\<lparr>sy_world := exec purge_expired_auth_records (sy_world s)\<rparr>)"
| passing: "w_now (sy_world s) \<le> t \<Longrightarrow> step S s (s\<lparr>sy_world := (sy_world s)\<lparr>w_now := t\<rparr>\<rparr>)"
| restart: "step S s \<lparr>sy_world = restart S (sy_world s), sy_pending = []\<rparr>"

text \<open>Everything that can happen from a state on.\<close>

definition leads_to :: "server \<Rightarrow> system \<Rightarrow> system \<Rightarrow> bool" where
  "leads_to S = (step S)\<^sup>*\<^sup>*"

lemma leads_to_refl [simp]: "leads_to S s s"
  by (simp add: leads_to_def)

lemma leads_to_step: "leads_to S s t \<Longrightarrow> step S t u \<Longrightarrow> leads_to S s u"
  by (simp add: leads_to_def rtranclp.rtrancl_into_rtrancl)

lemma leads_to_induct [consumes 1, case_names start step]:
  assumes "leads_to S s t" and "P s"
    and "\<And>t u. leads_to S s t \<Longrightarrow> P t \<Longrightarrow> step S t u \<Longrightarrow> P u"
  shows "P t"
proof -
  have "(step S)\<^sup>*\<^sup>* s t" using assms(1) by (simp add: leads_to_def)
  then show ?thesis
  proof (induction rule: rtranclp_induct)
    case (step t u)
    show ?case by (rule assms(3) [OF _ step(3,2)]) (simp add: leads_to_def step(1))
  qed (rule assms(2))
qed

inductive_cases stepE: "step S s t"

text \<open>
  An invariant of the tables is one of the system when requests, the background work, the purge,
  the clock and a restart keep it.
\<close>

lemma system_invariant:
  assumes "leads_to S s t" and "P (sy_world s)"
    and serve: "\<And>headers req. keeps P (serve S headers req)"
    and work: "\<And>task. keeps P (work S task)"
    and purge: "keeps P purge_expired_auth_records"
    and now: "\<And>w n. P w \<Longrightarrow> P (w\<lparr>w_now := n\<rparr>)"
    and restart: "\<And>w. P w \<Longrightarrow> P (restart S w)"
  shows "P (sy_world t)"
  using assms(1)
proof (induction rule: leads_to_induct)
  case (step t u)
  from step(2) show ?case
    by cases (simp_all add: step(3) now restart keepsD [OF serve step(3)] keepsD [OF work step(3)] keepsD [OF purge step(3)])
qed (rule assms(2))

lemma serve_keeps:
  assumes "blind w_counters_update P" and "keeps P (router S h req)"
  shows "keeps P (serve S h req)"
proof -
  have "keeps P (count_metric n l)" for n l
    by (rule keeps_of_preserves) (use assms(1) in \<open>simp add: frame_intros preserves_count_metric\<close>)
  then show ?thesis unfolding serve_def http_metrics_middleware_def by (intro keeps_intros assms(2))
qed

lemma plain_keeps [intro]: "keeps P m \<Longrightarrow> keeps P (plain m)"
  unfolding plain_def by (intro keeps_intros)

lemma plain_frame [frame_intros]: "preserves f m \<Longrightarrow> preserves f (plain m)"
  unfolding plain_def by (intro frame_intros)


end
