(* ===== verification/System_Rules.thy ===== *)
theory System_Rules
  imports System
begin

text \<open>
  Invariants of the running server: what every request, the background work, the retention job and
  a restart keep. The interface \<open>running_server\<close> is a server whose biometric provider only reads and
  whose OSINT sources are quiet; every server \<open>AppState::new\<close> builds is one.
\<close>


section \<open>Which routes touch what\<close>

text \<open>An observation of the tables that looks at none but the three of the search workflow.\<close>

definition beside_searches :: "(world \<Rightarrow> 'b) \<Rightarrow> bool" where
  [simp]: "beside_searches f \<longleftrightarrow> blind_auth f \<and> blind_admin f \<and> blind w_now_update f
     \<and> blind w_windows_update f \<and> blind w_counters_update f
     \<and> blind w_relations_update f \<and> blind w_evidence_update f \<and> blind w_breakers_update f
     \<and> blind w_candidates_update f \<and> blind w_templates_update f \<and> blind w_thresholds_update f
     \<and> blind w_organizations_update f \<and> blind w_units_update f \<and> blind w_memberships_update f"

lemma auth_routes_frame: "beside_searches f \<Longrightarrow> preserves f (auth_routes S h r)"
  by (cases r; simp only: auth_routes.simps; intro frame_intros; simp)

lemma admin_routes_frame: "beside_searches f \<Longrightarrow> preserves f (admin_routes S h r)"
  by (cases r; simp only: admin_routes.simps; intro frame_intros; simp)

lemma purge_frame: "blind_base f \<Longrightarrow> blind w_sessions_update f \<Longrightarrow> blind w_approval_tokens_update f \<Longrightarrow>
    preserves f purge_expired_auth_records"
  unfolding purge_expired_auth_records_def by (intro frame_intros stmt_frame; simp)

lemma restart_frame: "beside_searches f \<Longrightarrow> f (restart S w) = f w"
  unfolding restart_def by (subst preservesD [OF seed_frame]) simp_all

text \<open>
  What keeps the tables of the search workflow: an invariant that looks at nothing else, kept by the
  writes to them, is kept by every request and by the background work.
\<close>

locale running_server = search_worker "se_provider S" "se_orchestrator S" for S :: server
begin

lemma candidate_routes_frame:
  assumes "beside_searches f" and "\<And>i p. r \<noteq> Verify_Candidate i p" "\<And>i p. r \<noteq> Reject_Candidate i p"
    "\<And>i p. r \<noteq> Mark_Candidate_Inconclusive i p"
  shows "preserves f (candidate_routes S h r)"
proof -
  have "preserves f (upload_reference_photo_route (se_app S) (se_codec S) (se_provider S) i h form)"
    "preserves f (collect_evidence_route (se_app S) (se_orchestrator S) i h phrase)" for i form phrase
    using assms(1) by (intro upload_frame collect_route_frame; simp)+
  then show ?thesis using assms
    by (cases r; simp only: candidate_routes.simps; (intro frame_intros)?; simp)
qed

end

lemma keeps_as_role:
  assumes "blind_base I" and "\<And>rid c. keeps I (b rid c)"
  shows "keeps I (as_role E h p b)"
proof -
  have "keeps I (request_id E h)" "keeps I (auth_user_from_headers E h)"
    by (intro keeps_of_preserves frame_intros; use assms(1) in simp)+
  then show ?thesis unfolding as_role_def by (intro keeps_intros assms(2))
qed

text \<open>An invariant of the review tables: kept by the three decisions and by finalizing a search.\<close>

lemma keeps_outcome:
  "(\<And>v. keeps I (a v)) \<Longrightarrow> keeps I m \<Longrightarrow> keeps I n \<Longrightarrow>
     keeps I (case x of Applied v \<Rightarrow> a v | ReviewNotFound \<Rightarrow> m | SameReviewerForbidden \<Rightarrow> n)"
  by (simp split: review_outcome.split)

lemma review_route_keeps:
  assumes "blind_audit I" and "\<And>u n rid. keeps I (record_review_decision E (rv_search_id p) i d u n (rv_reason p) (rv_notes p)
      rid (x_require_second_review E))"
  shows "keeps I (review_candidate E h i p d)"
proof -
  have quiet: "keeps I (display_name E c)" "keeps I (audited E rid e (return r))" "keeps I (save E e)" for c rid e r
    by (intro keeps_of_preserves frame_intros; use assms(1) in simp)+
  show ?thesis unfolding review_candidate_def Let_def
    by (intro keeps_as_role keeps_intros keeps_outcome quiet assms(2)) (use assms(1) in simp)
qed

context running_server begin

lemma router_keeps:
  assumes beside: "beside_searches I"
    and create: "\<And>h form. keeps I (create_search_route (se_app S) (se_codec S) h form)"
    and review: "\<And>h i p d. d \<in> {''confirmed'', ''rejected'', ''inconclusive''} \<Longrightarrow>
      keeps I (review_candidate (se_app S) h i p d)"
  shows "keeps I (serve S h req)"
proof -
  have candidate: "keeps I (candidate_routes S h r)" for r
  proof (cases "(\<exists>i p. r = Verify_Candidate i p) \<or> (\<exists>i p. r = Reject_Candidate i p) \<or> (\<exists>i p. r = Mark_Candidate_Inconclusive i p)")
    case True
    then show ?thesis using review
      by (auto simp: verify_candidate_route_def reject_candidate_route_def mark_candidate_inconclusive_route_def)
  next
    case False
    then show ?thesis by (intro keeps_of_preserves candidate_routes_frame beside) auto
  qed
  have search: "keeps I (search_routes S h r)" for r
  proof (cases r)
    case (Create_Search form)
    then show ?thesis by (simp add: keeps_bind create)
  qed (simp only: search_routes.simps, intro keeps_of_preserves frame_intros, use beside in simp)+
  have auth: "keeps I (auth_routes S h r)" and admin: "keeps I (admin_routes S h s)" for r s
    by (intro keeps_of_preserves auth_routes_frame admin_routes_frame beside)+
  have other: "keeps I (health (se_info S))" "keeps I (ready (se_app S) (se_info S))"
    "keeps I (metrics_route (se_app S) (se_info S) h)" "keeps I (me (se_app S) h)"
    "keeps I (list_sessions (se_app S) h)" "keeps I (revoke_own_session (se_app S) h i)"
    "keeps I (list_audit_events_route (se_app S) h q)" "keeps I (verify_audit_integrity_route (se_app S) h)" for i q
    by (intro keeps_of_preserves frame_intros; use beside in simp)+
  have "keeps I (router S h req)"
    by (cases req; simp only: router.simps; intro search plain_keeps other auth admin candidate)
  then show ?thesis by (intro serve_keeps) (use beside in simp)
qed

end

lemma new_server_simps [simp]:
  "se_app (new_server E I C V H name) = E"
  "se_provider (new_server E I C V H name) = (if name = ''onnx'' then onnx_biometric E V else mock_biometric E)"
  "se_orchestrator (new_server E I C V H name) = orchestrator_from_env E H"
  by (simp_all add: new_server_def)

interpretation new_server: running_server "new_server E I C V H name" for E I C V H name
proof (intro running_server.intro)
  show "search_worker (se_provider (new_server E I C V H name)) (se_orchestrator (new_server E I C V H name))"
    by (cases "name = ''onnx''") (simp_all add: mock_worker.search_worker_axioms onnx_worker.search_worker_axioms)
qed

section \<open>Invariants of the search workflow\<close>

context running_server begin

lemma review_invariant:
  assumes "leads_to S s t" and "I (sy_world s)"
    and beside: "beside_searches I" and searches: "blind w_searches_update I"
    and fin: "\<And>i xs. keeps I (finalize_queued_search (se_app S) i xs)"
    and review: "\<And>i j d u n rs nt rid. d \<noteq> ''needs_second_review'' \<Longrightarrow>
      keeps I (record_review_decision (se_app S) i j d u n rs nt rid (x_require_second_review (se_app S)))"
  shows "I (sy_world t)"
proof (rule system_invariant [where P = I, OF assms(1,2)])
  have create: "keeps I (create_search_route (se_app S) (se_codec S) h form)" for h form
    by (intro keeps_of_preserves frame_intros; use beside searches in simp)
  have review_route: "keeps I (review_candidate (se_app S) h i p d)"
    if "d \<in> {''confirmed'', ''rejected'', ''inconclusive''}" for h i p d
    using that beside by (intro review_route_keeps review) auto
  show "keeps I (serve S headers req)" for headers req
    by (rule router_keeps [OF beside create review_route])
  have "keeps I (mark_queued_search_failed (se_app S) i c m)"
    "keeps I (set_search_external_evidence_status (se_app S) i j)" for i c m j
    by (intro keeps_of_preserves frame_intros; use beside searches in simp)+
  then show "keeps I (work S task)" for task
    unfolding work_def by (intro run_queued_search_keeps fin; use beside in simp)
  show "keeps I purge_expired_auth_records"
    by (intro keeps_of_preserves purge_frame; use beside in simp)
qed (use beside restart_frame [OF beside] in simp_all)

lemma search_invariant:
  assumes "leads_to S s t" and "searches_ok (sy_world s)"
  shows "searches_ok (sy_world t)"
proof (rule system_invariant [where P = searches_ok, OF assms])
  have beside: "beside_searches searches_ok" by (simp add: searches_ok_def)
  have other: "keeps searches_ok (primary_organization_id E u)" "keeps searches_ok (display_name E c)"
    "keeps searches_ok (save E e)" "keeps searches_ok (request_id E h)" "keeps searches_ok (auth_user_from_headers E h)" for E u c e h
    by (intro keeps_of_preserves frame_intros; simp add: searches_ok_def)+
  have "keeps searches_ok (create_search_route E C h form)" for E C h form
    unfolding create_search_route_def queue_search_def refuse_def Let_def
    by (intro keeps_intros other searches_ok_keeps)
  moreover have "keeps searches_ok (review_candidate E h i p d)" for E h i p d
    by (intro keeps_of_preserves frame_intros; simp add: searches_ok_def)
  ultimately show "keeps searches_ok (serve S headers req)" for headers req
    by (intro router_keeps [OF beside])
  show "keeps searches_ok (work S task)" for task
    unfolding work_def by (intro run_queued_search_keeps searches_ok_keeps; simp add: searches_ok_def)
  show "keeps searches_ok purge_expired_auth_records"
    by (intro keeps_of_preserves purge_frame; simp add: searches_ok_def)
  show "searches_ok (restart S w)" if "searches_ok w" for w
    using restart_frame [OF beside] that by simp
qed (simp add: searches_ok_def)

end

text \<open>
  C16. What a reader can see of a search: it waits, it is completed, or it failed, with the columns
  that go with it. \<open>processing\<close>, or a completed search without its times, is in no reachable state.
\<close>

theorem searches_are_well_formed:
  assumes "leads_to (new_server E I C V H name) s t" and "searches_ok (sy_world s)"
    and "q \<in> set (w_searches (sy_world t))"
  shows "search_ok q"
  using new_server.search_invariant [OF assms(1,2)] assms(3) by (simp add: searches_ok_def list_all_iff)

text \<open>
  C3. Two people: with the two-reviewer rule, in every state the server can reach from one that
  respects it, a candidate that is confirmed or rejected has that decision from the reviewer named on
  the row, and a confirmation or rejection by somebody else on record as well.
\<close>

theorem decisions_need_two_people:
  assumes "leads_to (new_server E I C V H name) s t" and "x_require_second_review E"
    and "four_eyes (sy_world s)" and "r \<in> set (w_search_candidates (sy_world t))" and "finalizing (sc_status r)"
  shows "\<exists>first second d. first \<noteq> second \<and> finalizing d \<and> decided_by (sy_world t) (sc_id r) first d
    \<and> sc_reviewed_by r = Some second \<and> decided_by (sy_world t) (sc_id r) second (sc_status r)"
proof -
  have "four_eyes (sy_world t)"
  proof (rule new_server.review_invariant [where I = four_eyes, OF assms(1,3)])
    show "beside_searches four_eyes" "blind w_searches_update four_eyes"
      by (simp_all add: four_eyes_def row_reviewed_def decided_by_def)
  qed (simp_all add: assms(2) four_eyes_keeps)
  then have "row_reviewed (sy_world t) r" using assms(4) by (simp add: four_eyes_def)
  then show ?thesis using assms(5) unfolding row_reviewed_def by blast
qed

text \<open>
  C4. The status columns are what the log of decisions says, without regard to how it came about: in
  every reachable state, with the two-reviewer rule, a candidate waits for a second review exactly when
  the confirmations and rejections since its last inconclusive decision are odd in number, has the newest
  decision as its status otherwise, and of every two that make a pair the second is by another reviewer
  than the first; without the rule the newest decision is the status. The reviewer on the row is the one
  who decided last.
\<close>

theorem status_is_the_verdict_of_the_decisions:
  assumes "leads_to (new_server E I C V H name) s t" and "tables_agree (x_require_second_review E) (sy_world s)"
    and "r \<in> set (w_search_candidates (sy_world t))"
  shows "sc_status r = verdict (x_require_second_review E) (log_of (sy_world t) (sc_id r))
    \<and> sc_reviewed_by r = decided_last (log_of (sy_world t) (sc_id r))
    \<and> (x_require_second_review E \<longrightarrow> seconded (log_of (sy_world t) (sc_id r)))"
proof -
  have "tables_agree (x_require_second_review E) (sy_world t)"
  proof (rule new_server.review_invariant [where I = "tables_agree (x_require_second_review E)", OF assms(1,2)])
    show "beside_searches (tables_agree (x_require_second_review E))"
      "blind w_searches_update (tables_agree (x_require_second_review E))"
      by (simp_all add: tables_agree_def log_of_def)
  qed (simp_all add: tables_agree_keeps)
  then show ?thesis using assms(3) by (auto simp: tables_agree_def)
qed

section \<open>Examples\<close>

text \<open>
  A server on the mock provider, with nothing configured, whose every caller is the reviewer \<open>1\<close>; and a
  world with a candidate \<open>2\<close> has confirmed and a queued search.
\<close>

definition demo_info :: process_info where
  "demo_info = \<lparr>pi_commit = [], pi_started = 0, pi_format_secs = (\<lambda>_. []), pi_pool_size = (\<lambda>_. 1),
     pi_pool_idle = (\<lambda>_. 1), pi_biometric_provider_name = ''mock'', pi_render_metrics = (\<lambda>_. [])\<rparr>"

definition demo_vision :: vision_pipeline where
  "demo_vision = \<lparr>vp_decode = (\<lambda>_. Inl []), vp_detect = (\<lambda>_ _ _. Inl []), vp_align = (\<lambda>_ _ _ _. []), vp_embed = (\<lambda>_. Inl [])\<rparr>"

definition demo_http :: http_client where
  "demo_http = \<lparr>hc_tavily = (\<lambda>_ _ _. SendFailed []), hc_brave = (\<lambda>_ _ _. SendFailed []),
     hc_currents = (\<lambda>_ _ _. SendFailed []), hc_newsapi = (\<lambda>_ _ _. SendFailed []),
     hc_tineye = (\<lambda>_ _ _. SendFailed []), hc_vision = (\<lambda>_ _ _. SendFailed []),
     hc_yandex = (\<lambda>_ _ _ _. SendFailed []), hc_score_text = (\<lambda>_. [])\<rparr>"

definition demo_server :: server where
  "demo_server = new_server (demo_as ''REVIEWER'') demo_info demo_codec demo_vision demo_http ''mock''"

definition demo_review_world :: world where
  "demo_review_world = demo_world\<lparr>
     w_searches := [queued_row demo_app ''s'' ''C-1'' ''P'' ''1'' ''A'' None None 5 None 0],
     w_search_candidates := [\<lparr>sc_id = ''r'', sc_search_id = ''s'', sc_candidate_id = ''c'', sc_score = 1,
       sc_status = ''needs_second_review'', sc_reviewed_by = Some ''2'', sc_reviewed_by_name = Some ''B'',
       sc_reviewed_at = Some 0, sc_created_at = 0\<rparr>],
     w_verification_events := [decision_event ''v'' ''r'' ''2'' ''B'' ''confirmed'' None None ''q'' 0]\<rparr>"

definition demo_start :: system where
  "demo_start = \<lparr>sy_world = demo_review_world, sy_pending = []\<rparr>"

definition demo_confirm :: request where
  "demo_confirm = Candidate (Verify_Candidate ''c'' \<lparr>rv_search_id = ''s'', rv_reason = None, rv_notes = None\<rparr>)"

definition demo_reviewed :: system where
  "demo_reviewed = \<lparr>sy_world = exec (serve demo_server demo_headers demo_confirm) demo_review_world,
     sy_pending = snd (result (serve demo_server demo_headers demo_confirm) demo_review_world)\<rparr>"

definition demo_confirmed_row :: search_candidate_row where
  "demo_confirmed_row = reviewed_row ''confirmed'' ''1'' ''AB1'' 0 (hd (w_search_candidates demo_review_world))"

lemma demo_confirmed_row_simps [simp]: "sc_id demo_confirmed_row = ''r''" "sc_status demo_confirmed_row = ''confirmed''"
  "sc_reviewed_by demo_confirmed_row = Some ''1''"
  by (simp_all add: demo_confirmed_row_def demo_review_world_def)

lemma demo_reaches: "leads_to demo_server demo_start demo_reviewed"
proof -
  have "step demo_server demo_start demo_reviewed"
    unfolding demo_reviewed_def using step.request [of demo_server demo_start demo_headers demo_confirm]
    by (simp add: demo_start_def)
  then show ?thesis by (rule leads_to_step [OF leads_to_refl])
qed

lemma candidates_frame:
  fixes w :: world
  shows "w_search_candidates (exec (audited E rid ev (return r)) w) = w_search_candidates w"
    and "w_search_candidates (exec (save E ev) w) = w_search_candidates w"
    and "w_search_candidates (exec (list_search_candidates E i) w) = w_search_candidates w"
  by (rule preservesD, intro frame_intros; simp)+

lemma decision_reply_frame:
  "w_search_candidates (exec (case x of Inl _ \<Rightarrow> return (a1 :: response) | Inr (Applied v) \<Rightarrow> audited F rid (e1 v) (return (a2 v))
      | Inr ReviewNotFound \<Rightarrow> return a3 | Inr SameReviewerForbidden \<Rightarrow> do { save F e2; return a4 }) w) = w_search_candidates w"
  by (simp add: candidates_frame exec_bind split: sum.split review_outcome.split)

lemma demo_request: "echoed_request_id demo_headers = None" "bearer_token demo_headers = Some ''t''"
  by (simp_all add: echoed_request_id_def demo_headers_def bearer_token_def)

lemmas review_run_defs = review_candidate_def as_role_def exec_bind result_bind auth_user_run request_id_def demo_request
  can_review_candidate_def candidates_frame apply_decision_def target_status_def REVIEWER_def demo_as_def demo_claims_def db_key_def
  review_action_def display_name_def load_user_by_id_def with_key_def exec_query result_query decision_reply_frame
  record_review_decision_def exec_transaction result_transaction demo_confirmed_row_def

lemma demo_review_row: "w_search_candidates (exec (review_candidate (demo_as ''REVIEWER'') demo_headers ''c''
   \<lparr>rv_search_id = ''s'', rv_reason = None, rv_notes = None\<rparr> ''confirmed'') demo_review_world) = [demo_confirmed_row]"
  by (simp add: review_run_defs demo_review_world_def demo_world_def Let_def split: sum.split)

lemma demo_reviewed_row: "w_search_candidates (sy_world demo_reviewed) = [demo_confirmed_row]"
proof -
  have "w_search_candidates (exec (count_metric n l) w) = w_search_candidates w" for n l and w :: world
    by (rule preservesD) (simp add: preserves_count_metric)
  then show ?thesis
    by (simp add: demo_reviewed_def serve_def http_metrics_middleware_def exec_bind demo_confirm_def plain_def
        verify_candidate_route_def demo_server_def demo_review_row)
qed

lemma demo_review_world_ok: "four_eyes demo_review_world" "tables_agree True demo_review_world" "searches_ok demo_review_world"
  "healthy demo_review_world" "w_searches demo_review_world = [queued_row demo_app ''s'' ''C-1'' ''P'' ''1'' ''A'' None None 5 None 0]"
  by (auto simp: demo_review_world_def demo_world_def four_eyes_def row_reviewed_def decided_by_def finalizing_def
      tables_agree_def log_of_def waits_def searches_ok_def search_ok_def queued_row_def healthy_def)

theorem searches_are_well_formed_witness:
  "search_ok (queued_row demo_app ''s'' ''C-1'' ''P'' ''1'' ''A'' None None 5 None 0)"
  by (rule searches_are_well_formed [OF leads_to_refl [of _ demo_start]]) (simp_all add: demo_start_def demo_review_world_ok)

theorem decisions_need_two_people_witness:
  "\<exists>first second d. first \<noteq> second \<and> finalizing d \<and> decided_by (sy_world demo_reviewed) ''r'' first d
     \<and> sc_reviewed_by demo_confirmed_row = Some second \<and> decided_by (sy_world demo_reviewed) ''r'' second ''confirmed''"
  using decisions_need_two_people [OF demo_reaches [unfolded demo_server_def], of demo_confirmed_row]
  by (simp add: demo_reviewed_row demo_start_def demo_review_world_ok demo_as_def)

theorem status_is_the_verdict_of_the_decisions_witness:
  "''confirmed'' = verdict True (log_of (sy_world demo_reviewed) ''r'')
    \<and> Some ''1'' = decided_last (log_of (sy_world demo_reviewed) ''r'') \<and> seconded (log_of (sy_world demo_reviewed) ''r'')"
  using status_is_the_verdict_of_the_decisions [OF demo_reaches [unfolded demo_server_def], of demo_confirmed_row]
  by (simp add: demo_reviewed_row demo_start_def demo_review_world_ok demo_as_def)

end
