(* ===== verification/Auth_Login.thy ===== *)
theory Auth_Login
  imports Auth
begin

text \<open>
  What the \<open>login\<close> handler of \<open>server/src/auth.rs\<close> guarantees about sessions: which accounts get
  one, that the conditions are enough, and the case in which the second factor is skipped.
\<close>

section \<open>Conditions\<close>

text \<open>The account has an enabled credential.\<close>

definition second_factor :: "app \<Rightarrow> world \<Rightarrow> user_row \<Rightarrow> bool" where
  "second_factor E w user \<longleftrightarrow> (\<exists>k row. db_key E (u_id user) = Some k
     \<and> find (\<lambda>r. m_user_id r = k) (w_mfa_credentials w) = Some row \<and> m_enabled_at row \<noteq> None)"

section \<open>What the handler does\<close>

lemma outcome_NotRequired:
  "result (login_mfa_outcome E user) w = NotRequired \<longleftrightarrow>
     (db_key E (u_id user) \<noteq> None \<and> w_faults w (w_stmts w) \<or> \<not> second_factor E w user) \<and> u_role user \<notin> set (x_mfa_required_roles E)"
  by (auto simp: login_mfa_outcome_def enabled_credential_def find_mfa_credential_def second_factor_def
      result_bind result_with_key result_query list_ex_iff split: option.splits if_splits)

lemma login_mfa_gate_sessions:
  assumes "w_sessions (exec (login_mfa_gate E h rid user) w) \<noteq> w_sessions w"
  shows "result (login_mfa_outcome E user) w = NotRequired"
proof (rule ccontr)
  assume no: "result (login_mfa_outcome E user) w \<noteq> NotRequired"
  have same: "w_sessions (exec (login_mfa_outcome E user) w) = w_sessions w"
    by (rule preservesD, intro frame_intros) simp
  have mail: "w_sessions (exec (send_login_challenge_email_code E user) v) = w_sessions v" for v
    by (rule preservesD, intro frame_intros) simp_all
  have tok: "w_sessions (exec (sign_challenge_token E u p) v) = w_sessions v" for u p v
    by (rule preservesD, intro frame_intros) simp
  show False
    using assms no same tok mail
    by (cases "result (login_mfa_outcome E user) w")
      (simp_all add: login_mfa_gate_def exec_bind split: sum.splits if_splits)
qed

text \<open>
  Everything a login checks but the second factor: the account of the (trimmed, upper-cased) user
  code is live, the password is right, the account is neither banned nor unapproved, and its role
  is not one that must enrol a second factor first.
\<close>

definition may_login :: "app \<Rightarrow> world \<Rightarrow> string \<Rightarrow> string \<Rightarrow> user_row \<Rightarrow> bool" where
  "may_login E w user_code password user \<longleftrightarrow>
     u_user_code user = to_uppercase (trim user_code) \<and> live user
     \<and> x_bcrypt_verify E password (u_password_hash user) = Some True
     \<and> \<not> u_is_banned user \<and> u_is_approved user
     \<and> u_role user \<notin> set (x_mfa_required_roles E)"

lemma login_account_sessions:
  assumes "w_sessions (exec (login_account E h rid password user) w) \<noteq> w_sessions w"
  shows "x_bcrypt_verify E password (u_password_hash user) = Some True \<and> \<not> u_is_banned user
     \<and> u_is_approved user \<and> result (login_mfa_outcome E user) w = NotRequired"
proof -
  have ref: "w_sessions (exec (login_refused E h r reason ms resp) w) = w_sessions w" for r reason ms resp
    by (rule preservesD, intro frame_intros) simp_all
  show ?thesis
    using assms login_mfa_gate_sessions [of E h rid user w] ref
    by (simp add: login_account_def split: if_splits)
qed

lemma exec_login_limits: "\<exists>ws. exec (login_limits E h k) w = w\<lparr>w_windows := ws\<rparr>"
  by (rule exec_only_windows) (intro frame_intros; simp)

text \<open>
  C2. A login never hands out more than it should: when no statement fails, a login that changes the
  sessions table at all was made with the code and the right password of a live, approved, unbanned
  account that has no enabled second factor and whose role does not demand one. All other accounts
  must go through the challenge routes, which need a code.
\<close>
theorem login_needs_every_factor:
  assumes "healthy w" and "w_sessions (exec (login E h user_code password) w) \<noteq> w_sessions w"
  shows "\<exists>user\<in>set (w_users w). may_login E w user_code password user \<and> \<not> second_factor E w user"
proof -
  obtain m where m: "exec (request_id E h) w = w\<lparr>w_draws := m\<rparr>" using exec_request_id by blast
  obtain ws where ws: "exec (login_limits E h (to_uppercase (trim user_code))) (w\<lparr>w_draws := m\<rparr>)
      = w\<lparr>w_draws := m, w_windows := ws\<rparr>"
    using exec_login_limits by blast
  let ?w1 = "w\<lparr>w_draws := m, w_windows := ws\<rparr>"
  have load: "exec (load_user_by_code user_code) ?w1 = ?w1\<lparr>w_stmts := Suc (w_stmts w)\<rparr>"
    by (simp add: load_user_by_code_def exec_query)
  have ref: "w_sessions (exec (login_refused E h r reason ms resp) v) = w_sessions v" for r reason ms resp v
    by (rule preservesD, intro frame_intros) simp_all
  obtain user where user: "find (\<lambda>u. u_user_code u = to_uppercase (trim user_code) \<and> live u) (w_users w) = Some user"
    and ch: "w_sessions (exec (login_account E h (result (request_id E h) w) password user)
       (?w1\<lparr>w_stmts := Suc (w_stmts w)\<rparr>)) \<noteq> w_sessions (?w1\<lparr>w_stmts := Suc (w_stmts w)\<rparr>)"
    using assms
    by (auto simp: login_def exec_bind result_bind m ws load ref load_user_by_code_def result_query exec_query Let_def
        split: if_splits option.splits)
  from login_account_sessions [OF ch] find_Some_set [OF user] assms(1)
  show ?thesis by (intro bexI [of _ user]) (auto simp: outcome_NotRequired may_login_def second_factor_def)
qed


lemma login_limits_draws:
  "result (login_limits E h k) (w\<lparr>w_draws := m\<rparr>) = result (login_limits E h k) w"
  by (simp add: login_limits_def result_bind rate_check_def result_def exec_def split: prod.split option.split)

lemma login_grants:
  assumes "\<not> w_faults w (w_stmts w)" "\<not> w_faults w (w_stmts w + 2)" "\<not> w_faults w (w_stmts w + 3)"
    and "x_backend E = Sqlite" "signing_works E"
    and "result (login_limits E h (to_uppercase (trim user_code))) w"
    and user: "find (\<lambda>u. u_user_code u = to_uppercase (trim user_code) \<and> live u) (w_users w) = Some user"
    and "may_login E w user_code password user"
    and "w_faults w (Suc (w_stmts w)) \<or> \<not> second_factor E w user"
  shows "r_status (result (login E h user_code password) w) = 200
    \<and> session_added (u_id user) w (exec (login E h user_code password) w)"
proof -
  obtain m where m: "exec (request_id E h) w = w\<lparr>w_draws := m\<rparr>" using exec_request_id by blast
  obtain ws where ws: "exec (login_limits E h (to_uppercase (trim user_code))) (w\<lparr>w_draws := m\<rparr>)
      = w\<lparr>w_draws := m, w_windows := ws\<rparr>"
    using exec_login_limits by blast
  let ?w1 = "w\<lparr>w_draws := m, w_windows := ws, w_stmts := Suc (w_stmts w)\<rparr>"
  let ?w2 = "?w1\<lparr>w_stmts := Suc (Suc (w_stmts w))\<rparr>"
  have out: "result (login_mfa_outcome E user) ?w1 = NotRequired"
    using assms by (auto simp: outcome_NotRequired may_login_def second_factor_def db_key_sqlite)
  have ex: "exec (login_mfa_outcome E user) ?w1 = ?w2"
    using assms(4) by (simp add: login_mfa_outcome_def enabled_credential_def find_mfa_credential_def
        exec_bind with_key_def db_key_sqlite exec_query)
  have iss: "wp (issue_session E user h) (\<lambda>r w'. (\<exists>pair. r = Inr pair) \<and> session_added (u_id user) ?w2 w') ?w2"
    by (rule issue_session_adds_at) (use assms in \<open>simp_all add: eval_nat_numeral\<close>)
  have sv: "w_sessions (exec (save E r) v) = w_sessions v" for r v
    by (rule preservesD, intro frame_intros) simp
  have ses: "r_status (result (login_session E h rid user) ?w2) = 200
      \<and> session_added (u_id user) w (exec (login_session E h rid user) ?w2)" for rid
    using iss sv
    by (auto simp: login_session_def exec_bind result_bind wp_def session_added_def session_response_def split: prod.splits)
  have gate: "login_account E h rid password user = login_mfa_gate E h rid user" for rid
    using assms(8) by (simp add: login_account_def may_login_def)
  show ?thesis
    using ses out ex assms(1,6) user
    by (simp add: login_def exec_bind result_bind m ws login_limits_draws load_user_by_code_def
        result_query exec_query Let_def gate login_mfa_gate_def)
qed


text \<open>
  And those conditions are enough: when they hold and the attempt limits are not used up, the
  login answers 200 and adds exactly one active session, of that account.
\<close>
theorem login_grants_a_session:
  assumes "healthy w" and "x_backend E = Sqlite" and "signing_works E"
    and "result (login_limits E h (to_uppercase (trim user_code))) w"
    and "find (\<lambda>u. u_user_code u = to_uppercase (trim user_code) \<and> live u) (w_users w) = Some user"
    and "may_login E w user_code password user" and "\<not> second_factor E w user"
  shows "r_status (result (login E h user_code password) w) = 200
    \<and> session_added (u_id user) w (exec (login E h user_code password) w)"
  by (rule login_grants) (use assms in simp_all)

text \<open>
  C26. The second factor is not enforced when it cannot be read: if the single statement that looks
  up the credential fails and everything else works, an account with an enabled second factor is
  given a session on its password alone (\<open>login_mfa_outcome\<close> treats the error as "no credential").
\<close>
theorem login_fails_open:
  assumes "w_faults w = (\<lambda>n. n = Suc (w_stmts w))" and "x_backend E = Sqlite" and "signing_works E"
    and "result (login_limits E h (to_uppercase (trim user_code))) w"
    and "find (\<lambda>u. u_user_code u = to_uppercase (trim user_code) \<and> live u) (w_users w) = Some user"
    and "may_login E w user_code password user" and "second_factor E w user"
  shows "r_status (result (login E h user_code password) w) = 200
    \<and> session_added (u_id user) w (exec (login E h user_code password) w)"
  by (rule login_grants) (use assms in simp_all)

section \<open>Examples\<close>

definition demo_login_world :: world where
  "demo_login_world = demo_world\<lparr>w_users := [demo_user]\<rparr>"

definition faulty_login_world :: world where
  "faulty_login_world = demo_mfa_world\<lparr>w_faults := (\<lambda>n. n = 1)\<rparr>"

lemma demo_code: "to_uppercase (trim ''AB1'') = ''AB1''"
  by (simp add: str_defs code_def)

lemma demo_limits:
  "w_windows w = [] \<Longrightarrow> result (login_limits demo_app h k) w"
  by (simp add: login_limits_def client_ip_def trust_proxy_def is_production_def result_bind rate_check_def
      result_def check_def split: prod.split)

lemma demo_may_login: "may_login demo_app w ''AB1'' ''pw'' demo_user"
  by (simp add: may_login_def demo_code) (simp add: demo_user_def live_def)

lemma demo_login_simps [simp]: "healthy demo_login_world" "w_windows demo_login_world = []"
  "w_windows faulty_login_world = []" "w_users demo_login_world = [demo_user]" "w_users faulty_login_world = [demo_user]"
  "w_mfa_credentials demo_login_world = []" "w_mfa_credentials faulty_login_world = [demo_credential]"
  "w_faults faulty_login_world = (\<lambda>n. n = 1)" "w_stmts faulty_login_world = 0" "w_sessions demo_login_world = []"
  by (simp_all add: demo_login_world_def faulty_login_world_def demo_mfa_world_def demo_world_def healthy_def)

lemma demo_login_user: "u_user_code demo_user = ''AB1''" "live demo_user" "u_id demo_user = ''1''"
  by (simp_all add: demo_user_def live_def)

theorem login_grants_a_session_witness:
  "r_status (result (login demo_app demo_headers ''AB1'' ''pw'') demo_login_world) = 200
    \<and> session_added (u_id demo_user) demo_login_world (exec (login demo_app demo_headers ''AB1'' ''pw'') demo_login_world)"
  by (rule login_grants_a_session)
    (simp_all add: signing_works_demo demo_limits demo_code demo_login_user demo_may_login second_factor_def)

theorem login_fails_open_witness:
  "r_status (result (login demo_app demo_headers ''AB1'' ''pw'') faulty_login_world) = 200
    \<and> session_added (u_id demo_user) faulty_login_world (exec (login demo_app demo_headers ''AB1'' ''pw'') faulty_login_world)"
  by (rule login_fails_open)
    (simp_all add: signing_works_demo demo_limits demo_code demo_login_user demo_may_login second_factor_def demo_credential_def)

lemma demo_login_adds: "session_added ''1'' demo_login_world (exec (login demo_app demo_headers ''AB1'' ''pw'') demo_login_world)"
  by (rule login_grants [where user = demo_user, THEN conjunct2, unfolded demo_login_user])
    (simp_all add: signing_works_demo demo_limits demo_code demo_login_user demo_may_login second_factor_def)

theorem login_needs_every_factor_witness:
  "\<exists>user\<in>set (w_users demo_login_world). may_login demo_app demo_login_world ''AB1'' ''pw'' user
     \<and> \<not> second_factor demo_app demo_login_world user"
proof (rule login_needs_every_factor [of _ _ demo_headers])
  show "w_sessions (exec (login demo_app demo_headers ''AB1'' ''pw'') demo_login_world) \<noteq> w_sessions demo_login_world"
    using demo_login_adds by (auto simp: session_added_def)
qed simp

end
