(* ===== verification/Auth_Sessions.thy ===== *)
theory Auth_Sessions
  imports Auth_Login
begin

text \<open>
  What the other session handlers of \<open>server/src/auth.rs\<close> guarantee: a refresh needs the current
  token of a live session and spends it, a token that is shown twice kills its family, two refreshes
  that race both succeed, a reset and \<open>logout_all\<close> sign the user out everywhere, a reset link works
  once and asking for one reveals nothing.
\<close>

section \<open>What a refresh needs\<close>

definition refreshable :: "app \<Rightarrow> header_map \<Rightarrow> world \<Rightarrow> refresh_claims \<Rightarrow> session_row \<Rightarrow> user_row \<Rightarrow> bool" where
  "refreshable E h w claims session user \<longleftrightarrow>
     (\<exists>token. extract_cookie h ''refresh_token'' = Some token
        \<and> x_decode_refresh E (w_now w) token (x_jwt_refresh_secret E) = Some claims
        \<and> s_refresh_token_hash session = sha256_hex E token)
     \<and> session \<in> set (w_sessions w) \<and> db_key E (rc_family claims) = Some (s_token_family_id session)
     \<and> s_revoked_at session = None \<and> w_now w \<le> s_expires_at session
     \<and> user \<in> set (w_users w) \<and> db_key E (rc_sub claims) = Some (u_id user)
     \<and> live user \<and> u_is_approved user \<and> \<not> u_is_banned user"

lemma unauthorized_status [simp]: "r_status (result (unauthorized E h) w) = 401"
  by (simp add: unauthorized_def result_bind)

lemma unauthorized_cookie [simp]: "r_set_cookie (result (unauthorized E h) w) = None"
  by (simp add: unauthorized_def result_bind)

lemma find_session_by_family_Some: "result (find_session_by_family E fam) w = Inr (Some s) \<Longrightarrow>
    s \<in> set (w_sessions w) \<and> db_key E fam = Some (s_token_family_id s)"
  by (auto simp: find_session_by_family_def result_with_key result_query split: option.splits if_splits dest: find_Some_set)

lemma exec_find_session_by_family: "\<exists>n. exec (find_session_by_family E fam) w = w\<lparr>w_stmts := n\<rparr>"
proof (cases "db_key E fam")
  case None
  then show ?thesis by (intro exI [of _ "w_stmts w"]) (simp add: find_session_by_family_def with_key_def)
qed (auto simp: find_session_by_family_def with_key_def exec_query)

lemma refresh_session_ok:
  assumes "r_status (result (refresh_session E h rid token claims session) w) = 200"
  obtains user where "token_current E token session" "w_now w \<le> s_expires_at session"
    "result (load_user_by_id E (rc_sub claims)) w = Inr (Some user)" "\<not> u_is_banned user" "u_is_approved user"
    "result (refresh_session E h rid token claims session) w
       = result (refresh_rotate E h rid (rc_family claims) session user) (exec (load_user_by_id E (rc_sub claims)) w)"
    "exec (refresh_session E h rid token claims session) w
       = exec (refresh_rotate E h rid (rc_family claims) session user) (exec (load_user_by_id E (rc_sub claims)) w)"
  using assms
  by (auto simp: refresh_session_def result_bind exec_bind flatten_Some not_less split: if_splits option.splits)

lemma exec_request_id_ge: "\<exists>m\<ge>w_draws w. exec (request_id E h) w = w\<lparr>w_draws := m\<rparr>"
proof (cases "echoed_request_id h")
  case None
  then show ?thesis by (intro exI [of _ "Suc (w_draws w)"]) (simp add: request_id_def)
next
  case (Some v)
  then show ?thesis by (intro exI [of _ "w_draws w"]) (simp add: request_id_def)
qed

lemma refresh_ok:
  assumes "r_status (result (refresh E h) w) = 200"
  obtains m n token claims session where "w_draws w \<le> m" "extract_cookie h ''refresh_token'' = Some token"
    "x_decode_refresh E (w_now w) token (x_jwt_refresh_secret E) = Some claims"
    "result (find_session_by_family E (rc_family claims)) (w\<lparr>w_draws := m\<rparr>) = Inr (Some session)"
    "result (refresh E h) w = result (refresh_session E h (result (request_id E h) w) token claims session) (w\<lparr>w_draws := m, w_stmts := n\<rparr>)"
    "exec (refresh E h) w = exec (refresh_session E h (result (request_id E h) w) token claims session) (w\<lparr>w_draws := m, w_stmts := n\<rparr>)"
proof -
  obtain m where le: "w_draws w \<le> m" and m: "exec (request_id E h) w = w\<lparr>w_draws := m\<rparr>"
    using exec_request_id_ge by blast
  have "\<exists>token claims session. extract_cookie h ''refresh_token'' = Some token
    \<and> x_decode_refresh E (w_now w) token (x_jwt_refresh_secret E) = Some claims
    \<and> result (find_session_by_family E (rc_family claims)) (w\<lparr>w_draws := m\<rparr>) = Inr (Some session)
    \<and> result (refresh E h) w = result (refresh_session E h (result (request_id E h) w) token claims session)
         (exec (find_session_by_family E (rc_family claims)) (w\<lparr>w_draws := m\<rparr>))
    \<and> exec (refresh E h) w = exec (refresh_session E h (result (request_id E h) w) token claims session)
         (exec (find_session_by_family E (rc_family claims)) (w\<lparr>w_draws := m\<rparr>))"
    using assms
    by (auto simp: refresh_def result_bind exec_bind m decode_refresh_token_def flatten_Some split: option.splits)
  then obtain token claims session where *: "extract_cookie h ''refresh_token'' = Some token"
    "x_decode_refresh E (w_now w) token (x_jwt_refresh_secret E) = Some claims"
    "result (find_session_by_family E (rc_family claims)) (w\<lparr>w_draws := m\<rparr>) = Inr (Some session)"
    "result (refresh E h) w = result (refresh_session E h (result (request_id E h) w) token claims session)
         (exec (find_session_by_family E (rc_family claims)) (w\<lparr>w_draws := m\<rparr>))"
    "exec (refresh E h) w = exec (refresh_session E h (result (request_id E h) w) token claims session)
         (exec (find_session_by_family E (rc_family claims)) (w\<lparr>w_draws := m\<rparr>))"
    by blast
  obtain n where "exec (find_session_by_family E (rc_family claims)) (w\<lparr>w_draws := m\<rparr>) = w\<lparr>w_draws := m, w_stmts := n\<rparr>"
    using exec_find_session_by_family by blast
  with * le show ?thesis by (intro that) simp_all
qed

text \<open>
  C10. A refresh answers 200 only to the current token of a live session: the cookie holds a refresh
  token that decodes, its family has a session that is neither revoked nor expired and whose stored
  hash is the hash of this very token, and its account exists, is approved and not banned.
\<close>
theorem refresh_needs_the_current_token:
  assumes "r_status (result (refresh E h) w) = 200"
  shows "\<exists>claims session user. refreshable E h w claims session user"
proof -
  obtain m n token claims session where *: "extract_cookie h ''refresh_token'' = Some token"
    "x_decode_refresh E (w_now w) token (x_jwt_refresh_secret E) = Some claims"
    "result (find_session_by_family E (rc_family claims)) (w\<lparr>w_draws := m\<rparr>) = Inr (Some session)"
    "result (refresh E h) w = result (refresh_session E h (result (request_id E h) w) token claims session) (w\<lparr>w_draws := m, w_stmts := n\<rparr>)"
    using refresh_ok [OF assms] by metis
  have "r_status (result (refresh_session E h (result (request_id E h) w) token claims session)
      (w\<lparr>w_draws := m, w_stmts := n\<rparr>)) = 200"
    using assms *(4) by simp
  then obtain user where u: "token_current E token session" "w_now w \<le> s_expires_at session"
    "result (load_user_by_id E (rc_sub claims)) (w\<lparr>w_draws := m, w_stmts := n\<rparr>) = Inr (Some user)"
    "\<not> u_is_banned user" "u_is_approved user"
    by (elim refresh_session_ok) simp
  from load_user_by_id_Some [OF u(3)] find_session_by_family_Some [OF *(3)] u * show ?thesis
    by (auto simp: refreshable_def token_current_def)
qed

section \<open>Reuse\<close>

lemma revoke_where_dead: "family_dead f (revoke_where (\<lambda>r. s_token_family_id r = f) w)"
  by (simp only: family_dead_def sessions_revoke_where set_map ball_simps) simp

lemma revoke_where_signed_out: "user_signed_out u (revoke_where (\<lambda>r. s_user_id r = u) w)"
  by (simp only: user_signed_out_def sessions_revoke_where set_map ball_simps) simp

lemma revoke_family_kills:
  assumes "db_key E fam = Some k"
  shows "family_dead k (exec (revoke_session_family E fam) w) \<or> w_faults w (w_stmts w)"
  using assms by (simp add: revoke_session_family_def with_key_def exec_stmt revoke_where_dead)

lemma revoke_family_counts:
  assumes "db_key E fam = Some k"
  shows "w_stmts (exec (revoke_session_family E fam) w) = Suc (w_stmts w)"
  using assms by (simp add: revoke_session_family_def with_key_def exec_stmt revoke_where_def)

lemma save_sessions_same: "w_sessions (exec (save E r) w) = w_sessions w"
  by (rule preservesD, intro frame_intros) simp

lemma unauthorized_sessions: "w_sessions (exec (unauthorized E h) w) = w_sessions w"
  by (rule preservesD, intro frame_intros) simp

lemma unauthorized_stmts: "w_stmts (exec (unauthorized E h) w) = w_stmts w"
proof -
  obtain m where "exec (request_id E h) w = w\<lparr>w_draws := m\<rparr>" using exec_request_id by blast
  then show ?thesis by (simp add: unauthorized_def exec_bind)
qed

lemma refresh_reuse:
  assumes "extract_cookie h ''refresh_token'' = Some token"
    and "x_decode_refresh E (w_now w) token (x_jwt_refresh_secret E) = Some claims"
    and k: "db_key E (rc_family claims) = Some k"
    and "find (\<lambda>r. s_token_family_id r = k) (w_sessions w) = Some session"
    and "\<not> token_current E token session"
  shows "r_status (result (refresh E h) w) = 401
    \<and> (family_dead k (exec (refresh E h) w) \<or> statement_failed w (exec (refresh E h) w))"
proof -
  obtain m where m: "exec (request_id E h) w = w\<lparr>w_draws := m\<rparr>" using exec_request_id by blast
  let ?w1 = "w\<lparr>w_draws := m, w_stmts := Suc (w_stmts w)\<rparr>"
  show ?thesis
  proof (cases "w_faults w (w_stmts w)")
    case True
    then have "r_status (result (refresh E h) w) = 401" "w_stmts (exec (refresh E h) w) = Suc (w_stmts w)"
      using assms
      by (simp_all add: refresh_def result_bind exec_bind m decode_refresh_token_def find_session_by_family_def
          with_key_def exec_query result_query unauthorized_stmts)
    with True show ?thesis by (auto intro: statement_failedI)
  next
    case False
    let ?r = "revoke_session_family E (rc_family claims)"
    obtain ev where st: "r_status (result (refresh E h) w) = 401"
      and ex: "exec (refresh E h) w = exec (unauthorized E h) (exec (save E ev) (exec ?r ?w1))"
      using assms False
      by (auto simp: refresh_def result_bind exec_bind m decode_refresh_token_def find_session_by_family_def
          with_key_def exec_query result_query refresh_session_def)
    have "Suc (Suc (w_stmts w)) \<le> w_stmts (exec (refresh E h) w)"
      using save_grows [of "exec ?r ?w1" E ev] revoke_family_counts [OF k, of ?w1] by (simp add: ex unauthorized_stmts)
    moreover have "family_dead k (exec ?r ?w1) \<or> w_faults w (Suc (w_stmts w))"
      using revoke_family_kills [OF k, of ?w1] by simp
    ultimately show ?thesis
      using st by (auto simp: ex save_sessions_same unauthorized_sessions intro: family_dead_upd statement_failedI)
  qed
qed

section \<open>Rotation\<close>

lemma find_map_rotate:
  assumes "find p xs = Some x" and "\<And>y. p (f y) = p y"
  shows "find p (map f xs) = Some (f x)"
  using assms by (induction xs) (auto split: if_splits)

lemma refresh_rotate_ok:
  assumes "r_status (result (refresh_rotate E h rid fam session user) w) = 200" and "canonical_id E (s_id session)"
  shows "\<exists>c t. rc_jti c = x_hex E (x_rng E (w_draws w) 16)
     \<and> x_encode_refresh E c (x_jwt_refresh_secret E) = Some t
     \<and> w_sessions (exec (refresh_rotate E h rid fam session user) w)
         = sql_update (\<lambda>r. s_id r = s_id session \<and> s_revoked_at r = None)
             (rotate_row (sha256_hex E t) (w_now w + REFRESH_TOKEN_TTL_DAYS * DAY) (w_now w)) (w_sessions w)"
proof -
  let ?c = "\<lparr>rc_sub = u_id user, rc_family = fam, rc_jti = x_hex E (x_rng E (w_draws w) 16),
      rc_exp = timestamp (w_now w + REFRESH_TOKEN_TTL_DAYS * DAY)\<rparr>"
  have f: "w_faults w (w_stmts w) = False" and t: "\<exists>t. x_encode_refresh E ?c (x_jwt_refresh_secret E) = Some t"
    using assms
    by (auto simp: refresh_rotate_def result_bind exec_bind sign_refresh_def Let_def rotate_session_def
        with_key_def canonical_id_def result_stmt split: option.splits if_splits)
  then obtain t where t: "x_encode_refresh E ?c (x_jwt_refresh_secret E) = Some t" by blast
  have g: "preserves w_sessions (sign_access E user)" by (intro frame_intros)
  show ?thesis
    using f t assms
    by (intro exI [of _ ?c] exI [of _ t])
      (auto simp: refresh_rotate_def exec_bind result_bind sign_refresh_def Let_def rotate_session_def
        with_key_def canonical_id_def exec_stmt result_stmt save_sessions_same preservesD [OF g] split: option.splits)
qed


lemma sql_update_as_map: "sql_update p f xs = map (\<lambda>r. if p r then f r else r) xs"
  by (simp add: sql_update_def)

text \<open>
  C9. A refresh token works once. After a refresh with it has succeeded, presenting it again is refused
  with 401, whatever other cookies and headers come with it and whatever else changed in the world
  except the sessions. The same request then revokes every session of the family, the rotated one
  included, or one of its statements has failed: the handler discards the result of the revocation. This
  needs that no later token has the hash of the old one (fresh random \<open>jti\<close>), and on PostgreSQL that the
  id of a stored session is the canonical text of a UUID.
\<close>
theorem refresh_token_is_single_use:
  assumes tok: "extract_cookie h ''refresh_token'' = Some token" "extract_cookie h2 ''refresh_token'' = Some token"
    and dec: "x_decode_refresh E (w_now w) token (x_jwt_refresh_secret E) = Some claims"
      "x_decode_refresh E (w_now w2) token (x_jwt_refresh_secret E) = Some claims"
    and ids: "list_all (\<lambda>r. canonical_id E (s_id r)) (w_sessions w)"
    and fresh: "\<forall>n\<ge>w_draws w. \<forall>c t. rc_jti c = x_hex E (x_rng E n 16) \<longrightarrow>
      x_encode_refresh E c (x_jwt_refresh_secret E) = Some t \<longrightarrow> sha256_hex E t \<noteq> sha256_hex E token"
    and ok: "r_status (result (refresh E h) w) = 200"
    and later: "w_sessions w2 = w_sessions (exec (refresh E h) w)"
  shows "\<exists>k. db_key E (rc_family claims) = Some k \<and> r_status (result (refresh E h2) w2) = 401
    \<and> (family_dead k (exec (refresh E h2) w2) \<or> statement_failed w2 (exec (refresh E h2) w2))"
proof -
  obtain m n session where m: "w_draws w \<le> m"
    and fnd: "result (find_session_by_family E (rc_family claims)) (w\<lparr>w_draws := m\<rparr>) = Inr (Some session)"
    and r: "result (refresh E h) w = result (refresh_session E h (result (request_id E h) w) token claims session) (w\<lparr>w_draws := m, w_stmts := n\<rparr>)"
    and e: "exec (refresh E h) w = exec (refresh_session E h (result (request_id E h) w) token claims session) (w\<lparr>w_draws := m, w_stmts := n\<rparr>)"
    using refresh_ok [OF ok] tok(1) dec(1) by (metis option.inject)
  let ?w1 = "w\<lparr>w_draws := m, w_stmts := n\<rparr>"
  obtain k where k: "db_key E (rc_family claims) = Some k"
    and f0: "find (\<lambda>r. s_token_family_id r = k) (w_sessions w) = Some session"
    using fnd by (auto simp: find_session_by_family_def result_with_key result_query split: option.splits if_splits)
  have canon: "canonical_id E (s_id session)" using ids find_Some_set [OF f0] by (simp add: list_all_iff)
  obtain user where cur: "token_current E token session"
    and r2: "result (refresh_session E h (result (request_id E h) w) token claims session) ?w1
       = result (refresh_rotate E h (result (request_id E h) w) (rc_family claims) session user) (exec (load_user_by_id E (rc_sub claims)) ?w1)"
    and e2: "exec (refresh_session E h (result (request_id E h) w) token claims session) ?w1
       = exec (refresh_rotate E h (result (request_id E h) w) (rc_family claims) session user) (exec (load_user_by_id E (rc_sub claims)) ?w1)"
    using refresh_session_ok [OF ok [unfolded r]] by metis
  obtain n2 where n2: "exec (load_user_by_id E (rc_sub claims)) ?w1 = ?w1\<lparr>w_stmts := n2\<rparr>"
    using exec_load_user_by_id by blast
  let ?w2 = "?w1\<lparr>w_stmts := n2\<rparr>"
  have "r_status (result (refresh_rotate E h (result (request_id E h) w) (rc_family claims) session user) ?w2) = 200"
    using ok r r2 n2 by simp
  then obtain c t where ct: "rc_jti c = x_hex E (x_rng E m 16)" "x_encode_refresh E c (x_jwt_refresh_secret E) = Some t"
    and ses: "w_sessions w2 = map (\<lambda>r. if s_id r = s_id session \<and> s_revoked_at r = None
       then rotate_row (sha256_hex E t) (w_now w + REFRESH_TOKEN_TTL_DAYS * DAY) (w_now w) r else r) (w_sessions w)"
    using refresh_rotate_ok [OF _ canon, of h "result (request_id E h) w" "rc_family claims" user ?w2] e e2 n2 later
    by (auto simp: sql_update_as_map)
  have hash: "sha256_hex E t \<noteq> sha256_hex E token" using fresh m ct by blast
  let ?rotated = "rotate_row (sha256_hex E t) (w_now w + REFRESH_TOKEN_TTL_DAYS * DAY) (w_now w) session"
  have f1: "find (\<lambda>r. s_token_family_id r = k) (w_sessions w2) = Some ?rotated"
    using find_map_rotate [OF f0, of "\<lambda>r. if s_id r = s_id session \<and> s_revoked_at r = None
       then rotate_row (sha256_hex E t) (w_now w + REFRESH_TOKEN_TTL_DAYS * DAY) (w_now w) r else r"] cur
    by (simp add: ses token_current_def rotate_row_def)
  have "\<not> token_current E token ?rotated" using hash by (simp add: token_current_def rotate_row_def)
  then show ?thesis using refresh_reuse [OF tok(2) dec(2) k f1] k by simp
qed


section \<open>Racing refreshes\<close>

lemma map_revoked_rotate [simp]:
  "map s_revoked_at (sql_update p (rotate_row hsh ex now) t) = map s_revoked_at t"
  by (induction t) (simp_all add: sql_update_def rotate_row_def)

lemma refresh_session_succeeds:
  assumes "healthy w" and "x_backend E = Sqlite" and "signing_works E"
    and "token_current E token session" and "w_now w \<le> s_expires_at session"
    and "find (\<lambda>u. u_id u = rc_sub claims \<and> live u) (w_users w) = Some user"
    and "\<not> u_is_banned user" and "u_is_approved user"
  shows "r_status (result (refresh_session E h rid token claims session) w) = 200
    \<and> map s_revoked_at (w_sessions (exec (refresh_session E h rid token claims session) w)) = map s_revoked_at (w_sessions w)"
proof -
  have some: "x_encode_refresh E c k = Some t \<or> (\<exists>t. x_encode_refresh E c k = Some t)"
    "\<exists>t. x_encode_access E d k = Some t" for c d k t
    using assms(3) unfolding signing_works_def by blast+
  obtain t where t: "x_encode_refresh E \<lparr>rc_sub = u_id user, rc_family = rc_family claims,
      rc_jti = x_hex E (x_rng E (w_draws w) 16), rc_exp = timestamp (w_now w + REFRESH_TOKEN_TTL_DAYS * DAY)\<rparr>
      (x_jwt_refresh_secret E) = Some t"
    using some(1) by blast
  obtain a where a: "x_encode_access E \<lparr>cl_id = u_id user, cl_user_code = u_user_code user,
      cl_email = (case u_email user of None \<Rightarrow> [] | Some e \<Rightarrow> e), cl_role = u_role user,
      cl_exp = timestamp (w_now w) + ACCESS_TOKEN_TTL_SECS\<rparr> (x_jwt_secret E) = Some a"
    using some(2) by blast
  show ?thesis
    using assms t a
    by (simp add: refresh_session_def refresh_rotate_def result_bind exec_bind load_user_by_id_def with_key_def
        db_key_sqlite exec_query result_query sign_refresh_def Let_def rotate_session_def result_stmt exec_stmt
        sign_access_def save_sessions_same session_response_def not_less)
qed

text \<open>
  C31. Two refreshes that race are not told apart. If both requests have read the session row before
  either has written it, both pass the reuse check and both answer 200 with a token of their own,
  and no session is revoked: \<open>rotate_session\<close> does not compare the hash it replaces.
\<close>
theorem racing_refreshes_both_succeed:
  assumes "healthy w" and "x_backend E = Sqlite" and "signing_works E"
    and "token_current E token session" and "w_now w \<le> s_expires_at session"
    and "find (\<lambda>u. u_id u = rc_sub claims \<and> live u) (w_users w) = Some user"
    and "\<not> u_is_banned user" and "u_is_approved user"
  shows "wp (do { a \<leftarrow> refresh_session E h rid token claims session;
                  b \<leftarrow> refresh_session E h2 rid2 token claims session; return (a, b) })
     (\<lambda>(a, b) w'. r_status a = 200 \<and> r_status b = 200
        \<and> map s_revoked_at (w_sessions w') = map s_revoked_at (w_sessions w)) w"
proof -
  let ?w1 = "exec (refresh_session E h rid token claims session) w"
  have same: "w_now ?w1 = w_now w" "w_users ?w1 = w_users w" "w_faults ?w1 = w_faults w"
    by (rule preservesD, intro frame_intros; simp)+
  have h1: "healthy ?w1" using assms(1) same(3) by (simp add: healthy_def)
  have "r_status (result (refresh_session E h2 rid2 token claims session) ?w1) = 200
    \<and> map s_revoked_at (w_sessions (exec (refresh_session E h2 rid2 token claims session) ?w1)) = map s_revoked_at (w_sessions ?w1)"
    by (rule refresh_session_succeeds [OF h1 assms(2-4)]) (use assms(5-8) same in simp_all)
  with refresh_session_succeeds [OF assms, of h rid] show ?thesis
    by (simp add: wp_def result_bind exec_bind)
qed

section \<open>Signing out everywhere\<close>

lemma revoke_all_signs_out:
  assumes "healthy w" and "x_backend E = Sqlite"
  shows "user_signed_out u (exec (revoke_all_sessions_for_user E u) w)"
  using assms by (simp add: revoke_all_sessions_for_user_def with_key_def db_key_sqlite exec_stmt revoke_where_signed_out)

lemma user_signed_out_upd: "user_signed_out u w \<Longrightarrow> w_sessions w' = w_sessions w \<Longrightarrow> user_signed_out u w'"
  by (simp add: user_signed_out_def)

text \<open>
  "Log out everywhere" does: when no statement fails, a request with a valid access token leaves
  no active session of that user, answers 200 and clears the refresh cookie.
\<close>
theorem logout_all_signs_out:
  assumes "healthy w" and "x_backend E = Sqlite"
    and "result (auth_user_from_headers E h) w = Some claims"
  shows "user_signed_out (cl_id claims) (exec (logout_all E h) w)
    \<and> r_status (result (logout_all E h) w) = 200
    \<and> r_set_cookie (result (logout_all E h) w) = Some cleared_cookie"
proof -
  obtain m where m: "exec (request_id E h) w = w\<lparr>w_draws := m\<rparr>" using exec_request_id by blast
  have out: "user_signed_out u (exec (revoke_all_sessions_for_user E u) v)" if "healthy v" for u v
    using that assms(2) by (rule revoke_all_signs_out)
  show ?thesis
    using assms
    by (simp add: logout_all_def result_bind exec_bind m auth_user_run
        user_signed_out_upd [OF out save_sessions_same])
qed

section \<open>Password reset\<close>

lemma forgot_password_blind:
  "result (forgot_password E h i) (w\<lparr>w_users := us\<rparr>) = result (forgot_password E h i) w"
proof -
  have rid: "result (request_id E h) (w\<lparr>w_users := us\<rparr>) = result (request_id E h) w"
    by (simp add: request_id_def split: option.split)
  define m where "m = w_draws (exec (request_id E h) w)"
  have m: "exec (request_id E h) w = w\<lparr>w_draws := m\<rparr>"
     "exec (request_id E h) (w\<lparr>w_users := us\<rparr>) = w\<lparr>w_users := us, w_draws := m\<rparr>"
    by (simp_all add: m_def request_id_def split: option.split)
  have chk: "result (rate_check k a d) (w\<lparr>w_users := us, w_draws := m\<rparr>) = result (rate_check k a d) (w\<lparr>w_draws := m\<rparr>)" for k a d
    by (simp add: rate_check_def result_def split: prod.split)
  show ?thesis by (simp add: forgot_password_def result_bind exec_bind rid m Let_def chk)
qed


text \<open>
  Asking for a reset reveals nothing about accounts: the response does not depend on the users
  table at all, so known and unknown user codes and addresses are answered alike.
\<close>
theorem forgot_password_reveals_nothing:
  "result (forgot_password E h i) (w\<lparr>w_users := us\<rparr>) = result (forgot_password E h i) w"
  by (rule forgot_password_blind)

lemma set_new_password_ok:
  assumes "r_status (result (set_new_password E h rid uid pw) w) = 200" and "canonical_id E uid"
  shows "(user_signed_out uid (exec (set_new_password E h rid uid pw) w)
      \<or> statement_failed w (exec (set_new_password E h rid uid pw) w))
    \<and> (\<forall>u\<in>set (w_users (exec (set_new_password E h rid uid pw) w)). u_id u = uid \<longrightarrow>
          x_bcrypt_hash E DEFAULT_COST pw = Some (u_password_hash u))"
proof -
  have uid_key: "db_key E uid = Some uid" using assms(2) by (simp add: canonical_id_def)
  obtain hashed where hs: "x_bcrypt_hash E DEFAULT_COST pw = Some hashed"
    using assms(1) by (auto simp: set_new_password_def split: option.splits)
  let ?upd = "update_user_password E uid hashed"
  obtain user where u: "result ?upd w = Inr (Some user)"
    using assms(1) hs by (auto simp: set_new_password_def result_bind flatten_Some split: option.splits)
  have uid: "u_id user = uid" and nf: "\<not> w_faults w (w_stmts w)"
    using u uid_key
    by (auto simp: update_user_password_def with_key_def result_bind exec_stmt result_stmt
        load_user_by_id_def result_query split: if_splits dest: find_Some_set)
  have users: "w_users (exec ?upd w) = sql_update (\<lambda>u. u_id u = uid) (\<lambda>u. u\<lparr>u_password_hash := hashed\<rparr>) (w_users w)"
    and count: "w_stmts (exec ?upd w) = Suc (Suc (w_stmts w))" and faults: "w_faults (exec ?upd w) = w_faults w"
    using nf uid_key
    by (simp_all add: update_user_password_def with_key_def exec_bind exec_stmt result_stmt load_user_by_id_def exec_query)
  have pwd: "\<forall>u\<in>set (w_users (exec ?upd w)). u_id u = uid \<longrightarrow> hashed = u_password_hash u"
    by (simp only: users sql_update_as_map set_map ball_simps) simp
  have keep: "w_users (exec (revoke_all_sessions_for_user E uid) v) = w_users v" "w_users (exec (save E r) v) = w_users v" for v r
    by (rule preservesD, intro frame_intros; simp)+
  let ?rev = "revoke_all_sessions_for_user E uid"
  obtain ev where ex: "exec (set_new_password E h rid uid pw) w = exec (save E ev) (exec ?rev (exec ?upd w))"
    using hs u uid by (auto simp: set_new_password_def exec_bind)
  have "user_signed_out uid (exec ?rev v) \<or> w_faults v (w_stmts v)" "w_stmts (exec ?rev v) = Suc (w_stmts v)" for v
    using uid_key revoke_where_signed_out [of uid "v\<lparr>w_stmts := Suc (w_stmts v)\<rparr>"]
    by (simp_all add: revoke_all_sessions_for_user_def with_key_def exec_stmt) (simp add: revoke_where_def)
  from this(1) [of "exec ?upd w"] this(2) [of "exec ?upd w"]
  have "user_signed_out uid (exec ?rev (exec ?upd w)) \<or> w_faults w (Suc (Suc (w_stmts w)))"
    and "Suc (Suc (Suc (w_stmts w))) \<le> w_stmts (exec (set_new_password E h rid uid pw) w)"
    using save_grows [of "exec ?rev (exec ?upd w)" E ev] by (simp_all add: ex count faults)
  then have "user_signed_out uid (exec (set_new_password E h rid uid pw) w)
      \<or> statement_failed w (exec (set_new_password E h rid uid pw) w)"
    by (auto simp: ex save_sessions_same intro: user_signed_out_upd statement_failedI)
  then show ?thesis using hs pwd by (simp add: ex keep)
qed

lemma find_map_consumed:
  assumes "find p xs = Some x" and "q x" and "\<And>y. p (f y) = p y"
  shows "find p (sql_update q f xs) = Some (f x)"
  using assms by (induction xs) (auto simp: sql_update_def split: if_splits)

lemma spent_token_refused:
  assumes "find (\<lambda>r. t_token_hash r = sha256_hex E (trim tok)) (w_approval_tokens v) = Some row"
    and "t_consumed_at row \<noteq> None"
  shows "r_status (result (reset_password E h tok pw) v) = 400"
proof -
  obtain m where "exec (request_id E h) v = v\<lparr>w_draws := m\<rparr>" using exec_request_id by blast
  then show ?thesis
    using assms
    by (simp add: reset_password_def result_bind exec_bind find_approval_token_by_hash_def result_query
        exec_query Let_def usable_reset_token_def)
qed

text \<open>
  C27. What a successful password reset means: the token shown was the hash of an unconsumed, unexpired
  reset link, its account now has the hash of the new password, and it has no active session left
  or one of the request's statements has failed - the handler discards the result of signing the account
  out; and the same link is refused from then on, with any password, in any world with these links. On
  PostgreSQL the ids in a stored link are canonical UUIDs.
\<close>
theorem reset_password_works_once:
  assumes ids: "list_all (\<lambda>r. canonical_id E (t_id r) \<and> canonical_id E (t_user_id r)) (w_approval_tokens w)"
    and ok: "r_status (result (reset_password E h tok pw) w) = 200"
    and later: "w_approval_tokens w2 = w_approval_tokens (exec (reset_password E h tok pw) w)"
  shows "(\<exists>row\<in>set (w_approval_tokens w). t_token_hash row = sha256_hex E (trim tok)
      \<and> usable_reset_token (w_now w) row
      \<and> (user_signed_out (t_user_id row) (exec (reset_password E h tok pw) w)
          \<or> statement_failed w (exec (reset_password E h tok pw) w))
      \<and> (\<forall>u\<in>set (w_users (exec (reset_password E h tok pw) w)). u_id u = t_user_id row \<longrightarrow>
            x_bcrypt_hash E DEFAULT_COST pw = Some (u_password_hash u)))
    \<and> r_status (result (reset_password E h2 tok pw2) w2) = 400"
proof -
  obtain m where m: "exec (request_id E h) w = w\<lparr>w_draws := m\<rparr>" using exec_request_id by blast
  let ?p = "\<lambda>r. t_token_hash r = sha256_hex E (trim tok)"
  let ?w1 = "w\<lparr>w_draws := m, w_stmts := Suc (w_stmts w)\<rparr>"
  obtain row where row: "find ?p (w_approval_tokens w) = Some row" "usable_reset_token (w_now w) row"
    and nf: "\<not> w_faults w (w_stmts w)"
    and cons: "result (db_consume_approval_token E (t_id row) ''reset'') ?w1 = Inr True"
    and ex: "exec (reset_password E h tok pw) w = exec (set_new_password E h (result (request_id E h) w) (t_user_id row) pw)
        (exec (db_consume_approval_token E (t_id row) ''reset'') ?w1)"
    and st: "r_status (result (set_new_password E h (result (request_id E h) w) (t_user_id row) pw)
        (exec (db_consume_approval_token E (t_id row) ''reset'') ?w1)) = 200"
    using ok
    by (auto simp: reset_password_def result_bind exec_bind m find_approval_token_by_hash_def result_query
        exec_query Let_def split: option.splits if_splits)
  have canon: "canonical_id E (t_id row)" "canonical_id E (t_user_id row)"
    using ids find_Some_set [OF row(1)] by (simp_all add: list_all_iff)
  let ?q = "\<lambda>r. t_id r = t_id row \<and> t_consumed_at r = None"
  let ?f = "\<lambda>r. r\<lparr>t_consumed_at := Some (w_now w), t_result := Some ''reset''\<rparr>"
  let ?w2 = "?w1\<lparr>w_stmts := Suc (Suc (w_stmts w)), w_approval_tokens := sql_update ?q ?f (w_approval_tokens w)\<rparr>"
  have cons: "exec (db_consume_approval_token E (t_id row) ''reset'') ?w1 = ?w2"
    using canon(1) cons
    by (auto simp: db_consume_approval_token_def with_key_def canonical_id_def exec_stmt result_stmt split: if_splits)
  note new = set_new_password_ok [OF st canon(2), unfolded cons]
  have "statement_failed ?w2 v \<Longrightarrow> statement_failed w v" for v by (erule statement_failed_later) simp_all
  then have pw: "(user_signed_out (t_user_id row) (exec (reset_password E h tok pw) w)
        \<or> statement_failed w (exec (reset_password E h tok pw) w))
    \<and> (\<forall>u\<in>set (w_users (exec (reset_password E h tok pw) w)). u_id u = t_user_id row \<longrightarrow>
          x_bcrypt_hash E DEFAULT_COST pw = Some (u_password_hash u))"
    using new unfolding ex cons by blast
  have "w_approval_tokens (exec (set_new_password E h rid uid pw) v) = w_approval_tokens v" for rid uid v
    by (rule preservesD, intro frame_intros; simp)
  then have tok: "w_approval_tokens w2 = sql_update ?q ?f (w_approval_tokens w)"
    by (simp add: later ex cons)
  have "t_consumed_at row = None" using row(2) by (simp add: usable_reset_token_def)
  then have fnd: "find ?p (w_approval_tokens w2) = Some (?f row)"
    unfolding tok by (intro find_map_consumed [OF row(1)]) simp_all
  then have "r_status (result (reset_password E h2 tok pw2) w2) = 400"
    by (intro spent_token_refused [of _ _ _ "?f row"]) simp_all
  with pw row find_Some_set [OF row(1)] show ?thesis by blast
qed


section \<open>Examples\<close>

lemma refresh_succeeds:
  assumes "healthy w" and "x_backend E = Sqlite" and "signing_works E"
    and "extract_cookie h ''refresh_token'' = Some token"
    and "x_decode_refresh E (w_now w) token (x_jwt_refresh_secret E) = Some claims"
    and "find (\<lambda>r. s_token_family_id r = rc_family claims) (w_sessions w) = Some session"
    and "token_current E token session" and "w_now w \<le> s_expires_at session"
    and "find (\<lambda>u. u_id u = rc_sub claims \<and> live u) (w_users w) = Some user"
    and "\<not> u_is_banned user" and "u_is_approved user"
  shows "r_status (result (refresh E h) w) = 200"
proof -
  obtain m where m: "exec (request_id E h) w = w\<lparr>w_draws := m\<rparr>" using exec_request_id by blast
  have "r_status (result (refresh_session E h (result (request_id E h) w) token claims session)
      (w\<lparr>w_draws := m, w_stmts := Suc (w_stmts w)\<rparr>)) = 200"
    by (rule conjunct1 [OF refresh_session_succeeds [OF _ assms(2,3,7)]]) (use assms(1,8-11) in simp_all)
  with assms show ?thesis
    by (simp add: refresh_def result_bind exec_bind m decode_refresh_token_def find_session_by_family_def
        with_key_def db_key_sqlite exec_query result_query)
qed

definition demo_refresh_claims :: refresh_claims where
  "demo_refresh_claims = \<lparr>rc_sub = ''1'', rc_family = ''f'', rc_jti = ''0'', rc_exp = 0\<rparr>"

definition demo_refresh :: app where
  "demo_refresh = demo_app\<lparr>x_encode_refresh := (\<lambda>c key. Some (rc_jti c)),
     x_decode_refresh := (\<lambda>now t key. Some demo_refresh_claims)\<rparr>"

definition demo_cookie :: header_map where
  "demo_cookie = [''cookie'' \<mapsto> ''refresh_token=h'']"

definition demo_session_world :: world where
  "demo_session_world = demo_world\<lparr>w_users := [demo_user], w_sessions := [demo_session],
     w_approval_tokens := [demo_link\<lparr>t_purpose := PASSWORD_RESET_PURPOSE\<rparr>]\<rparr>"

lemma demo_refresh_simps [simp]:
  "x_backend demo_refresh = Sqlite" "signing_works demo_refresh" "sha256_hex demo_refresh t = t"
  "x_decode_refresh demo_refresh now t key = Some demo_refresh_claims"
  "x_encode_refresh demo_refresh c key = Some (rc_jti c)"
  "x_hex demo_refresh = demo_text" "x_rng demo_refresh n b = replicate b (of_nat n)"
  "extract_cookie demo_cookie ''refresh_token'' = Some ''h''"
  "healthy demo_session_world" "w_users demo_session_world = [demo_user]"
  "w_sessions demo_session_world = [demo_session]" "w_now demo_session_world = 0"
  "w_approval_tokens demo_session_world = [demo_link\<lparr>t_purpose := PASSWORD_RESET_PURPOSE\<rparr>]"
  "rc_sub demo_refresh_claims = ''1''" "rc_family demo_refresh_claims = ''f''"
  by (simp_all add: demo_refresh_def demo_app_def signing_works_def sha256_hex_def extract_cookie_def demo_cookie_def
      demo_session_world_def demo_world_def demo_refresh_claims_def healthy_def str_defs code_def)

lemma demo_rows: "s_token_family_id demo_session = ''f''" "token_current E ''h'' demo_session \<longleftrightarrow> sha256_hex E ''h'' = ''h''"
  "0 \<le> s_expires_at demo_session" "u_id demo_user = ''1''" "live demo_user" "\<not> u_is_banned demo_user" "u_is_approved demo_user"
  by (auto simp: demo_session_def token_current_def demo_user_def live_def time_defs)

lemma demo_refresh_ok: "r_status (result (refresh demo_refresh demo_cookie) demo_session_world) = 200"
  by (rule refresh_succeeds [where token = "''h''" and claims = demo_refresh_claims and session = demo_session and user = demo_user])
    (simp_all add: demo_rows)

theorem refresh_needs_the_current_token_witness:
  "\<exists>claims session user. refreshable demo_refresh demo_cookie demo_session_world claims session user"
  by (rule refresh_needs_the_current_token [OF demo_refresh_ok])

theorem refresh_token_is_single_use_witness:
  "r_status (result (refresh demo_refresh demo_cookie)
      ((exec (refresh demo_refresh demo_cookie) demo_session_world)\<lparr>w_now := 1\<rparr>)) = 401
   \<and> family_dead ''f'' (exec (refresh demo_refresh demo_cookie)
        ((exec (refresh demo_refresh demo_cookie) demo_session_world)\<lparr>w_now := 1\<rparr>))"
proof -
  let ?w2 = "(exec (refresh demo_refresh demo_cookie) demo_session_world)\<lparr>w_now := 1\<rparr>"
  have "healthy ?w2"
    using healthy_exec [of "refresh demo_refresh demo_cookie" demo_session_world]
      auth_route_frames(3) [of w_faults demo_refresh demo_cookie] by simp
  then have "\<not> statement_failed ?w2 w'" for w' by (rule healthy_no_failure)
  moreover have "\<exists>k. db_key demo_refresh (rc_family demo_refresh_claims) = Some k
     \<and> r_status (result (refresh demo_refresh demo_cookie) ?w2) = 401
     \<and> (family_dead k (exec (refresh demo_refresh demo_cookie) ?w2)
        \<or> statement_failed ?w2 (exec (refresh demo_refresh demo_cookie) ?w2))"
    by (rule refresh_token_is_single_use [where token = "''h''", OF _ _ _ _ _ _ demo_refresh_ok])
      (auto simp: demo_text_def numeral_eq_Suc canonical_sqlite)
  ultimately show ?thesis by (simp add: db_key_sqlite)
qed

theorem racing_refreshes_both_succeed_witness:
  "wp (do { a \<leftarrow> refresh_session demo_refresh demo_cookie ''r'' ''h'' demo_refresh_claims demo_session;
            b \<leftarrow> refresh_session demo_refresh demo_cookie ''r'' ''h'' demo_refresh_claims demo_session; return (a, b) })
     (\<lambda>(a, b) w'. r_status a = 200 \<and> r_status b = 200
        \<and> map s_revoked_at (w_sessions w') = map s_revoked_at (w_sessions demo_session_world)) demo_session_world"
  by (rule racing_refreshes_both_succeed [where user = demo_user]) (simp_all add: demo_rows)

theorem logout_all_signs_out_witness:
  "user_signed_out (cl_id (demo_claims ''OPERATOR'')) (exec (logout_all (demo_as ''OPERATOR'') demo_headers) demo_session_world)
    \<and> r_status (result (logout_all (demo_as ''OPERATOR'') demo_headers) demo_session_world) = 200
    \<and> r_set_cookie (result (logout_all (demo_as ''OPERATOR'') demo_headers) demo_session_world) = Some cleared_cookie"
  by (rule logout_all_signs_out) simp_all

lemma demo_reset_ok: "r_status (result (reset_password demo_refresh demo_cookie ''h'' ''Abcdef1!'') demo_session_world) = 200"
proof -
  obtain m where m: "exec (request_id demo_refresh demo_cookie) demo_session_world = demo_session_world\<lparr>w_draws := m\<rparr>"
    using exec_request_id by blast
  have v: "validate_password ''Abcdef1!'' = None" "trim ''h'' = ''h''" "x_bcrypt_hash demo_refresh n s = Some s" for n s
    by (simp_all add: validate_password_def str_defs code_def demo_refresh_def)
  show ?thesis
    by (simp add: reset_password_def result_bind exec_bind m v find_approval_token_by_hash_def result_query exec_query
        Let_def set_new_password_def update_user_password_def with_key_def db_consume_approval_token_def
        exec_stmt result_stmt db_key_sqlite load_user_by_id_def)
      (simp add: demo_link_def usable_reset_token_def demo_user_def live_def sql_update_def sql_count_def time_defs)
qed

lemma world_now_tokens: "w_approval_tokens (w\<lparr>w_now := t\<rparr>) = w_approval_tokens w"
  by simp

theorem reset_password_works_once_witness:
  "(\<exists>row\<in>set (w_approval_tokens demo_session_world). t_token_hash row = sha256_hex demo_refresh (trim ''h'')
      \<and> usable_reset_token (w_now demo_session_world) row
      \<and> user_signed_out (t_user_id row) (exec (reset_password demo_refresh demo_cookie ''h'' ''Abcdef1!'') demo_session_world))
   \<and> r_status (result (reset_password demo_refresh demo_cookie ''h'' ''Abcdef1!'')
        ((exec (reset_password demo_refresh demo_cookie ''h'' ''Abcdef1!'') demo_session_world)\<lparr>w_now := 0\<rparr>)) = 400"
proof -
  have "list_all (\<lambda>r. canonical_id demo_refresh (t_id r) \<and> canonical_id demo_refresh (t_user_id r))
      (w_approval_tokens demo_session_world)" by (simp add: canonical_sqlite)
  note once = reset_password_works_once [OF this demo_reset_ok, of
    "(exec (reset_password demo_refresh demo_cookie ''h'' ''Abcdef1!'') demo_session_world)\<lparr>w_now := 0\<rparr>" demo_cookie "''Abcdef1!''",
    OF world_now_tokens]
  have "\<not> statement_failed demo_session_world w'" for w' by (rule healthy_no_failure) simp
  then show ?thesis using once by (simp only: simp_thms) blast
qed

end
