(* ===== verification/Admin_Rules.thy ===== *)
theory Admin_Rules
  imports Admin Auth_Sessions
begin

text \<open>
  What the administration routes of \<open>server/src/admin.rs\<close> guarantee: the role check, the protection of
  the last administrator and the routes that ignore it, bans, approval links and the bootstrap.
\<close>

section \<open>The role check\<close>

definition is_admin_request :: "app \<Rightarrow> header_map \<Rightarrow> world \<Rightarrow> bool" where
  "is_admin_request E h w \<longleftrightarrow> (case result (auth_user_from_headers E h) w of
     None \<Rightarrow> False | Some c \<Rightarrow> can_administer_users (cl_role c))"

lemma require_admin_run:
  "result (require_admin E h) w = (if is_admin_request E h w then None
     else Some (api_err ''FORBIDDEN'' ''errors.forbidden'' (result (request_id E h) w)))"
  "exec (require_admin E h) w = (if is_admin_request E h w then w else exec (request_id E h) w)"
  by (simp_all add: require_admin_def require_role_def is_admin_request_def result_bind exec_bind auth_user_run)

lemma as_admin_run:
  "result (as_admin E h b) w = (if is_admin_request E h w then result b w
     else api_err ''FORBIDDEN'' ''errors.forbidden'' (result (request_id E h) w))"
  "exec (as_admin E h b) w = (if is_admin_request E h w then exec b w else exec (request_id E h) w)"
  by (simp_all add: as_admin_def result_bind exec_bind require_admin_run)

lemma as_admin_denied:
  assumes "\<not> is_admin_request E h w"
  shows "(\<exists>m. exec (as_admin E h b) w = w\<lparr>w_draws := m\<rparr>) \<and> r_status (result (as_admin E h b) w) = 403"
  using assms exec_request_id [of E h w] by (simp add: as_admin_run)

section \<open>The last administrator\<close>

definition admin_count :: "world \<Rightarrow> nat" where
  "admin_count w = sql_count active_admin (w_users w)"

text \<open>
  The ways a route may change the accounts without taking the last active administrator away: not at
  all, by adding a row, by rewriting columns that do not matter here, or by rewriting the rows of
  one id when its account stays an active administrator or is not the only one.
\<close>

definition spares_last_admin :: "world \<Rightarrow> world \<Rightarrow> bool" where
  "spares_last_admin w w' \<longleftrightarrow> w_users w' = w_users w \<or> (\<exists>r. w_users w' = w_users w @ [r])
     \<or> (\<exists>p f. (\<forall>u. active_admin (f u) = active_admin u) \<and> w_users w' = sql_update p f (w_users w))
     \<or> (\<exists>cur f. cur \<in> set (w_users w) \<and> w_users w' = sql_update (\<lambda>u. u_id u = u_id cur) f (w_users w)
          \<and> (active_admin cur \<longrightarrow> active_admin (f cur) \<or> 1 < admin_count w))"

lemma count_update_one:
  assumes "distinct (map u_id t)" and "cur \<in> set t"
  shows "sql_count active_admin t \<le> sql_count active_admin (sql_update (\<lambda>u. u_id u = u_id cur) f t)
     + (if active_admin cur \<and> \<not> active_admin (f cur) then 1 else 0)"
  using assms
proof (induction t)
  case (Cons x t)
  show ?case
  proof (cases "u_id x = u_id cur")
    case True
    have x: "x = cur" using Cons.prems True by (auto simp: image_iff)
    have "\<forall>u\<in>set t. u_id u \<noteq> u_id cur" using Cons.prems True by (auto simp: image_iff)
    then have "sql_update (\<lambda>u. u_id u = u_id cur) f t = t" by (simp add: sql_update_def map_idI)
    then have "sql_update (\<lambda>u. u_id u = u_id cur) f (x # t) = f x # t" using True by (simp add: sql_update_def)
    then show ?thesis using x by (simp add: sql_count_def)
  next
    case False
    then have u: "sql_update (\<lambda>u. u_id u = u_id cur) f (x # t) = x # sql_update (\<lambda>u. u_id u = u_id cur) f t"
      by (simp add: sql_update_def)
    have "cur \<in> set t" using Cons.prems False by auto
    with Cons.IH Cons.prems have "sql_count active_admin t \<le> sql_count active_admin (sql_update (\<lambda>u. u_id u = u_id cur) f t)
      + (if active_admin cur \<and> \<not> active_admin (f cur) then 1 else 0)" by simp
    then show ?thesis unfolding u by (simp add: sql_count_def split: if_splits)
  qed
qed simp

lemma count_update_same:
  "(\<And>u. active_admin (f u) = active_admin u) \<Longrightarrow> sql_count active_admin (sql_update p f t) = sql_count active_admin t"
  by (induction t) (simp_all add: sql_update_def sql_count_def)

lemma spares_last_admin_count:
  assumes "spares_last_admin w w'" and "distinct (map u_id (w_users w))" and "0 < admin_count w"
  shows "0 < admin_count w'"
  using assms(1) unfolding spares_last_admin_def
proof (elim disjE exE conjE)
  fix cur f
  assume c: "cur \<in> set (w_users w)" "w_users w' = sql_update (\<lambda>u. u_id u = u_id cur) f (w_users w)"
    "active_admin cur \<longrightarrow> active_admin (f cur) \<or> 1 < admin_count w"
  have "admin_count w \<le> admin_count w' + (if active_admin cur \<and> \<not> active_admin (f cur) then 1 else 0)"
    unfolding admin_count_def c(2) by (rule count_update_one [OF assms(2) c(1)])
  with c(3) assms(3) show ?thesis by (auto split: if_splits)
qed (use assms(3) in \<open>simp_all add: admin_count_def sql_count_def count_update_same [unfolded sql_count_def]\<close>)

lemma spares_same: "w_users w' = w_users w \<Longrightarrow> spares_last_admin w w'"
  by (simp add: spares_last_admin_def)

lemma spares_cong: "w_users w1 = w_users w \<Longrightarrow> w_users w2 = w_users w' \<Longrightarrow> spares_last_admin w1 w2 \<Longrightarrow> spares_last_admin w w'"
  by (simp add: spares_last_admin_def admin_count_def)

definition next_flags :: "bool option \<Rightarrow> bool option \<Rightarrow> string option \<Rightarrow> string option \<Rightarrow> user_row \<Rightarrow> user_row \<Rightarrow> user_row" where
  "next_flags a b r rl cur = set_flags (case a of None \<Rightarrow> u_is_approved cur | Some b \<Rightarrow> b)
     (case b of None \<Rightarrow> u_is_banned cur | Some b \<Rightarrow> b) (case r of None \<Rightarrow> u_ban_reason cur | Some s \<Rightarrow> Some s)
     (case rl of None \<Rightarrow> u_role cur | Some s \<Rightarrow> s)"

lemma update_flags_users:
  obtains "w_users (exec (update_user_flags E i a b r rl) w) = w_users w"
  | k cur where "db_key E i = Some k" "find (\<lambda>u. u_id u = k \<and> live u) (w_users w) = Some cur"
      "w_users (exec (update_user_flags E i a b r rl) w) = sql_update (\<lambda>u. u_id u = k) (next_flags a b r rl cur) (w_users w)"
proof -
  obtain n where n: "exec (load_user_by_id E i) w = w\<lparr>w_stmts := n\<rparr>" using exec_load_user_by_id by blast
  have users: "w_users (exec (load_user_by_id E i) v) = w_users v" for v
    by (rule preservesD, intro frame_intros) simp
  show ?thesis
  proof (cases "result (load_user_by_id E i) w")
    case (Inl e)
    then show ?thesis using n by (intro that(1)) (simp add: update_user_flags_def exec_bind)
  next
    case (Inr ou)
    show ?thesis
    proof (cases ou)
      case None
      with Inr show ?thesis using n by (intro that(1)) (simp add: update_user_flags_def exec_bind)
    next
      case (Some cur)
      obtain k where k: "db_key E i = Some k" using load_user_by_id_Some [of E i w cur] Inr Some by auto
      have f: "find (\<lambda>u. u_id u = k \<and> live u) (w_users w) = Some cur"
        using Inr Some k by (auto simp: load_user_by_id_def result_with_key result_query split: if_splits)
      show ?thesis
      proof (cases "w_faults w n")
        case True
        then show ?thesis using n Inr Some k
          by (intro that(1)) (simp add: update_user_flags_def exec_bind Let_def exec_stmt result_stmt)
      next
        case False
        show ?thesis
          by (rule that(2) [OF k f])
            (use False n Inr Some k in \<open>simp add: next_flags_def update_user_flags_def exec_bind Let_def
               exec_stmt result_stmt users\<close>)
      qed
    qed
  qed
qed

lemma few_admins_run: "healthy w \<Longrightarrow> result few_admins w \<longleftrightarrow> admin_count w \<le> 1"
  by (simp add: few_admins_def result_bind count_active_system_admins_def result_query admin_count_def)

lemma guard_passed:
  assumes "healthy w" and "\<not> result (last_admin_guard E i) w"
    and "db_key E i = Some k" and "find (\<lambda>u. u_id u = k \<and> live u) (w_users w) = Some cur"
  shows "active_admin cur \<longrightarrow> 1 < admin_count w"
proof -
  obtain n where n: "exec (load_user_by_id E i) w = w\<lparr>w_stmts := n\<rparr>" using exec_load_user_by_id by blast
  have "result (load_user_by_id E i) w = Inr (Some cur)"
    using assms by (simp add: load_user_by_id_def result_with_key result_query)
  with assms(2) n have "\<not> result (would_remove_last_admin cur) (w\<lparr>w_stmts := n\<rparr>)"
    by (simp add: last_admin_guard_def result_bind)
  with assms(1) few_admins_run [of "w\<lparr>w_stmts := n\<rparr>"] show ?thesis
    by (auto simp: would_remove_last_admin_def active_admin_def admin_count_def split: if_splits)
qed

lemma flags_spare:
  assumes "\<And>k cur. db_key E i = Some k \<Longrightarrow> find (\<lambda>u. u_id u = k \<and> live u) (w_users w) = Some cur \<Longrightarrow>
      active_admin cur \<Longrightarrow> active_admin (next_flags a b r rl cur cur) \<or> 1 < admin_count w"
    and "w_users w1 = w_users w"
  shows "spares_last_admin w (exec (update_user_flags E i a b r rl) w1)"
proof (rule update_flags_users [of E i a b r rl w1])
  fix k cur
  assume *: "db_key E i = Some k" "find (\<lambda>u. u_id u = k \<and> live u) (w_users w1) = Some cur"
    "w_users (exec (update_user_flags E i a b r rl) w1) = sql_update (\<lambda>u. u_id u = k) (next_flags a b r rl cur) (w_users w1)"
  with find_Some_set [OF *(2)] assms show ?thesis
    unfolding spares_last_admin_def by metis
qed (simp add: spares_same assms(2))

lemma spares_then:
  "spares_last_admin w (exec m w1) \<Longrightarrow> (\<And>a. preserves w_users (g a)) \<Longrightarrow> spares_last_admin w (exec (m \<bind> g) w1)"
  by (erule spares_cong [OF refl, rotated]) (simp add: exec_bind preserves_def)

lemma guarded_spare:
  assumes "\<And>rid m a n. \<not> result (last_admin_guard E i) (w\<lparr>w_draws := m\<rparr>) \<Longrightarrow>
      spares_last_admin w (exec (b rid) (w\<lparr>w_draws := a, w_stmts := n\<rparr>))"
  shows "spares_last_admin w (exec (as_admin E h (do {
       rid \<leftarrow> request_id E h; guarded \<leftarrow> last_admin_guard E i;
       if guarded then return (last_admin_protected rid) else b rid })) w)"
proof -
  obtain m where m: "exec (request_id E h) w = w\<lparr>w_draws := m\<rparr>" using exec_request_id by blast
  have "preserves (\<lambda>w :: world. w\<lparr>w_draws := 0, w_stmts := 0\<rparr>) (last_admin_guard E i)" by (intro frame_intros) simp
  from exec_counters [OF this, of "w\<lparr>w_draws := m\<rparr>"]
  obtain a n where n: "exec (last_admin_guard E i) (w\<lparr>w_draws := m\<rparr>) = w\<lparr>w_draws := a, w_stmts := n\<rparr>" by auto
  show ?thesis
    using assms [of m "result (request_id E h) w" n a]
    by (simp add: as_admin_run exec_bind m n spares_same)
qed

lemma guard_passed_at:
  "healthy w \<Longrightarrow> \<not> result (last_admin_guard E i) (w\<lparr>w_draws := m\<rparr>) \<Longrightarrow> db_key E i = Some k \<Longrightarrow>
     find (\<lambda>u. u_id u = k \<and> live u) (w_users w) = Some cur \<Longrightarrow> active_admin cur \<Longrightarrow> 1 < admin_count w"
  using guard_passed [of "w\<lparr>w_draws := m\<rparr>" E i k cur] by (simp add: admin_count_def)

lemma ban_spares: "healthy w \<Longrightarrow> spares_last_admin w (exec (ban_user E i h reason) w)"
  unfolding ban_user_def
  by (intro guarded_spare spares_then flags_spare disjI2 guard_passed_at frame_intros) simp_all

lemma unguarded_spare:
  assumes "\<And>rid m. spares_last_admin w (exec (b rid) (w\<lparr>w_draws := m\<rparr>))"
  shows "spares_last_admin w (exec (as_admin E h (do { rid \<leftarrow> request_id E h; b rid })) w)"
proof -
  obtain m where m: "exec (request_id E h) w = w\<lparr>w_draws := m\<rparr>" using exec_request_id by blast
  show ?thesis using assms by (simp add: as_admin_run exec_bind m spares_same)
qed

lemma unban_spares: "spares_last_admin w (exec (unban_user E i h) w)"
  unfolding unban_user_def
  by (intro unguarded_spare spares_then flags_spare disjI1 frame_intros)
    (simp_all add: next_flags_def set_flags_def active_admin_def live_def)

lemma delete_spares:
  assumes "healthy w"
  shows "spares_last_admin w (exec (delete_user_route E i h) w)"
  unfolding delete_user_route_def
proof (intro guarded_spare spares_then frame_intros, simp_all)
  fix m a n
  assume g: "\<not> result (last_admin_guard E i) (w\<lparr>w_draws := m\<rparr>)"
  let ?w1 = "w\<lparr>w_draws := a, w_stmts := n\<rparr>"
  have inc: "w_users (exec (load_user_by_id_including_deleted E i) v) = w_users v" for v
    by (rule preservesD, intro frame_intros) simp
  show "spares_last_admin w (exec (soft_delete_user E i) ?w1)"
  proof (cases "db_key E i")
    case None
    then show ?thesis by (intro spares_same) (simp add: soft_delete_user_def with_key_def)
  next
    case (Some k)
    have u: "w_users (exec (soft_delete_user E i) ?w1) =
        sql_update (\<lambda>u. u_id u = k \<and> live u) (\<lambda>u. u\<lparr>u_deleted_at := Some (w_now w)\<rparr>) (w_users w)"
      using assms Some by (simp add: soft_delete_user_def with_key_def exec_bind exec_stmt result_stmt inc split: sum.split)
    show ?thesis
    proof (cases "find (\<lambda>u. u_id u = k \<and> live u) (w_users w)")
      case None
      then have "w_users (exec (soft_delete_user E i) ?w1) = w_users w"
        unfolding u by (auto simp: sql_update_def find_None_iff intro!: map_idI)
      then show ?thesis by (rule spares_same)
    next
      case (Some cur)
      have "w_users (exec (soft_delete_user E i) ?w1) =
        sql_update (\<lambda>u. u_id u = u_id cur) (\<lambda>u. if live u then u\<lparr>u_deleted_at := Some (w_now w)\<rparr> else u) (w_users w)"
        unfolding u using find_Some_set [OF Some] by (auto simp: sql_update_def)
      with guard_passed_at [OF assms g \<open>db_key E i = Some k\<close> Some] find_Some_set [OF Some] show ?thesis
        unfolding spares_last_admin_def by blast
    qed
  qed
qed


lemma change_role_spares:
  assumes "healthy w"
  shows "spares_last_admin w (exec (change_role_route E i h role) w)"
  unfolding change_role_route_def
proof (rule unguarded_spare)
  fix rid m
  let ?w0 = "w\<lparr>w_draws := m\<rparr>"
  let ?w1 = "exec (load_user_by_id E i) ?w0"
  obtain n where n: "?w1 = ?w0\<lparr>w_stmts := n\<rparr>" using exec_load_user_by_id by blast
  show "spares_last_admin w (exec (if \<not> is_assignable_role role then return (api_err ''VALIDATION_ERROR'' ''errors.invalidRole'' rid)
     else do {
       t \<leftarrow> load_user_by_id E i;
       case flatten t of
         None \<Rightarrow> return (api_err ''NOT_FOUND'' ''errors.notFound'' rid)
       | Some target \<Rightarrow>
           if u_role target = role then return (api_err ''VALIDATION_ERROR'' ''errors.roleUnchanged'' rid)
           else do {
             last \<leftarrow> demotes_last_admin target role;
             if last then return (last_admin_protected rid)
             else do {
               u \<leftarrow> update_user_flags E i None None None (Some role);
               case u of
                 Inr (Some _) \<Rightarrow> do {
                   _ \<leftarrow> revoke_all_sessions_for_user E i;
                   mandatory_audit E h ''USER_ROLE_CHANGED'' rid i
                     (Some (JObj [(''from'', JStr (u_role target)), (''to'', JStr role)])) ''admin.roleChanged''
                 }
               | Inr None \<Rightarrow> return (api_err ''NOT_FOUND'' ''errors.notFound'' rid)
               | Inl _ \<Rightarrow> return (api_err ''INTERNAL_ERROR'' ''errors.internal'' rid)
             }
           }
     }) ?w0)"
  proof (cases "flatten (result (load_user_by_id E i) ?w0)")
    case None
    then show ?thesis by (simp add: exec_bind n spares_same)
  next
    case (Some target)
    then have t: "result (load_user_by_id E i) ?w0 = Inr (Some target)" by (simp add: flatten_Some)
    obtain k where k: "db_key E i = Some k" using load_user_by_id_Some [OF t] by blast
    have f: "find (\<lambda>u. u_id u = k \<and> live u) (w_users w) = Some target"
      using t k by (auto simp: load_user_by_id_def result_with_key result_query split: if_splits)
    have "preserves (\<lambda>w :: world. w\<lparr>w_draws := 0, w_stmts := 0\<rparr>) (demotes_last_admin target role)" by (intro frame_intros) simp
    from exec_counters [OF this, of "?w0\<lparr>w_stmts := n\<rparr>"]
    obtain a b where c: "exec (demotes_last_admin target role) (?w0\<lparr>w_stmts := n\<rparr>) = w\<lparr>w_draws := a, w_stmts := b\<rparr>" by auto
    have ok: "active_admin (next_flags None None None (Some role) cur cur) \<or> 1 < admin_count w"
      if "\<not> result (demotes_last_admin target role) (?w0\<lparr>w_stmts := n\<rparr>)"
        "db_key E i = Some k'" "find (\<lambda>u. u_id u = k' \<and> live u) (w_users w) = Some cur" "active_admin cur" for k' cur
      using that k f assms few_admins_run [of "?w0\<lparr>w_stmts := n\<rparr>"]
      by (auto simp: demotes_last_admin_def next_flags_def set_flags_def active_admin_def live_def admin_count_def split: if_splits)
    show ?thesis
      using Some n c
      by (simp add: exec_bind spares_same)
        (intro impI spares_then [unfolded exec_bind] flags_spare ok frame_intros; simp)
  qed
qed

lemma create_user_users:
  "w_users (exec (create_user E c em fnm lnm en lk ph ro ap) w) \<in> {w_users w,
     w_users w @ [new_user_row (x_uuid_v4 E (w_draws w)) c em fnm lnm en lk ph ro ap]}"
proof -
  have l: "w_users (exec (load_user_by_id E i) v) = w_users v" for i v
    by (rule preservesD, intro frame_intros) simp
  show ?thesis
    by (simp add: create_user_def exec_bind Let_def exec_try_stmt result_try_stmt insert_user_def l
        split: sum.split db_backend.split)
qed

lemma create_user_spares:
  assumes "w_users w1 = w_users w"
  shows "spares_last_admin w (exec (create_user E c em fnm lnm en lk ph ro ap) w1)"
  using create_user_users [of E c em fnm lnm en lk ph ro ap w1] assms by (auto simp: spares_last_admin_def)

definition spare_step :: "world \<Rightarrow> 'a handler \<Rightarrow> bool" where
  "spare_step w m \<longleftrightarrow> (\<forall>v. w_users v = w_users w \<longrightarrow> spares_last_admin w (exec m v))"

lemma spare_stepD: "spare_step w m \<Longrightarrow> spares_last_admin w (exec m w)"
  by (simp add: spare_step_def)

lemma spare_pres: "preserves w_users m \<Longrightarrow> spare_step w m"
  by (simp add: spare_step_def spares_same preserves_def)

lemma spare_then: "spare_step w m \<Longrightarrow> (\<And>a. preserves w_users (g a)) \<Longrightarrow> spare_step w (m \<bind> g)"
  by (simp add: spare_step_def spares_then)

lemma spare_after: "preserves w_users m \<Longrightarrow> (\<And>a. spare_step w (g a)) \<Longrightarrow> spare_step w (m \<bind> g)"
  by (simp add: spare_step_def exec_bind preserves_def)

lemma spare_if: "spare_step w m \<Longrightarrow> spare_step w n \<Longrightarrow> spare_step w (if b then m else n)"
  by simp

lemma spare_option: "spare_step w m \<Longrightarrow> (\<And>a. spare_step w (g a)) \<Longrightarrow> spare_step w (case x of None \<Rightarrow> m | Some a \<Rightarrow> g a)"
  by (simp split: option.split)

lemma spare_sum: "(\<And>e. spare_step w (g e)) \<Longrightarrow> (\<And>a. spare_step w (k a)) \<Longrightarrow> spare_step w (case x of Inl e \<Rightarrow> g e | Inr a \<Rightarrow> k a)"
  by (simp split: sum.split)

lemma spare_prod: "(\<And>a b. spare_step w (g a b)) \<Longrightarrow> spare_step w (case x of (a, b) \<Rightarrow> g a b)"
  by (simp split: prod.split)

lemma spare_create: "spare_step w (create_user E c em fnm lnm en lk ph ro ap)"
  by (simp add: spare_step_def create_user_spares)

lemma spares_rewrite:
  "(\<And>u. active_admin (f u) = active_admin u) \<Longrightarrow> w_users w' = sql_update p f (w_users w) \<Longrightarrow> spares_last_admin w w'"
  unfolding spares_last_admin_def by blast

lemma spare_profile: "spare_step w (update_user_profile E i fnm em en lk ph)"
  unfolding spare_step_def
proof (intro allI impI)
  fix v :: world
  assume v: "w_users v = w_users w"
  have l: "w_users (exec (load_user_by_id E i) v) = w_users v" for i v
    by (rule preservesD, intro frame_intros) simp
  let ?f = "\<lambda>u. u\<lparr>u_first_name := fnm, u_email := em, u_national_id_encrypted := en,
      u_national_id_lookup_hash := lk, u_password_hash := ph\<rparr>"
  have "w_users (exec (update_user_profile E i fnm em en lk ph) v) = w_users w \<or>
      (\<exists>k. w_users (exec (update_user_profile E i fnm em en lk ph) v) = sql_update (\<lambda>u. u_id u = k) ?f (w_users w))"
    using v by (auto simp: update_user_profile_def with_key_def exec_bind exec_try_stmt result_try_stmt
        update_user_where_def l split: option.split sum.split)
  then show "spares_last_admin w (exec (update_user_profile E i fnm em en lk ph) v)"
  proof (elim disjE exE)
    fix k
    assume "w_users (exec (update_user_profile E i fnm em en lk ph) v) = sql_update (\<lambda>u. u_id u = k) ?f (w_users w)"
    then show ?thesis by (rule spares_rewrite [rotated]) (simp add: active_admin_def live_def)
  qed (rule spares_same)
qed

lemma spare_return: "spare_step w (return a)"
  by (intro spare_pres frame_intros)

lemmas spare_intros = spare_then [OF spare_create] spare_then [OF spare_profile]
  spare_after [OF base_frames(5)] spare_after [OF admin_helper_frames(1)] spare_after [OF admin_helper_frames(7)]
  spare_after [OF admin_helper_frames(8)] spare_after [OF encrypt_frame] spare_after [OF user_query_frames(2)]
  spare_after [OF outside_frames(3)] spare_pres [OF admin_helper_frames(15)]
  spare_return spare_if spare_option spare_sum spare_prod

lemma create_route_spares: "spares_last_admin w (exec (create_user_route E h pl) w)"
  unfolding create_user_route_def Let_def as_admin_def
  by (rule spare_stepD) (intro spare_intros frame_intros; simp)

lemma update_route_spares: "spares_last_admin w (exec (update_user_route E i h ul) w)"
  unfolding update_user_route_def Let_def as_admin_def
  by (rule spare_stepD) (intro spare_intros frame_intros; simp)

lemma seed_spares: "spares_last_admin w (exec (seed_admin E h) w)"
  unfolding seed_admin_def Let_def seed_account_def
  by (rule spare_stepD) (intro spare_intros frame_intros; simp)

lemma mfa_reset_spares: "spares_last_admin w (exec (mfa_reset_route E i h) w)"
  unfolding mfa_reset_route_def
  by (rule spares_same, rule preservesD, intro frame_intros; simp)

text \<open>
  C13. The platform cannot lock itself out: when no statement fails and user ids are unique, banning,
  deleting, demoting, editing, creating, unbanning, resetting a second factor and seeding all leave
  at least one active system administrator, whoever is named as the target.
\<close>
theorem last_administrator_survives:
  assumes "healthy w" and "distinct (map u_id (w_users w))" and "0 < admin_count w"
  shows "\<forall>route \<in> {list_users_route E h page page_size, create_user_route E h new, update_user_route E i h edit,
      ban_user E i h reason, unban_user E i h, mfa_reset_route E i h, change_role_route E i h role,
      delete_user_route E i h, seed_admin E h}. 0 < admin_count (exec route w)"
proof
  fix route
  assume "route \<in> {list_users_route E h page page_size, create_user_route E h new, update_user_route E i h edit,
      ban_user E i h reason, unban_user E i h, mfa_reset_route E i h, change_role_route E i h role,
      delete_user_route E i h, seed_admin E h}"
  moreover have "spares_last_admin w (exec (list_users_route E h page page_size) w)"
    by (rule spares_same, rule preservesD, intro frame_intros; simp)
  ultimately have "spares_last_admin w (exec route w)"
    using assms(1) create_route_spares update_route_spares ban_spares unban_spares mfa_reset_spares
      change_role_spares delete_spares seed_spares by auto
  then show "0 < admin_count (exec route w)" using assms(2,3) by (rule spares_last_admin_count)
qed


lemma update_flags_exact:
  assumes "healthy w" "db_key E i = Some k" "find (\<lambda>u. u_id u = k \<and> live u) (w_users w) = Some cur"
  shows "w_users (exec (update_user_flags E i a b r rl) w) = sql_update (\<lambda>u. u_id u = k) (next_flags a b r rl cur) (w_users w)"
proof -
  have l: "w_users (exec (load_user_by_id E i) v) = w_users v" for v
    by (rule preservesD, intro frame_intros) simp
  show ?thesis using assms
    by (simp add: update_user_flags_def exec_bind Let_def exec_stmt result_stmt load_user_by_id_def [where E = E and i = i]
        with_key_def exec_query result_query next_flags_def)
qed

lemma single_active:
  assumes "cur \<in> set t" "active_admin cur" "sql_count active_admin t = 1" "u \<in> set t" "active_admin u"
  shows "u = cur"
proof -
  obtain y where y: "filter active_admin t = [y]" using assms(3) by (auto simp: sql_count_def length_Suc_conv)
  have "cur \<in> set (filter active_admin t)" "u \<in> set (filter active_admin t)" using assms by simp_all
  then show ?thesis unfolding y by simp
qed

lemma no_active_left:
  assumes "\<forall>u\<in>set t. active_admin u \<longrightarrow> u_id u = i" and "\<And>u. \<not> active_admin (f u)"
  shows "sql_count active_admin (sql_update (\<lambda>u. u_id u = i) f t) = 0"
  using assms by (simp only: sql_count_zero sql_update_def set_map ball_simps) auto

text \<open>
  The approval routes are not guarded: approving the only active administrator turns it into an
  operator (\<open>approve_user\<close> always writes the default role), and rejecting it deletes its row, so
  afterwards nobody can administer the platform.
\<close>
theorem approval_routes_ignore_the_last_administrator:
  assumes "healthy w" and "x_backend E = Sqlite" and "is_admin_request E h w"
    and "find (\<lambda>u. u_id u = i \<and> live u) (w_users w) = Some cur"
    and "active_admin cur" and "admin_count w = 1"
  shows "admin_count (exec (approve_user E i h) w) = 0 \<and> admin_count (exec (reject_user E i h) w) = 0"
proof
  obtain m where m: "exec (request_id E h) w = w\<lparr>w_draws := m\<rparr>" using exec_request_id by blast
  let ?w1 = "w\<lparr>w_draws := m\<rparr>"
  have cur: "cur \<in> set (w_users w)" "u_id cur = i" using find_Some_set [OF assms(4)] by auto
  have only: "u = cur" if "u \<in> set (w_users w)" "active_admin u" for u
    using single_active [OF cur(1) assms(5)] assms(6) that by (simp add: admin_count_def)
  have upd: "w_users (exec (update_user_flags E i a b r rl) ?w1) =
      sql_update (\<lambda>u. u_id u = i) (next_flags a b r rl cur) (w_users w)" for a b r rl
    using update_flags_exact [of ?w1 E i i cur a b r rl] assms by (simp add: db_key_sqlite)
  have tail: "w_users (exec (mail_approval u) v) = w_users v"
    "w_users (exec (best_effort_audit E h act rid j) v) = w_users v" for u v act rid j
    by (rule preservesD, intro frame_intros; simp)+
  have "w_users (exec (approve_user E i h) w) =
      sql_update (\<lambda>u. u_id u = i) (next_flags (Some True) (Some False) None (Some DEFAULT_APPROVED_ROLE) cur) (w_users w)"
    using assms(3) by (simp add: approve_user_def as_admin_run exec_bind m upd tail split: sum.split option.split)
  then show "admin_count (exec (approve_user E i h) w) = 0"
    using only cur(2) unfolding admin_count_def
    by (auto intro!: no_active_left simp: next_flags_def set_flags_def active_admin_def DEFAULT_APPROVED_ROLE_def
        OPERATOR_def SYSTEM_ADMIN_def)
  have tail2: "w_users (exec (mail_rejection u) v) = w_users v"
    "w_users (exec (save E r) v) = w_users v" "w_users (exec (actor_claims E h) v) = w_users v"
    "w_faults (exec (actor_claims E h) v) = w_faults v" "w_stmts (exec (actor_claims E h) v) = w_stmts v" for u v r
    by (rule preservesD, intro frame_intros; simp)+
  have "w_users (exec (reject_user E i h) w) = sql_delete (\<lambda>u. u_id u = i) (w_users w)"
    using assms(1-3) by (simp add: reject_user_def as_admin_run exec_bind m load_user_by_id_def with_key_def
        db_key_sqlite exec_query delete_user_def exec_stmt result_stmt tail2)
  then show "admin_count (exec (reject_user E i h) w) = 0"
    using only cur(2) by (auto simp: admin_count_def sql_count_zero sql_delete_def)
qed

lemma save_mandatory_stores:
  assumes "result (save_mandatory E r) w = Inr ()"
  shows "\<exists>e. w_audit_events (exec (save_mandatory E r) w) = w_audit_events w @ [e] \<and> a_action e = ar_action r
     \<and> a_result e = ar_result r \<and> a_resource_type e = ar_resource_type r \<and> a_resource_id e = ar_resource_id r"
proof -
  have p: "w_audit_events (exec (resolve_organization_id E r) w) = w_audit_events w"
    by (rule preservesD, intro frame_intros) simp
  show ?thesis
    using assms p by (auto simp: save_mandatory_def result_bind exec_bind insert_audit_event_def exec_stmt result_stmt
        Let_def event_row_def to_new_event_def split: sum.splits if_splits)
qed

lemma mandatory_audit_ok:
  assumes "r_status (result (mandatory_audit E h act rid i md key) w) = 200"
  shows "\<exists>e. w_audit_events (exec (mandatory_audit E h act rid i md key) w) = w_audit_events w @ [e]
     \<and> a_action e = act \<and> a_result e = ''success'' \<and> a_resource_type e = Some ''user'' \<and> a_resource_id e = Some i"
proof -
  obtain c where c: "result (actor_claims E h) w = c" "exec (actor_claims E h) w = w"
    by (simp add: actor_claims_def auth_user_run)
  let ?r = "(case md of None \<Rightarrow> (\<lambda>r. r) | Some j \<Rightarrow> with_metadata j) (admin_event E h act rid i c)"
  have "result (save_mandatory E ?r) w = Inr ()"
    using assms c by (auto simp: mandatory_audit_def result_bind split: sum.splits)
  from save_mandatory_stores [OF this] c show ?thesis
    by (simp add: mandatory_audit_def exec_bind admin_event_def on_resource_def from_headers_def actor_opt_def
        actor_def recorder_new_def with_metadata_def split: option.splits)
qed

text \<open>
  A ban that answers 200 has taken effect: the account is banned, it has no active session left,
  and exactly one audit event, the mandatory one for this account, was stored.
\<close>
theorem ban_is_immediate:
  assumes "healthy w" and "x_backend E = Sqlite"
    and ok: "r_status (result (ban_user E i h reason) w) = 200"
  shows "user_signed_out i (exec (ban_user E i h reason) w)
    \<and> (\<forall>u\<in>set (w_users (exec (ban_user E i h reason) w)). u_id u = i \<longrightarrow> u_is_banned u)
    \<and> (\<exists>e. w_audit_events (exec (ban_user E i h reason) w) = w_audit_events w @ [e]
         \<and> a_action e = ''USER_BANNED'' \<and> a_resource_id e = Some i)"
proof -
  obtain m where m: "exec (request_id E h) w = w\<lparr>w_draws := m\<rparr>" using exec_request_id by blast
  have "preserves (\<lambda>w :: world. w\<lparr>w_draws := 0, w_stmts := 0\<rparr>) (last_admin_guard E i)" by (intro frame_intros) simp
  from exec_counters [OF this, of "w\<lparr>w_draws := m\<rparr>"]
  obtain a n where n: "exec (last_admin_guard E i) (w\<lparr>w_draws := m\<rparr>) = w\<lparr>w_draws := a, w_stmts := n\<rparr>" by auto
  let ?w1 = "w\<lparr>w_draws := a, w_stmts := n\<rparr>"
  let ?flags = "update_user_flags E i None (Some True) reason None"
  let ?w2 = "exec ?flags ?w1"
  let ?w3 = "exec (revoke_all_sessions_for_user E i) ?w2"
  let ?audit = "mandatory_audit E h ''USER_BANNED'' (result (request_id E h) w) i (Some (JObj [(''reason'', json_opt reason)])) ''admin.userBanned''"
  obtain u where u: "result ?flags ?w1 = Inr (Some u)"
    and st: "result (ban_user E i h reason) w = result ?audit ?w3"
    and ex: "exec (ban_user E i h reason) w = exec ?audit ?w3"
    using ok by (auto simp: ban_user_def as_admin_run result_bind exec_bind m n last_admin_protected_def
        split: if_splits sum.splits option.splits)
  have pres: "w_users ?w3 = w_users ?w2" "w_audit_events ?w3 = w_audit_events ?w2" "w_audit_events ?w2 = w_audit_events ?w1"
    "w_users (exec ?audit ?w3) = w_users ?w3" "w_sessions (exec ?audit ?w3) = w_sessions ?w3" "w_faults ?w2 = w_faults ?w1"
    by (rule preservesD, intro frame_intros; simp)+
  have h2: "healthy ?w2" using assms(1) pres(6) by (simp add: healthy_def)
  obtain cur where cur: "find (\<lambda>u. u_id u = i \<and> live u) (w_users w) = Some cur"
    using u assms(1,2) by (auto simp: update_user_flags_def result_bind load_user_by_id_def with_key_def db_key_sqlite
        result_query split: option.splits)
  have "w_users ?w2 = sql_update (\<lambda>u. u_id u = i) (next_flags None (Some True) reason None cur) (w_users w)"
    using update_flags_exact [of ?w1 E i i cur] assms(1,2) cur by (simp add: db_key_sqlite)
  then have "\<forall>u\<in>set (w_users ?w2). u_id u = i \<longrightarrow> u_is_banned u"
    by (simp only: sql_update_def set_map ball_simps) (simp add: next_flags_def set_flags_def)
  moreover have "user_signed_out i (exec ?audit ?w3)"
    using revoke_all_signs_out [OF h2 assms(2)] pres(5) by (simp add: user_signed_out_def)
  moreover obtain e where "w_audit_events (exec ?audit ?w3) = w_audit_events ?w3 @ [e]" "a_action e = ''USER_BANNED''" "a_resource_id e = Some i"
    using mandatory_audit_ok [OF ok [unfolded st]] by blast
  ultimately show ?thesis using pres by (simp add: ex)
qed

section \<open>Approval links\<close>

lemma consume_Some:
  assumes "result (consume_approval_token E tok out) w = Some uid"
    and "list_all (\<lambda>r. canonical_id E (t_id r)) (w_approval_tokens w)"
  obtains row n where "find (\<lambda>r. t_token_hash r = sha256_hex E tok) (w_approval_tokens w) = Some row"
    "t_consumed_at row = None" "\<not> t_expires_at row < w_now w" "t_user_id row = uid"
    "exec (consume_approval_token E tok out) w = w\<lparr>w_stmts := n, w_approval_tokens :=
       sql_update (\<lambda>r. t_id r = t_id row \<and> t_consumed_at r = None)
         (\<lambda>r. r\<lparr>t_consumed_at := Some (w_now w), t_result := Some out\<rparr>) (w_approval_tokens w)\<rparr>"
proof -
  obtain row where row: "find (\<lambda>r. t_token_hash r = sha256_hex E tok) (w_approval_tokens w) = Some row"
    using assms(1)
    by (auto simp: consume_approval_token_def decode_approval_def result_bind exec_bind find_approval_token_by_hash_def
        result_query split: option.splits if_splits)
  have "db_key E (t_id row) = Some (t_id row)"
    using assms(2) find_Some_set [OF row] by (simp add: list_all_iff canonical_id_def)
  then show ?thesis using assms(1) row
    by (intro that [OF row])
      (auto simp: consume_approval_token_def decode_approval_def result_bind exec_bind find_approval_token_by_hash_def
        result_query exec_query db_consume_approval_token_def with_key_def exec_stmt result_stmt
        split: option.splits if_splits)
qed

lemma spent_link:
  assumes "find (\<lambda>r. t_token_hash r = sha256_hex E tok) (w_approval_tokens v) = Some row" and "t_consumed_at row \<noteq> None"
  shows "result (consume_approval_token E tok out) v = None \<and> (\<exists>n. exec (consume_approval_token E tok out) v = v\<lparr>w_stmts := n\<rparr>)"
  using assms
  by (auto simp: consume_approval_token_def decode_approval_def result_bind exec_bind find_approval_token_by_hash_def
      result_query exec_query split: option.split intro: exI [of _ "w_stmts v"] exI [of _ "Suc (w_stmts v)"])

lemma find_update_first:
  assumes "find p xs = Some x" and "q x" and "\<And>y. p (f y) = p y"
  shows "find p (sql_update q f xs) = Some (f x)"
  using assms by (induction xs) (auto simp: sql_update_def split: if_splits)

text \<open>What the two buttons of the page do.\<close>

definition decide :: "app \<Rightarrow> bool \<Rightarrow> string \<Rightarrow> header_map \<Rightarrow> response handler" where
  "decide E approve tok h = (if approve then quick_approve E tok h else quick_reject E tok h)"

definition outcome_text :: "bool \<Rightarrow> string" where
  "outcome_text approve = (if approve then ''approved'' else ''rejected'')"

lemma decide_unusable:
  assumes "result (consume_approval_token E tok (outcome_text a)) (exec (request_id E h) w) = None"
  shows "result (decide E a tok h) w = invalid_link"
    "exec (decide E a tok h) w = exec (consume_approval_token E tok (outcome_text a)) (exec (request_id E h) w)"
  using assms
  by (cases a; simp add: decide_def outcome_text_def quick_approve_def quick_reject_def result_bind exec_bind)+

lemma decide_used:
  assumes "result (consume_approval_token E tok (outcome_text a)) (exec (request_id E h) w) = Some uid"
  shows "w_approval_tokens (exec (decide E a tok h) w)
    = w_approval_tokens (exec (consume_approval_token E tok (outcome_text a)) (exec (request_id E h) w))"
proof -
  have rest: "w_approval_tokens (exec (update_user_flags E i x y r rl) v) = w_approval_tokens v"
    "w_approval_tokens (exec (mail_approval u) v) = w_approval_tokens v"
    "w_approval_tokens (exec (load_user_by_id E i) v) = w_approval_tokens v"
    "w_approval_tokens (exec (delete_user E i) v) = w_approval_tokens v"
    "w_approval_tokens (exec (mail_rejection ou) v) = w_approval_tokens v"
    "w_approval_tokens (exec (save E rc) v) = w_approval_tokens v" for i x y r rl u ou v rc
    by (rule preservesD, intro frame_intros; simp)+
  show ?thesis
    using assms
    by (cases a; simp add: decide_def outcome_text_def quick_approve_def quick_reject_def exec_bind rest
        split: sum.split option.split)
qed

text \<open>
  C34. The link of the approval mail decides once: when it was used to approve or to reject, using it
  again - for the same decision or for the other one, in any world with these links - gets the
  invalid-link page and changes no account, even if the first decision itself failed. On PostgreSQL the
  ids of the stored links are canonical UUIDs.
\<close>
theorem approval_link_decides_once:
  assumes ids: "list_all (\<lambda>r. canonical_id E (t_id r)) (w_approval_tokens w)"
    and used: "result (decide E a tok h) w \<noteq> invalid_link"
    and later: "w_approval_tokens w2 = w_approval_tokens (exec (decide E a tok h) w)"
  shows "result (decide E b tok h2) w2 = invalid_link \<and> w_users (exec (decide E b tok h2) w2) = w_users w2"
proof -
  obtain m where m: "exec (request_id E h) w = w\<lparr>w_draws := m\<rparr>" using exec_request_id by blast
  let ?c = "consume_approval_token E tok (outcome_text a)"
  obtain uid where uid: "result ?c (w\<lparr>w_draws := m\<rparr>) = Some uid"
    using used decide_unusable(1) [of E tok a h w] by (auto simp: m)
  obtain row where row: "find (\<lambda>r. t_token_hash r = sha256_hex E tok) (w_approval_tokens w) = Some row"
    "t_consumed_at row = None"
    and ex: "w_approval_tokens (exec ?c (w\<lparr>w_draws := m\<rparr>)) =
       sql_update (\<lambda>r. t_id r = t_id row \<and> t_consumed_at r = None)
         (\<lambda>r. r\<lparr>t_consumed_at := Some (w_now w), t_result := Some (outcome_text a)\<rparr>) (w_approval_tokens w)"
    by (rule consume_Some [OF uid]) (use ids in simp_all)
  let ?spent = "row\<lparr>t_consumed_at := Some (w_now w), t_result := Some (outcome_text a)\<rparr>"
  have fnd: "find (\<lambda>r. t_token_hash r = sha256_hex E tok) (w_approval_tokens w2) = Some ?spent"
    using find_update_first [OF row(1)] row(2) decide_used [of E tok a h w uid] uid by (simp add: later m ex)
  obtain m2 where m2: "exec (request_id E h2) w2 = w2\<lparr>w_draws := m2\<rparr>" using exec_request_id by blast
  have "result (consume_approval_token E tok (outcome_text b)) (w2\<lparr>w_draws := m2\<rparr>) = None
      \<and> (\<exists>n. exec (consume_approval_token E tok (outcome_text b)) (w2\<lparr>w_draws := m2\<rparr>) = (w2\<lparr>w_draws := m2\<rparr>)\<lparr>w_stmts := n\<rparr>)"
    by (rule spent_link [where row = ?spent]) (use fnd in simp_all)
  then show ?thesis using decide_unusable [of E tok b h2 w2] by (auto simp: m2)
qed

section \<open>Bootstrap\<close>

text \<open>
  The bootstrap route creates an account only for the configured, non-empty seed token, and only
  while there is no active administrator or the re-opening switch is set; what it creates is one
  approved system administrator. (Counting the administrators must not fail for this.)
\<close>
theorem seed_needs_the_token_and_no_administrator:
  assumes "healthy w" and "w_users (exec (seed_admin E h) w) \<noteq> w_users w"
  shows "(\<exists>tok. tok \<noteq> [] \<and> x_env E ''ADMIN_SEED_TOKEN'' = Some tok \<and> h ''x-seed-token'' = Some tok)
    \<and> (x_env E ''BOOTSTRAP_ENABLED'' = Some ''true'' \<or> admin_count w = 0)
    \<and> (\<exists>r. w_users (exec (seed_admin E h) w) = w_users w @ [r] \<and> active_admin r \<and> u_is_approved r)"
proof -
  obtain m where m: "exec (request_id E h) w = w\<lparr>w_draws := m\<rparr>" using exec_request_id by blast
  obtain ws where ws: "exec (rate_check ''seed-admin'' 5 (900 * SECOND)) (w\<lparr>w_draws := m\<rparr>) = w\<lparr>w_draws := m, w_windows := ws\<rparr>"
    using exec_rate_check [of "''seed-admin''" 5 "900 * SECOND" "w\<lparr>w_draws := m\<rparr>"] by auto
  let ?w1 = "w\<lparr>w_draws := m, w_windows := ws\<rparr>"
  have ref: "w_users (exec (seed_refused E h rid md) v) = w_users v" for rid md v
    by (rule preservesD, intro frame_intros) simp
  have "preserves (\<lambda>w :: world. w\<lparr>w_draws := 0, w_stmts := 0\<rparr>) (already_bootstrapped E)" by (intro frame_intros) simp
  from exec_counters [OF this, of ?w1]
  obtain a n where n: "exec (already_bootstrapped E) ?w1 = w\<lparr>w_windows := ws, w_draws := a, w_stmts := n\<rparr>" by auto
  let ?expected = "case x_env E ''ADMIN_SEED_TOKEN'' of None \<Rightarrow> [] | Some v \<Rightarrow> v"
  let ?provided = "case h ''x-seed-token'' of None \<Rightarrow> [] | Some v \<Rightarrow> v"
  have tok: "?expected \<noteq> []" "?provided = ?expected"
    and nb: "\<not> result (already_bootstrapped E) ?w1"
    using assms(2)
    by (auto simp: seed_admin_def exec_bind m ws ref constant_time_eq_iff Let_def n split: if_splits)
  obtain c p em where acc: "exec (seed_admin E h) w = exec (seed_account E h (result (request_id E h) w) c p em) (exec (already_bootstrapped E) ?w1)"
    using assms(2) tok nb
    by (auto simp: seed_admin_def exec_bind m ws ref constant_time_eq_iff Let_def n split: if_splits option.splits)
  have sv: "w_users (exec (save E rc) v) = w_users v" for rc v
    by (rule preservesD, intro frame_intros) simp
  have "w_users (exec (seed_account E h rid c p em) v) = w_users v
      \<or> (\<exists>r. w_users (exec (seed_account E h rid c p em) v) = w_users v @ [r] \<and> active_admin r \<and> u_is_approved r)"
    for rid v
  proof -
    have "\<exists>hp. w_users (exec (seed_account E h rid c p em) v) \<in> {w_users v, w_users v @ [new_user_row (x_uuid_v4 E (w_draws v))
        (to_uppercase (trim c)) (Some em) ''System'' ''Administrator'' None None hp SYSTEM_ADMIN True]}"
      using create_user_users [of E "to_uppercase (trim c)" "Some em" "''System''" "''Administrator''" None None _ SYSTEM_ADMIN True v]
      by (auto simp: seed_account_def exec_bind sv split: option.split sum.split db_error.split)
    then show ?thesis by (auto simp: new_user_row_def active_admin_def live_def)
  qed
  from this [of "result (request_id E h) w" "exec (already_bootstrapped E) ?w1"] acc n assms(2)
  have new: "\<exists>r. w_users (exec (seed_admin E h) w) = w_users w @ [r] \<and> active_admin r \<and> u_is_approved r"
    by auto
  have "x_env E ''BOOTSTRAP_ENABLED'' = Some ''true'' \<or> admin_count w = 0"
    using nb assms(1) by (auto simp: already_bootstrapped_def result_bind count_active_system_admins_def result_query
        admin_count_def split: if_splits)
  with tok new show ?thesis by (auto split: option.splits)
qed


section \<open>Examples\<close>

definition demo_admin_world :: world where
  "demo_admin_world = demo_world\<lparr>w_users := [demo_user\<lparr>u_role := SYSTEM_ADMIN\<rparr>]\<rparr>"

lemma demo_admin_simps [simp]: "healthy demo_admin_world" "w_users demo_admin_world = [demo_user\<lparr>u_role := SYSTEM_ADMIN\<rparr>]"
  "admin_count demo_admin_world = 1" "active_admin (demo_user\<lparr>u_role := SYSTEM_ADMIN\<rparr>)"
  "is_admin_request (demo_as ''SYSTEM_ADMIN'') demo_headers w"
  by (simp_all add: demo_admin_world_def demo_world_def healthy_def admin_count_def sql_count_def active_admin_def
      demo_user_def live_def is_admin_request_def can_administer_users_def SYSTEM_ADMIN_def)

lemma demo_admin_user: "u_id (demo_user\<lparr>u_role := r\<rparr>) = ''1''" "live (demo_user\<lparr>u_role := r\<rparr>)"
  by (simp_all add: demo_user_def live_def)

theorem last_administrator_survives_witness:
  "0 < admin_count (exec (ban_user (demo_as ''SYSTEM_ADMIN'') ''1'' demo_headers None) demo_admin_world)
   \<and> 0 < admin_count (exec (change_role_route (demo_as ''SYSTEM_ADMIN'') ''1'' demo_headers ''OPERATOR'') demo_admin_world)
   \<and> 0 < admin_count (exec (delete_user_route (demo_as ''SYSTEM_ADMIN'') ''1'' demo_headers) demo_admin_world)"
proof -
  have "\<forall>route \<in> {list_users_route (demo_as ''SYSTEM_ADMIN'') demo_headers None None, create_user_route (demo_as ''SYSTEM_ADMIN'') demo_headers
      \<lparr>cu_user_code = ''ABCD'', cu_password = ''pw'', cu_first_name = None, cu_last_name = None,
       cu_national_id = [], cu_email = [], cu_is_admin = True\<rparr>,
      update_user_route (demo_as ''SYSTEM_ADMIN'') ''1'' demo_headers \<lparr>up_nickname = None, up_national_id = None, up_email = None, up_password = None\<rparr>,
      ban_user (demo_as ''SYSTEM_ADMIN'') ''1'' demo_headers None, unban_user (demo_as ''SYSTEM_ADMIN'') ''1'' demo_headers,
      mfa_reset_route (demo_as ''SYSTEM_ADMIN'') ''1'' demo_headers, change_role_route (demo_as ''SYSTEM_ADMIN'') ''1'' demo_headers ''OPERATOR'',
      delete_user_route (demo_as ''SYSTEM_ADMIN'') ''1'' demo_headers, seed_admin (demo_as ''SYSTEM_ADMIN'') demo_headers}.
    0 < admin_count (exec route demo_admin_world)"
    by (rule last_administrator_survives) simp_all
  then show ?thesis by simp
qed

theorem approval_routes_ignore_the_last_administrator_witness:
  "admin_count (exec (approve_user (demo_as ''SYSTEM_ADMIN'') ''1'' demo_headers) demo_admin_world) = 0
   \<and> admin_count (exec (reject_user (demo_as ''SYSTEM_ADMIN'') ''1'' demo_headers) demo_admin_world) = 0"
  by (rule approval_routes_ignore_the_last_administrator [where cur = "demo_user\<lparr>u_role := SYSTEM_ADMIN\<rparr>"])
    (simp_all add: demo_admin_user)

lemma save_mandatory_healthy: "healthy w \<Longrightarrow> result (save_mandatory E r) w = Inr ()"
proof -
  assume h: "healthy w"
  have "w_faults (exec (resolve_organization_id E r) w) = w_faults w"
    by (rule preservesD, intro frame_intros) simp
  with h show ?thesis
    by (simp add: save_mandatory_def result_bind insert_audit_event_def result_stmt)
qed

lemma mandatory_audit_healthy: "healthy w \<Longrightarrow> r_status (result (mandatory_audit E h act rid i md key) w) = 200"
  by (simp add: mandatory_audit_def result_bind exec_bind actor_claims_def auth_user_run save_mandatory_healthy)

lemma healthy_revoke_where [simp]: "healthy (revoke_where p w) = healthy w"
  by (simp add: healthy_def)

lemma demo_ban_ok: "r_status (result (ban_user (demo_as ''SYSTEM_ADMIN'') ''1'' demo_headers None) demo_session_world) = 200"
proof -
  obtain m where m: "exec (request_id (demo_as ''SYSTEM_ADMIN'') demo_headers) demo_session_world = demo_session_world\<lparr>w_draws := m\<rparr>"
    using exec_request_id by blast
  have u: "find (\<lambda>u. u_id u = ''1'' \<and> live u) (w_users demo_session_world) = Some demo_user"
    "u_role demo_user \<noteq> SYSTEM_ADMIN" "u_is_approved demo_user" "live (demo_user\<lparr>u_is_approved := True, u_is_banned := True\<rparr>)"
    "u_id (demo_user\<lparr>u_is_banned := True\<rparr>) = ''1''"
    by (simp_all add: demo_user_def live_def SYSTEM_ADMIN_def)
  show ?thesis
    using u
    by (simp add: ban_user_def as_admin_run result_bind exec_bind m last_admin_guard_def load_user_by_id_def with_key_def
        db_key_sqlite exec_query result_query would_remove_last_admin_def update_user_flags_def Let_def exec_stmt result_stmt
        sql_update_def set_flags_def demo_rows revoke_all_sessions_for_user_def mandatory_audit_healthy)
qed


theorem ban_is_immediate_witness:
  "user_signed_out ''1'' (exec (ban_user (demo_as ''SYSTEM_ADMIN'') ''1'' demo_headers None) demo_session_world)
    \<and> (\<exists>e. w_audit_events (exec (ban_user (demo_as ''SYSTEM_ADMIN'') ''1'' demo_headers None) demo_session_world)
            = w_audit_events demo_session_world @ [e] \<and> a_action e = ''USER_BANNED'' \<and> a_resource_id e = Some ''1'')"
  using ban_is_immediate [OF _ _ demo_ban_ok] by simp

definition demo_approval :: app where
  "demo_approval = demo_app\<lparr>x_decode_approval := (\<lambda>now t key. Some \<lparr>ac_user_id = ''1'', ac_purpose = APPROVAL_PURPOSE,
     ac_jti = [], ac_exp = 0\<rparr>), x_env := [''ADMIN_SEED_TOKEN'' \<mapsto> ''S'', ''ADMIN_USER_CODE'' \<mapsto> ''R'',
       ''ADMIN_PASSWORD'' \<mapsto> ''p'', ''ADMIN_EMAIL'' \<mapsto> ''e'']\<rparr>"

lemma demo_approval_simps [simp]: "x_backend demo_approval = Sqlite" "sha256_hex demo_approval s = s"
  "x_decode_approval demo_approval now t key = Some \<lparr>ac_user_id = ''1'', ac_purpose = APPROVAL_PURPOSE, ac_jti = [], ac_exp = 0\<rparr>"
  "x_env demo_approval = [''ADMIN_SEED_TOKEN'' \<mapsto> ''S'', ''ADMIN_USER_CODE'' \<mapsto> ''R'',
       ''ADMIN_PASSWORD'' \<mapsto> ''p'', ''ADMIN_EMAIL'' \<mapsto> ''e'']"
  "x_bcrypt_hash demo_approval n s = Some s"
  by (simp_all add: demo_approval_def demo_app_def sha256_hex_def)

lemma demo_approve_ok: "result (quick_approve demo_approval ''h'' demo_headers) demo_session_world \<noteq> invalid_link"
proof -
  obtain m where m: "exec (request_id demo_approval demo_headers) demo_session_world = demo_session_world\<lparr>w_draws := m\<rparr>"
    using exec_request_id by blast
  show ?thesis
    by (simp add: quick_approve_def result_bind exec_bind m consume_approval_token_def decode_approval_def
        find_approval_token_by_hash_def result_query exec_query db_consume_approval_token_def with_key_def db_key_sqlite
        exec_stmt result_stmt split: sum.split option.split)
      (simp add: demo_link_def sql_update_def sql_count_def time_defs name_page_def gone_page_def error_page_def
        invalid_link_def html_page_def)
qed

theorem approval_link_decides_once_witness:
  "result (decide demo_approval False ''h'' demo_headers)
      ((exec (decide demo_approval True ''h'' demo_headers) demo_session_world)\<lparr>w_now := 1\<rparr>) = invalid_link
   \<and> w_users (exec (decide demo_approval False ''h'' demo_headers)
      ((exec (decide demo_approval True ''h'' demo_headers) demo_session_world)\<lparr>w_now := 1\<rparr>))
     = w_users ((exec (decide demo_approval True ''h'' demo_headers) demo_session_world)\<lparr>w_now := 1\<rparr>)"
  by (rule approval_link_decides_once [OF _ _ world_now_tokens])
    (simp add: canonical_sqlite, simp only: decide_def if_True demo_approve_ok not_False_eq_True)

definition demo_seed_headers :: header_map where
  "demo_seed_headers = [''x-seed-token'' \<mapsto> ''S'']"

lemma demo_seed_changes: "w_users (exec (seed_admin demo_approval demo_seed_headers) demo_world) \<noteq> w_users demo_world"
proof -
  obtain m where m: "exec (request_id demo_approval demo_seed_headers) demo_world = demo_world\<lparr>w_draws := m\<rparr>"
    using exec_request_id by blast
  let ?k = "''seed-admin''"
  have r: "result (rate_check ?k 5 (900 * SECOND)) (demo_world\<lparr>w_draws := m\<rparr>)"
    by (simp add: rate_check_def result_def check_def demo_world_def split: prod.split)
  obtain ws where ws: "exec (rate_check ?k 5 (900 * SECOND)) (demo_world\<lparr>w_draws := m\<rparr>) = demo_world\<lparr>w_draws := m, w_windows := ws\<rparr>"
    using exec_rate_check [of ?k 5 "900 * SECOND" "demo_world\<lparr>w_draws := m\<rparr>"] by auto
  have c: "to_uppercase (trim ''R'') = ''R''" "trim ''R'' = ''R''"
    by (simp_all add: str_defs code_def)
  have sv: "w_users (exec (save E r) v) = w_users v" "w_users (exec (load_user_by_id E i) v) = w_users v" for E r v i
    by (rule preservesD, intro frame_intros; simp)+
  let ?w1 = "demo_world\<lparr>w_draws := m, w_windows := ws\<rparr>"
  have b: "\<not> result (already_bootstrapped demo_approval) ?w1"
      "exec (already_bootstrapped demo_approval) ?w1 = ?w1\<lparr>w_stmts := Suc (w_stmts demo_world)\<rparr>"
    by (simp_all add: already_bootstrapped_def result_bind exec_bind count_active_system_admins_def result_query exec_query)
      (simp add: demo_world_def sql_count_def)
  have hd: "demo_seed_headers ''x-seed-token'' = Some ''S''" by (simp add: demo_seed_headers_def)
  have u: "w_users demo_world = []" by (simp add: demo_world_def)
  have e: "exec (seed_admin demo_approval demo_seed_headers) demo_world =
      exec (seed_account demo_approval demo_seed_headers (result (request_id demo_approval demo_seed_headers) demo_world) ''R'' ''p'' ''e'')
        (?w1\<lparr>w_stmts := Suc (w_stmts demo_world)\<rparr>)"
    using r ws b by (simp add: seed_admin_def exec_bind m hd constant_time_eq_iff Let_def)
  show ?thesis
    unfolding e
    by (simp add: seed_account_def exec_bind result_bind c sv u create_user_def exec_try_stmt result_try_stmt
        insert_user_def Let_def split: sum.split option.split db_error.split)
qed

theorem seed_needs_the_token_and_no_administrator_witness:
  "(\<exists>tok. tok \<noteq> [] \<and> x_env demo_approval ''ADMIN_SEED_TOKEN'' = Some tok \<and> demo_seed_headers ''x-seed-token'' = Some tok)
    \<and> (x_env demo_approval ''BOOTSTRAP_ENABLED'' = Some ''true'' \<or> admin_count demo_world = 0)
    \<and> (\<exists>r. w_users (exec (seed_admin demo_approval demo_seed_headers) demo_world) = w_users demo_world @ [r]
           \<and> active_admin r \<and> u_is_approved r)"
  by (rule seed_needs_the_token_and_no_administrator [OF _ demo_seed_changes]) simp

end
