(* ===== verification/Access.thy ===== *)
theory Access
  imports System_Rules Admin_Rules
begin

text \<open>
  Who may use what is mounted under \<open>/api/v1/admin\<close>. Most routes ask for a role; the bootstrap asks
  for the configured seed token, and the pages behind the approval mail for a usable link.
\<close>

section \<open>What a request must show\<close>

definition caller_role :: "app \<Rightarrow> header_map \<Rightarrow> world \<Rightarrow> string option" where
  "caller_role E h w = map_option cl_role (result (auth_user_from_headers E h) w)"

definition shows_seed_token :: "app \<Rightarrow> header_map \<Rightarrow> bool" where
  "shows_seed_token E h \<longleftrightarrow>
     (case x_env E ''ADMIN_SEED_TOKEN'' of None \<Rightarrow> False | Some tok \<Rightarrow> tok \<noteq> [] \<and> h ''x-seed-token'' = Some tok)"

definition usable_link :: "app \<Rightarrow> string \<Rightarrow> world \<Rightarrow> bool" where
  "usable_link E token w \<longleftrightarrow>
     (case x_decode_approval E (w_now w) token (x_approval_token_secret E) of
        None \<Rightarrow> False
      | Some claims \<Rightarrow> ac_purpose claims = APPROVAL_PURPOSE
          \<and> list_ex (\<lambda>r. t_token_hash r = sha256_hex E token \<and> t_user_id r = ac_user_id claims
              \<and> t_consumed_at r = None \<and> w_now w \<le> t_expires_at r) (w_approval_tokens w))"

text \<open>The access token, seed token or link each request needs, from the table of roles in the documentation.\<close>

fun has_authority :: "app \<Rightarrow> header_map \<Rightarrow> world \<Rightarrow> admin_request \<Rightarrow> bool" where
  "has_authority E h w Seed_Admin = shows_seed_token E h"
| "has_authority E h w (Review_Link token) = usable_link E token w"
| "has_authority E h w (Quick_Approve token) = usable_link E token w"
| "has_authority E h w (Quick_Reject token) = usable_link E token w"
| "has_authority E h w List_Organizations = (caller_role E h w = Some ''SYSTEM_ADMIN'')"
| "has_authority E h w (Create_Organization _) = (caller_role E h w = Some ''SYSTEM_ADMIN'')"
| "has_authority E h w (List_Units _) = (caller_role E h w = Some ''SYSTEM_ADMIN'')"
| "has_authority E h w (Create_Unit _ _ _) = (caller_role E h w = Some ''SYSTEM_ADMIN'')"
| "has_authority E h w (Assign_Membership _ _ _) = (caller_role E h w = Some ''SYSTEM_ADMIN'')"
| "has_authority E h w (Remove_Membership _ _) = (caller_role E h w = Some ''SYSTEM_ADMIN'')"
| "has_authority E h w _ = (caller_role E h w \<in> {Some ''SYSTEM_ADMIN'', Some ''SECURITY_ADMIN''})"

text \<open>What is answered without it.\<close>

fun refusal :: "admin_request \<Rightarrow> response \<Rightarrow> bool" where
  "refusal Seed_Admin r = (r_status r \<in> {403, 429})"
| "refusal (Review_Link token) r = (r = invalid_link)"
| "refusal (Quick_Approve token) r = (r = invalid_link)"
| "refusal (Quick_Reject token) r = (r = invalid_link)"
| "refusal _ r = (r_status r = 403)"

text \<open>The world without the request counters, the limiter's windows and the audit trail.\<close>

definition besides_audit :: "world \<Rightarrow> world" where
  "besides_audit w = w\<lparr>w_draws := 0, w_stmts := 0, w_windows := [], w_audit_events := [], w_chain_sequence := 0, w_chain_hash := []\<rparr>"

section \<open>The guards\<close>

lemma caller_admin: "is_admin_request E h w \<longleftrightarrow> caller_role E h w \<in> {Some ''SYSTEM_ADMIN'', Some ''SECURITY_ADMIN''}"
  by (auto simp: is_admin_request_def caller_role_def can_administer_users_def SYSTEM_ADMIN_def SECURITY_ADMIN_def
      split: option.split)

lemma besides_draws: "besides_audit (w\<lparr>w_draws := m\<rparr>) = besides_audit w" "besides_audit (w\<lparr>w_stmts := n\<rparr>) = besides_audit w"
  by (simp_all add: besides_audit_def)

lemma as_admin_refused:
  assumes "caller_role E h w \<notin> {Some ''SYSTEM_ADMIN'', Some ''SECURITY_ADMIN''}"
  shows "r_status (result (as_admin E h b) w) = 403 \<and> besides_audit (exec (as_admin E h b) w) = besides_audit w"
  using as_admin_denied [of E h w b] assms by (auto simp: caller_admin besides_draws)

lemma as_org_admin_refused:
  assumes "caller_role E h w \<noteq> Some ''SYSTEM_ADMIN''"
  shows "r_status (result (as_org_admin E h b) w) = 403 \<and> besides_audit (exec (as_org_admin E h b) w) = besides_audit w"
proof -
  obtain m where "exec (request_id E h) w = w\<lparr>w_draws := m\<rparr>" using exec_request_id by blast
  with assms show ?thesis
    by (auto simp: as_org_admin_def require_org_admin_def result_bind exec_bind auth_user_run caller_role_def
        can_manage_organizations_def SYSTEM_ADMIN_def besides_draws forbidden_def split: option.split)
qed

lemma unusable_row:
  assumes "\<not> usable_link E token w" "x_decode_approval E (w_now w) token (x_approval_token_secret E) = Some claims"
    "ac_purpose claims = APPROVAL_PURPOSE" "find (\<lambda>r. t_token_hash r = sha256_hex E token) (w_approval_tokens w) = Some row"
    "t_user_id row = ac_user_id claims"
  shows "t_consumed_at row \<noteq> None \<or> t_expires_at row < w_now w"
  using assms(1-3,5) find_Some_set [OF assms(4)] by (auto simp: usable_link_def list_ex_iff not_less)

lemma unusable_consume:
  assumes "\<not> usable_link E token w"
  shows "result (consume_approval_token E token out) w = None
    \<and> besides_audit (exec (consume_approval_token E token out) w) = besides_audit w"
  by (auto simp: consume_approval_token_def decode_approval_def result_bind exec_bind
      find_approval_token_by_hash_def result_query exec_query besides_draws dest: unusable_row [OF assms] split: option.split)

lemma unusable_peek:
  assumes "\<not> usable_link E token w"
  shows "result (peek_approval_token E token) w = None \<and> besides_audit (exec (peek_approval_token E token) w) = besides_audit w"
  by (auto simp: peek_approval_token_def decode_approval_def result_bind exec_bind
      find_approval_token_by_hash_def result_query exec_query besides_draws dest: unusable_row [OF assms] split: option.split)

lemma usable_link_draws: "usable_link E token (w\<lparr>w_draws := m\<rparr>) = usable_link E token w"
  by (simp add: usable_link_def split: option.split)

lemma decide_refused:
  assumes "\<not> usable_link E token w"
  shows "result (decide E a token h) w = invalid_link \<and> besides_audit (exec (decide E a token h) w) = besides_audit w"
proof -
  obtain m where m: "exec (request_id E h) w = w\<lparr>w_draws := m\<rparr>" using exec_request_id by blast
  have "\<not> usable_link E token (w\<lparr>w_draws := m\<rparr>)" using assms by (simp add: usable_link_draws)
  from unusable_consume [OF this, of "outcome_text a"] show ?thesis
    using decide_unusable [of E token a h w] by (simp add: m besides_draws)
qed

lemma review_refused:
  "\<not> usable_link E token w \<Longrightarrow> result (review E token) w = invalid_link \<and> besides_audit (exec (review E token) w) = besides_audit w"
  using unusable_peek [of E token w] by (simp add: review_def result_bind exec_bind)

lemma seed_admin_refused:
  assumes "\<not> shows_seed_token E h"
  shows "r_status (result (seed_admin E h) w) \<in> {403, 429} \<and> besides_audit (exec (seed_admin E h) w) = besides_audit w"
proof -
  have refused: "preserves besides_audit (seed_refused E h rid md)" for rid md
    by (intro frame_intros) (simp add: besides_audit_def)
  have early: "preserves besides_audit (request_id E h)" "preserves besides_audit (rate_check k n d)" for k n d
    by (intro frame_intros; simp add: besides_audit_def)+
  have "(case x_env E ''ADMIN_SEED_TOKEN'' of None \<Rightarrow> [] | Some v \<Rightarrow> v) = []
      \<or> (case h ''x-seed-token'' of None \<Rightarrow> [] | Some v \<Rightarrow> v) \<noteq> (case x_env E ''ADMIN_SEED_TOKEN'' of None \<Rightarrow> [] | Some v \<Rightarrow> v)"
    using assms by (auto simp: shows_seed_token_def split: option.splits)
  then show ?thesis
    by (auto simp: seed_admin_def result_bind exec_bind Let_def constant_time_eq_iff preservesD [OF refused]
        preservesD [OF early(1)] preservesD [OF early(2)] seed_refused_def [THEN arg_cong [where f = result]] simp del: split_paired_Ex)
qed

section \<open>The routes\<close>

text \<open>
  C14. No request under \<open>/api/v1/admin\<close> does anything without its authority: the access token of a
  system or security administrator - of a system administrator for organizations, units and
  memberships -, the configured seed token for the bootstrap, an unexpired, unused link of the
  approval mail for the pages it opens. Without it the request is refused, and except for the request
  counters, the limiter and the audit trail the world stays as it is.
\<close>

theorem admin_routes_need_authority:
  assumes "\<not> has_authority (se_app S) h w req"
  shows "refusal req (result (admin_routes S h req) w)
    \<and> besides_audit (exec (admin_routes S h req) w) = besides_audit w"
  using assms
  by (cases req)
    (simp_all add: as_admin_refused as_org_admin_refused seed_admin_refused [simplified] review_refused
      decide_refused [where a = True, unfolded decide_def if_True] decide_refused [where a = False, unfolded decide_def if_False]
      list_users_route_def create_user_route_def update_user_route_def approve_user_def
      reject_user_def ban_user_def unban_user_def mfa_reset_route_def change_role_route_def delete_user_route_def
      list_biometric_thresholds_def list_connectors_def list_organizations_route_def create_organization_route_def
      list_units_route_def create_unit_route_def assign_membership_route_def remove_membership_route_def)

section \<open>Examples\<close>

text \<open>An operator may not delete an account.\<close>

definition demo_desk :: server where
  "demo_desk = demo_server\<lparr>se_app := demo_as ''OPERATOR''\<rparr>"

lemma demo_operator: "\<not> has_authority (se_app demo_desk) demo_headers demo_session_world (Delete_User ''1'')"
  by (simp add: demo_desk_def caller_role_def)

theorem admin_routes_need_authority_witness:
  "refusal (Delete_User ''1'') (result (admin_routes demo_desk demo_headers (Delete_User ''1'')) demo_session_world)
   \<and> besides_audit (exec (admin_routes demo_desk demo_headers (Delete_User ''1'')) demo_session_world)
      = besides_audit demo_session_world"
  by (rule admin_routes_need_authority [OF demo_operator])

end
