(* ===== verification/Secrets.thy ===== *)
theory Secrets
  imports System_Rules
begin

text \<open>
  What is written where a secret belongs: passwords, refresh tokens, links, emailed codes, recovery codes
  and national ids are in the tables only as digests or ciphertext, in every state of the running server,
  and no two accounts share a national id. (The TOTP secret and the registration tracking token are stored
  as they are; the invariant says nothing of those columns.)
\<close>

section \<open>Sealed rows\<close>

definition digest :: "app \<Rightarrow> string \<Rightarrow> bool" where
  "digest E h \<longleftrightarrow> (\<exists>secret. h = sha256_hex E secret)"

definition password_digest :: "app \<Rightarrow> string \<Rightarrow> bool" where
  "password_digest E h \<longleftrightarrow> (\<exists>password. x_bcrypt_hash E DEFAULT_COST password = Some h)"

text \<open>The two columns of a national id: both empty, or the ciphertext and the keyed hash of one id.\<close>

definition sealed_id :: "app \<Rightarrow> string option \<Rightarrow> string option \<Rightarrow> bool" where
  "sealed_id E enc lookup \<longleftrightarrow> enc = None \<and> lookup = None \<or>
     (\<exists>w national_id. (enc, lookup) = map_prod Some Some (result (encrypt E (x_national_id_key E) national_id) w))"

definition sealed_user :: "app \<Rightarrow> user_row \<Rightarrow> bool" where
  "sealed_user E u \<longleftrightarrow> password_digest E (u_password_hash u)
     \<and> sealed_id E (u_national_id_encrypted u) (u_national_id_lookup_hash u)"

definition sealed :: "app \<Rightarrow> world \<Rightarrow> bool" where
  "sealed E w \<longleftrightarrow> list_all (sealed_user E) (w_users w)
     \<and> list_all (\<lambda>s. digest E (s_refresh_token_hash s)) (w_sessions w)
     \<and> list_all (\<lambda>t. digest E (t_token_hash t)) (w_approval_tokens w)
     \<and> list_all (\<lambda>m. pred_option (digest E) (m_email_code_hash m)) (w_mfa_credentials w)
     \<and> list_all (\<lambda>k. digest E (k_code_hash k)) (w_recovery_codes w)"

definition accounts_ok :: "app \<Rightarrow> world \<Rightarrow> bool" where
  "accounts_ok E w \<longleftrightarrow> sealed E w \<and> users_ok w"

lemma accounts_ok_frame [simp]:
  "accounts_ok E (w\<lparr>w_now := a1\<rparr>) = accounts_ok E w" "accounts_ok E (w_stmts_update f2 w) = accounts_ok E w"
  "accounts_ok E (w_draws_update f3 w) = accounts_ok E w" "accounts_ok E (w_audit_events_update f4 w) = accounts_ok E w"
  "accounts_ok E (w_chain_sequence_update f5 w) = accounts_ok E w" "accounts_ok E (w_chain_hash_update f6 w) = accounts_ok E w"
  "accounts_ok E (w_memberships_update f7 w) = accounts_ok E w" "accounts_ok E (w_organizations_update f8 w) = accounts_ok E w"
  "accounts_ok E (w_units_update f9 w) = accounts_ok E w" "accounts_ok E (w_searches_update g1 w) = accounts_ok E w"
  "accounts_ok E (w_search_candidates_update g2 w) = accounts_ok E w" "accounts_ok E (w_verification_events_update g3 w) = accounts_ok E w"
  "accounts_ok E (w_candidates_update g4 w) = accounts_ok E w" "accounts_ok E (w_evidence_update g5 w) = accounts_ok E w"
  "accounts_ok E (w_relations_update g6 w) = accounts_ok E w" "accounts_ok E (w_templates_update g7 w) = accounts_ok E w"
  "accounts_ok E (w_thresholds_update g8 w) = accounts_ok E w" "accounts_ok E (w_breakers_update g9 w) = accounts_ok E w"
  "accounts_ok E (w_windows_update h1 w) = accounts_ok E w" "accounts_ok E (w_outbox_update h2 w) = accounts_ok E w"
  "accounts_ok E (w_counters_update h3 w) = accounts_ok E w"
  by (simp_all add: accounts_ok_def sealed_def users_ok_def)

lemma digest_sha [intro]: "digest E (sha256_hex E s)"
  by (auto simp: digest_def)

lemma digests_sha [intro]: "list_all (digest E) (map (sha256_hex E) xs)"
  by (auto simp: list_all_iff digest_def)

lemma password_digest_bcrypt: "x_bcrypt_hash E DEFAULT_COST p = Some h \<Longrightarrow> password_digest E h"
  by (auto simp: password_digest_def)

lemma sealed_id_none [intro]: "sealed_id E None None"
  by (simp add: sealed_id_def)

lemma list_all_update: "list_all P t \<Longrightarrow> (\<And>r. P r \<Longrightarrow> P (f r)) \<Longrightarrow> list_all P (sql_update q f t)"
  by (auto simp: sql_update_def list_all_iff)

lemma list_all_delete: "list_all P t \<Longrightarrow> list_all P (sql_delete q t)"
  by (auto simp: sql_delete_def list_all_iff)

lemma keeps_then: "yields P m Q \<Longrightarrow> (\<And>a. Q a \<Longrightarrow> keeps P (g a)) \<Longrightarrow> keeps P (m \<bind> g)"
  by (simp add: keeps_def yields_def exec_bind)

section \<open>The writes\<close>

named_theorems seal_intros

lemma seal_cases [seal_intros]:
  "keeps I m \<Longrightarrow> keeps I n \<Longrightarrow> keeps I (case b of Postgres \<Rightarrow> m | Sqlite \<Rightarrow> n)"
  "keeps I m \<Longrightarrow> keeps I n \<Longrightarrow> keeps I (case d of UniqueViolation \<Rightarrow> m | DbFailure \<Rightarrow> n)"
  "keeps I m \<Longrightarrow> (\<And>meth. keeps I (r meth)) \<Longrightarrow> keeps I n \<Longrightarrow>
     keeps I (case l of NotRequired \<Rightarrow> m | ChallengeRequired meth \<Rightarrow> r meth | EnrollmentRequired \<Rightarrow> n)"
  "keeps I m \<Longrightarrow> keeps I n \<Longrightarrow> keeps I i \<Longrightarrow> keeps I (case vo of Primary \<Rightarrow> m | Recovery \<Rightarrow> n | Failed \<Rightarrow> i)"
  "(\<And>cs. keeps I (s cs)) \<Longrightarrow> keeps I m \<Longrightarrow> keeps I (case co of Enabled cs \<Rightarrow> s cs | AlreadyEnabled \<Rightarrow> m)"
  by (simp_all split: db_backend.split db_error.split login_mfa_outcome.split verify_outcome.split confirm_outcome.split)

lemmas [seal_intros] = keeps_return keeps_gets keeps_bind keeps_if keeps_option keeps_sum keeps_prod
  digest_sha digests_sha sealed_id_none

lemma users_conj:
  assumes "keeps users_ok m" and "keeps (sealed E) m"
  shows "keeps (accounts_ok E) m"
  using assms by (simp add: keeps_def accounts_ok_def)

lemma sealed_stmts [simp]: "sealed E (w_stmts_update f w) = sealed E w" "sealed E (w_draws_update g w) = sealed E w"
  by (simp_all add: sealed_def)

lemma sealed_read: "keeps (sealed E) (load_user_by_id D i)" "keeps (sealed E) (load_user_by_id_including_deleted D i)"
  "keeps (sealed E) (new_uuid D)"
  by (rule keeps_of_preserves, intro frame_intros, simp)+

lemma sealed_users:
  assumes "\<And>u. sealed_user E u \<Longrightarrow> sealed_user E (f u)" and "sealed E w"
  shows "sealed E (w\<lparr>w_users := sql_update q f (w_users w)\<rparr>)"
  using assms by (simp add: sealed_def list_all_update)

lemmas sealed_rules = keeps_intros keeps_with_key sealed_read seal_cases(1) keeps_stmt keeps_try_stmt

lemma sealed_update_where:
  assumes "\<And>u. sealed_user E u \<Longrightarrow> sealed_user E (f u)"
  shows "keeps (sealed E) (try_stmt (update_user_where k f))"
  by (rule keeps_try_stmt) (simp_all add: update_user_where_def sealed_users assms)

lemma sealed_create_user:
  assumes "sealed_id E enc lookup" and "password_digest E h"
  shows "keeps (sealed E) (create_user D c em fnm lnm enc lookup h ro ap)"
  unfolding create_user_def Let_def
  by (intro sealed_rules) (use assms in \<open>simp_all add: insert_user_def sealed_def sealed_user_def new_user_row_def\<close>)

lemma sealed_profile:
  assumes "sealed_id E enc lookup" and "password_digest E h"
  shows "keeps (sealed E) (update_user_profile D i fnm em enc lookup h)"
  unfolding update_user_profile_def
  by (intro sealed_rules sealed_update_where) (use assms in \<open>simp_all add: sealed_user_def\<close>)

lemma sealed_password:
  assumes "password_digest E h"
  shows "keeps (sealed E) (update_user_password D i h)"
  unfolding update_user_password_def
  by (intro sealed_rules; (simp, intro sealed_users)?) (use assms in \<open>simp_all add: sealed_user_def\<close>)

lemma sealed_user_writes:
  "keeps (sealed E) (set_registration_tracking_token D i tok ex)"
  "keeps (sealed E) (update_user_flags D i a b r rl)"
  "keeps (sealed E) (delete_user D i)"
  "keeps (sealed E) (soft_delete_user D i)"
  subgoal unfolding set_registration_tracking_token_def
    by (intro sealed_rules sealed_update_where) (simp add: sealed_user_def)
  subgoal unfolding update_user_flags_def Let_def
    by (intro sealed_rules; (simp, intro sealed_users)?) (simp_all add: sealed_user_def set_flags_def)
  subgoal unfolding delete_user_def
    by (intro sealed_rules) (simp_all add: sealed_def list_all_delete)
  subgoal unfolding soft_delete_user_def
    by (intro sealed_rules; (simp, intro sealed_users)?) (simp_all add: sealed_user_def)
  done

lemma seal_users [seal_intros]:
  "sealed_id E enc lookup \<Longrightarrow> password_digest E h \<Longrightarrow> keeps (accounts_ok E) (create_user E c em fnm lnm enc lookup h ro ap)"
  "sealed_id E enc lookup \<Longrightarrow> password_digest E h \<Longrightarrow> keeps (accounts_ok E) (update_user_profile E i fnm em enc lookup h)"
  "password_digest E h \<Longrightarrow> keeps (accounts_ok E) (update_user_password E i h)"
  "keeps (accounts_ok E) (set_registration_tracking_token E i tok ex)"
  "keeps (accounts_ok E) (update_user_flags E i a b r rl)"
  "keeps (accounts_ok E) (delete_user E i)"
  "keeps (accounts_ok E) (soft_delete_user E i)"
  by (rule users_conj; simp add: user_columns_stay_unique sealed_create_user sealed_profile sealed_password sealed_user_writes)+

section \<open>Sessions, links and codes\<close>

lemma accounts_parts:
  "accounts_ok E w \<Longrightarrow> list_all (\<lambda>s. digest E (s_refresh_token_hash s)) ss \<Longrightarrow> accounts_ok E (w\<lparr>w_sessions := ss\<rparr>)"
  "accounts_ok E w \<Longrightarrow> list_all (\<lambda>t. digest E (t_token_hash t)) ts \<Longrightarrow> accounts_ok E (w\<lparr>w_approval_tokens := ts\<rparr>)"
  "accounts_ok E w \<Longrightarrow> list_all (\<lambda>m. pred_option (digest E) (m_email_code_hash m)) ms \<Longrightarrow> accounts_ok E (w\<lparr>w_mfa_credentials := ms\<rparr>)"
  "accounts_ok E w \<Longrightarrow> list_all (\<lambda>k. digest E (k_code_hash k)) ks \<Longrightarrow> accounts_ok E (w\<lparr>w_recovery_codes := ks\<rparr>)"
  by (simp_all add: accounts_ok_def sealed_def users_ok_def)

lemma accounts_rows:
  assumes "accounts_ok E w"
  shows "list_all (\<lambda>s. digest E (s_refresh_token_hash s)) (w_sessions w)"
    "list_all (\<lambda>t. digest E (t_token_hash t)) (w_approval_tokens w)"
    "list_all (\<lambda>m. pred_option (digest E) (m_email_code_hash m)) (w_mfa_credentials w)"
    "list_all (\<lambda>k. digest E (k_code_hash k)) (w_recovery_codes w)"
  using assms by (simp_all add: accounts_ok_def sealed_def)

lemma accounts_read:
  "keeps (accounts_ok E) (find_session_by_id D i)" "keeps (accounts_ok E) (find_approval_token_by_hash hh)"
  "keeps (accounts_ok E) (new_uuid D)"
  by (rule keeps_of_preserves, intro frame_intros, simp)+

lemmas account_rules = keeps_intros keeps_with_key accounts_read seal_cases(1) keeps_stmt

lemma seal_revoke: "accounts_ok E w \<Longrightarrow> accounts_ok E (revoke_where p w)"
  unfolding revoke_where_def by (intro accounts_parts list_all_update accounts_rows) simp_all

lemma seal_sessions [seal_intros]:
  "digest E h \<Longrightarrow> keeps (accounts_ok E) (create_session D u h fam ex ua ip cb)"
  "digest E h \<Longrightarrow> keeps (accounts_ok E) (rotate_session D i h ex)"
  "keeps (accounts_ok E) (revoke_session D i)"
  "keeps (accounts_ok E) (revoke_session_family D i)"
  "keeps (accounts_ok E) (revoke_all_sessions_for_user D i)"
  "keeps (accounts_ok E) (revoke_session_owned_by_user D i u)"
  subgoal unfolding create_session_def
    by (intro account_rules) (simp_all add: Let_def accounts_parts accounts_rows new_session_row_def)
  subgoal unfolding rotate_session_def
    by (intro account_rules) (simp_all add: accounts_parts accounts_rows list_all_update rotate_row_def)
  subgoal unfolding revoke_session_def by (intro account_rules) (simp_all add: seal_revoke)
  subgoal unfolding revoke_session_family_def by (intro account_rules) (simp_all add: seal_revoke)
  subgoal unfolding revoke_all_sessions_for_user_def by (intro account_rules) (simp_all add: seal_revoke)
  subgoal unfolding revoke_session_owned_by_user_def by (intro account_rules) (simp_all add: seal_revoke)
  done

lemma seal_links [seal_intros]:
  "digest E h \<Longrightarrow> keeps (accounts_ok E) (create_approval_token D u h purpose ex)"
  "keeps (accounts_ok E) (db_consume_approval_token D i res)"
  "keeps (accounts_ok E) purge_expired_auth_records"
  subgoal unfolding create_approval_token_def
    by (intro account_rules) (simp_all add: Let_def accounts_parts accounts_rows new_approval_token_row_def)
  subgoal unfolding db_consume_approval_token_def
    by (intro account_rules) (simp_all add: accounts_parts accounts_rows list_all_update)
  subgoal unfolding purge_expired_auth_records_def
    by (intro account_rules) (simp_all add: accounts_parts accounts_rows list_all_delete)
  done

lemma upsert_sealed:
  assumes "pred_option (digest E) h" and "list_all (\<lambda>m. pred_option (digest E) (m_email_code_hash m)) t"
  shows "list_all (\<lambda>m. pred_option (digest E) (m_email_code_hash m)) (upsert i k s meth h ex t)"
  using assms by (auto simp: upsert_def Db_Mfa.pending_row_def intro!: list_all_update)

lemma seal_credentials [seal_intros]:
  "keeps (accounts_ok E) (upsert_pending_mfa_credential D u s)"
  "digest E h \<Longrightarrow> keeps (accounts_ok E) (upsert_pending_email_mfa_credential D u h et)"
  "digest E h \<Longrightarrow> keeps (accounts_ok E) (update_email_mfa_code D u h et)"
  "keeps (accounts_ok E) (enable_email_mfa_credential D u h')"
  "keeps (accounts_ok E) (consume_email_mfa_code D u h')"
  "keeps (accounts_ok E) (enable_mfa_credential D u s)"
  "keeps (accounts_ok E) (touch_mfa_last_used D u)"
  subgoal unfolding upsert_pending_mfa_credential_def
    by (intro account_rules) (simp_all add: accounts_parts accounts_rows upsert_sealed)
  subgoal unfolding upsert_pending_email_mfa_credential_def
    by (intro account_rules) (simp_all add: accounts_parts accounts_rows upsert_sealed)
  subgoal unfolding update_email_mfa_code_def
    by (intro account_rules) (simp_all add: update_credentials_def accounts_parts accounts_rows list_all_update)
  subgoal unfolding enable_email_mfa_credential_def
    by (intro account_rules) (simp_all add: update_credentials_def accounts_parts accounts_rows list_all_update)
  subgoal unfolding consume_email_mfa_code_def
    by (intro account_rules) (simp_all add: update_credentials_def accounts_parts accounts_rows list_all_update)
  subgoal unfolding enable_mfa_credential_def
    by (intro account_rules) (simp_all add: update_credentials_def accounts_parts accounts_rows list_all_update)
  subgoal unfolding touch_mfa_last_used_def
    by (intro account_rules) (simp_all add: update_credentials_def accounts_parts accounts_rows list_all_update)
  done

lemma insert_codes_sealed: "list_all (digest E) hs \<Longrightarrow> keeps (accounts_ok E) (insert_recovery_codes D k hs)"
proof (induction hs)
  case (Cons h hs)
  then show ?case unfolding insert_recovery_codes.simps
    by (intro account_rules) (simp_all add: accounts_parts accounts_rows)
qed simp

lemma seal_codes [seal_intros]:
  "list_all (digest E) hs \<Longrightarrow> keeps (accounts_ok E) (replace_recovery_codes D u hs)"
  "keeps (accounts_ok E) (consume_recovery_code D u h)"
  "keeps (accounts_ok E) (delete_mfa_credential D u)"
  subgoal unfolding replace_recovery_codes_def
    by (intro account_rules insert_codes_sealed) (simp_all add: accounts_parts accounts_rows list_all_delete)
  subgoal unfolding consume_recovery_code_def
    by (intro account_rules) (simp_all add: accounts_parts accounts_rows list_all_update)
  subgoal unfolding delete_mfa_credential_def
    by (intro account_rules) (simp_all add: accounts_parts accounts_rows list_all_delete)
  done

section \<open>The handlers\<close>

lemma seal_encrypt:
  "yields (accounts_ok E) (encrypt E (x_national_id_key E) p) (\<lambda>e. sealed_id E (Some (fst e)) (Some (snd e)))"
proof -
  have "sealed_id E (Some (fst e)) (Some (snd e))" if "e = result (encrypt E (x_national_id_key E) p) w" for e w
    using that unfolding sealed_id_def by (intro disjI2 exI [of _ w] exI [of _ p]) (simp add: prod_eq_iff)
  then show ?thesis by (simp add: yields_def preservesD [OF encrypt_frame [of "accounts_ok E"]])
qed

lemma seal_save [seal_intros]: "keeps (accounts_ok E) (save D r)" "keeps (accounts_ok E) (save_mandatory D r)"
  by (rule keeps_of_preserves, intro frame_intros, simp)+

lemma seal_events [seal_intros]:
  "keeps (accounts_ok E) m \<Longrightarrow> keeps (accounts_ok E) (as_admin D h m)"
  "(\<And>rid. keeps (accounts_ok E) (b rid)) \<Longrightarrow> keeps (accounts_ok E) (as_org_admin D h b)"
  "(\<And>u. keeps (accounts_ok E) (c u)) \<Longrightarrow> keeps (accounts_ok E) (with_challenge D rid t pp c)"
  "keeps (accounts_ok E) m \<Longrightarrow> keeps (accounts_ok E) (audited D rid e m)"
  unfolding as_admin_def as_org_admin_def with_challenge_def audited_def
  by (intro seal_intros; (assumption | (rule keeps_of_preserves, intro frame_intros, simp)))+

lemma seal_auth_steps [seal_intros]:
  "keeps (accounts_ok E) (sign_approval_token E u)"
  "keeps (accounts_ok E) (consume_approval_token E tok out)"
  "keeps (accounts_ok E) (issue_session E usr h)"
  "keeps (accounts_ok E) (send_reset E usr)"
  "keeps (accounts_ok E) (begin_totp_enrollment E u acc)"
  "keeps (accounts_ok E) (begin_email_enrollment E u em)"
  "keeps (accounts_ok E) (begin_enrollment E u acc mt eo)"
  "keeps (accounts_ok E) (resend_email_code E u em)"
  "keeps (accounts_ok E) (enable_pending E u acc cc cred)"
  "keeps (accounts_ok E) (confirm_enrollment E u acc cc)"
  "keeps (accounts_ok E) (verify_primary E u acc cc cred)"
  "keeps (accounts_ok E) (verify_code E u acc cc)"
  "keeps (accounts_ok E) (resend_to E rid u eo)"
  "keeps (accounts_ok E) (send_login_challenge_email_code E usr)"
  unfolding sign_approval_token_def consume_approval_token_def issue_session_def send_reset_def
    begin_totp_enrollment_def begin_email_enrollment_def begin_enrollment_def resend_email_code_def
    enable_pending_def confirm_enrollment_def verify_primary_def verify_code_def resend_to_def
    send_login_challenge_email_code_def Let_def
  by (intro seal_intros; (rule keeps_of_preserves, intro frame_intros; simp))+

text \<open>The case on bcrypt's answer, with what is known of the hash.\<close>

lemma seal_hashed:
  "keeps I m \<Longrightarrow> (\<And>h. password_digest E h \<Longrightarrow> keeps I (g h)) \<Longrightarrow>
     keeps I (case x_bcrypt_hash E DEFAULT_COST p of None \<Rightarrow> m | Some h \<Rightarrow> g h)"
  by (auto simp: password_digest_def split: option.split)

lemma seal_logins [seal_intros]:
  "keeps (accounts_ok E) (complete_login E u h rid cs)"
  "keeps (accounts_ok E) (login_session E h rid usr)"
  "keeps (accounts_ok E) (refresh_rotate E h rid fam ses usr)"
  "keeps (accounts_ok E) (registration_created E h rid usr)"
  "keeps (accounts_ok E) (set_new_password E h rid uid pw)"
  unfolding complete_login_def login_session_def refresh_rotate_def registration_created_def set_new_password_def Let_def
  by (intro seal_hashed seal_intros; (assumption | (rule keeps_of_preserves, intro frame_intros; simp)))+

lemma seal_reads: "keeps (accounts_ok E) (request_id D h)" "keeps (accounts_ok E) (rate_check ky mx d)"
  by (rule keeps_of_preserves, intro frame_intros; simp)+

lemma seal_register [seal_intros]: "keeps (accounts_ok E) (register E h pl)"
  unfolding register_def
  by (intro seal_hashed keeps_then [OF seal_encrypt] seal_intros seal_reads)

lemma seal_create [seal_intros]: "keeps (accounts_ok E) (create_user_route E h cl)"
  unfolding create_user_route_def Let_def
  by (intro seal_hashed keeps_then [OF seal_encrypt] seal_intros seal_reads;
    (assumption | (rule keeps_of_preserves, intro frame_intros; simp)))

lemma seal_seed [seal_intros]: "keeps (accounts_ok E) (seed_account E h rid c pw em)"
  unfolding seed_account_def
  by (intro seal_hashed seal_intros; assumption)

text \<open>An edit keeps the stored columns it does not replace, so it needs the invariant of the row it loads.\<close>

lemma seal_load:
  "yields (accounts_ok E) (load_user_by_id E i) (\<lambda>r. pred_option (sealed_user E) (flatten r))"
proof -
  have "pred_option (sealed_user E) (flatten (result (load_user_by_id E i) w))" if "accounts_ok E w" for w
    using that load_user_by_id_Some [of E i w]
    by (auto simp: accounts_ok_def sealed_def list_all_iff flatten_def pred_option_def split: sum.split option.splits)
  moreover have "accounts_ok E (exec (load_user_by_id E i) w) = accounts_ok E w" for w
    by (rule preservesD, intro frame_intros, simp)
  ultimately show ?thesis by (simp add: yields_def)
qed

lemma seal_next_id:
  assumes "sealed_user E u"
  shows "yields (accounts_ok E) (next_national_id E given u) (\<lambda>r. pred_option (\<lambda>(enc, lookup). sealed_id E enc lookup) r)"
  unfolding next_national_id_def
  by (cases "non_blank given")
    (use assms seal_encrypt in \<open>auto simp: yields_def exec_bind result_bind sealed_user_def pred_option_def\<close>)

lemma seal_next_password:
  "sealed_user E u \<Longrightarrow> next_password E rid given u = Inr h \<Longrightarrow> password_digest E h"
  by (auto simp: next_password_def sealed_user_def password_digest_def split: option.splits if_splits)

lemma seal_mandatory [seal_intros]:
  "keeps (accounts_ok E) (best_effort_audit D h a rid i)"
  "keeps (accounts_ok E) (mandatory_audit D h a rid i md key)"
  "keeps (accounts_ok E) (seed_refused D h rid md)"
  "keeps (accounts_ok E) (login_refused D h r reason ms resp)"
  by (rule keeps_of_preserves, intro frame_intros; simp)+

lemma keeps_known:
  "(x = None \<Longrightarrow> keeps I m) \<Longrightarrow> (\<And>a. x = Some a \<Longrightarrow> keeps I (g a)) \<Longrightarrow> keeps I (case x of None \<Rightarrow> m | Some a \<Rightarrow> g a)"
  "(\<And>e. y = Inl e \<Longrightarrow> keeps I (p e)) \<Longrightarrow> (\<And>a. y = Inr a \<Longrightarrow> keeps I (q a)) \<Longrightarrow> keeps I (case y of Inl e \<Rightarrow> p e | Inr a \<Rightarrow> q a)"
  "(\<And>a b. z = (a, b) \<Longrightarrow> keeps I (r a b)) \<Longrightarrow> keeps I (case z of (a, b) \<Rightarrow> r a b)"
  by (simp_all split: option.split sum.split prod.split)

lemma seal_update [seal_intros]: "keeps (accounts_ok E) (update_user_route E i h ul)"
  unfolding update_user_route_def Let_def
proof (intro seal_events(1) keeps_bind [OF seal_reads(1)] keeps_then [OF seal_load] keeps_known(1) keeps_return, goal_cases)
  case (1 rid cur u)
  then have row: "sealed_user E u" by simp
  show ?case
    by (intro keeps_then [OF seal_next_id [OF row]] keeps_known keeps_bind seal_users(2) seal_mandatory seal_cases(2) keeps_return)
      (auto dest: seal_next_password [OF row])
qed

text \<open>Every route.\<close>

lemma seal_mfa_routes [seal_intros]:
  "keeps (accounts_ok E) (enroll E h m)"
  "keeps (accounts_ok E) (enroll_resend E h)"
  "keeps (accounts_ok E) (enroll_confirm E h cc)"
  "keeps (accounts_ok E) (disable E h pw cc)"
  "keeps (accounts_ok E) (challenge_enroll E h tt m)"
  "keeps (accounts_ok E) (challenge_enroll_resend E h tt)"
  "keeps (accounts_ok E) (challenge_request_code E h tt)"
  "keeps (accounts_ok E) (challenge_enroll_confirm E h tt cc)"
  "keeps (accounts_ok E) (challenge_verify E h tt cc)"
  unfolding enroll_def enroll_resend_def enroll_confirm_def disable_def challenge_enroll_def
    challenge_enroll_resend_def challenge_request_code_def challenge_enroll_confirm_def
    challenge_verify_def Let_def
  by (intro seal_intros; rule keeps_of_preserves, intro frame_intros; simp)+

lemma seal_auth_routes [seal_intros]:
  "keeps (accounts_ok E) (revoke_own_session E h i)"
  "keeps (accounts_ok E) (refresh_session E h rid tok c s)"
  "keeps (accounts_ok E) (refresh E h)"
  "keeps (accounts_ok E) (logout E h)"
  "keeps (accounts_ok E) (logout_all E h)"
  "keeps (accounts_ok E) (login_mfa_gate E h rid usr)"
  "keeps (accounts_ok E) (login_account E h rid pw usr)"
  "keeps (accounts_ok E) (login E h uc pw)"
  "keeps (accounts_ok E) (forgot_password E h ident)"
  "keeps (accounts_ok E) (reset_password E h tok pw)"
  unfolding revoke_own_session_def refresh_session_def refresh_def logout_def logout_all_def
    login_mfa_gate_def login_account_def login_def forgot_password_def reset_password_def Let_def
  by (intro seal_intros; rule keeps_of_preserves, intro frame_intros; simp)+

lemma seal_admin_routes [seal_intros]:
  "keeps (accounts_ok E) (approve_user E i h)"
  "keeps (accounts_ok E) (reject_user E i h)"
  "keeps (accounts_ok E) (ban_user E i h why)"
  "keeps (accounts_ok E) (unban_user E i h)"
  "keeps (accounts_ok E) (mfa_reset_route E i h)"
  "keeps (accounts_ok E) (change_role_route E i h role)"
  "keeps (accounts_ok E) (delete_user_route E i h)"
  "keeps (accounts_ok E) (seed_admin E h)"
  "keeps (accounts_ok E) (quick_approve E tok h)"
  "keeps (accounts_ok E) (quick_reject E tok h)"
  unfolding approve_user_def reject_user_def ban_user_def unban_user_def mfa_reset_route_def change_role_route_def
    delete_user_route_def seed_admin_def quick_approve_def quick_reject_def admin_reset_def Let_def
  by (intro seal_intros; rule keeps_of_preserves, intro frame_intros; simp)+

section \<open>The running server\<close>

context running_server begin

lemma seal_routes:
  "keeps (accounts_ok (se_app S)) (auth_routes S h ar)" "keeps (accounts_ok (se_app S)) (admin_routes S h dr)"
  "keeps (accounts_ok (se_app S)) (search_routes S h sr)" "keeps (accounts_ok (se_app S)) (candidate_routes S h cr)"
  subgoal by (cases ar; simp only: auth_routes.simps; (intro seal_intros)?; rule keeps_of_preserves, intro frame_intros; simp)
  subgoal by (cases dr; simp only: admin_routes.simps; (intro seal_intros)?; rule keeps_of_preserves, intro frame_intros; simp)
  subgoal by (cases sr; simp only: search_routes.simps; intro keeps_of_preserves frame_intros; simp)
  subgoal by (cases cr; simp only: candidate_routes.simps verify_candidate_route_def reject_candidate_route_def
      mark_candidate_inconclusive_route_def; intro keeps_of_preserves frame_intros upload_frame collect_route_frame; simp)
  done

lemma seal_serve: "keeps (accounts_ok (se_app S)) (serve S h req)"
proof (intro serve_keeps)
  have other: "keeps (accounts_ok (se_app S)) (health (se_info S))" "keeps (accounts_ok (se_app S)) (ready (se_app S) (se_info S))"
    "keeps (accounts_ok (se_app S)) (metrics_route (se_app S) (se_info S) h)" "keeps (accounts_ok (se_app S)) (me (se_app S) h)"
    "keeps (accounts_ok (se_app S)) (list_sessions (se_app S) h)" "keeps (accounts_ok (se_app S)) (list_audit_events_route (se_app S) h q)"
    "keeps (accounts_ok (se_app S)) (verify_audit_integrity_route (se_app S) h)" for q
    by (rule keeps_of_preserves, intro frame_intros; simp)+
  show "keeps (accounts_ok (se_app S)) (router S h req)"
    by (cases req; simp only: router.simps; intro seal_routes plain_keeps other seal_auth_routes)
qed simp

lemma seal_run:
  assumes "leads_to S s t" and "accounts_ok (se_app S) (sy_world s)"
  shows "accounts_ok (se_app S) (sy_world t)"
proof (rule system_invariant [where P = "accounts_ok (se_app S)", OF assms seal_serve])
  have "keeps (accounts_ok (se_app S)) (mark_queued_search_failed (se_app S) i c m)"
    "keeps (accounts_ok (se_app S)) (set_search_external_evidence_status (se_app S) i j)"
    "keeps (accounts_ok (se_app S)) (finalize_queued_search (se_app S) i xs)" for i c m j xs
    by (rule keeps_of_preserves, intro frame_intros; simp)+
  then show "keeps (accounts_ok (se_app S)) (work S task)" for task
    unfolding work_def by (intro run_queued_search_keeps; simp)
  show "accounts_ok (se_app S) (restart S w)" if "accounts_ok (se_app S) w" for w
    using that unfolding restart_def by (subst preservesD [OF seed_frame]) simp_all
qed (simp_all add: seal_links)

end

text \<open>
  C7. Secrets at rest: in every state the server can reach from one that respects it, the password column
  of every account is an output of bcrypt at the configured cost, every stored refresh token, approval or
  reset link, emailed code and recovery code is a SHA-256 digest, and the two national id columns are empty
  or the ciphertext and the keyed hash of one id. No route, no failing statement, no background work and no
  restart writes the plaintext there.
\<close>

theorem secrets_are_sealed:
  assumes "leads_to (new_server E I C V H name) s t" and "accounts_ok E (sy_world s)"
  shows "sealed E (sy_world t)"
  using new_server.seal_run [OF assms(1)] assms(2) by (simp add: accounts_ok_def)

section \<open>One account per national id\<close>

text \<open>What is read back from a row, and that no two accounts read back the same id.\<close>

definition national_id_of :: "app \<Rightarrow> user_row \<Rightarrow> string option" where
  "national_id_of E u = Option.bind (u_national_id_encrypted u) (decrypt E (x_national_id_key E))"

definition one_account_per_national_id :: "app \<Rightarrow> user_row list \<Rightarrow> bool" where
  "one_account_per_national_id E us \<longleftrightarrow>
     list_all (\<lambda>u. (national_id_of E u = None) = (u_national_id_encrypted u = None)) us
     \<and> distinct (filter (\<lambda>n. n \<noteq> None) (map (national_id_of E) us))"

definition readable :: "app \<Rightarrow> bool" where
  "readable E \<longleftrightarrow> (\<forall>bs. x_base64_decode E (x_base64_encode E bs) = Some bs)
     \<and> (\<forall>nonce s. Option.bind (x_aes_decrypt E (x_national_id_key E) nonce
          (x_aes_encrypt E (x_national_id_key E) nonce s)) (x_from_utf8 E) = Some s)
     \<and> (\<forall>n. length (x_rng E n NONCE_LEN) = NONCE_LEN)"

lemma sealed_id_reads:
  assumes "readable E" and "sealed_id E (u_national_id_encrypted u) (u_national_id_lookup_hash u)"
  shows "(national_id_of E u = None) = (u_national_id_encrypted u = None)
    \<and> u_national_id_lookup_hash u = map_option (lookup_hash E (x_national_id_key E)) (national_id_of E u)"
  using assms(2) unfolding sealed_id_def
proof (elim disjE exE conjE)
  fix w p assume cols: "(u_national_id_encrypted u, u_national_id_lookup_hash u)
    = map_prod Some Some (result (encrypt E (x_national_id_key E) p) w)"
  have out: "result (encrypt E (x_national_id_key E) p) w = (x_base64_encode E (x_rng E (w_draws w) NONCE_LEN
      @ x_aes_encrypt E (x_national_id_key E) (x_rng E (w_draws w) NONCE_LEN) p), lookup_hash E (x_national_id_key E) p)"
    by (simp add: encrypt_def Let_def result_def)
  obtain y where y: "x_aes_decrypt E (x_national_id_key E) (x_rng E (w_draws w) NONCE_LEN)
      (x_aes_encrypt E (x_national_id_key E) (x_rng E (w_draws w) NONCE_LEN) p) = Some y" "x_from_utf8 E y = Some p"
    using assms(1) unfolding readable_def bind_eq_Some_conv by blast
  have "national_id_of E u = Some p"
    using cols y assms(1) by (simp add: out national_id_of_def decrypt_def readable_def)
  with cols show ?thesis by (simp add: out)
qed (simp add: national_id_of_def)

lemma accounts_ok_ids:
  assumes "accounts_ok E w" and "readable E"
  shows "one_account_per_national_id E (w_users w)"
proof -
  have cols: "(national_id_of E u = None) = (u_national_id_encrypted u = None)
      \<and> u_national_id_lookup_hash u = map_option (lookup_hash E (x_national_id_key E)) (national_id_of E u)"
    if "u \<in> set (w_users w)" for u
    using that assms by (intro sealed_id_reads) (auto simp: accounts_ok_def sealed_def list_all_iff sealed_user_def)
  have unique: "unique_rows (w_users w)" using assms(1) by (simp add: accounts_ok_def users_ok_def)
  have "distinct (filter (\<lambda>n. n \<noteq> None) (map (national_id_of E) us))"
    if "unique_rows us" "set us \<subseteq> set (w_users w)" for us
    using that
  proof (induction us)
    case (Cons u us)
    have "national_id_of E v \<noteq> national_id_of E u" if "v \<in> set us" "national_id_of E u \<noteq> None" for v
    proof
      assume "national_id_of E v = national_id_of E u"
      then have "clash u v" using cols [of u] cols [of v] Cons.prems that by (auto simp: clash_def)
      then show False using Cons.prems that by (auto simp: unique_rows_def)
    qed
    moreover have "unique_rows us" using Cons.prems by (auto simp: unique_rows_def)
    ultimately show ?case using Cons by auto
  qed simp
  with unique cols show ?thesis
    by (auto simp: one_account_per_national_id_def list_all_iff)
qed

text \<open>
  C8. One person, one account: in every reachable state every stored national id can be read back, and no
  two accounts, deleted ones included, hold the same id, although the ciphertexts of one id differ by their
  nonce and the database compares only the keyed hashes. Assumed is that base64 and the cipher undo
  themselves and that the generator returns as many bytes as it is asked for.
\<close>

theorem national_ids_identify_accounts:
  assumes "leads_to (new_server E I C V H name) s t" and "accounts_ok E (sy_world s)" and "readable E"
  shows "one_account_per_national_id E (w_users (sy_world t))"
  using accounts_ok_ids [OF _ assms(3)] new_server.seal_run [OF assms(1)] assms(2) by simp

text \<open>A registration on the empty database, and its repetition with another user code.\<close>

definition demo_registration :: "string \<Rightarrow> register_payload" where
  "demo_registration user_code = \<lparr>rp_user_code = user_code, rp_first_name = ''A'', rp_last_name = ''B'',
     rp_email = user_code @ ''@b.c'', rp_national_id = ''12345678901'', rp_password = ''Abcdef1!''\<rparr>"

definition demo_after :: "system \<Rightarrow> request \<Rightarrow> system" where
  "demo_after s req = \<lparr>sy_world = exec (serve demo_server demo_headers req) (sy_world s),
     sy_pending = sy_pending s @ snd (result (serve demo_server demo_headers req) (sy_world s))\<rparr>"

definition demo_registered :: system where
  "demo_registered = demo_after (demo_after \<lparr>sy_world = demo_world, sy_pending = []\<rparr>
     (Auth (Register (demo_registration ''AB12'')))) (Auth (Register (demo_registration ''CD34'')))"

lemma demo_registers: "leads_to demo_server \<lparr>sy_world = demo_world, sy_pending = []\<rparr> demo_registered"
proof -
  have "step demo_server s (demo_after s req)" for s req
    using step.request [of demo_server s demo_headers req] by (simp add: demo_after_def)
  then show ?thesis unfolding demo_registered_def by (blast intro: leads_to_step leads_to_refl)
qed

lemma demo_accounts_ok: "accounts_ok (demo_as ''REVIEWER'') demo_world" "readable (demo_as ''REVIEWER'')"
  by (simp_all add: accounts_ok_def sealed_def users_ok_def unique_rows_def demo_world_def readable_def demo_as_def demo_app_def)

theorem secrets_are_sealed_witness: "sealed (demo_as ''REVIEWER'') (sy_world demo_registered)"
  using secrets_are_sealed [OF demo_registers [unfolded demo_server_def]] by (simp add: demo_accounts_ok)

theorem national_ids_identify_accounts_witness:
  "one_account_per_national_id (demo_as ''REVIEWER'') (w_users (sy_world demo_registered))"
  using national_ids_identify_accounts [OF demo_registers [unfolded demo_server_def]] by (simp add: demo_accounts_ok)

end
