(* ===== verification/Races.thy ===== *)
theory Races
  imports Admin_Rules Auth_Sessions
begin

text \<open>
  What two requests that run at the same time can do to each other, and what a request can do that is
  sent again. The model runs a handler as a whole; here a handler is cut where the code awaits its
  next statement, and the parts of two handlers are composed in the order in question.
\<close>

section \<open>Two requests at once\<close>

text \<open>Both requests do their check before either acts on it.\<close>

definition race :: "'a handler \<Rightarrow> ('a \<Rightarrow> 'c handler) \<Rightarrow> 'b handler \<Rightarrow> ('b \<Rightarrow> 'd handler) \<Rightarrow> ('c \<times> 'd) handler" where
  "race check1 act1 check2 act2 = do {
     a \<leftarrow> check1;
     b \<leftarrow> check2;
     x \<leftarrow> act1 a;
     y \<leftarrow> act2 b;
     return (x, y)
   }"

lemma exec_race:
  assumes "exec c1 w = w1" and "exec c2 w1 = w2"
  shows "exec (race c1 k1 c2 k2) w = exec (k2 (result c2 w1)) (exec (k1 (result c1 w)) w2)"
  using assms by (simp add: race_def exec_bind)

section \<open>Two administrators who ban each other\<close>

text \<open>\<open>ban_user\<close> behind its guard.\<close>

definition ban_after :: "app \<Rightarrow> string \<Rightarrow> header_map \<Rightarrow> string option \<Rightarrow> string \<Rightarrow> bool \<Rightarrow> response handler" where
  "ban_after E i headers reason rid protected =
     (if protected then return (last_admin_protected rid)
     else do {
       u \<leftarrow> update_user_flags E i None (Some True) reason None;
       case u of
         Inr (Some _) \<Rightarrow> do {
           _ \<leftarrow> revoke_all_sessions_for_user E i;
           mandatory_audit E headers ''USER_BANNED'' rid i (Some (JObj [(''reason'', json_opt reason)])) ''admin.userBanned''
         }
       | Inr None \<Rightarrow> return (api_err ''NOT_FOUND'' ''errors.notFound'' rid)
       | Inl _ \<Rightarrow> return (api_err ''INTERNAL_ERROR'' ''errors.internal'' rid)
     })"

lemma ban_user_split:
  "ban_user E i headers reason = as_admin E headers (do {
     rid \<leftarrow> request_id E headers; protected \<leftarrow> last_admin_guard E i; ban_after E i headers reason rid protected })"
  by (simp add: ban_user_def ban_after_def)

lemma find_sql_update_other:
  assumes "find p t = Some r" and "\<not> q r" and "\<And>u. p (f u) = p u"
  shows "find p (sql_update q f t) = Some r"
  using assms by (induction t) (auto simp: sql_update_def split: if_splits)

lemma find_sql_update_same:
  assumes "find p t = Some r" and "\<And>u. p (f u) = p u"
  shows "find p (sql_update p f t) = Some (f r)"
  using assms by (induction t) (auto simp: sql_update_def split: if_splits)

lemma two_active:
  assumes "sql_count active_admin t = 2" and "a \<in> set t" and "b \<in> set t" and "active_admin a" and "active_admin b"
    and "a \<noteq> b" and "u \<in> set t" and "active_admin u"
  shows "u = a \<or> u = b"
proof -
  obtain x y where xy: "filter active_admin t = [x, y]"
    using assms(1) by (auto simp: sql_count_def numeral_2_eq_2 length_Suc_conv)
  have "{a, b, u} \<subseteq> set (filter active_admin t)" using assms by auto
  with assms(6) show ?thesis unfolding xy by auto
qed

lemma ban_after_users:
  assumes "healthy w" and "x_backend E = Sqlite" and "find (\<lambda>u. u_id u = i \<and> live u) (w_users w) = Some cur"
  shows "w_users (exec (ban_after E i h reason rid False) w) = sql_update (\<lambda>u. u_id u = i) (next_flags None (Some True) reason None cur) (w_users w)"
    and "healthy (exec (ban_after E i h reason rid False) w)"
proof -
  have tail: "w_users (exec (revoke_all_sessions_for_user E i) v) = w_users v"
    "w_users (exec (mandatory_audit E h act rid i md key) v) = w_users v" for v act md key
    by (rule preservesD, intro frame_intros; simp)+
  show "w_users (exec (ban_after E i h reason rid False) w) = sql_update (\<lambda>u. u_id u = i) (next_flags None (Some True) reason None cur) (w_users w)"
    using update_flags_exact [OF assms(1) _ assms(3), of E i None "Some True" reason None] assms(2)
    by (simp add: ban_after_def exec_bind tail db_key_sqlite split: sum.split option.split)
  have "w_faults (exec (ban_after E i h reason rid False) w) = w_faults w"
    unfolding ban_after_def by (rule preservesD, intro frame_intros; simp)
  then show "healthy (exec (ban_after E i h reason rid False) w)" using assms(1) by (simp add: healthy_def)
qed

lemma guard_of_two:
  assumes "healthy w" and "admin_count w = 2"
  shows "\<not> result (last_admin_guard E i) w" and "\<exists>n. exec (last_admin_guard E i) w = w\<lparr>w_stmts := n\<rparr>"
proof -
  obtain n where n: "exec (load_user_by_id E i) w = w\<lparr>w_stmts := n\<rparr>" using exec_load_user_by_id by blast
  show "\<not> result (last_admin_guard E i) w"
    using assms few_admins_run [of "w\<lparr>w_stmts := n\<rparr>"]
    by (auto simp: last_admin_guard_def result_bind n would_remove_last_admin_def admin_count_def split: option.split)
  show "\<exists>n. exec (last_admin_guard E i) w = w\<lparr>w_stmts := n\<rparr>"
    by (auto simp: last_admin_guard_def exec_bind n would_remove_last_admin_def few_admins_def count_active_system_admins_def
        exec_query intro: exI [of _ n] split: option.split)
qed

text \<open>
  C32. The guard of the last administrator is a check of its own statement: two administrators, the only
  two, who ban each other at the same time both pass it, since each still counts two, and none is left.
  (One request after the other, the second is refused.)
\<close>

theorem racing_bans_leave_no_administrator:
  assumes "healthy w" and "x_backend E = Sqlite" and "admin_count w = 2" and "a \<noteq> b"
    and "find (\<lambda>u. u_id u = a \<and> live u) (w_users w) = Some ua" and "active_admin ua"
    and "find (\<lambda>u. u_id u = b \<and> live u) (w_users w) = Some ub" and "active_admin ub"
  shows "admin_count (exec (race (last_admin_guard E b) (ban_after E b h1 reason1 rid1)
                                 (last_admin_guard E a) (ban_after E a h2 reason2 rid2)) w) = 0"
proof -
  obtain n where n: "exec (last_admin_guard E b) w = w\<lparr>w_stmts := n\<rparr>" using guard_of_two(2) [OF assms(1,3)] by blast
  have two: "healthy (w\<lparr>w_stmts := k\<rparr>)" "admin_count (w\<lparr>w_stmts := k\<rparr>) = 2" for k
    using assms(1,3) by (simp_all add: admin_count_def)
  obtain m where "exec (last_admin_guard E a) (w\<lparr>w_stmts := n\<rparr>) = w\<lparr>w_stmts := n\<rparr>\<lparr>w_stmts := m\<rparr>"
    using guard_of_two(2) [OF two] by blast
  from exec_race [OF n this] guard_of_two(1) [OF assms(1,3)] guard_of_two(1) [OF two]
  have race: "exec (race (last_admin_guard E b) (ban_after E b h1 reason1 rid1)
                         (last_admin_guard E a) (ban_after E a h2 reason2 rid2)) w =
      exec (ban_after E a h2 reason2 rid2 False) (exec (ban_after E b h1 reason1 rid1 False) (w\<lparr>w_stmts := m\<rparr>))"
    by simp
  let ?v = "exec (ban_after E b h1 reason1 rid1 False) (w\<lparr>w_stmts := m\<rparr>)"
  let ?fb = "next_flags None (Some True) reason1 None ub"
  let ?fa = "next_flags None (Some True) reason2 None ua"
  have v: "w_users ?v = sql_update (\<lambda>u. u_id u = b) ?fb (w_users w)" "healthy ?v"
    using ban_after_users [of "w\<lparr>w_stmts := m\<rparr>" E b ub h1 reason1 rid1] assms two by simp_all
  have ids: "u_id ua = a" "u_id ub = b" "ua \<in> set (w_users w)" "ub \<in> set (w_users w)"
    using find_Some_set [OF assms(5)] find_Some_set [OF assms(7)] by auto
  have "find (\<lambda>u. u_id u = a \<and> live u) (w_users ?v) = Some ua"
    unfolding v(1) using assms(4) ids
    by (intro find_sql_update_other assms(5)) (auto simp: next_flags_def set_flags_def live_def)
  from ban_after_users(1) [OF v(2) assms(2) this, of h2 reason2 rid2] v(1)
  have users: "w_users (exec (ban_after E a h2 reason2 rid2 False) ?v) =
      sql_update (\<lambda>u. u_id u = a) ?fa (sql_update (\<lambda>u. u_id u = b) ?fb (w_users w))" by simp
  have "u_id u = a \<or> u_id u = b" if "u \<in> set (w_users w)" "active_admin u" for u
    using two_active [of "w_users w" ua ub u] assms ids that by (auto simp: admin_count_def)
  then show ?thesis
    unfolding race admin_count_def users sql_count_zero
    by (auto simp: sql_update_def next_flags_def set_flags_def active_admin_def)
qed

section \<open>Two password resets with one link\<close>

text \<open>\<open>reset_password\<close> once the row of the link has been read and found usable.\<close>

definition reset_after :: "app \<Rightarrow> header_map \<Rightarrow> string \<Rightarrow> string \<Rightarrow> approval_token_row \<Rightarrow> response handler" where
  "reset_after E headers rid new_password row = do {
     d \<leftarrow> db_consume_approval_token E (t_id row) ''reset'';
     if d \<noteq> Inr True then return (api_err ''VALIDATION_ERROR'' ''errors.invalidResetToken'' rid)
     else set_new_password E headers rid (t_user_id row) new_password
   }"

lemma reset_password_split:
  "reset_password E headers payload_token new_password = do {
     rid \<leftarrow> request_id E headers;
     if trim payload_token = [] \<or> validate_password new_password \<noteq> None
     then return (api_err ''VALIDATION_ERROR'' ''errors.validation'' rid)
     else do {
       r \<leftarrow> find_approval_token_by_hash (sha256_hex E (trim payload_token));
       case flatten r of
         None \<Rightarrow> return (api_err ''VALIDATION_ERROR'' ''errors.invalidResetToken'' rid)
       | Some row \<Rightarrow> do {
           now \<leftarrow> gets w_now;
           if \<not> usable_reset_token now row then return (api_err ''VALIDATION_ERROR'' ''errors.invalidResetToken'' rid)
           else reset_after E headers rid new_password row
         }
     }
   }"
  unfolding reset_password_def reset_after_def Let_def by (rule refl)

lemma reset_after_consumes:
  "result (reset_after E h rid pw row) w =
     (if result (consume_ok E (t_id row, ''reset'')) w
      then result (set_new_password E h rid (t_user_id row) pw) (exec (consume_ok E (t_id row, ''reset'')) w)
      else api_err ''VALIDATION_ERROR'' ''errors.invalidResetToken'' rid)"
  "exec (reset_after E h rid pw row) w =
     (if result (consume_ok E (t_id row, ''reset'')) w
      then exec (set_new_password E h rid (t_user_id row) pw) (exec (consume_ok E (t_id row, ''reset'')) w)
      else exec (consume_ok E (t_id row, ''reset'')) w)"
  by (simp_all add: reset_after_def consume_ok_def result_bind exec_bind)

lemma consume_ok_frame: "w_users (exec (consume_ok E c) w) = w_users w" "w_sessions (exec (consume_ok E c) w) = w_sessions w"
  unfolding consume_ok_def by (rule preservesD, intro frame_intros; simp)+

text \<open>
  C28. A reset link changes a password once, however two requests with it are interleaved. Both have found
  the link usable; once one of them has consumed it and gone on to answer 200, the other one, whenever it
  consumes, and whatever the first one and other requests do in between (\<open>g\<close>, which makes no used link
  unused), answers 400 and changes neither an account nor a session.
\<close>

theorem racing_resets_land_once:
  assumes "r_status (result (reset_after E h1 rid1 pw1 row) w) = 200"
    and "\<forall>v. link_dead E v (t_id row) \<longrightarrow> link_dead E (g v) (t_id row)"
    and "v = g (exec (db_consume_approval_token E (t_id row) ''reset'') w)"
  shows "r_status (result (reset_after E h2 rid2 pw2 row) v) = 400
    \<and> w_users (exec (reset_after E h2 rid2 pw2 row) v) = w_users v
    \<and> w_sessions (exec (reset_after E h2 rid2 pw2 row) v) = w_sessions v"
proof -
  let ?c = "(t_id row, ''reset'')"
  have used: "result (consume_ok E ?c) w"
    using assms(1) by (auto simp: reset_after_consumes split: if_splits)
  have "link_dead E (exec (consume_ok E ?c) w) (t_id row)"
    using links.spend_kills [OF used] by simp
  moreover have "exec (consume_ok E ?c) w = exec (db_consume_approval_token E (t_id row) ''reset'') w"
    by (simp add: consume_ok_def exec_bind)
  ultimately have "link_dead E v (t_id row)" using assms(2,3) by simp
  then have "\<not> result (consume_ok E ?c) v" using links.dead_refused [of E v ?c] by simp
  then show ?thesis by (simp add: reset_after_consumes consume_ok_frame)
qed

section \<open>A one-time password that is sent again\<close>

lemma challenge_verify_leaves:
  assumes "healthy w" and "x_backend E = Sqlite" and "signing_works E"
    and "x_decode_challenge E (w_now w) t (x_mfa_token_secret E) = Some claims" and "cc_purpose claims = PURPOSE_LOGIN"
    and "find (\<lambda>u. u_id u = cc_user_id claims \<and> live u) (w_users w) = Some user"
    and "u_is_approved user" and "\<not> u_is_banned user"
    and "find (\<lambda>r. m_user_id r = u_id user) (w_mfa_credentials w) = Some cred" and "m_enabled_at cred \<noteq> None"
    and "m_method cred \<noteq> METHOD_EMAIL" and "x_totp_build E (m_secret cred) (u_user_code user) = Some totp"
    and "trim c \<noteq> []" and "x_totp_check E totp (w_now w) (trim c)"
    and "check (w_windows w) (w_now w) (''mfa-verify:'' @ u_id user) 8 (15 * 60 * SECOND) = (True, ws)"
  shows "wp (challenge_verify E h t c) (\<lambda>r w'. r_status r = 200 \<and> session_added (u_id user) w w' \<and> w_windows w' = ws
     \<and> w_users w' = w_users w \<and> w_now w' = w_now w \<and> healthy w'
     \<and> w_mfa_credentials w' = sql_update (\<lambda>r. m_user_id r = u_id user) (\<lambda>r. r\<lparr>m_last_used_at := Some (w_now w)\<rparr>) (w_mfa_credentials w)) w"
proof -
  have fin: "wp (complete_login E user h rid None) (\<lambda>r w'. r_status r = 200 \<and> session_added (u_id user) w w' \<and> w_windows w' = ws
     \<and> w_users w' = w_users w \<and> w_now w' = w_now w \<and> healthy w'
     \<and> w_mfa_credentials w' = sql_update (\<lambda>r. m_user_id r = u_id user) (\<lambda>r. r\<lparr>m_last_used_at := Some (w_now w)\<rparr>) (w_mfa_credentials w)) v"
    if "healthy v" "w_sessions v = w_sessions w" "w_windows v = ws" "w_users v = w_users w" "w_now v = w_now w"
      "w_mfa_credentials v = sql_update (\<lambda>r. m_user_id r = u_id user) (\<lambda>r. r\<lparr>m_last_used_at := Some (w_now w)\<rparr>) (w_mfa_credentials w)" for v rid
  proof -
    let ?v = "exec (complete_login E user h rid None) v"
    have "w_windows ?v = w_windows v" "w_users ?v = w_users v" "w_now ?v = w_now v" "w_faults ?v = w_faults v"
      "w_mfa_credentials ?v = w_mfa_credentials v"
      unfolding complete_login_def by (rule preservesD, intro frame_intros; simp)+
    with complete_login_ok [OF that(1) assms(2,3), of user h rid None] that show ?thesis
      by (simp add: wp_def session_added_def healthy_def)
  qed
  show ?thesis
    using assms
    by (simp add: challenge_verify_def with_challenge_def decode_challenge_token_def
        load_user_or_unauthorized_def load_user_by_id_def verify_code_def enabled_credential_def
        find_mfa_credential_def verify_primary_def totp_code_matches_def touch_mfa_last_used_def
        update_credentials_def wp_simps Let_def db_key_sqlite fin split: option.split)
qed

text \<open>
  A one-time password is not used up, and neither is the challenge it answers: sent a second time
  while it is still accepted, the same challenge token with the same code is answered with 200 again and
  opens another session for the account. Only the attempt limit ends this. (\<open>touch_mfa_last_used\<close> records
  the use; nothing reads it.)
\<close>

theorem used_one_time_password_works_again:
  assumes "healthy w" and "x_backend E = Sqlite" and "signing_works E"
    and "x_decode_challenge E (w_now w) t (x_mfa_token_secret E) = Some claims" and "cc_purpose claims = PURPOSE_LOGIN"
    and "find (\<lambda>u. u_id u = cc_user_id claims \<and> live u) (w_users w) = Some user"
    and "u_is_approved user" and "\<not> u_is_banned user"
    and "find (\<lambda>r. m_user_id r = u_id user) (w_mfa_credentials w) = Some cred" and "m_enabled_at cred \<noteq> None"
    and "m_method cred \<noteq> METHOD_EMAIL" and "x_totp_build E (m_secret cred) (u_user_code user) = Some totp"
    and "trim c \<noteq> []" and "x_totp_check E totp (w_now w) (trim c)"
    and "check (w_windows w) (w_now w) (''mfa-verify:'' @ u_id user) 8 (15 * 60 * SECOND) = (True, ws)"
    and "fst (check ws (w_now w) (''mfa-verify:'' @ u_id user) 8 (15 * 60 * SECOND))"
  shows "wp (challenge_verify E h t c) (\<lambda>a w1. wp (challenge_verify E h2 t c) (\<lambda>b w2.
      r_status a = 200 \<and> session_added (u_id user) w w1 \<and> r_status b = 200 \<and> session_added (u_id user) w1 w2) w1) w"
proof (rule wp_mono [OF challenge_verify_leaves [OF assms(1-15)]])
  fix a w1
  assume first: "r_status a = 200 \<and> session_added (u_id user) w w1 \<and> w_windows w1 = ws
     \<and> w_users w1 = w_users w \<and> w_now w1 = w_now w \<and> healthy w1
     \<and> w_mfa_credentials w1 = sql_update (\<lambda>r. m_user_id r = u_id user) (\<lambda>r. r\<lparr>m_last_used_at := Some (w_now w)\<rparr>) (w_mfa_credentials w)"
  let ?cred = "cred\<lparr>m_last_used_at := Some (w_now w)\<rparr>"
  have cred: "find (\<lambda>r. m_user_id r = u_id user) (w_mfa_credentials w1) = Some ?cred"
    using assms(9) first by (simp add: find_sql_update_same)
  from assms(16) obtain ws2 where "check ws (w_now w) (''mfa-verify:'' @ u_id user) 8 (15 * 60 * SECOND) = (True, ws2)"
    by (metis prod.collapse)
  then have limit: "check (w_windows w1) (w_now w1) (''mfa-verify:'' @ u_id user) 8 (15 * 60 * SECOND) = (True, ws2)"
    using first by simp
  have same: "healthy w1" "x_decode_challenge E (w_now w1) t (x_mfa_token_secret E) = Some claims"
    "find (\<lambda>u. u_id u = cc_user_id claims \<and> live u) (w_users w1) = Some user"
    "m_enabled_at ?cred \<noteq> None" "m_method ?cred \<noteq> METHOD_EMAIL"
    "x_totp_build E (m_secret ?cred) (u_user_code user) = Some totp" "x_totp_check E totp (w_now w1) (trim c)"
    using first assms(4,6,10-12,14) by simp_all
  have "wp (challenge_verify E h2 t c) (\<lambda>b w2. r_status b = 200 \<and> session_added (u_id user) w1 w2) w1"
    by (rule wp_mono [OF challenge_verify_leaves [OF same(1) assms(2,3) same(2) assms(5) same(3) assms(7,8) cred same(4-6)
        assms(13) same(7) limit]]) blast
  with first show "wp (challenge_verify E h2 t c) (\<lambda>b w2. r_status a = 200 \<and> session_added (u_id user) w w1
      \<and> r_status b = 200 \<and> session_added (u_id user) w1 w2) w1"
    unfolding wp_def by blast
qed

section \<open>Examples\<close>

definition demo_two_admins :: world where
  "demo_two_admins = demo_world\<lparr>w_users := [demo_user\<lparr>u_role := SYSTEM_ADMIN\<rparr>, demo_user\<lparr>u_id := ''2'', u_role := SYSTEM_ADMIN\<rparr>]\<rparr>"

theorem racing_bans_leave_no_administrator_witness:
  "admin_count (exec (race (last_admin_guard demo_app ''2'') (ban_after demo_app ''2'' demo_headers None ''r'')
                           (last_admin_guard demo_app ''1'') (ban_after demo_app ''1'' demo_headers None ''s'')) demo_two_admins) = 0"
  by (rule racing_bans_leave_no_administrator [where ua = "demo_user\<lparr>u_role := SYSTEM_ADMIN\<rparr>"
        and ub = "demo_user\<lparr>u_id := ''2'', u_role := SYSTEM_ADMIN\<rparr>"])
    (simp_all add: demo_two_admins_def demo_world_def healthy_def demo_app_def admin_count_def active_admin_def demo_user_def live_def)

theorem used_one_time_password_works_again_witness:
  "wp (challenge_verify (demo_mfa PURPOSE_LOGIN) demo_headers ''t'' ''000000'') (\<lambda>a w1.
     wp (challenge_verify (demo_mfa PURPOSE_LOGIN) demo_headers ''t'' ''000000'') (\<lambda>b w2.
       r_status a = 200 \<and> session_added ''1'' demo_mfa_world w1 \<and> r_status b = 200 \<and> session_added ''1'' w1 w2) w1) demo_mfa_world"
proof -
  have user: "find (\<lambda>u. u_id u = ''1'' \<and> live u) (w_users demo_mfa_world) = Some demo_user" "u_id demo_user = ''1''"
    by (simp_all add: demo_mfa_world_def demo_user_def live_def)
  have cred: "find (\<lambda>r. m_user_id r = u_id demo_user) (w_mfa_credentials demo_mfa_world) = Some demo_credential"
    by (simp add: demo_mfa_world_def demo_user_def demo_credential_def)
  have limit: "check (w_windows demo_mfa_world) (w_now demo_mfa_world) (''mfa-verify:'' @ u_id demo_user) 8 (15 * 60 * SECOND) =
      (True, snd (check (w_windows demo_mfa_world) 0 ''mfa-verify:1'' 8 (15 * 60 * SECOND)))"
    "fst (check (snd (check (w_windows demo_mfa_world) 0 ''mfa-verify:1'' 8 (15 * 60 * SECOND))) (w_now demo_mfa_world)
      (''mfa-verify:'' @ u_id demo_user) 8 (15 * 60 * SECOND))"
    unfolding user(2) demo_mfa_world_def demo_world_def SECOND_def by code_simp+
  show ?thesis
    by (rule used_one_time_password_works_again [where totp = "''S''"
          and claims = "\<lparr>cc_user_id = ''1'', cc_purpose = PURPOSE_LOGIN, cc_exp = 0\<rparr>", OF _ _ _ _ _ _ _ _ cred _ _ _ _ _ limit, unfolded user(2)])
      (simp_all add: user, simp_all add: demo_user_def demo_credential_def METHOD_EMAIL_def,
       simp_all add: demo_mfa_def demo_app_def trim_def is_whitespace_def code_def)
qed

definition demo_reset_row :: approval_token_row where
  "demo_reset_row = demo_link\<lparr>t_purpose := PASSWORD_RESET_PURPOSE\<rparr>"

lemma demo_reset_after: "r_status (result (reset_after demo_refresh demo_cookie ''r'' ''Abcdef1!'' demo_reset_row) demo_session_world) = 200"
  by (simp add: reset_after_def demo_reset_row_def result_bind exec_bind set_new_password_def update_user_password_def with_key_def
      db_consume_approval_token_def exec_stmt result_stmt db_key_sqlite load_user_by_id_def result_query exec_query demo_refresh_def)
    (simp add: demo_link_def demo_user_def live_def sql_update_def sql_count_def)

theorem racing_resets_land_once_witness:
  "r_status (result (reset_after demo_refresh demo_cookie ''s'' ''Zyxwv9!!'' demo_reset_row)
      ((exec (db_consume_approval_token demo_refresh (t_id demo_reset_row) ''reset'') demo_session_world)\<lparr>w_outbox := []\<rparr>)) = 400"
  by (rule racing_resets_land_once [where g = "\<lambda>w. w\<lparr>w_outbox := []\<rparr>", OF demo_reset_after, THEN conjunct1])
    (simp_all add: link_dead_def split: option.split)

end
