(* ===== verification/Uploads.thy ===== *)
theory Uploads
  imports Search
begin

text \<open>
  The loops of \<open>search.rs\<close> and \<open>candidates.rs\<close> that read an uploaded form, field by field, from the
  \<open>Multipart\<close> extractor of axum. The handlers of Search and Candidates take the list of the fields; here
  the loops are read as they are written, over an extractor that may go on for ever, and shown to end and
  to find what the handlers take from the list.
\<close>

section \<open>The loops\<close>

text \<open>
  What a call of \<open>next_field\<close> answers: a field with its name and its content (\<open>None\<close> when reading the
  content fails), the end of the form, or an error. An extractor is its answers, one after the other.
\<close>

datatype next_field = Field "string option" "string option" | End_Of_Form | Form_Error

type_synonym extractor = "nat \<Rightarrow> next_field"

record search_form =
  sf_case_reference :: "string option"
  sf_purpose :: "string option"
  sf_image :: "string option"
  sf_latitude :: "rat option"
  sf_longitude :: "rat option"
  sf_top_k :: "int option"

definition empty_form :: search_form where
  "empty_form = \<lparr>sf_case_reference = None, sf_purpose = None, sf_image = None, sf_latitude = None,
     sf_longitude = None, sf_top_k = None\<rparr>"

definition unwrap_or_empty :: "string option \<Rightarrow> string" where
  "unwrap_or_empty name = (case name of None \<Rightarrow> [] | Some n \<Rightarrow> n)"

definition take_field :: "app \<Rightarrow> string \<Rightarrow> string option \<Rightarrow> search_form \<Rightarrow> search_form" where
  "take_field E name content f =
     (if name = ''caseReference'' then f\<lparr>sf_case_reference := content\<rparr>
      else if name = ''purpose'' then f\<lparr>sf_purpose := content\<rparr>
      else if name = ''image'' then f\<lparr>sf_image := content\<rparr>
      else if name = ''latitude'' then f\<lparr>sf_latitude := Option.bind content (x_parse_f64 E)\<rparr>
      else if name = ''longitude'' then f\<lparr>sf_longitude := Option.bind content (x_parse_f64 E)\<rparr>
      else if name = ''topK'' then f\<lparr>sf_top_k := Option.bind content (x_parse_i64 E)\<rparr>
      else f)"

text \<open>\<open>None\<close> is a loop that does not end, \<open>Some None\<close> the early return with an error.\<close>

partial_function (option) read_search_form :: "app \<Rightarrow> extractor \<Rightarrow> nat \<Rightarrow> search_form \<Rightarrow> search_form option option" where
  "read_search_form E nf i f =
     (case nf i of
        End_Of_Form \<Rightarrow> Some (Some f)
      | Form_Error \<Rightarrow> Some None
      | Field name content \<Rightarrow> read_search_form E nf (Suc i) (take_field E (unwrap_or_empty name) content f))"

partial_function (option) read_photo :: "extractor \<Rightarrow> nat \<Rightarrow> string option \<Rightarrow> string option option option" where
  "read_photo nf i image_bytes =
     (case nf i of
        End_Of_Form \<Rightarrow> Some (Some image_bytes)
      | Form_Error \<Rightarrow> Some None
      | Field name content \<Rightarrow> read_photo nf (Suc i) (if name = Some ''image'' then content else image_bytes))"

section \<open>The form as the handlers see it\<close>

fun is_field :: "next_field \<Rightarrow> bool" where
  "is_field (Field name content) = True"
| "is_field _ = False"

fun part :: "next_field \<Rightarrow> string \<times> string option" where
  "part (Field name content) = (unwrap_or_empty name, content)"
| "part _ = ([], None)"

text \<open>The fields before call n, and whether that call failed.\<close>

definition form_of :: "extractor \<Rightarrow> nat \<Rightarrow> multipart" where
  "form_of nf n = (map (\<lambda>i. part (nf i)) [0..<n], nf n = Form_Error)"

definition values_of :: "app \<Rightarrow> multipart \<Rightarrow> search_form" where
  "values_of E form = \<lparr>sf_case_reference = form_field ''caseReference'' form, sf_purpose = form_field ''purpose'' form,
     sf_image = form_field ''image'' form, sf_latitude = Option.bind (form_field ''latitude'' form) (x_parse_f64 E),
     sf_longitude = Option.bind (form_field ''longitude'' form) (x_parse_f64 E),
     sf_top_k = Option.bind (form_field ''topK'' form) (x_parse_i64 E)\<rparr>"

lemma form_field_Nil [simp]: "form_field name ([], b) = None"
  by (simp add: form_field_def)

lemma form_field_snoc: "form_field name (fs @ [(n, v)], b) = (if n = name then v else form_field name (fs, b))"
  by (simp add: form_field_def)

lemma values_of_Nil [simp]: "values_of E ([], b) = empty_form"
  by (simp add: values_of_def empty_form_def)

lemma values_of_snoc: "values_of E (fs @ [(n, v)], b) = take_field E n v (values_of E (fs, b))"
  by (simp add: values_of_def take_field_def form_field_snoc)

lemma fst_form_of_Suc: "fst (form_of nf (Suc i)) = fst (form_of nf i) @ [part (nf i)]"
  by (simp add: form_of_def)

lemma values_of_flag: "values_of E (fs, b) = values_of E (fs, c)" "form_field name (fs, b) = form_field name (fs, c)"
  by (simp_all add: values_of_def form_field_def)

text \<open>From call i on, with the fields so far taken, the loops end at the first call that gives no field.\<close>

lemma read_search_form_at:
  assumes "\<forall>j. i \<le> j \<and> j < n \<longrightarrow> is_field (nf j)" and "\<not> is_field (nf n)" and "i \<le> n"
  shows "read_search_form E nf i (values_of E (fst (form_of nf i), False)) =
    Some (if nf n = Form_Error then None else Some (values_of E (form_of nf n)))"
  using assms
proof (induction "n - i" arbitrary: i)
  case 0
  then have "i = n" by simp
  with 0 show ?case
    by (cases "nf n") (simp_all add: read_search_form.simps [of E nf n] form_of_def values_of_flag)
next
  case (Suc k)
  then obtain name content where f: "nf i = Field name content" by (cases "nf i") auto
  have "read_search_form E nf (Suc i) (values_of E (fst (form_of nf (Suc i)), False)) =
      Some (if nf n = Form_Error then None else Some (values_of E (form_of nf n)))"
    by (rule Suc.hyps(1)) (use Suc.hyps(2) Suc.prems in auto)
  then show ?case
    by (simp add: read_search_form.simps [of E nf i] f fst_form_of_Suc values_of_snoc)
qed

lemma named: "unwrap_or_empty name = ''image'' \<longleftrightarrow> name = Some ''image''"
  by (simp add: unwrap_or_empty_def split: option.split)

lemma read_photo_at:
  assumes "\<forall>j. i \<le> j \<and> j < n \<longrightarrow> is_field (nf j)" and "\<not> is_field (nf n)" and "i \<le> n"
  shows "read_photo nf i (form_field ''image'' (fst (form_of nf i), False)) =
    Some (if nf n = Form_Error then None else Some (form_field ''image'' (form_of nf n)))"
  using assms
proof (induction "n - i" arbitrary: i)
  case 0
  then have "i = n" by simp
  with 0 show ?case
    by (cases "nf n") (simp_all add: read_photo.simps [of nf n] form_of_def values_of_flag)
next
  case (Suc k)
  then obtain name content where f: "nf i = Field name content" by (cases "nf i") auto
  have "read_photo nf (Suc i) (form_field ''image'' (fst (form_of nf (Suc i)), False)) =
      Some (if nf n = Form_Error then None else Some (form_field ''image'' (form_of nf n)))"
    by (rule Suc.hyps(1)) (use Suc.hyps(2) Suc.prems in auto)
  then show ?case
    using named [of name] by (simp add: read_photo.simps [of nf i] f fst_form_of_Suc form_field_snoc)
qed

section \<open>The limit on the body\<close>

text \<open>
  The extractor limits the body: the content it has handed out, with at least one more byte for every
  field (its boundary line alone has more), never exceeds the limit, however long the client goes on
  sending. The server sets no limit of its own, so it is whatever axum sets.
\<close>

fun content_length :: "next_field \<Rightarrow> nat" where
  "content_length (Field name (Some content)) = length content"
| "content_length _ = 0"

definition body_limited :: "nat \<Rightarrow> extractor \<Rightarrow> bool" where
  "body_limited limit nf \<longleftrightarrow> (\<forall>n. (\<forall>i<n. is_field (nf i)) \<longrightarrow> n + (\<Sum>i<n. content_length (nf i)) \<le> limit)"

definition ends_at :: "extractor \<Rightarrow> nat \<Rightarrow> bool" where
  "ends_at nf n \<longleftrightarrow> (\<forall>i<n. is_field (nf i)) \<and> \<not> is_field (nf n)"

lemma limited_ends:
  assumes "body_limited limit nf"
  shows "\<exists>n\<le>limit. ends_at nf n"
proof -
  have "\<not> (\<forall>i<Suc limit. is_field (nf i))"
    using assms unfolding body_limited_def by (metis Suc_n_not_le_n add_leD1)
  then obtain i where i: "i \<le> limit" "\<not> is_field (nf i)" by (auto simp: less_Suc_eq_le)
  let ?n = "LEAST i. \<not> is_field (nf i)"
  have "\<not> is_field (nf ?n)" using i(2) by (rule LeastI)
  moreover have "?n \<le> limit" using i by (meson Least_le le_trans)
  ultimately show ?thesis using not_less_Least by (auto simp: ends_at_def)
qed

text \<open>
  C23. Reading an uploaded form ends, whatever the client sends and for however long: after at most as many
  fields as the body limit has bytes, both loops have returned, with the error if the extractor reported
  one, and otherwise with what the handlers take from the list of the fields, where the last field of a
  name counts.
\<close>

theorem reading_a_form_ends:
  assumes "body_limited limit nf"
  shows "\<exists>n\<le>limit. ends_at nf n
    \<and> read_search_form E nf 0 empty_form = Some (if snd (form_of nf n) then None else Some (values_of E (form_of nf n)))
    \<and> read_photo nf 0 None = Some (if snd (form_of nf n) then None else Some (form_field ''image'' (form_of nf n)))"
proof -
  obtain n where n: "n \<le> limit" "ends_at nf n" using limited_ends [OF assms] by blast
  then show ?thesis
    using read_search_form_at [of 0 n nf E] read_photo_at [of 0 n nf]
    by (intro exI [of _ n]) (auto simp: ends_at_def form_of_def)
qed

section \<open>Examples\<close>

definition demo_upload :: extractor where
  "demo_upload i = (if i = 0 then Field (Some ''image'') (Some ''png'') else End_Of_Form)"

lemma demo_upload_fits:
  assumes "4 \<le> limit"
  shows "body_limited limit demo_upload"
  unfolding body_limited_def
proof (intro allI impI)
  fix n
  assume fields: "\<forall>i<n. is_field (demo_upload i)"
  have "\<not> 1 < n"
  proof
    assume "1 < n"
    with fields have "is_field (demo_upload 1)" by blast
    then show False by (simp add: demo_upload_def)
  qed
  then consider "n = 0" | "n = 1" by linarith
  then show "n + (\<Sum>i<n. content_length (demo_upload i)) \<le> limit"
    by cases (use assms in \<open>simp_all add: demo_upload_def\<close>)
qed

theorem reading_a_form_ends_witness:
  "\<exists>n\<le>4. ends_at demo_upload n
    \<and> read_search_form demo_app demo_upload 0 empty_form =
        Some (if snd (form_of demo_upload n) then None else Some (values_of demo_app (form_of demo_upload n)))
    \<and> read_photo demo_upload 0 None =
        Some (if snd (form_of demo_upload n) then None else Some (form_field ''image'' (form_of demo_upload n)))"
  by (rule reading_a_form_ends) (rule demo_upload_fits, simp)

end
