(* ===== verification/Search_Life.thy ===== *)
theory Search_Life
  imports System_Rules
begin

text \<open>
  The life of one search in the running server: nothing but its own background task changes its status,
  that task ends it, and a search whose task was lost with a restart waits for ever.
\<close>

section \<open>One search\<close>

text \<open>The search with the key \<open>k\<close> exists, and its status satisfies \<open>S\<close>.\<close>

definition search_has :: "(string \<Rightarrow> bool) \<Rightarrow> string \<Rightarrow> world \<Rightarrow> bool" where
  "search_has S k w \<longleftrightarrow> k \<in> q_id ` set (w_searches w)
     \<and> list_all (\<lambda>q. q_id q = k \<longrightarrow> S (q_status q)) (w_searches w)"

definition over :: "string \<Rightarrow> bool" where
  "over st \<longleftrightarrow> st = ''completed'' \<or> st = ''failed''"

lemma over_simps [simp]: "over ''completed''" "over ''failed''" "\<not> over ''queued''"
  by (simp_all add: over_def)

lemma search_has_blind [simp]:
  "search_has S k (w\<lparr>w_stmts := n\<rparr>) = search_has S k w" "search_has S k (w\<lparr>w_draws := n\<rparr>) = search_has S k w"
  by (simp_all add: search_has_def)

lemma set_search_ids: "(\<And>q. q_id (f q) = q_id q) \<Longrightarrow> q_id ` set (w_searches (set_search i f w)) = q_id ` set (w_searches w)"
proof -
  assume "\<And>q. q_id (f q) = q_id q"
  then have "map q_id (w_searches (set_search i f w)) = map q_id (w_searches w)"
    by (simp add: set_search_def map_sql_update_stable)
  then show ?thesis by (metis list.set_map)
qed

lemma search_has_set:
  assumes "search_has S k w" and "\<And>q. q_id (f q) = q_id q"
    and "\<And>q. i = k \<Longrightarrow> S (q_status q) \<Longrightarrow> S (q_status (f q))"
  shows "search_has S k (set_search i f w)"
proof -
  have "list_all (\<lambda>q. q_id q = k \<longrightarrow> S (q_status q)) (w_searches (set_search i f w))"
    using assms by (auto simp: search_has_def set_search_def sql_update_def list_all_iff)
  then show ?thesis using assms(1,2) by (simp add: search_has_def set_search_ids)
qed

lemma search_has_set_all:
  assumes "k \<in> q_id ` set (w_searches w)" and "\<And>q. q_id (f q) = q_id q" and "\<And>q. S (q_status (f q))"
  shows "search_has S k (set_search k f w)"
proof -
  have "list_all (\<lambda>q. q_id q = k \<longrightarrow> S (q_status q)) (w_searches (set_search k f w))"
    using assms(2,3) by (auto simp: set_search_def sql_update_def list_all_iff)
  then show ?thesis using assms(1,2) by (simp add: search_has_def set_search_ids)
qed

text \<open>Writes to other searches, and writes that leave the status alone, keep it.\<close>

lemma insert_search_other:
  "search_has S k w \<Longrightarrow> search_has S k (snd (insert_search q w))"
  "search_has S k w \<Longrightarrow> fst (insert_search q w) = Inr u \<Longrightarrow> q_id q \<noteq> k"
  by (auto simp: search_has_def insert_search_def list_ex_iff split: if_splits)

definition not_search :: "string \<Rightarrow> db_error + search_row \<Rightarrow> bool" where
  "not_search k r = (case r of Inl _ \<Rightarrow> True | Inr q \<Rightarrow> q_id q \<noteq> k)"

lemma search_has_create:
  "yields (search_has S k) (create_queued_search E cr pu rq rn la lo n org) (not_search k)"
proof (cases "db_key E rq")
  case None
  then show ?thesis by (simp add: create_queued_search_def yields_return not_search_def)
next
  case (Some requester)
  have quiet: "keeps (search_has S k) (new_uuid E)" by (rule keeps_of_preserves) (simp add: frame_intros search_has_def)
  have ins: "yields (search_has S k) (try_stmt (insert_search q)) (\<lambda>r. r = Inr () \<longrightarrow> q_id q \<noteq> k)" for q
    by (intro yields_try_stmt) (auto simp: insert_search_other)
  have find: "yields (search_has S k) (try_stmt (\<lambda>w. (case find (\<lambda>p. q_id p = i) (w_searches w) of
       None \<Rightarrow> Inl DbFailure | Some p \<Rightarrow> Inr p, w))) (not_search k)" if "i \<noteq> k" for i
    using that by (intro yields_try_stmt) (auto simp: not_search_def split: option.split dest!: find_Some_set)
  have row: "q_id (queued_row E i cr pu rq rn la lo n org t) = i" for i rq t by (simp add: queued_row_def)
  show ?thesis unfolding create_queued_search_def Some option.case Let_def
  proof (intro yields_after [OF quiet] yields_after [OF keeps_gets] yields_bind [OF ins] yields_sum yields_return)
    fix i t r and e :: db_error assume "r = Inl e"
    show "not_search k (Inl e)" by (simp add: not_search_def)
  next
    fix i t r and u :: unit
    assume "r = Inr () \<longrightarrow> q_id (queued_row E i cr pu requester rn la lo n org t) \<noteq> k" "r = Inr u"
    then have "i \<noteq> k" by (simp add: row)
    then show "yields (search_has S k) (case x_backend E of Postgres \<Rightarrow> return (Inr (queued_row E i cr pu requester rn la lo n org t))
      | Sqlite \<Rightarrow> try_stmt (\<lambda>w. (case find (\<lambda>p. q_id p = i) (w_searches w) of
           None \<Rightarrow> Inl DbFailure | Some p \<Rightarrow> Inr p, w))) (not_search k)"
      using find by (simp add: yields_return not_search_def row split: db_backend.split)
  qed
qed

lemma search_has_failed:
  assumes "db_key E i = Some k \<longrightarrow> S ''failed''"
  shows "keeps (search_has S k) (mark_queued_search_failed E i c m)"
  using assms unfolding mark_queued_search_failed_def query_def Let_def
  by (auto intro!: keeps_intros keeps_with_key keeps_stmt keeps_backend search_has_set simp: fail_search_def)

lemma search_has_external: "keeps (search_has S k) (set_search_external_evidence_status E i j)"
  unfolding set_search_external_evidence_status_def
  by (auto intro!: keeps_with_key keeps_stmt search_has_set)


text \<open>What finalizing does to the searches: one of them is completed, or nothing.\<close>

abbreviation finalized :: "string \<Rightarrow> world \<Rightarrow> world" where
  "finalized s w \<equiv> set_search s (\<lambda>q. complete_search (w_now w) (begin_processing (w_now w) q)) w"

lemma finalize_effect:
  "case result (finalize_queued_search E i xs) w of
     Inl _ \<Rightarrow> w_searches (exec (finalize_queued_search E i xs) w) = w_searches w
   | Inr r \<Rightarrow>
       (case db_key E i of
          None \<Rightarrow> w_searches (exec (finalize_queued_search E i xs) w) = w_searches w \<and> r = None
        | Some s \<Rightarrow>
            w_searches (exec (finalize_queued_search E i xs) w) = w_searches (finalized s w)
            \<and> (case r of None \<Rightarrow> s \<notin> q_id ` set (w_searches w) | Some q \<Rightarrow> q_id q = s))"
proof (cases "db_key E i")
  case None
  then show ?thesis by (simp add: finalize_queued_search_def with_key_def)
next
  case (Some s)
  let ?v = "w\<lparr>w_stmts := Suc (w_stmts w)\<rparr>"
  obtain r w' where ins: "insert_scored E s xs (set_search s (begin_processing (w_now w)) ?v) = (r, w')" by fastforce
  let ?u = "set_search s (complete_search (w_now w)) w'"
  have searches: "w_searches ?u = w_searches (finalized s w)"
    using complete_after_begin [OF insert_scored_sees [OF ins]] by (simp add: set_search_def)
  have "q_id ` set (w_searches (finalized s w)) = q_id ` set (w_searches w)"
    by (rule set_search_ids) (simp add: complete_search_def begin_processing_def)
  then have "find (\<lambda>q. q_id q = s) (w_searches ?u) = None \<Longrightarrow> s \<notin> q_id ` set (w_searches w)"
    unfolding searches find_None_set by (metis (no_types, lifting) imageE)
  then show ?thesis using Some ins searches
    by (auto simp: finalize_queued_search_def with_key_def result_transaction exec_transaction Let_def
        split: sum.split option.split db_backend.split dest: find_Some_set)
qed

lemma search_has_cong: "w_searches v = w_searches w \<Longrightarrow> search_has S k w \<Longrightarrow> search_has S k v"
  by (simp add: search_has_def)

lemma search_has_finalized: "search_has S k w \<Longrightarrow> (s = k \<longrightarrow> S ''completed'') \<Longrightarrow> search_has S k (finalized s w)"
  by (intro search_has_set) (simp_all add: complete_search_def begin_processing_def)

lemma search_has_finalize:
  assumes "db_key E i = Some k \<longrightarrow> S ''completed''"
  shows "yields (search_has S k) (finalize_queued_search E i xs)
    (\<lambda>r. case r of Inr (Some q) \<Rightarrow> db_key E i = Some (q_id q) | _ \<Rightarrow> True)"
  unfolding yields_def
proof (intro allI impI)
  fix w assume w: "search_has S k w"
  let ?w = "exec (finalize_queued_search E i xs) w"
  have "w_searches ?w = w_searches w \<or> (\<exists>s. db_key E i = Some s \<and> w_searches ?w = w_searches (finalized s w))"
    using finalize_effect [of E i xs w] by (auto split: sum.splits option.splits)
  then have "search_has S k ?w"
    using search_has_cong [OF _ w] search_has_cong [OF _ search_has_finalized [OF w]] assms by blast
  then show "search_has S k (exec (finalize_queued_search E i xs) w)
      \<and> (case result (finalize_queued_search E i xs) w of Inr (Some q) \<Rightarrow> db_key E i = Some (q_id q) | _ \<Rightarrow> True)"
    using finalize_effect [of E i xs w] by (auto split: sum.splits option.splits)
qed

section \<open>Everything else keeps it\<close>

lemma search_has_quiet: "beside_searches (search_has S k)" "blind_audit (search_has S k)"
  "blind w_relations_update (search_has S k)" "blind w_evidence_update (search_has S k)"
  "blind w_breakers_update (search_has S k)" "blind w_counters_update (search_has S k)"
  by (simp_all add: search_has_def)

lemma queue_search_other: "yields (search_has S k) (queue_search E h rid c cr pu img la lo n)
    (\<lambda>r. pred_option (\<lambda>t. st_search_id t \<noteq> k) (snd r))"
proof -
  have quiet: "keeps (search_has S k) (display_name E c)" "keeps (search_has S k) (primary_organization_id E u)"
    "keeps (search_has S k) (save E e)" for u e
    by (intro keeps_of_preserves frame_intros; simp add: search_has_def)+
  show ?thesis unfolding queue_search_def
    by (intro yields_after [OF quiet(1)] yields_after [OF quiet(2)] yields_bind [OF search_has_create] yields_sum
        yields_after [OF quiet(3)] yields_return) (simp_all add: not_search_def)
qed

lemma create_route_other: "yields (search_has S k) (create_search_route E C h form)
    (\<lambda>r. pred_option (\<lambda>t. st_search_id t \<noteq> k) (snd r))"
proof -
  have quiet: "keeps (search_has S k) (request_id E h)" "keeps (search_has S k) (auth_user_from_headers E h)"
    by (intro keeps_of_preserves frame_intros; simp add: search_has_def)+
  show ?thesis unfolding create_search_route_def refuse_def Let_def
    by (intro yields_after [OF quiet(1)] yields_after [OF quiet(2)] yields_option yields_sum yields_if
        queue_search_other yields_return) simp_all
qed


section \<open>The background half\<close>

text \<open>The background half of another search does not touch it; its own may only complete it or fail it.\<close>

context running_server begin

lemma work_keeps_search:
  assumes ok: "P ''completed'' \<and> P ''failed'' \<or> x_backend (se_app S) = Sqlite \<and> st_search_id task \<noteq> k"
  shows "keeps (search_has P k) (work S task)"
proof -
  let ?E = "se_app S" and ?i = "st_search_id task"
  have key: "db_key ?E j = Some k \<Longrightarrow> x_backend ?E = Sqlite \<Longrightarrow> j = k" for j by (simp add: db_key_def)
  note quiet = quiet_keeps [OF search_has_quiet(2-6) [of P k]]
  have fail: "keeps (search_has P k) (mark_queued_search_failed ?E j c m)"
    if "db_key ?E ?i = Some j \<or> j = ?i" for j c m
    using ok that by (intro search_has_failed) (auto simp: db_key_def)
  have fin: "yields (search_has P k) (finalize_queued_search ?E ?i xs)
      (\<lambda>r. case r of Inr (Some q) \<Rightarrow> db_key ?E ?i = Some (q_id q) | _ \<Rightarrow> True)" for xs
    using ok key by (intro search_has_finalize) auto
  have finish: "keeps (search_has P k) (finish_search ?E (se_orchestrator S) task rid q)"
    if "db_key ?E ?i = Some (q_id q)" for rid q
    unfolding finish_search_def
    by (intro keeps_intros quiet run_auto_osint_keeps search_has_external search_has_quiet fail disjI1 that)
  have persist: "keeps (search_has P k) (case r of Inr (Some q) \<Rightarrow> finish_search ?E (se_orchestrator S) task rid q
       | Inr None \<Rightarrow> return ()
       | Inl _ \<Rightarrow> do { _ \<leftarrow> mark_queued_search_failed ?E ?i c m; save ?E e })"
    if "case r of Inr (Some q) \<Rightarrow> db_key ?E ?i = Some (q_id q) | _ \<Rightarrow> True" for r rid c m e
    using that by (auto intro!: keeps_intros finish fail quiet split: sum.split option.split)
  have tx: "keeps (search_has P k) (do { r \<leftarrow> finalize_queued_search ?E ?i xs;
      case r of Inr (Some q) \<Rightarrow> finish_search ?E (se_orchestrator S) task rid q
       | Inr None \<Rightarrow> return ()
       | Inl _ \<Rightarrow> do { _ \<leftarrow> mark_queued_search_failed ?E ?i c m; save ?E e } })" for xs rid c m e
    by (rule keeps_yields [where Q = "\<lambda>_. True"], rule yields_bind [OF fin], rule yields_keeps [OF persist]) simp_all
  have reject: "keeps (search_has P k) (reject_search ?E task rid err)" for rid err
    unfolding reject_search_def by (intro keeps_intros quiet fail disjI2 refl)
  show ?thesis unfolding work_def run_queued_search_def
    by (rule keeps_bind [OF quiet(8)], rule keeps_bind [OF quiet(4)], rule keeps_sum [OF reject],
        rule keeps_bind [OF quiet(9)], rule tx)
qed

text \<open>No request does either.\<close>

lemma serve_keeps_search: "keeps (search_has P k) (serve S h req)"
proof (rule router_keeps [OF search_has_quiet(1)])
  show "keeps (search_has P k) (create_search_route (se_app S) (se_codec S) h form)" for h form
    by (rule keeps_yields [OF create_route_other])
  show "keeps (search_has P k) (review_candidate (se_app S) h i p d)" for h i p d
    by (intro keeps_of_preserves frame_intros; simp add: search_has_def)
qed

lemma step_keeps_search:
  assumes "step S s t" and "search_has P k (sy_world s)"
    and "\<And>task. task \<in> set (sy_pending s) \<Longrightarrow>
      P ''completed'' \<and> P ''failed'' \<or> x_backend (se_app S) = Sqlite \<and> st_search_id task \<noteq> k"
  shows "search_has P k (sy_world t)"
  using assms(1)
proof cases
  case (request headers req)
  then show ?thesis using keepsD [OF serve_keeps_search assms(2)] by simp
next
  case (background before task after)
  then show ?thesis using keepsD [OF work_keeps_search [OF assms(3)] assms(2)] by simp
next
  case retention
  have "keeps (search_has P k) purge_expired_auth_records"
    by (intro keeps_of_preserves purge_frame; simp add: search_has_def)
  then show ?thesis using retention assms(2) by (simp add: keeps_def)
next
  case (passing n)
  then show ?thesis using assms(2) by (simp add: search_has_def)
next
  case restart
  then show ?thesis using assms(2) restart_frame [OF search_has_quiet(1) [of P k]] by simp
qed

end


section \<open>A search that gets its turn is over\<close>

lemma mark_failed_over:
  assumes "healthy w" and "db_key E i = Some k" and "k \<in> q_id ` set (w_searches w)"
  shows "search_has over k (exec (mark_queued_search_failed E i c m) w)"
proof -
  have "search_has over k (set_search k (fail_search c m t) (w\<lparr>w_stmts := n\<rparr>))" for t n
    using assms(3) by (intro search_has_set_all) (simp_all add: fail_search_def)
  then show ?thesis using assms(1,2)
    by (simp add: mark_queued_search_failed_def with_key_def exec_bind exec_stmt result_stmt exec_query Let_def
        split: db_backend.split)
qed

lemma finalize_over:
  assumes "result (finalize_queued_search E i xs) w = Inr r" and "db_key E i = Some k"
    and "k \<in> q_id ` set (w_searches w)"
  shows "search_has over k (exec (finalize_queued_search E i xs) w) \<and> r \<noteq> None"
proof -
  have "search_has over k (finalized k w)"
    using assms(3) by (intro search_has_set_all) (simp_all add: complete_search_def begin_processing_def)
  then show ?thesis using finalize_effect [of E i xs w] assms
    by (auto simp: search_has_def split: option.splits)
qed

context running_server begin

lemma search_task_ends:
  assumes w: "healthy w" and k: "db_key (se_app S) (st_search_id task) = Some k" and ex: "k \<in> q_id ` set (w_searches w)"
  shows "search_has over k (exec (work S task) w)"
proof -
  let ?E = "se_app S" and ?i = "st_search_id task"
  note quiet = quiet_keeps [OF search_has_quiet(2-6) [of over k]]
  have stay: "preserves (\<lambda>w. (healthy w, q_id ` set (w_searches w))) (bp_search (se_provider S) x n)"
    "preserves (\<lambda>w. (healthy w, q_id ` set (w_searches w))) (new_uuid ?E)"
    "preserves (\<lambda>w. (healthy w, q_id ` set (w_searches w))) (count_metric a b)" for x n a b
    by (intro provider_frames frame_intros preserves_count_metric; simp add: healthy_def)+
  have heal: "preserves healthy (finalize_queued_search ?E ?i xs)" for xs
    by (intro frame_intros; simp add: healthy_def)
  define v where "v = exec (bp_search (se_provider S) (st_image_bytes task) (nat (st_top_k task))) (exec (new_uuid ?E) w)"
  have v: "healthy v" "k \<in> q_id ` set (w_searches v)"
    using w ex stay(1) [THEN preservesD] stay(2) [THEN preservesD] unfolding v_def by auto
  let ?u = "exec (count_metric ''biometric_search_outcomes_total'' ''success'') v"
  have u: "healthy (exec (count_metric a b) v)" "k \<in> q_id ` set (w_searches (exec (count_metric a b) v))" for a b
    using v stay(3) [THEN preservesD] by auto
  have reject: "search_has over k (exec (reject_search ?E task rid err) v)" for rid err
    unfolding reject_search_def exec_bind by (rule keepsD [OF quiet(7)]) (rule mark_failed_over [OF u(1) k u(2)])
  have finish: "keeps (search_has over k) (finish_search ?E (se_orchestrator S) task rid q)" for rid q
    unfolding finish_search_def
    by (intro keeps_intros quiet run_auto_osint_keeps search_has_external search_has_quiet search_has_failed) simp
  have persist: "search_has over k (exec (case result (finalize_queued_search ?E ?i xs) ?u of
         Inr (Some q) \<Rightarrow> finish_search ?E (se_orchestrator S) task rid q
       | Inr None \<Rightarrow> return ()
       | Inl _ \<Rightarrow> do { _ \<leftarrow> mark_queued_search_failed ?E ?i c m; save ?E e }) (exec (finalize_queued_search ?E ?i xs) ?u))"
    for xs rid c m e
  proof (cases "result (finalize_queued_search ?E ?i xs) ?u")
    case (Inl err)
    have "w_searches (exec (finalize_queued_search ?E ?i xs) ?u) = w_searches ?u"
      using finalize_effect [of ?E ?i xs ?u] Inl by simp
    then have "search_has over k (exec (mark_queued_search_failed ?E ?i c m) (exec (finalize_queued_search ?E ?i xs) ?u))"
      using u heal [THEN preservesD] by (intro mark_failed_over [OF _ k]) auto
    then show ?thesis using Inl keepsD [OF quiet(7)] by (simp add: exec_bind)
  next
    case (Inr r)
    then show ?thesis using finalize_over [OF Inr k u(2)] keepsD [OF finish] by (cases r) auto
  qed
  show ?thesis
    using reject persist unfolding work_def run_queued_search_def exec_bind v_def [symmetric]
    by (cases "result (bp_search (se_provider S) (st_image_bytes task) (nat (st_top_k task))) (exec (new_uuid ?E) w)")
      (simp_all only: sum.case exec_bind v_def [symmetric])
qed

end

text \<open>The searches a request leaves behind to be run are those it has just created.\<close>

lemma plain_tasks [simp]: "snd (result (plain m) w) = []"
  by (simp add: plain_def result_bind)

lemma serve_result: "result (serve S h req) w = result (router S h req) w"
  by (simp add: serve_def http_metrics_middleware_def result_bind)

lemma new_tasks_other:
  assumes "search_has P k w" and "task \<in> set (snd (result (serve S h req) w))"
  shows "st_search_id task \<noteq> k"
proof -
  have tasks: "task \<in> set (snd (result (router S h req) w))" using assms(2) by (simp only: serve_result)
  then obtain form where "req = Search (Create_Search form)"
  proof (cases req)
    case (Search r)
    then show ?thesis using tasks that by (cases r) simp_all
  qed simp_all
  moreover have "pred_option (\<lambda>t. st_search_id t \<noteq> k) (snd (result (create_search_route (se_app S) (se_codec S) h form) w))"
    by (rule yieldsD(2) [OF create_route_other assms(1)])
  ultimately show ?thesis using tasks
    by (cases "snd (result (create_search_route (se_app S) (se_codec S) h form) w)") (simp_all add: result_bind)
qed

context running_server begin

lemma over_stays:
  assumes "leads_to S s t" and "search_has over k (sy_world s)"
  shows "search_has over k (sy_world t)"
  using assms(1)
proof (induction rule: leads_to_induct)
  case (step t u)
  show ?case by (rule step_keeps_search [OF step(2,3)]) simp
qed (rule assms(2))

lemma stranded_stays:
  assumes "leads_to S s t" and "x_backend (se_app S) = Sqlite"
    and "search_has P k (sy_world s)" and "k \<notin> st_search_id ` set (sy_pending s)"
  shows "search_has P k (sy_world t) \<and> k \<notin> st_search_id ` set (sy_pending t)"
  using assms(1)
proof (induction rule: leads_to_induct)
  case (step t u)
  have "search_has P k (sy_world u)"
    by (rule step_keeps_search [OF step(2)]) (use step(3) assms(2) in auto)
  moreover from step(2) have "k \<notin> st_search_id ` set (sy_pending u)"
  proof cases
    case (request h req)
    then show ?thesis using step(3) new_tasks_other [OF conjunct1 [OF step(3)]] by auto
  qed (use step(3) in auto)
  ultimately show ?case ..
qed (use assms in simp)

end

text \<open>
  C15. A queued search ends: when its background task gets its turn in a database that works, the
  search is completed or failed, the task is done, and the search stays as it is whatever happens
  afterwards.
\<close>

theorem queued_search_ends:
  assumes "healthy (sy_world s)" and "sy_pending s = before @ task # after"
    and "db_key E (st_search_id task) = Some k" and "k \<in> q_id ` set (w_searches (sy_world s))"
  shows "\<exists>t. step (new_server E I C V H name) s t \<and> sy_pending t = before @ after
    \<and> (\<forall>u. leads_to (new_server E I C V H name) t u \<longrightarrow> search_has over k (sy_world u))"
proof (intro exI conjI allI impI)
  let ?S = "new_server E I C V H name"
  let ?t = "\<lparr>sy_world = exec (work ?S task) (sy_world s), sy_pending = before @ after\<rparr>"
  show "step ?S s ?t" by (rule step.background [OF assms(2)])
  show "sy_pending ?t = before @ after" by simp
  fix u assume "leads_to ?S ?t u"
  then show "search_has over k (sy_world u)"
    by (rule new_server.over_stays) (use assms in \<open>simp add: new_server.search_task_ends\<close>)
qed

text \<open>
  C33. A restart strands what was queued: the tasks only live in the memory of the process, and nothing
  picks up a search that is already in the table, so it is never looked at again.
\<close>

theorem restart_strands_queued_searches:
  fixes s :: system
  assumes "x_backend E = Sqlite" and "search_has ((=) ''queued'') k (sy_world s)"
    and "leads_to (new_server E I C V H name)
      \<lparr>sy_world = restart (new_server E I C V H name) (sy_world s), sy_pending = []\<rparr> t"
  shows "search_has ((=) ''queued'') k (sy_world t)"
proof -
  let ?S = "new_server E I C V H name"
  have "step ?S s \<lparr>sy_world = restart ?S (sy_world s), sy_pending = []\<rparr>" by (rule step.restart)
  then have "search_has ((=) ''queued'') k (restart ?S (sy_world s))"
    using assms(2) restart_frame [OF search_has_quiet(1)] by simp
  then show ?thesis
    using new_server.stranded_stays [OF assms(3), where P = "(=) ''queued''" and k = k] assms(1) by simp
qed

lemma demo_waits: "search_has ((=) ''queued'') ''s'' demo_review_world"
  by (simp add: search_has_def demo_review_world_ok queued_row_def)

definition demo_task :: search_task where
  "demo_task = \<lparr>st_search_id = ''s'', st_image_bytes = [], st_top_k = 5, st_claims = demo_claims ''REVIEWER'',
     st_headers = demo_headers, st_case_reference = ''C-1''\<rparr>"

theorem queued_search_ends_witness:
  "\<exists>t. step demo_server \<lparr>sy_world = demo_review_world, sy_pending = [demo_task]\<rparr> t
     \<and> sy_pending t = [] \<and> search_has over ''s'' (sy_world t)"
  using queued_search_ends [of "\<lparr>sy_world = demo_review_world, sy_pending = [demo_task]\<rparr>" "[]" demo_task "[]"
      "demo_as ''REVIEWER''" "''s''" demo_info demo_codec demo_vision demo_http "''mock''"] leads_to_refl
  by (fastforce simp: demo_review_world_ok demo_task_def demo_server_def queued_row_def)

theorem restart_strands_queued_searches_witness:
  "search_has ((=) ''queued'') ''s'' (restart demo_server demo_review_world)"
  using restart_strands_queued_searches [where s = demo_start and E = "demo_as ''REVIEWER''" and k = "''s''", OF _ _ leads_to_refl]
  by (simp add: demo_start_def demo_waits demo_server_def)

end
