(* ===== verification/Audit_Log.thy ===== *)
theory Audit_Log
  imports System_Rules
begin

text \<open>
  The audit trail in the running server: one interface for what the audit tables go through, proved of
  every handler once, and its two instances, that the trail only grows and that it stays verifiable.
\<close>

section \<open>What the audit tables go through\<close>

definition audit_state :: "world \<Rightarrow> audit_event_row list \<times> int \<times> string" where
  [simp]: "audit_state w = (w_audit_events w, w_chain_sequence w, w_chain_hash w)"

definition follows :: "(world \<Rightarrow> world \<Rightarrow> bool) \<Rightarrow> 'a handler \<Rightarrow> bool" where
  "follows R m \<longleftrightarrow> (\<forall>w. R w (exec m w))"

named_theorems follow_intros

text \<open>
  The interface: a relation between an earlier and a later world that looks at nothing but the audit
  tables, and that the insertion of one event respects. Every handler then respects it, because no
  handler writes those tables in any other way.
\<close>

locale audit_relation =
  fixes E :: app and R :: "world \<Rightarrow> world \<Rightarrow> bool"
  assumes same: "audit_state v = audit_state w \<Longrightarrow> R w v"
    and chain: "R u v \<Longrightarrow> R v w \<Longrightarrow> R u w"
    and event: "R w (exec (insert_audit_event E e) w)"
begin

lemma frame: "preserves audit_state m \<Longrightarrow> follows R m"
  by (simp only: follows_def preserves_def same simp_thms)

lemma follow_basic [follow_intros]:
  "follows R (return a)" "follows R (gets g)" "follows R (insert_audit_event E e)"
  "follows R m \<Longrightarrow> (\<And>a. follows R (k a)) \<Longrightarrow> follows R (m \<bind> k)"
  by (auto simp: follows_def same event exec_bind intro: chain)

lemma follow_cases [follow_intros]:
  "follows R m \<Longrightarrow> follows R n \<Longrightarrow> follows R (if b then m else n)"
  "follows R m \<Longrightarrow> (\<And>a. follows R (f a)) \<Longrightarrow> follows R (case x of None \<Rightarrow> m | Some a \<Rightarrow> f a)"
  "(\<And>e. follows R (g e)) \<Longrightarrow> (\<And>a. follows R (h a)) \<Longrightarrow> follows R (case y of Inl e \<Rightarrow> g e | Inr a \<Rightarrow> h a)"
  "(\<And>a b. follows R (p a b)) \<Longrightarrow> follows R (case z of (a, b) \<Rightarrow> p a b)"
  "follows R m \<Longrightarrow> follows R n \<Longrightarrow> follows R (case d of UniqueViolation \<Rightarrow> m | DbFailure \<Rightarrow> n)"
  "(\<And>v. follows R (q v)) \<Longrightarrow> follows R m \<Longrightarrow> follows R n \<Longrightarrow>
     follows R (case o' of Applied v \<Rightarrow> q v | ReviewNotFound \<Rightarrow> m | SameReviewerForbidden \<Rightarrow> n)"
  "follows R m \<Longrightarrow> (\<And>meth. follows R (r meth)) \<Longrightarrow> follows R n \<Longrightarrow>
     follows R (case l of NotRequired \<Rightarrow> m | ChallengeRequired meth \<Rightarrow> r meth | EnrollmentRequired \<Rightarrow> n)"
  "follows R m \<Longrightarrow> follows R n \<Longrightarrow> follows R i \<Longrightarrow>
     follows R (case vo of Primary \<Rightarrow> m | Recovery \<Rightarrow> n | Failed \<Rightarrow> i)"
  "(\<And>cs. follows R (s cs)) \<Longrightarrow> follows R m \<Longrightarrow>
     follows R (case co of Enabled cs \<Rightarrow> s cs | AlreadyEnabled \<Rightarrow> m)"
  by (simp_all split: option.split sum.split prod.split db_error.split review_outcome.split login_mfa_outcome.split
      verify_outcome.split confirm_outcome.split)

lemma follow_save [follow_intros]: "follows R (save E r)" "follows R (save_mandatory E r)"
  unfolding save_def save_mandatory_def
  by (intro follow_intros; rule frame, intro frame_intros; simp)+

lemma follow_guards [follow_intros]:
  "follows R m \<Longrightarrow> follows R (as_admin E h m)"
  "(\<And>rid c. follows R (b rid c)) \<Longrightarrow> follows R (as_role E h p b)"
  "(\<And>rid. follows R (b2 rid)) \<Longrightarrow> follows R (as_org_admin E h b2)"
  "(\<And>c. follows R (b3 c)) \<Longrightarrow> follows R (on_candidate E x rid cl i b3)"
  "(\<And>u. follows R (b4 u)) \<Longrightarrow> follows R (with_challenge E rid t pp b4)"
  "follows R m \<Longrightarrow> follows R (audited E rid e m)"
  unfolding as_admin_def as_role_def as_org_admin_def on_candidate_def with_challenge_def audited_def
  by (intro follow_intros; (assumption | (rule frame, intro frame_intros; simp)))+

lemma follow_events [follow_intros]:
  "follows R (best_effort_audit E h a rid i)"
  "follows R (mandatory_audit E h a rid i md key)"
  "follows R (seed_refused E h rid md)"
  "follows R (org_event E h a rid ty i md)"
  "follows R (login_refused E h r reason ms resp)"
  unfolding best_effort_audit_def mandatory_audit_def seed_refused_def org_event_def login_refused_def Let_def
  by (intro follow_intros; rule frame, intro frame_intros; simp)+

section \<open>Accounts\<close>

lemma follow_mfa [follow_intros]:
  "follows R (complete_login E u h rid cs)"
  unfolding complete_login_def
  by (intro follow_intros; rule frame, intro frame_intros; simp)+

lemma follow_mfa_routes [follow_intros]:
  "follows R (enroll E h m)"
  "follows R (enroll_resend E h)"
  "follows R (enroll_confirm E h c)"
  "follows R (disable E h pw c)"
  "follows R (challenge_enroll E h t m)"
  "follows R (challenge_enroll_resend E h t)"
  "follows R (challenge_request_code E h t)"
  "follows R (challenge_enroll_confirm E h t c)"
  "follows R (challenge_verify E h t c)"
  unfolding enroll_def enroll_resend_def enroll_confirm_def disable_def challenge_enroll_def
    challenge_enroll_resend_def challenge_request_code_def challenge_enroll_confirm_def
    challenge_verify_def Let_def
  by (intro follow_intros; rule frame, intro frame_intros; simp)+

lemma follow_auth_steps [follow_intros]:
  "follows R (login_session E h rid usr)"
  "follows R (refresh_rotate E h rid fam ses usr)"
  "follows R (registration_created E h rid usr)"
  "follows R (set_new_password E h rid uid pw)"
  unfolding login_session_def refresh_rotate_def registration_created_def set_new_password_def Let_def
  by (intro follow_intros; rule frame, intro frame_intros; simp)+

lemma follow_auth_routes [follow_intros]:
  "follows R (revoke_own_session E h i)"
  "follows R (refresh_session E h rid tok c s)"
  "follows R (refresh E h)"
  "follows R (logout E h)"
  "follows R (logout_all E h)"
  "follows R (login_mfa_gate E h rid usr)"
  "follows R (login_account E h rid pw usr)"
  "follows R (login E h uc pw)"
  "follows R (register E h pl)"
  "follows R (forgot_password E h i)"
  "follows R (reset_password E h tok pw)"
  unfolding revoke_own_session_def refresh_session_def refresh_def logout_def logout_all_def
    login_mfa_gate_def login_account_def login_def register_def forgot_password_def reset_password_def Let_def
  by (intro follow_intros; rule frame, intro frame_intros; simp)+

section \<open>Administration\<close>

lemma follow_admin_routes [follow_intros]:
  "follows R (create_user_route E h pl2)"
  "follows R (update_user_route E i h ul)"
  "follows R (approve_user E i h)"
  "follows R (reject_user E i h)"
  "follows R (ban_user E i h why)"
  "follows R (unban_user E i h)"
  "follows R (mfa_reset_route E i h)"
  "follows R (change_role_route E i h role)"
  "follows R (delete_user_route E i h)"
  "follows R (seed_admin E h)"
  "follows R (quick_approve E tok h)"
  "follows R (quick_reject E tok h)"
  unfolding create_user_route_def update_user_route_def approve_user_def reject_user_def ban_user_def
    unban_user_def mfa_reset_route_def change_role_route_def delete_user_route_def seed_admin_def
    seed_account_def quick_approve_def quick_reject_def Let_def
  by (intro follow_intros; rule frame, intro frame_intros; simp)+

lemma follow_org_routes [follow_intros]:
  "follows R (create_organization_route E h n)"
  "follows R (create_unit_route E i h n pu)"
  "follows R (assign_membership_route E h u i ou)"
  "follows R (remove_membership_route E h u i)"
  unfolding create_organization_route_def create_unit_route_def assign_membership_route_def
    remove_membership_route_def Let_def
  by (intro follow_intros; rule frame, intro frame_intros; simp)+

section \<open>Searches and candidates\<close>

lemma follow_candidate_routes [follow_intros]:
  "follows R (create_candidate_route E h cp)"
  "follows R (revoke_template_route E i j h)"
  "follows R (store_template E h rid cl i en)"
  "follows R (add_entity_relation_route E c h t v)"
  "follows R (review_candidate E h i rp st)"
  "follows R (create_search_route E C h form)"
  unfolding create_candidate_route_def revoke_template_route_def store_template_def
    add_entity_relation_route_def review_candidate_def create_search_route_def queue_search_def refuse_def Let_def
  by (intro follow_intros; rule frame, intro frame_intros; simp)+

end

text \<open>A running server and such a relation for its settings.\<close>

locale audited_server = running_server S + audit_relation "se_app S" R
  for S :: server and R :: "world \<Rightarrow> world \<Rightarrow> bool"
begin

lemma follow_provider_routes [follow_intros]:
  "follows R (upload_reference_photo_route (se_app S) (se_codec S) (se_provider S) i h form)"
  "follows R (collect_evidence_route (se_app S) (se_orchestrator S) i h phrase)"
proof -
  have quiet: "follows R (bp_enroll (se_provider S) x)" "follows R (collect_all (se_orchestrator S) y)" for x y
    by (rule frame, intro provider_frames collect_frames; simp)+
  show "follows R (upload_reference_photo_route (se_app S) (se_codec S) (se_provider S) i h form)"
    "follows R (collect_evidence_route (se_app S) (se_orchestrator S) i h phrase)"
    unfolding upload_reference_photo_route_def collect_evidence_route_def Let_def
    by (intro follow_intros quiet; rule frame, intro frame_intros; simp)+
qed

lemma follow_work: "follows R (work S task)"
proof -
  let ?E = "se_app S" and ?orch = "se_orchestrator S"
  have quiet: "follows R (collect_reverse_image ?orch x)" "follows R (enrich_candidates ?E ?orch c vs t)"
    "follows R (expand_context ?orch qs t items)" "follows R (bp_search (se_provider S) x n)" for x c vs t qs items n
    by (rule frame, intro collect_frames enrich_frame expand_frame provider_frames; simp)+
  have event: "follows R (auto_event ?E h c i a out md)" for h c i a out md
    unfolding auto_event_def by (intro follow_intros; rule frame, intro frame_intros; simp)
  have osint: "follows R (run_auto_osint ?E ?orch q c h b)" for q c h b
    unfolding run_auto_osint_def collect_external_evidence_def Let_def
    by (intro follow_intros quiet event; rule frame, intro frame_intros; simp)
  show ?thesis unfolding work_def run_queued_search_def reject_search_def finish_search_def
    by (intro follow_intros quiet osint; rule frame, intro frame_intros; simp)
qed

lemma follow_plain: "follows R m \<Longrightarrow> follows R (plain m)"
  unfolding plain_def by (intro follow_intros)

lemma follow_routes:
  "follows R (auth_routes S h ar)" "follows R (admin_routes S h dr)" "follows R (search_routes S h sr)"
  "follows R (candidate_routes S h cr)"
  subgoal by (cases ar; simp only: auth_routes.simps; (intro follow_intros)?; rule frame, intro frame_intros; simp)
  subgoal by (cases dr; simp only: admin_routes.simps; (intro follow_intros)?; rule frame, intro frame_intros; simp)
  subgoal by (cases sr; simp only: search_routes.simps; (intro follow_intros follow_plain)?; rule frame, intro frame_intros; simp)
  subgoal by (cases cr; simp only: candidate_routes.simps verify_candidate_route_def reject_candidate_route_def
      mark_candidate_inconclusive_route_def; (intro follow_intros)?; rule frame, intro frame_intros; simp)
  done

lemma follow_serve: "follows R (serve S h req)"
proof -
  have router: "follows R (router S h req)"
    by (cases req; simp only: router.simps; intro follow_routes follow_plain follow_intros; rule frame, intro frame_intros; simp)
  show ?thesis unfolding serve_def http_metrics_middleware_def
    by (intro follow_intros router; rule frame, intro frame_intros; simp)
qed

lemma follow_step: "step S s t \<Longrightarrow> R (sy_world s) (sy_world t)"
proof (cases rule: stepE, assumption)
  fix h req assume "t = \<lparr>sy_world = exec (serve S h req) (sy_world s),
      sy_pending = sy_pending s @ snd (result (serve S h req) (sy_world s))\<rparr>"
  then show ?thesis using follow_serve by (simp add: follows_def)
next
  fix before task after assume "t = \<lparr>sy_world = exec (work S task) (sy_world s), sy_pending = before @ after\<rparr>"
  then show ?thesis using follow_work by (simp add: follows_def)
next
  assume "t = s\<lparr>sy_world := exec purge_expired_auth_records (sy_world s)\<rparr>"
  moreover have "preserves audit_state purge_expired_auth_records" by (intro purge_frame; simp)
  ultimately show ?thesis by (intro same) (simp add: preserves_def del: audit_state_def)
next
  fix n assume "t = s\<lparr>sy_world := (sy_world s)\<lparr>w_now := n\<rparr>\<rparr>"
  then show ?thesis by (intro same) simp
next
  assume "t = \<lparr>sy_world = restart S (sy_world s), sy_pending = []\<rparr>"
  moreover have "preserves audit_state (seed_mock_candidates (se_app S))" by (intro seed_frame; simp)
  ultimately show ?thesis by (intro same) (simp add: restart_def preserves_def)
qed

lemma follow_run: "leads_to S s t \<Longrightarrow> R (sy_world s) (sy_world t)"
  by (induction rule: leads_to_induct) (auto intro: same chain follow_step)

end


section \<open>The two relations\<close>

interpretation append_only: audit_relation E "\<lambda>w v. \<exists>more. w_audit_events v = w_audit_events w @ more" for E
proof (unfold_locales, goal_cases)
  case 2
  then show ?case by force
next
  case (3 w e)
  then show ?case using grows_insert_audit_event by (simp add: grows_def)
qed simp

text \<open>An intact chain stays intact, and no event without a number is added.\<close>

definition chain_kept :: "app \<Rightarrow> world \<Rightarrow> world \<Rightarrow> bool" where
  "chain_kept E w v \<longleftrightarrow> (x_backend E = Sqlite \<longrightarrow> stamps_roundtrip E \<longrightarrow> chain_ok E w \<longrightarrow> chain_ok E v)
     \<and> unnumbered (w_audit_events v) = unnumbered (w_audit_events w)"

interpretation verifiable: audit_relation E "chain_kept E" for E
  by unfold_locales (auto simp: chain_kept_def chain_ok_insert insert_numbers, simp_all add: chain_ok_def chain_remembered_def)

interpretation append_only_server: audited_server "new_server E I C V H name" "\<lambda>w v. \<exists>more. w_audit_events v = w_audit_events w @ more"
  for E I C V H name
  by (intro audited_server.intro new_server.running_server_axioms) (simp add: append_only.audit_relation_axioms)

interpretation verifiable_server: audited_server "new_server E I C V H name" "chain_kept E" for E I C V H name
  by (intro audited_server.intro new_server.running_server_axioms) (simp add: verifiable.audit_relation_axioms)

text \<open>
  C6. The audit trail only grows: whatever is requested, whatever runs in the background, however often
  the process restarts and whichever statements fail, the events that were stored stay, unchanged and
  in their order, at the head of the table.
\<close>

theorem audit_trail_only_grows:
  assumes "leads_to (new_server E I C V H name) s t"
  shows "\<exists>more. w_audit_events (sy_world t) = w_audit_events (sy_world s) @ more"
  by (rule append_only_server.follow_run [OF assms])

text \<open>
  C5. On SQLite the integrity check passes in every state the server can reach from one in which it
  passes and in which the remembered number and hash belong to the table: no event has a higher number, and
  the hash is that of the last numbered event, or the genesis value when there is none. No route, no failing
  statement and no restart leaves a chain the check would report; and the check leaves no event out but
  those that had no number to begin with. That the check passes is not enough by itself: it does not look at the
  remembered values, and with wrong ones the next event breaks the chain.
\<close>

theorem audit_chain_verifies_in_every_state:
  assumes "leads_to (new_server E I C V H name) s t" and "x_backend E = Sqlite" and "stamps_roundtrip E"
    and "cr_intact (chain_report_of E (w_audit_events (sy_world s)))" and "chain_remembered (sy_world s)"
  shows "cr_intact (chain_report_of E (w_audit_events (sy_world t)))
    \<and> cr_events_checked (chain_report_of E (w_audit_events (sy_world t))) + length (unnumbered (w_audit_events (sy_world s)))
        = length (w_audit_events (sy_world t))"
proof -
  have "chain_ok E (sy_world t)" "unnumbered (w_audit_events (sy_world t)) = unnumbered (w_audit_events (sy_world s))"
    using verifiable_server.follow_run [OF assms(1)] assms(2-5) by (simp_all add: chain_kept_def chain_ok_def)
  then show ?thesis using checked_or_unnumbered [of E "w_audit_events (sy_world t)"] by (simp add: chain_ok_def)
qed

text \<open>A failed login, which is recorded, on a database with one event from before the chain.\<close>

definition demo_empty :: system where
  "demo_empty = \<lparr>sy_world = demo_world\<lparr>w_chain_hash := GENESIS_HASH,
     w_audit_events := [demo_audit_row\<lparr>a_sequence := None\<rparr>]\<rparr>, sy_pending = []\<rparr>"

definition demo_attempt :: system where
  "demo_attempt = \<lparr>sy_world = exec (serve demo_server demo_headers (Auth (Login ''X'' ''Y''))) (sy_world demo_empty),
     sy_pending = snd (result (serve demo_server demo_headers (Auth (Login ''X'' ''Y''))) (sy_world demo_empty))\<rparr>"

lemma demo_attempted: "leads_to demo_server demo_empty demo_attempt"
proof -
  have "step demo_server demo_empty demo_attempt"
    using step.request [of demo_server demo_empty demo_headers "Auth (Login ''X'' ''Y'')"]
    by (simp add: demo_attempt_def demo_empty_def)
  then show ?thesis by (rule leads_to_step [OF leads_to_refl])
qed

theorem audit_trail_only_grows_witness:
  "\<exists>more. w_audit_events (sy_world demo_reviewed) = w_audit_events demo_review_world @ more"
  using audit_trail_only_grows [OF demo_reaches [unfolded demo_server_def]] by (simp add: demo_start_def)

theorem audit_chain_verifies_in_every_state_witness:
  "cr_intact (chain_report_of (demo_as ''REVIEWER'') (w_audit_events (sy_world demo_attempt)))
   \<and> cr_events_checked (chain_report_of (demo_as ''REVIEWER'') (w_audit_events (sy_world demo_attempt))) + 1
       = length (w_audit_events (sy_world demo_attempt))"
proof -
  have one: "unnumbered (w_audit_events (sy_world demo_empty)) = [demo_audit_row\<lparr>a_sequence := None\<rparr>]"
    and none: "chained_rows (w_audit_events (sy_world demo_empty)) = []"
    by (simp_all add: unnumbered_def chained_rows_def demo_empty_def)
  have "cr_intact (chain_report_of (demo_as ''REVIEWER'') (w_audit_events (sy_world demo_empty)))"
    by (simp add: chain_report_of_def Let_def none)
  moreover have "chain_remembered (sy_world demo_empty)"
    using none by (simp add: chain_remembered_def chain_tip_def) (simp add: demo_empty_def)
  moreover have "stamps_roundtrip (demo_as ''REVIEWER'')"
    using stamps_roundtrip_demo by (simp add: stamps_roundtrip_def demo_as_def)
  ultimately show ?thesis
    using audit_chain_verifies_in_every_state [OF demo_attempted [unfolded demo_server_def]] one by simp
qed

end
