(* ===== verification/Mail.thy ===== *)
theory Mail
  imports Mail_Text Auth
begin

text \<open>
  The mails of \<open>server/src/email.rs\<close>: recipient, subject, text and HTML of each mail the handlers put
  into the outbox, and the request to the mail service, made only when its key is configured. Sending
  is best effort: no handler looks at the outcome. Strings are UTF-8 bytes.
\<close>

section \<open>Surroundings\<close>

definition admin_email :: "app \<Rightarrow> string" where
  "admin_email E = (case x_env E ''ADMIN_EMAIL'' of Some v \<Rightarrow> v | None \<Rightarrow> ''info@boldkimya.com.tr'')"

definition NL :: string where "NL = [CHR 0x0A]"
definition QT :: string where "QT = [CHR 0x22]"
definition EM_DASH :: string where "EM_DASH = [CHR 0xE2, CHR 0x80, CHR 0x94]"
definition S_CEDILLA :: string where "S_CEDILLA = [CHR 0xC5, CHR 0x9E]"

text \<open>\<open>deliver\<close>: the request to the mail service, if any.\<close>

record mail_request =
  mr_url :: string
  mr_bearer :: string
  mr_body :: json

definition deliver :: "app \<Rightarrow> string \<Rightarrow> string \<Rightarrow> string \<Rightarrow> string option \<Rightarrow> mail_request option" where
  "deliver E to subject body html =
     map_option (\<lambda>api_key.
         \<lparr>mr_url = ''https://api.resend.com/emails'', mr_bearer = api_key,
          mr_body = JObj ([(''from'', JStr (case x_env E ''RESEND_FROM'' of Some v \<Rightarrow> v
               | None \<Rightarrow> ''Anatolia B.I.S. <onboarding@resend.dev>'')),
             (''to'', JArr [JStr to]), (''subject'', JStr subject), (''text'', JStr body)]
             @ (case html of None \<Rightarrow> [] | Some h \<Rightarrow> [(''html'', JStr h)]))\<rparr>)
       (x_env E ''RESEND_API_KEY'')"

section \<open>The mails\<close>

definition registration_text :: "string \<Rightarrow> string \<Rightarrow> string \<Rightarrow> string \<Rightarrow> string \<Rightarrow> string" where
  "registration_text first_name last_name email user_code review_link =
     ''New operator registration request '' @ EM_DASH @ '' Anatolia B.I.S.'' @ NL @ NL @ ''Full name: ''
     @ first_name @ '' '' @ last_name @ NL @ ''Email: '' @ email @ NL @ ''User code: '' @ user_code @ NL @ NL
     @ ''Review: '' @ review_link"

definition registration_html :: "string \<Rightarrow> string \<Rightarrow> string \<Rightarrow> string \<Rightarrow> string \<Rightarrow> string" where
  "registration_html first_name last_name email user_code review_link =
     ''<!DOCTYPE html><html><head><meta charset='' @ QT @ ''utf-8'' @ QT @ ''></head>'' @ NL
     @ ''<body style='' @ QT
     @ ''background:#0b0e14;color:#e4e7ee;font-family:system-ui,sans-serif;padding:32px;max-width:480px;margin:0 auto''
     @ QT @ ''>'' @ NL @ ''<h2 style='' @ QT
     @ ''color:#3b82f6;font-size:14px;letter-spacing:.1em;margin-bottom:20px'' @ QT @ ''>ANATOLIA B.I.S. ''
     @ EM_DASH @ '' NEW REGISTRATION REQUEST</h2>'' @ NL @ ''<table style='' @ QT
     @ ''width:100%;border-collapse:collapse;margin-bottom:24px;font-size:14px'' @ QT @ ''>'' @ NL
     @ ''  <tr><td style='' @ QT @ ''color:#8b93a7;padding:6px 0;width:140px'' @ QT
     @ ''>Full name</td><td style='' @ QT @ ''font-weight:bold'' @ QT @ ''>'' @ escape_html first_name @ '' ''
     @ escape_html last_name @ ''</td></tr>'' @ NL @ ''  <tr><td style='' @ QT
     @ ''color:#8b93a7;padding:6px 0'' @ QT @ ''>Email</td><td>'' @ escape_html email @ ''</td></tr>'' @ NL
     @ ''  <tr><td style='' @ QT @ ''color:#8b93a7;padding:6px 0'' @ QT @ ''>User code</td><td style='' @ QT
     @ ''font-weight:bold'' @ QT @ ''>'' @ escape_html user_code @ ''</td></tr>'' @ NL @ ''</table>'' @ NL
     @ ''<a href='' @ QT @ escape_html review_link @ QT @ '' style='' @ QT
     @ ''display:inline-block;padding:14px 32px;background:rgba(59,130,246,0.15);border:1px solid rgba(59,130,246,0.6);color:#3b82f6;text-decoration:none;font-size:13px;letter-spacing:.05em''
     @ QT @ ''>REVIEW &amp; DECIDE</a>'' @ NL @ ''<p style='' @ QT
     @ ''margin-top:24px;font-size:11px;color:#8b93a7'' @ QT
     @ ''>Link valid for 7 days &middot; Bold Askeri Teknoloji ve Savunma Sanayi A.'' @ S_CEDILLA @ ''.</p>''
     @ NL @ ''</body></html>''"

definition send_admin_registration_notification ::
  "app \<Rightarrow> string \<Rightarrow> string \<Rightarrow> string \<Rightarrow> string \<Rightarrow> string \<Rightarrow> mail_request option" where
  "send_admin_registration_notification E first_name last_name email user_code approval_token =
     (let review_link = app_url E @ ''/api/v1/admin/review/'' @ approval_token
      in deliver E (admin_email E) (''[Registration request] '' @ first_name @ '' '' @ last_name)
           (registration_text first_name last_name email user_code review_link)
           (Some (registration_html first_name last_name email user_code review_link)))"

definition send_approval_email :: "app \<Rightarrow> string \<Rightarrow> string \<Rightarrow> string \<Rightarrow> string \<Rightarrow> mail_request option" where
  "send_approval_email E first_name last_name email user_code =
     deliver E email (''Anatolia B.I.S. '' @ EM_DASH @ '' Your registration has been approved'')
     (''Dear '' @ first_name @ '' '' @ last_name @ '','' @ NL @ NL
     @ ''Your Anatolia B.I.S. registration has been approved.'' @ NL @ NL @ ''Your user code: '' @ user_code
     @ NL @ ''Sign in at: '' @ app_url E @ NL @ NL @ ''Bold Askeri Teknoloji ve Savunma Sanayi A.''
     @ S_CEDILLA @ ''.'') None"

definition send_password_reset_email :: "app \<Rightarrow> string \<Rightarrow> string \<Rightarrow> string \<Rightarrow> string \<Rightarrow> mail_request option" where
  "send_password_reset_email E first_name last_name email reset_link =
     deliver E email (''Anatolia B.I.S. '' @ EM_DASH @ '' Password reset request'')
     (''Dear '' @ first_name @ '' '' @ last_name @ '','' @ NL @ NL
     @ ''A password reset was requested for your Anatolia B.I.S. account. If this was you, set a new password here (valid 1 hour):''
     @ NL @ NL @ reset_link @ NL @ NL @ ''If you did not request this, you can ignore this email '' @ EM_DASH
     @ '' your password will not change.'' @ NL @ NL @ ''Bold Askeri Teknoloji ve Savunma Sanayi A.''
     @ S_CEDILLA @ ''.'') None"

text \<open>Sent for an account without an address only, whose line therefore reads \<open>-\<close>.\<close>

definition send_password_reset_request :: "app \<Rightarrow> string \<Rightarrow> string \<Rightarrow> string \<Rightarrow> string option \<Rightarrow> mail_request option" where
  "send_password_reset_request E first_name last_name user_code email =
     deliver E (admin_email E) (''[Password reset request] '' @ first_name @ '' '' @ last_name)
     (''A user has requested a password reset '' @ EM_DASH @ '' Anatolia B.I.S.'' @ NL @ NL @ ''Full name: ''
     @ first_name @ '' '' @ last_name @ NL @ ''User code: '' @ user_code @ NL @ ''Email on file: ''
     @ (case email of Some v \<Rightarrow> v | None \<Rightarrow> ''-'') @ NL @ NL
     @ ''Set a new password for this account from the management panel'' @ [CHR 0x27] @ ''s '' @ QT @ ''Edit''
     @ QT @ '' action.'') None"

definition mfa_code_html :: "string \<Rightarrow> string" where
  "mfa_code_html digits =
     ''<!DOCTYPE html><html><head><meta charset='' @ QT @ ''utf-8'' @ QT @ ''></head>'' @ NL
     @ ''<body style='' @ QT
     @ ''background:#0b0e14;color:#e4e7ee;font-family:system-ui,sans-serif;padding:32px;max-width:480px;margin:0 auto''
     @ QT @ ''>'' @ NL @ ''<h2 style='' @ QT
     @ ''color:#3b82f6;font-size:14px;letter-spacing:.1em;margin-bottom:20px'' @ QT @ ''>ANATOLIA B.I.S. ''
     @ EM_DASH @ '' VERIFICATION CODE</h2>'' @ NL @ ''<p style='' @ QT
     @ ''font-size:32px;font-weight:bold;letter-spacing:.15em;margin:0 0 20px'' @ QT @ ''>''
     @ escape_html digits @ ''</p>'' @ NL @ ''<p style='' @ QT @ ''font-size:13px;color:#8b93a7'' @ QT
     @ ''>This code expires in 10 minutes. If you did not request it, you can ignore this email.</p>'' @ NL
     @ ''</body></html>''"

definition send_mfa_code :: "app \<Rightarrow> string \<Rightarrow> string \<Rightarrow> mail_request option" where
  "send_mfa_code E email digits =
     deliver E email (''Anatolia B.I.S. '' @ EM_DASH @ '' Your verification code'')
     (''Your Anatolia B.I.S. verification code is: '' @ digits @ NL @ NL
     @ ''This code expires in 10 minutes. If you did not request this code, you can ignore this email.'' @ NL
     @ NL @ ''Bold Askeri Teknoloji ve Savunma Sanayi A.'' @ S_CEDILLA @ ''.'') (Some (mfa_code_html digits))"

definition send_rejection_email :: "app \<Rightarrow> string \<Rightarrow> string \<Rightarrow> string \<Rightarrow> mail_request option" where
  "send_rejection_email E first_name last_name email =
     deliver E email (''Anatolia B.I.S. '' @ EM_DASH @ '' Registration request rejected'')
     (''Dear '' @ first_name @ '' '' @ last_name @ '','' @ NL @ NL
     @ ''Your registration request has been rejected. For questions, contact '' @ admin_email E @ ''.'' @ NL
     @ NL @ ''Bold Askeri Teknoloji ve Savunma Sanayi A.'' @ S_CEDILLA @ ''.'') None"

text \<open>What becomes of each mail in the outbox.\<close>

fun send :: "app \<Rightarrow> mail \<Rightarrow> mail_request option" where
  "send E (RegistrationNotification f l e c t) = send_admin_registration_notification E f l e c t"
| "send E (ApprovalEmail f l e c) = send_approval_email E f l e c"
| "send E (RejectionEmail f l e) = send_rejection_email E f l e"
| "send E (PasswordResetEmail f l e link) = send_password_reset_email E f l e link"
| "send E (PasswordResetRequest f l c) = send_password_reset_request E f l c None"
| "send E (MfaCode e c) = send_mfa_code E e c"

section \<open>What a mail can carry\<close>

text \<open>The characters that open or close a tag or an attribute.\<close>

definition markup :: "char \<Rightarrow> bool" where
  "markup c \<longleftrightarrow> c \<in> {CHR ''<'', CHR ''>'', CHR 0x22, CHR 0x27}"

lemma no_markup_in_escaped: "filter markup (escape_html s) = []"
  using entity_safe by (force simp: escape_html_map filter_empty_conv markup_def)

text \<open>
  No one who registers, and no code, can put markup into a mail: the tags and quotes of the HTML
  part are those of the page with every field left empty, in the same order, whatever the fields hold.
\<close>

theorem mails_carry_no_injected_markup:
  "filter markup (registration_html first_name last_name email user_code review_link)
     = filter markup (registration_html [] [] [] [] [])
   \<and> filter markup (mfa_code_html digits) = filter markup (mfa_code_html [])"
  by (simp only: registration_html_def mfa_code_html_def filter_append no_markup_in_escaped)

text \<open>
  Without the service's key no mail leaves the process; with it, each mail of the outbox is one
  request with that key.
\<close>

lemma mail_needs_the_key: "send E m \<noteq> None \<longleftrightarrow> x_env E ''RESEND_API_KEY'' \<noteq> None"
  by (cases m) (simp_all add: deliver_def send_admin_registration_notification_def send_approval_email_def
    send_rejection_email_def send_password_reset_email_def send_password_reset_request_def send_mfa_code_def Let_def)

end
