(* ===== verification/Process.thy ===== *)
theory Process
  imports System Config
begin

text \<open>
  What \<open>server/src/main.rs\<close> adds around the router: which origins may call with credentials, when the
  retention job runs and whom the self-ping calls. Binding the port, static files, logging and the
  shutdown signal are the platform's.
\<close>

section \<open>Cross-origin requests\<close>

text \<open>No layer allows nothing. \<open>parse\<close> says which texts are header values.\<close>

record cors_layer =
  co_origins :: "string list"
  co_methods :: "string list"
  co_headers :: "string list"
  co_credentials :: bool

definition cors :: "(string \<Rightarrow> bool) \<Rightarrow> config \<Rightarrow> cors_layer" where
  "cors parse c =
     (if cf_allowed_origins c = []
      then \<lparr>co_origins = [], co_methods = [], co_headers = [], co_credentials = False\<rparr>
      else \<lparr>co_origins = filter parse (cf_allowed_origins c),
             co_methods = [''GET'', ''POST'', ''PUT'', ''PATCH'', ''DELETE''],
             co_headers = [''content-type'', ''authorization'', ''x-seed-token''], co_credentials = True\<rparr>)"

section \<open>The background jobs\<close>

text \<open>The pauses before the first and each later run of the purge, in seconds; no job when disabled.\<close>

definition spawn_retention_job :: "(string \<Rightarrow> nat option) \<Rightarrow> environment \<Rightarrow> (nat \<times> nat) option" where
  "spawn_retention_job parse_u64 env =
     (if env ''RETENTION_JOB_ENABLED'' = Some ''false'' then None
      else Some (30, case Option.bind (env ''RETENTION_JOB_INTERVAL_SECS'') parse_u64 of
                       Some secs \<Rightarrow> secs | None \<Rightarrow> 3600))"

text \<open>The run of the job after its pauses: the purge, its outcome only logged.\<close>

fun retention_runs :: "nat \<Rightarrow> unit handler" where
  "retention_runs 0 = return ()"
| "retention_runs (Suc n) = do { _ \<leftarrow> purge_expired_auth_records; retention_runs n }"

definition trim_end_slashes :: "string \<Rightarrow> string" where
  "trim_end_slashes s = rev (dropWhile (\<lambda>c. c = CHR ''/'') (rev s))"

definition spawn_self_ping :: "environment \<Rightarrow> string option" where
  "spawn_self_ping env =
     (if env ''ENABLE_SELF_PING'' \<noteq> Some ''true'' then None
      else map_option (\<lambda>external_url. trim_end_slashes external_url @ ''/api/health'') (env ''RENDER_EXTERNAL_URL''))"

section \<open>What they guarantee\<close>

text \<open>Credentials are only allowed together with the explicit list: an origin that is allowed is configured.\<close>

lemma cors_allows_configured_origins_only:
  "set (co_origins (cors parse c)) \<subseteq> set (cf_allowed_origins c)"
  "co_credentials (cors parse c) \<longleftrightarrow> cf_allowed_origins c \<noteq> []"
  by (auto simp: cors_def)

text \<open>The job is one of the steps of the system: its runs lead from state to state.\<close>

lemma retention_job_is_a_step:
  "leads_to S s (s\<lparr>sy_world := exec (retention_runs n) (sy_world s)\<rparr>)"
proof (induction n arbitrary: s)
  case (Suc n)
  let ?t = "s\<lparr>sy_world := exec purge_expired_auth_records (sy_world s)\<rparr>"
  have "leads_to S s ?t" using leads_to_step [OF leads_to_refl step.retention] .
  moreover have "leads_to S ?t (?t\<lparr>sy_world := exec (retention_runs n) (sy_world ?t)\<rparr>)" by (rule Suc)
  ultimately show ?case unfolding leads_to_def by (simp add: exec_bind)
qed simp

text \<open>The self-ping calls the health route, without a doubled slash.\<close>

lemma self_ping_calls_health:
  "spawn_self_ping env = Some url \<Longrightarrow> \<exists>base. url = base @ ''/api/health'' \<and> (base = [] \<or> last base \<noteq> CHR ''/'')"
proof -
  have "trim_end_slashes s = [] \<or> last (trim_end_slashes s) \<noteq> CHR ''/''" for s
    unfolding trim_end_slashes_def
    using hd_dropWhile [of "\<lambda>c. c = CHR ''/''" "rev s"]
    by (cases "dropWhile (\<lambda>c. c = CHR ''/'') (rev s)") (simp_all add: last_rev)
  then show "spawn_self_ping env = Some url \<Longrightarrow> ?thesis" by (auto simp: spawn_self_ping_def split: if_splits)
qed

end
