(* ===== verification/Calibration.thy ===== *)
theory Calibration
  imports Db_Biometric
begin

text \<open>
  Offline calibration of the match threshold: \<open>server/src/calibration.rs\<close> (error rates, ROC curve, equal
  error rate, AUC) and the command line tool \<open>bin/calibrate.rs\<close>. A threshold is a rational or one of
  the two infinities; scores are rationals, so a file with the score \<open>NaN\<close> or \<open>inf\<close> is not modelled.
  Printing a number with a fixed number of decimals, reading the file and connecting to the database
  are given.
\<close>

section \<open>Scores and thresholds\<close>

record scored_pair =
  pr_score :: rat
  pr_genuine :: bool

datatype threshold = NegInf | Finite rat | PosInf

instantiation threshold :: linorder
begin

fun less_eq_threshold :: "threshold \<Rightarrow> threshold \<Rightarrow> bool" where
  "NegInf \<le> t \<longleftrightarrow> True"
| "Finite a \<le> NegInf \<longleftrightarrow> False"
| "Finite a \<le> Finite b \<longleftrightarrow> a \<le> b"
| "Finite a \<le> PosInf \<longleftrightarrow> True"
| "PosInf \<le> t \<longleftrightarrow> t = PosInf"

definition less_threshold :: "threshold \<Rightarrow> threshold \<Rightarrow> bool" where
  "less_threshold s t \<longleftrightarrow> s \<le> t \<and> \<not> t \<le> s"

instance
proof
  fix r s t :: threshold
  show "s < t \<longleftrightarrow> s \<le> t \<and> \<not> t \<le> s" by (simp add: less_threshold_def)
  show "s \<le> s" by (cases s) simp_all
  show "r \<le> s \<Longrightarrow> s \<le> t \<Longrightarrow> r \<le> t" by (cases r; cases s; cases t) simp_all
  show "s \<le> t \<Longrightarrow> t \<le> s \<Longrightarrow> s = t" by (cases s; cases t) simp_all
  show "s \<le> t \<or> t \<le> s" by (cases s; cases t) auto
qed

end

lemma threshold_less_simps [simp]: "Finite a < Finite b \<longleftrightarrow> a < b" "NegInf < Finite a" "Finite a < PosInf" "NegInf < PosInf"
  "\<not> t < NegInf" "\<not> PosInf < t"
  by (cases t; auto simp: less_threshold_def)+

definition impostors :: "scored_pair list \<Rightarrow> rat list" where
  "impostors pairs = map pr_score (filter (\<lambda>p. \<not> pr_genuine p) pairs)"

definition genuines :: "scored_pair list \<Rightarrow> rat list" where
  "genuines pairs = map pr_score (filter pr_genuine pairs)"

section \<open>Error rates\<close>

definition far_at_threshold :: "scored_pair list \<Rightarrow> threshold \<Rightarrow> rat" where
  "far_at_threshold pairs threshold =
     (if impostors pairs = [] then 0
      else of_nat (length (filter (\<lambda>s. threshold \<le> Finite s) (impostors pairs))) / of_nat (length (impostors pairs)))"

definition frr_at_threshold :: "scored_pair list \<Rightarrow> threshold \<Rightarrow> rat" where
  "frr_at_threshold pairs threshold =
     (if genuines pairs = [] then 0
      else of_nat (length (filter (\<lambda>s. Finite s < threshold) (genuines pairs))) / of_nat (length (genuines pairs)))"

record roc_point =
  ro_threshold :: threshold
  ro_far :: rat
  ro_frr :: rat

definition roc_point_at :: "scored_pair list \<Rightarrow> threshold \<Rightarrow> roc_point" where
  "roc_point_at pairs t = \<lparr>ro_threshold = t, ro_far = far_at_threshold pairs t, ro_frr = frr_at_threshold pairs t\<rparr>"

definition roc_thresholds :: "scored_pair list \<Rightarrow> threshold list" where
  "roc_thresholds pairs = remdups_adj (sort (map (Finite \<circ> pr_score) pairs @ [NegInf, PosInf]))"

definition roc_curve :: "scored_pair list \<Rightarrow> roc_point list" where
  "roc_curve pairs = map (roc_point_at pairs) (roc_thresholds pairs)"

text \<open>\<open>Iterator::min_by\<close>: the first of the least elements.\<close>

fun min_by :: "('a \<Rightarrow> rat) \<Rightarrow> 'a list \<Rightarrow> 'a option" where
  "min_by f [] = None"
| "min_by f (x # xs) = (case min_by f xs of None \<Rightarrow> Some x | Some y \<Rightarrow> Some (if f y < f x then y else x))"

fun is_finite :: "threshold \<Rightarrow> bool" where
  "is_finite (Finite a) = True"
| "is_finite t = False"

fun finite_value :: "threshold \<Rightarrow> rat" where
  "finite_value (Finite a) = a"
| "finite_value t = 0"

definition error_gap :: "roc_point \<Rightarrow> rat" where
  "error_gap p = \<bar>ro_far p - ro_frr p\<bar>"

definition equal_error_rate :: "scored_pair list \<Rightarrow> (rat \<times> rat) option" where
  "equal_error_rate pairs =
     map_option (\<lambda>p. (finite_value (ro_threshold p), (ro_far p + ro_frr p) / 2))
       (min_by error_gap (filter (\<lambda>p. is_finite (ro_threshold p)) (roc_curve pairs)))"

text \<open>The trapezoidal rule over consecutive points.\<close>

fun trapezoids :: "(rat \<times> rat) list \<Rightarrow> rat" where
  "trapezoids ((x0, y0) # (x1, y1) # ps) = (x1 - x0) * (y0 + y1) / 2 + trapezoids ((x1, y1) # ps)"
| "trapezoids ps = 0"

definition auc :: "scored_pair list \<Rightarrow> rat" where
  "auc pairs = trapezoids (map (\<lambda>p. (ro_far p, 1 - ro_frr p)) (rev (roc_curve pairs)))"

section \<open>The command line\<close>

datatype output_format = Text | Json | Csv

definition parse_format :: "string \<Rightarrow> output_format option" where
  "parse_format v = (if v = ''text'' then Some Text else if v = ''json'' then Some Json
     else if v = ''csv'' then Some Csv else None)"

record cli_args =
  ca_csv_path :: "string option"
  ca_format :: output_format
  ca_model_name :: "string option"
  ca_model_version :: "string option"
  ca_save_threshold :: bool

fun scan_args :: "string list \<Rightarrow> cli_args \<Rightarrow> string + cli_args" where
  "scan_args [] a = Inr a"
| "scan_args (arg # rest) a =
     (if arg = ''--format'' then
        (case rest of
           [] \<Rightarrow> Inl ''--format requires a value''
         | v # rest' \<Rightarrow>
             (case parse_format v of
                None \<Rightarrow> Inl (''unknown --format '' @ v @ '' (expected text|json|csv)'')
              | Some f \<Rightarrow> scan_args rest' (a\<lparr>ca_format := f\<rparr>)))
      else if arg = ''--model-name'' then
        (case rest of
           [] \<Rightarrow> Inl ''--model-name requires a value''
         | v # rest' \<Rightarrow> scan_args rest' (a\<lparr>ca_model_name := Some v\<rparr>))
      else if arg = ''--model-version'' then
        (case rest of
           [] \<Rightarrow> Inl ''--model-version requires a value''
         | v # rest' \<Rightarrow> scan_args rest' (a\<lparr>ca_model_version := Some v\<rparr>))
      else if arg = ''--save-threshold'' then scan_args rest (a\<lparr>ca_save_threshold := True\<rparr>)
      else if ca_csv_path a = None \<and> take 2 arg \<noteq> ''--''
      then scan_args rest (a\<lparr>ca_csv_path := Some arg\<rparr>)
      else Inl (''unrecognized argument: '' @ arg))"

definition USAGE :: string where
  "USAGE = ''usage: calibrate <pairs.csv> [--format text|json|csv] [--model-name NAME --model-version VERSION --save-threshold]''"

definition parse_args :: "string list \<Rightarrow> string + cli_args" where
  "parse_args raw =
     (case scan_args raw \<lparr>ca_csv_path = None, ca_format = Text, ca_model_name = None, ca_model_version = None,
             ca_save_threshold = False\<rparr> of
        Inl e \<Rightarrow> Inl e
      | Inr a \<Rightarrow>
          if ca_csv_path a = None then Inl USAGE
          else if ca_save_threshold a \<and> (ca_model_name a = None \<or> ca_model_version a = None)
          then Inl ''--save-threshold requires --model-name and --model-version''
          else Inr a)"

definition parse_label :: "string \<Rightarrow> bool option" where
  "parse_label v =
     (if v \<in> {''genuine'', ''1'', ''true'', ''match''} then Some True
      else if v \<in> {''impostor'', ''0'', ''false'', ''nomatch'', ''no_match''} then Some False
      else None)"

definition parse_line :: "app \<Rightarrow> string \<Rightarrow> scored_pair option" where
  "parse_line E l =
     (let l = trim l
      in if l = [] \<or> hd l = CHR ''#'' then None
         else (case split_on (CHR '','') l of
             score # label # _ \<Rightarrow>
               (case (x_parse_f64 E (trim score), parse_label (to_lowercase (trim label))) of
                  (Some s, Some g) \<Rightarrow> Some \<lparr>pr_score = s, pr_genuine = g\<rparr>
                | _ \<Rightarrow> None)
           | _ \<Rightarrow> None))"

text \<open>\<open>str::lines\<close>: a carriage return before the line feed belongs to it, a last empty piece is no line.\<close>

definition strip_cr :: "string \<Rightarrow> string" where
  "strip_cr l = (if l \<noteq> [] \<and> last l = CHR 0x0D then butlast l else l)"

definition text_lines :: "string \<Rightarrow> string list" where
  "text_lines s = (let ps = split_on (CHR 0x0A) s
     in map strip_cr (butlast ps) @ (if last ps = [] then [] else [last ps]))"

definition read_pairs :: "app \<Rightarrow> string \<Rightarrow> scored_pair list" where
  "read_pairs E content = List.map_filter (parse_line E) (text_lines content)"

section \<open>Printing\<close>

text \<open>\<open>fixed n x\<close> prints \<open>x\<close> with \<open>n\<close> decimals. Each element of the result is one printed line.\<close>

definition finite_points :: "scored_pair list \<Rightarrow> roc_point list" where
  "finite_points pairs = filter (\<lambda>p. is_finite (ro_threshold p)) (roc_curve pairs)"

definition pad8 :: "string \<Rightarrow> string" where
  "pad8 s = replicate (8 - length s) (CHR '' '') @ s"

definition print_text :: "(nat \<Rightarrow> rat \<Rightarrow> string) \<Rightarrow> scored_pair list \<Rightarrow> nat \<Rightarrow> nat \<Rightarrow> string list" where
  "print_text fixed pairs genuine_count impostor_count =
     [''Loaded '' @ show_nat (length pairs) @ '' pairs ('' @ show_nat genuine_count @ '' genuine, ''
        @ show_nat impostor_count @ '' impostor)'']
     @ (if genuine_count = 0 \<or> impostor_count = 0
        then [''WARNING: FAR/FRR/EER/AUC are not meaningful without both genuine and impostor pairs.''] else [])
     @ (case equal_error_rate pairs of None \<Rightarrow> [] | Some (threshold, rate) \<Rightarrow>
          [''Equal error rate: '' @ fixed 4 rate @ '' at threshold '' @ fixed 4 threshold])
     @ [''AUC: '' @ fixed 4 (auc pairs), [], ''ROC curve (threshold, FAR, FRR):'']
     @ map (\<lambda>p. ''  '' @ pad8 (fixed 4 (finite_value (ro_threshold p))) @ ''  FAR='' @ fixed 4 (ro_far p)
              @ ''  FRR='' @ fixed 4 (ro_frr p)) (finite_points pairs)"

definition quoted :: "string \<Rightarrow> string" where
  "quoted s = CHR 0x22 # s @ [CHR 0x22]"

definition json_member :: "string \<Rightarrow> string \<Rightarrow> string" where
  "json_member k v = quoted k @ '':'' @ v"

fun join_with :: "string \<Rightarrow> string list \<Rightarrow> string" where
  "join_with sep [] = []"
| "join_with sep [x] = x"
| "join_with sep (x # y # xs) = x @ sep @ join_with sep (y # xs)"

definition print_json :: "(nat \<Rightarrow> rat \<Rightarrow> string) \<Rightarrow> scored_pair list \<Rightarrow> nat \<Rightarrow> nat \<Rightarrow> string list" where
  "print_json fixed pairs genuine_count impostor_count =
     (let eer = equal_error_rate pairs;
          object = (\<lambda>ms. ''{'' @ join_with '','' ms @ ''}'');
          curve = map (\<lambda>p. object
            [json_member ''threshold'' (fixed 6 (finite_value (ro_threshold p))),
             json_member ''far'' (fixed 6 (ro_far p)), json_member ''frr'' (fixed 6 (ro_frr p))]) (finite_points pairs)
      in [object
        [json_member ''pairCount'' (show_nat (length pairs)), json_member ''genuineCount'' (show_nat genuine_count),
         json_member ''impostorCount'' (show_nat impostor_count),
         json_member ''equalErrorRate'' (case eer of None \<Rightarrow> ''null'' | Some (_, rate) \<Rightarrow> fixed 6 rate),
         json_member ''equalErrorThreshold'' (case eer of None \<Rightarrow> ''null'' | Some (threshold, _) \<Rightarrow> fixed 6 threshold),
         json_member ''auc'' (fixed 6 (auc pairs)),
         json_member ''rocCurve'' (''['' @ join_with '','' curve @ '']'')]])"

definition print_csv :: "(nat \<Rightarrow> rat \<Rightarrow> string) \<Rightarrow> scored_pair list \<Rightarrow> string list" where
  "print_csv fixed pairs =
     (case equal_error_rate pairs of
        Some (threshold, rate) \<Rightarrow>
          ''# equal_error_rate='' @ fixed 6 rate @ '',equal_error_threshold='' @ fixed 6 threshold
            @ '',auc='' @ fixed 6 (auc pairs)
      | None \<Rightarrow> ''# auc='' @ fixed 6 (auc pairs))
     # ''threshold,far,frr''
     # map (\<lambda>p. fixed 6 (finite_value (ro_threshold p)) @ '','' @ fixed 6 (ro_far p) @ '','' @ fixed 6 (ro_frr p))
         (finite_points pairs)"

section \<open>The tool\<close>

record cli_result =
  cr_exit :: nat
  cr_stdout :: "string list"
  cr_stderr :: "string list"

definition report :: "(nat \<Rightarrow> rat \<Rightarrow> string) \<Rightarrow> output_format \<Rightarrow> scored_pair list \<Rightarrow> string list" where
  "report fixed f pairs =
     (let genuine_count = length (filter pr_genuine pairs);
          impostor_count = length pairs - genuine_count
      in case f of
           Text \<Rightarrow> print_text fixed pairs genuine_count impostor_count
         | Json \<Rightarrow> print_json fixed pairs genuine_count impostor_count
         | Csv \<Rightarrow> print_csv fixed pairs)"

text \<open>\<open>connect\<close> is what \<open>AppState::new\<close> gives; \<open>db_text\<close> how its errors print.\<close>

definition save_threshold ::
  "(nat \<Rightarrow> rat \<Rightarrow> string) \<Rightarrow> (db_error \<Rightarrow> string) \<Rightarrow> string + app \<Rightarrow> string \<Rightarrow> string \<Rightarrow> scored_pair list \<Rightarrow>
     string list \<Rightarrow> cli_result handler" where
  "save_threshold fixed db_text connect model_name model_version pairs out =
     (case equal_error_rate pairs of
        None \<Rightarrow> return \<lparr>cr_exit = 1, cr_stdout = out,
          cr_stderr = [''cannot save a threshold: no equal-error-rate point (empty ROC curve)'']\<rparr>
      | Some (threshold, rate) \<Rightarrow>
          (case connect of
             Inl err \<Rightarrow> return \<lparr>cr_exit = 1, cr_stdout = out, cr_stderr = [''failed to connect to the database: '' @ err]\<rparr>
           | Inr E \<Rightarrow> do {
               r \<leftarrow> save_calibrated_threshold E model_name model_version threshold rate (int (length pairs));
               return (case r of
                 Inr _ \<Rightarrow> \<lparr>cr_exit = 0, cr_stdout = out,
                   cr_stderr = [''Saved threshold '' @ fixed 4 threshold @ '' (EER '' @ fixed 4 rate @ '') for ''
                     @ model_name @ ''/'' @ model_version]\<rparr>
               | Inl err \<Rightarrow> \<lparr>cr_exit = 1, cr_stdout = out, cr_stderr = [''failed to save threshold: '' @ db_text err]\<rparr>)
             }))"

definition calibrate_main ::
  "(nat \<Rightarrow> rat \<Rightarrow> string) \<Rightarrow> (db_error \<Rightarrow> string) \<Rightarrow> app \<Rightarrow> (string \<Rightarrow> string + string) \<Rightarrow> string + app \<Rightarrow>
     string list \<Rightarrow> cli_result handler" where
  "calibrate_main fixed db_text libs read_file connect raw_args =
     (case parse_args raw_args of
        Inl msg \<Rightarrow> return \<lparr>cr_exit = 2, cr_stdout = [], cr_stderr = [msg]\<rparr>
      | Inr a \<Rightarrow>
          (let path = (case ca_csv_path a of None \<Rightarrow> [] | Some p \<Rightarrow> p)
           in case read_file path of
                Inl err \<Rightarrow> return \<lparr>cr_exit = 1, cr_stdout = [], cr_stderr = [''failed to read '' @ path @ '': '' @ err]\<rparr>
              | Inr content \<Rightarrow>
                  (let pairs = read_pairs libs content
                   in if pairs = []
                      then return \<lparr>cr_exit = 1, cr_stdout = [],
                             cr_stderr = [''no valid score,label rows found in '' @ path]\<rparr>
                      else (let out = report fixed (ca_format a) pairs
                            in case (ca_save_threshold a, ca_model_name a, ca_model_version a) of
                                 (True, Some model_name, Some model_version) \<Rightarrow>
                                   save_threshold fixed db_text connect model_name model_version pairs out
                               | _ \<Rightarrow> return \<lparr>cr_exit = 0, cr_stdout = out, cr_stderr = []\<rparr>))))"

section \<open>The rates\<close>

lemma filter_length_mono: "(\<And>x. P x \<Longrightarrow> Q x) \<Longrightarrow> length (filter P xs) \<le> length (filter Q xs)"
  by (induction xs) (auto intro: le_SucI)

lemma share_bounds: "xs \<noteq> [] \<Longrightarrow> of_nat (length (filter P xs)) / of_nat (length xs) \<in> {0..1 :: rat}"
  using length_filter_le [of P xs] by (simp add: divide_le_eq)

text \<open>
  The error rates are rates, and a stricter threshold trades one for the other: raising it never
  raises the false accepts and never lowers the false rejects; accepting everything rejects nobody,
  rejecting everything accepts nobody.
\<close>

theorem error_rates_trade_off:
  assumes "s \<le> t"
  shows "far_at_threshold pairs t \<le> far_at_threshold pairs s \<and> frr_at_threshold pairs s \<le> frr_at_threshold pairs t
    \<and> far_at_threshold pairs t \<in> {0..1} \<and> frr_at_threshold pairs t \<in> {0..1}
    \<and> frr_at_threshold pairs NegInf = 0 \<and> far_at_threshold pairs PosInf = 0"
proof -
  have "length (filter (\<lambda>x. t \<le> Finite x) xs) \<le> length (filter (\<lambda>x. s \<le> Finite x) xs)"
    "length (filter (\<lambda>x. Finite x < s) xs) \<le> length (filter (\<lambda>x. Finite x < t) xs)" for xs
    using assms by (intro filter_length_mono; simp)+
  then show ?thesis
    using share_bounds [of "impostors pairs"] share_bounds [of "genuines pairs"]
    by (simp add: far_at_threshold_def frr_at_threshold_def divide_right_mono)
qed

theorem error_rates_trade_off_witness:
  "far_at_threshold [\<lparr>pr_score = 1, pr_genuine = False\<rparr>] (Finite 2) \<le> far_at_threshold [\<lparr>pr_score = 1, pr_genuine = False\<rparr>] (Finite 1)"
  using error_rates_trade_off [of "Finite 1" "Finite 2"] by simp

section \<open>The area\<close>

definition at_least :: "threshold \<Rightarrow> rat list \<Rightarrow> rat" where
  "at_least t zs = of_nat (length (filter (\<lambda>z. t \<le> Finite z) zs))"

text \<open>What a genuine score counts against one impostor score: a win is one, a tie a half.\<close>

definition credit :: "rat \<Rightarrow> rat \<Rightarrow> rat" where
  "credit i g = (if i < g then 1 else if i = g then 1 / 2 else 0)"

definition credits :: "rat list \<Rightarrow> rat \<Rightarrow> rat" where
  "credits gs i = (\<Sum>g\<leftarrow>gs. credit i g)"

lemma true_accepts: "genuines pairs \<noteq> [] \<Longrightarrow>
    1 - frr_at_threshold pairs t = at_least t (genuines pairs) / of_nat (length (genuines pairs))"
proof -
  assume g: "genuines pairs \<noteq> []"
  have "length (filter (\<lambda>z. Finite z < t) zs) + length (filter (\<lambda>z. t \<le> Finite z) zs) = length zs" for zs
    using sum_length_filter_compl [of "\<lambda>z. Finite z < t" zs] by (simp add: not_less)
  from this [of "genuines pairs"] have "of_nat (length (genuines pairs)) - of_nat (length (filter (\<lambda>z. Finite z < t) (genuines pairs)))
      = at_least t (genuines pairs)" unfolding at_least_def by (metis add_diff_cancel_left' of_nat_add)
  moreover have "(1::rat) = of_nat (length (genuines pairs)) / of_nat (length (genuines pairs))" using g by simp
  ultimately show ?thesis using g by (metis diff_divide_distrib frr_at_threshold_def)
qed

lemma false_accepts: "impostors pairs \<noteq> [] \<Longrightarrow>
    far_at_threshold pairs t = at_least t (impostors pairs) / of_nat (length (impostors pairs))"
  by (simp add: far_at_threshold_def at_least_def)

text \<open>Between two neighbouring thresholds there is no score, so the step from one to the next is at a score.\<close>

definition adjacent :: "threshold \<Rightarrow> threshold \<Rightarrow> rat list \<Rightarrow> bool" where
  "adjacent t u zs \<longleftrightarrow> u < t \<and> (\<forall>z\<in>set zs. Finite z < t \<longrightarrow> Finite z = u \<or> Finite z < u)"

lemma at_least_step: "adjacent t u zs \<Longrightarrow>
    at_least u zs = at_least t zs + of_nat (length (filter (\<lambda>z. Finite z = u) zs))"
  unfolding at_least_def
  by (induction zs) (auto simp: adjacent_def not_le)

lemma credits_step:
  assumes "adjacent t (Finite i) gs"
  shows "credits gs i = (at_least t gs + at_least (Finite i) gs) / 2"
  using assms unfolding credits_def at_least_def
proof (induction gs)
  case (Cons g gs)
  have "g < i \<Longrightarrow> Finite g < t" using Cons.prems less_trans [of "Finite g" "Finite i" t] by (simp add: adjacent_def)
  with Cons show ?case by (auto simp: adjacent_def credit_def not_le field_simps)
qed (simp add: adjacent_def)

lemma sum_step:
  assumes "adjacent t u zs"
  shows "(\<Sum>z\<leftarrow>filter (\<lambda>z. Finite z < t) zs. f z) =
    (\<Sum>z\<leftarrow>filter (\<lambda>z. Finite z = u) zs. f z) + (\<Sum>z\<leftarrow>filter (\<lambda>z. Finite z < u) zs. f z :: rat)"
  using assms by (induction zs) (auto simp: adjacent_def)

lemma sum_at: "(\<Sum>z\<leftarrow>filter (\<lambda>z. Finite z = Finite i) zs. f z) = of_nat (length (filter (\<lambda>z. Finite z = Finite i) zs)) * (f i :: rat)"
  by (induction zs) (auto simp: algebra_simps)

lemma trapezoids_area:
  assumes "is \<noteq> []" "gs \<noteq> []" "sorted_wrt (>) (t # ts)"
    and "\<forall>z\<in>set is \<union> set gs. Finite z < t \<longrightarrow> Finite z \<in> set ts"
  shows "trapezoids (map (\<lambda>u. (at_least u is / of_nat (length is), at_least u gs / of_nat (length gs))) (t # ts))
    = (\<Sum>i\<leftarrow>filter (\<lambda>i. Finite i < t) is. credits gs i) / (of_nat (length is) * of_nat (length gs))"
  using assms(3,4)
proof (induction ts arbitrary: t)
  case Nil
  then have "filter (\<lambda>i. Finite i < t) is = []" by (auto simp: filter_empty_conv)
  then show ?case by simp
next
  case (Cons u ts)
  let ?I = "of_nat (length is) :: rat" and ?G = "of_nat (length gs) :: rat"
  have adj: "adjacent t u is" "adjacent t u gs" using Cons.prems by (auto simp: adjacent_def)
  have "\<forall>z\<in>set is \<union> set gs. Finite z < u \<longrightarrow> Finite z \<in> set ts"
  proof (intro ballI impI)
    fix z assume z: "z \<in> set is \<union> set gs" "Finite z < u"
    then have "Finite z < t" using Cons.prems(1) by (auto intro: less_trans)
    then show "Finite z \<in> set ts" using Cons.prems(2) z by auto
  qed
  then have IH: "trapezoids (map (\<lambda>u. (at_least u is / ?I, at_least u gs / ?G)) (u # ts))
      = (\<Sum>i\<leftarrow>filter (\<lambda>i. Finite i < u) is. credits gs i) / (?I * ?G)"
    using Cons.prems(1) by (intro Cons.IH) simp_all
  have at: "(\<Sum>i\<leftarrow>filter (\<lambda>i. Finite i = u) is. credits gs i) =
      (at_least u is - at_least t is) * (at_least t gs + at_least u gs) / 2"
  proof (cases u)
    case (Finite a)
    note step = at_least_step [OF adj(1)] credits_step [OF adj(2) [unfolded Finite]]
    have "of_nat (length (filter (\<lambda>z. Finite z = u) is)) = at_least u is - at_least t is"
      using step(1) by linarith
    then have "(\<Sum>i\<leftarrow>filter (\<lambda>i. Finite i = u) is. credits gs i) = (at_least u is - at_least t is) * credits gs a"
      unfolding Finite by (simp only: sum_at)
    then show ?thesis unfolding step(2) Finite by (simp only: times_divide_eq_right)
  qed (use at_least_step [OF adj(1)] in simp_all)
  have "(at_least u is / ?I - at_least t is / ?I) * (at_least t gs / ?G + at_least u gs / ?G) / 2
      = ((at_least u is - at_least t is) * (at_least t gs + at_least u gs) / 2) / (?I * ?G)"
    by (simp add: diff_divide_distrib [symmetric] add_divide_distrib [symmetric])
  then show ?case using IH by (simp add: sum_step [OF adj(1)] at add_divide_distrib)
qed


lemma sorted_remdups_adj_strict: "sorted (xs :: 'a :: linorder list) \<Longrightarrow> sorted_wrt (<) (remdups_adj xs)"
proof -
  have "sorted zs \<Longrightarrow> distinct_adj zs \<Longrightarrow> sorted_wrt (<) zs" for zs :: "'a list"
    by (induction zs rule: induct_list012) (auto simp: order_less_le intro: less_le_trans)
  then show "sorted xs \<Longrightarrow> ?thesis" by simp
qed

lemma roc_thresholds_strict: "sorted_wrt (>) (rev (roc_thresholds pairs))"
  using sorted_remdups_adj_strict [OF sorted_sort] by (simp add: roc_thresholds_def sorted_wrt_rev)

lemma set_roc_thresholds: "set (roc_thresholds pairs) = insert NegInf (insert PosInf (Finite ` pr_score ` set pairs))"
  by (auto simp: roc_thresholds_def)

lemma scores_of_both_kinds: "pr_score ` set pairs = set (impostors pairs) \<union> set (genuines pairs)"
  by (auto simp: impostors_def genuines_def)

lemma rev_roc_thresholds: "\<exists>ts. rev (roc_thresholds pairs) = PosInf # ts"
proof (cases "rev (roc_thresholds pairs)")
  case Nil
  then show ?thesis using set_roc_thresholds [of pairs] by (metis empty_iff insertI1 list.set(1) set_rev)
next
  case (Cons t ts)
  have "PosInf \<in> set (t # ts)" unfolding Cons [symmetric] set_rev set_roc_thresholds by simp
  then have "t = PosInf" using roc_thresholds_strict [of pairs] unfolding Cons by (auto dest!: bspec)
  then show ?thesis using Cons by simp
qed

text \<open>
  C19. The area under the ROC curve is the chance that a random genuine score beats a random impostor
  score, a tie counting a half: the trapezoids over the thresholds add up to exactly that average.
\<close>

theorem auc_is_the_rank_statistic:
  assumes "impostors pairs \<noteq> []" "genuines pairs \<noteq> []"
  shows "auc pairs = (\<Sum>i\<leftarrow>impostors pairs. \<Sum>g\<leftarrow>genuines pairs. credit i g)
    / (of_nat (length (impostors pairs)) * of_nat (length (genuines pairs)))"
proof -
  obtain ts where ts: "rev (roc_thresholds pairs) = PosInf # ts" using rev_roc_thresholds by blast
  have "set (PosInf # ts) = insert NegInf (insert PosInf (Finite ` (set (impostors pairs) \<union> set (genuines pairs))))"
    unfolding ts [symmetric] set_rev set_roc_thresholds scores_of_both_kinds ..
  then have scores: "\<forall>z\<in>set (impostors pairs) \<union> set (genuines pairs). Finite z < PosInf \<longrightarrow> Finite z \<in> set ts"
    by (auto simp: set_eq_iff)
  have "auc pairs = trapezoids (map (\<lambda>u. (at_least u (impostors pairs) / of_nat (length (impostors pairs)),
      at_least u (genuines pairs) / of_nat (length (genuines pairs)))) (PosInf # ts))"
    unfolding ts [symmetric] auc_def roc_curve_def
    using assms by (simp add: rev_map comp_def roc_point_at_def false_accepts true_accepts)
  also have "\<dots> = (\<Sum>i\<leftarrow>impostors pairs. credits (genuines pairs) i)
      / (of_nat (length (impostors pairs)) * of_nat (length (genuines pairs)))"
    using trapezoids_area [OF assms _ scores] roc_thresholds_strict [of pairs] unfolding ts by simp
  finally show ?thesis by (simp add: credits_def)
qed

theorem auc_is_the_rank_statistic_witness:
  "auc [\<lparr>pr_score = 1, pr_genuine = False\<rparr>, \<lparr>pr_score = 1, pr_genuine = True\<rparr>, \<lparr>pr_score = 2, pr_genuine = True\<rparr>] = 3 / 4"
  using auc_is_the_rank_statistic [of "[\<lparr>pr_score = 1, pr_genuine = False\<rparr>, \<lparr>pr_score = 1, pr_genuine = True\<rparr>,
    \<lparr>pr_score = 2, pr_genuine = True\<rparr>]"] by (simp add: impostors_def genuines_def credit_def)

section \<open>The equal error rate\<close>

lemma min_by_None [simp]: "min_by f xs = None \<longleftrightarrow> xs = []"
  by (cases xs) (simp_all split: option.split)

lemma min_by_Some: "min_by f xs = Some y \<Longrightarrow> y \<in> set xs \<and> list_all (\<lambda>x. f y \<le> f x) xs"
  by (induction xs arbitrary: y) (fastforce simp: list_all_iff split: option.splits if_splits)+

lemma finite_points_observed:
  "{p \<in> set (roc_curve pairs). is_finite (ro_threshold p)} = (\<lambda>p. roc_point_at pairs (Finite (pr_score p))) ` set pairs"
  by (auto simp: roc_curve_def set_roc_thresholds roc_point_at_def)

text \<open>
  The equal error rate is reported exactly when there is a pair, at an observed score, as the mean
  of the two rates there, and no observed score brings the two rates closer together.
\<close>

theorem equal_error_rate_is_optimal:
  "case equal_error_rate pairs of
     None \<Rightarrow> pairs = []
   | Some (t, rate) \<Rightarrow>
       t \<in> pr_score ` set pairs
       \<and> rate = (far_at_threshold pairs (Finite t) + frr_at_threshold pairs (Finite t)) / 2
       \<and> list_all (\<lambda>p. \<bar>far_at_threshold pairs (Finite t) - frr_at_threshold pairs (Finite t)\<bar>
            \<le> \<bar>far_at_threshold pairs (Finite (pr_score p)) - frr_at_threshold pairs (Finite (pr_score p))\<bar>) pairs"
proof -
  let ?ps = "filter (\<lambda>p. is_finite (ro_threshold p)) (roc_curve pairs)"
  have points: "set ?ps = (\<lambda>p. roc_point_at pairs (Finite (pr_score p))) ` set pairs"
    using finite_points_observed [of pairs] by simp
  show ?thesis
  proof (cases "min_by error_gap ?ps")
    case None
    then show ?thesis using points by (simp add: equal_error_rate_def)
  next
    case (Some y)
    note best = min_by_Some [OF Some]
    then obtain q where q: "q \<in> set pairs" "y = roc_point_at pairs (Finite (pr_score q))"
      using points by auto
    have "error_gap y \<le> error_gap (roc_point_at pairs (Finite (pr_score p)))" if "p \<in> set pairs" for p
      using best that points unfolding list_all_iff by blast
    then show ?thesis using Some q
      by (simp add: equal_error_rate_def roc_point_at_def error_gap_def list_all_iff)
  qed
qed

end
