(* ===== verification/Face_Geometry.thy ===== *)
theory Face_Geometry
  imports Biometric Demo Image_Validation
begin

text \<open>
  The numeric half of the real biometric provider: \<open>server/src/biometric/detection.rs\<close> (resizing,
  decoding the network's anchors, suppression of overlapping faces) and \<open>alignment.rs\<close> (similarity
  transform, warping). The networks are parameters; so are square root, exponential, the trigonometric
  functions and the rounding to \<open>f32\<close>. Every \<open>u32\<close> of an index is checked: an overflow, or an index
  out of range, is the panic it is in Rust, the value \<open>None\<close>. The positions that are read are rounded
  rationals or not a number; the other floating-point values are exact rationals.
\<close>

record float_fns =
  ff_sqrt :: "rat \<Rightarrow> rat"
  ff_exp :: "rat \<Rightarrow> rat"
  ff_atan2 :: "rat \<Rightarrow> rat \<Rightarrow> rat"
  ff_sin :: "rat \<Rightarrow> rat"
  ff_cos :: "rat \<Rightarrow> rat"
  ff_round :: "rat \<Rightarrow> rat"

section \<open>Reading a picture between its pixels\<close>

definition INPUT_SIZE :: nat where "INPUT_SIZE = 640"

definition byte_at :: "nat list \<Rightarrow> nat \<Rightarrow> nat option" where
  "byte_at bytes i = (if i < length bytes then Some (bytes ! i) else None)"

text \<open>A \<open>u32\<close> result that must not overflow, \<open>n - 1\<close> on \<open>u32\<close>, and the index of a channel of a pixel.\<close>

definition u32 :: "nat \<Rightarrow> nat option" where
  "u32 n = (if n < 2 ^ 32 then Some n else None)"

definition u32_pred :: "nat \<Rightarrow> nat option" where
  "u32_pred n = (if n = 0 then None else Some (n - 1))"

definition pixel_index :: "nat \<Rightarrow> nat \<Rightarrow> nat \<Rightarrow> nat \<Rightarrow> nat option" where
  "pixel_index width x y ch = do {
     row \<leftarrow> u32 (y * width);
     pixel \<leftarrow> u32 (row + x);
     offset \<leftarrow> u32 (pixel * 3);
     u32 (offset + ch)
   }"

text \<open>\<open>f32::round\<close> is away from zero in the middle; the cast to a byte follows the clamp.\<close>

definition round_byte :: "rat \<Rightarrow> nat" where
  "round_byte v = nat (clamp 0 255 (if 0 \<le> v then \<lfloor>v + 1 / 2\<rfloor> else \<lceil>v - 1 / 2\<rceil>))"

definition blend :: "nat \<Rightarrow> nat \<Rightarrow> nat \<Rightarrow> nat \<Rightarrow> rat \<Rightarrow> rat \<Rightarrow> rat" where
  "blend p00 p10 p01 p11 fx fy =
     (let top = of_nat p00 + (of_nat p10 - of_nat p00) * fx;
          bottom = of_nat p01 + (of_nat p11 - of_nat p01) * fx
      in top + (bottom - top) * fy)"

text \<open>
  A position is \<open>None\<close> when it is not a number. The cast of its floor to \<open>u32\<close> saturates and is 0 then;
  what is left over is the weight, and a weight that is not a number makes the byte 0.
\<close>

definition floor_as_u32 :: "rat option \<Rightarrow> nat" where
  "floor_as_u32 v = (case v of None \<Rightarrow> 0 | Some x \<Rightarrow> nat (clamp 0 (2 ^ 32 - 1) \<lfloor>x\<rfloor>))"

definition neighbours :: "nat \<Rightarrow> rat option \<Rightarrow> (nat \<times> nat \<times> rat option) option" where
  "neighbours n v = do {
     let i0 = floor_as_u32 v;
     following \<leftarrow> u32 (i0 + 1);
     final \<leftarrow> u32_pred n;
     Some (i0, min following final, map_option (\<lambda>x. x - of_nat i0) v)
   }"

definition bilinear ::
  "nat list \<Rightarrow> nat \<Rightarrow> nat \<times> nat \<times> rat option \<Rightarrow> nat \<times> nat \<times> rat option \<Rightarrow> nat \<Rightarrow> nat option" where
  "bilinear src src_w = (\<lambda>(x0, x1, fx) (y0, y1, fy) ch. do {
     p00 \<leftarrow> Option.bind (pixel_index src_w x0 y0 ch) (byte_at src);
     p10 \<leftarrow> Option.bind (pixel_index src_w x1 y0 ch) (byte_at src);
     p01 \<leftarrow> Option.bind (pixel_index src_w x0 y1 ch) (byte_at src);
     p11 \<leftarrow> Option.bind (pixel_index src_w x1 y1 ch) (byte_at src);
     Some (case (fx, fy) of
         (Some fx, Some fy) \<Rightarrow> round_byte (blend p00 p10 p01 p11 fx fy)
       | _ \<Rightarrow> 0)
   })"

text \<open>\<open>((d as f32 + 0.5) * ratio - 0.5).max(0.0)\<close> with \<open>ratio = src_n as f32 / dst_n as f32\<close>.\<close>

definition resize_position :: "float_fns \<Rightarrow> nat \<Rightarrow> nat \<Rightarrow> nat \<Rightarrow> rat" where
  "resize_position F src_n dst_n d =
     (let f32 = ff_round F;
          ratio = f32 (f32 (of_nat src_n) / f32 (of_nat dst_n))
      in max 0 (f32 (f32 (f32 (f32 (of_nat d) + 1 / 2) * ratio) - 1 / 2)))"

definition resize_bilinear_rgb :: "float_fns \<Rightarrow> nat list \<Rightarrow> nat \<Rightarrow> nat \<Rightarrow> nat \<Rightarrow> nat \<Rightarrow> nat list option" where
  "resize_bilinear_rgb F src src_w src_h dst_w dst_h = do {
     area \<leftarrow> u32 (dst_w * dst_h);
     _ \<leftarrow> u32 (area * 3);
     those (concat (map (\<lambda>dy. concat (map (\<lambda>dx. map (\<lambda>ch. do {
         y \<leftarrow> neighbours src_h (Some (resize_position F src_h dst_h dy));
         x \<leftarrow> neighbours src_w (Some (resize_position F src_w dst_w dx));
         _ \<leftarrow> pixel_index dst_w dx dy ch;
         bilinear src src_w x y ch
       }) [0..<3]) [0..<dst_w])) [0..<dst_h]))
   }"

text \<open>The planes of a picture: blue, green, red for the detector, red, green, blue for the embedding.\<close>

fun planes :: "nat list \<Rightarrow> (nat \<times> nat \<times> nat) list" where
  "planes (r # g # b # rest) = (r, g, b) # planes rest"
| "planes rest = []"

definition build_input_tensor :: "float_fns \<Rightarrow> nat list \<Rightarrow> nat \<Rightarrow> nat \<Rightarrow> nat list option" where
  "build_input_tensor F rgb width height =
     map_option (\<lambda>resized. map (snd \<circ> snd) (planes resized) @ map (fst \<circ> snd) (planes resized)
         @ map fst (planes resized))
       (resize_bilinear_rgb F rgb width height INPUT_SIZE INPUT_SIZE)"

section \<open>Overlapping faces\<close>

definition iou :: "face_box \<Rightarrow> face_box \<Rightarrow> rat" where
  "iou a b =
     (let ax2 = fb_x a + fb_width a; ay2 = fb_y a + fb_height a;
          bx2 = fb_x b + fb_width b; by2 = fb_y b + fb_height b;
          ix1 = max (fb_x a) (fb_x b); iy1 = max (fb_y a) (fb_y b);
          ix2 = min ax2 bx2; iy2 = min ay2 by2;
          iw = max (ix2 - ix1) 0; ih = max (iy2 - iy1) 0;
          intersection = iw * ih;
          union = fb_width a * fb_height a + fb_width b * fb_height b - intersection
      in if union \<le> 0 then 0 else intersection / union)"

fun suppress :: "rat \<Rightarrow> face_box list \<Rightarrow> face_box list \<Rightarrow> face_box list" where
  "suppress iou_threshold kept [] = kept"
| "suppress iou_threshold kept (candidate # boxes) =
     (if list_ex (\<lambda>existing. iou_threshold \<le> iou candidate existing) kept
      then suppress iou_threshold kept boxes
      else suppress iou_threshold (kept @ [candidate]) boxes)"

definition non_max_suppression :: "face_box list \<Rightarrow> rat \<Rightarrow> face_box list" where
  "non_max_suppression boxes iou_threshold = suppress iou_threshold [] boxes"

section \<open>Decoding the network's answer\<close>

definition STRIDES :: "nat list" where "STRIDES = [8, 16, 32]"
definition SCORE_THRESHOLD :: rat where "SCORE_THRESHOLD = 9 / 10"
definition NMS_IOU_THRESHOLD :: rat where "NMS_IOU_THRESHOLD = 3 / 10"
definition PRE_NMS_TOP_K :: nat where "PRE_NMS_TOP_K = 5000"

text \<open>The tensors of one stride, read by flat index; their shapes are the exported graph's.\<close>

record stride_output =
  so_cls :: "nat \<Rightarrow> rat"
  so_obj :: "nat \<Rightarrow> rat"
  so_bbox :: "nat \<Rightarrow> rat"
  so_kps :: "nat \<Rightarrow> rat"

definition clamp_unit :: "rat \<Rightarrow> rat" where
  "clamp_unit x = (if x < 0 then 0 else if 1 < x then 1 else x)"

definition decode_anchor :: "float_fns \<Rightarrow> stride_output \<Rightarrow> nat \<Rightarrow> nat \<Rightarrow> nat \<Rightarrow> nat \<Rightarrow> face_box option" where
  "decode_anchor F out stride cols r c =
     (let idx = r * cols + c;
          score = ff_sqrt F (clamp_unit (so_cls out idx) * clamp_unit (so_obj out idx));
          stride_f = of_nat stride
      in if score < SCORE_THRESHOLD then None
         else
          (let cx = (of_nat c + so_bbox out (idx * 4)) * stride_f;
               cy = (of_nat r + so_bbox out (idx * 4 + 1)) * stride_f;
               w = ff_exp F (so_bbox out (idx * 4 + 2)) * stride_f;
               h = ff_exp F (so_bbox out (idx * 4 + 3)) * stride_f;
               landmark = (\<lambda>n. ((so_kps out (idx * 10 + 2 * n) + of_nat c) * stride_f,
                                (so_kps out (idx * 10 + 2 * n + 1) + of_nat r) * stride_f))
           in Some \<lparr>fb_x = cx - w / 2, fb_y = cy - h / 2, fb_width = w, fb_height = h, fb_score = score,
                fb_right_eye = landmark 0, fb_left_eye = landmark 1, fb_nose = landmark 2,
                fb_right_mouth = landmark 3, fb_left_mouth = landmark 4\<rparr>))"

definition decode_stride :: "float_fns \<Rightarrow> stride_output \<Rightarrow> nat \<Rightarrow> face_box list" where
  "decode_stride F out stride =
     (let cols = INPUT_SIZE div stride; rows = INPUT_SIZE div stride
      in concat (map (\<lambda>r. List.map_filter (decode_anchor F out stride cols r) [0..<cols]) [0..<rows]))"

definition scale_point :: "rat \<Rightarrow> rat \<Rightarrow> rat \<times> rat \<Rightarrow> rat \<times> rat" where
  "scale_point sx sy = (\<lambda>(x, y). (x * sx, y * sy))"

definition scale_box :: "rat \<Rightarrow> rat \<Rightarrow> face_box \<Rightarrow> face_box" where
  "scale_box sx sy b =
     \<lparr>fb_x = fb_x b * sx, fb_y = fb_y b * sy, fb_width = fb_width b * sx, fb_height = fb_height b * sy,
      fb_score = fb_score b,
      fb_right_eye = scale_point sx sy (fb_right_eye b), fb_left_eye = scale_point sx sy (fb_left_eye b),
      fb_nose = scale_point sx sy (fb_nose b), fb_right_mouth = scale_point sx sy (fb_right_mouth b),
      fb_left_mouth = scale_point sx sy (fb_left_mouth b)\<rparr>"

definition faces_of :: "float_fns \<Rightarrow> (nat \<Rightarrow> stride_output) \<Rightarrow> nat \<Rightarrow> nat \<Rightarrow> face_box list" where
  "faces_of F outputs width height =
     (let candidates = concat (map (\<lambda>stride. decode_stride F (outputs stride) stride) STRIDES);
          best = take PRE_NMS_TOP_K (sort_key (\<lambda>b. - fb_score b) candidates);
          kept = non_max_suppression best NMS_IOU_THRESHOLD;
          sx = of_nat width / of_nat INPUT_SIZE;
          sy = of_nat height / of_nat INPUT_SIZE
      in map (scale_box sx sy) kept)"

text \<open>\<open>run\<close> is the session: the tensors of each stride for an input, or an error.\<close>

definition detect ::
  "float_fns \<Rightarrow> (nat list \<Rightarrow> string + (nat \<Rightarrow> stride_output)) \<Rightarrow> nat list \<Rightarrow> nat \<Rightarrow> nat \<Rightarrow>
     (string + face_box list) option" where
  "detect F run rgb width height = do {
     input \<leftarrow> build_input_tensor F rgb width height;
     Some (case run input of Inl e \<Rightarrow> Inl e | Inr outputs \<Rightarrow> Inr (faces_of F outputs width height))
   }"

section \<open>Alignment\<close>

definition REFERENCE_LANDMARKS :: "(rat \<times> rat) list" where
  "REFERENCE_LANDMARKS =
     [(382946 / 10000, 516963 / 10000), (735318 / 10000, 515014 / 10000), (560252 / 10000, 717366 / 10000),
      (415493 / 10000, 923655 / 10000), (707299 / 10000, 922041 / 10000)]"

record affine_transform =
  af_a :: rat
  af_b :: rat
  af_c :: rat
  af_d :: rat
  af_tx :: rat
  af_ty :: rat

definition apply_transform :: "affine_transform \<Rightarrow> rat \<times> rat \<Rightarrow> rat \<times> rat" where
  "apply_transform T = (\<lambda>(x, y). (af_a T * x + af_b T * y + af_tx T, af_c T * x + af_d T * y + af_ty T))"

definition mean_x :: "(rat \<times> rat) list \<Rightarrow> rat" where
  "mean_x ps = sum_list (map fst ps) / of_nat (length ps)"

definition mean_y :: "(rat \<times> rat) list \<Rightarrow> rat" where
  "mean_y ps = sum_list (map snd ps) / of_nat (length ps)"

text \<open>The three sums of the loop over the centered points.\<close>

definition dot_sum :: "(rat \<times> rat) list \<Rightarrow> (rat \<times> rat) list \<Rightarrow> rat" where
  "dot_sum src dst = (\<Sum>i\<leftarrow>[0..<length src].
     (fst (dst ! i) - mean_x dst) * (fst (src ! i) - mean_x src)
     + (snd (dst ! i) - mean_y dst) * (snd (src ! i) - mean_y src))"

definition cross_sum :: "(rat \<times> rat) list \<Rightarrow> (rat \<times> rat) list \<Rightarrow> rat" where
  "cross_sum src dst = (\<Sum>i\<leftarrow>[0..<length src].
     (snd (dst ! i) - mean_y dst) * (fst (src ! i) - mean_x src)
     - (fst (dst ! i) - mean_x dst) * (snd (src ! i) - mean_y src))"

definition src_var :: "(rat \<times> rat) list \<Rightarrow> rat" where
  "src_var src = (\<Sum>i\<leftarrow>[0..<length src].
     (fst (src ! i) - mean_x src) * (fst (src ! i) - mean_x src)
     + (snd (src ! i) - mean_y src) * (snd (src ! i) - mean_y src))"

definition VARIANCE_EPSILON :: rat where "VARIANCE_EPSILON = 1 / 10 ^ 12"

definition similarity_transform :: "float_fns \<Rightarrow> (rat \<times> rat) list \<Rightarrow> (rat \<times> rat) list \<Rightarrow> affine_transform" where
  "similarity_transform F src dst =
     (let a = dot_sum src dst; b = cross_sum src dst;
          theta = ff_atan2 F b a;
          sin_t = ff_sin F theta; cos_t = ff_cos F theta;
          scale = (if VARIANCE_EPSILON < src_var src then ff_sqrt F (a * a + b * b) / src_var src else 1);
          r00 = cos_t; r01 = - sin_t; r10 = sin_t; r11 = cos_t;
          tx = mean_x dst - scale * (r00 * mean_x src + r01 * mean_y src);
          ty = mean_y dst - scale * (r10 * mean_x src + r11 * mean_y src)
      in \<lparr>af_a = scale * r00, af_b = scale * r01, af_c = scale * r10, af_d = scale * r11, af_tx = tx, af_ty = ty\<rparr>)"

text \<open>Comparisons with something that is not a number are false.\<close>

definition sample_bilinear :: "float_fns \<Rightarrow> nat list \<Rightarrow> nat \<Rightarrow> nat \<Rightarrow> rat option \<Rightarrow> rat option \<Rightarrow> nat list option" where
  "sample_bilinear F src w h x y =
     (let negative = (\<lambda>v. case v of None \<Rightarrow> False | Some z \<Rightarrow> z < 0);
          reaches = (\<lambda>v n. case v of None \<Rightarrow> False | Some z \<Rightarrow> ff_round F (of_nat n) \<le> z)
      in if negative x \<or> negative y then Some [0, 0, 0]
         else do {
           right \<leftarrow> u32_pred w;
           if reaches x right then Some [0, 0, 0]
           else do {
             bottom \<leftarrow> u32_pred h;
             if reaches y bottom then Some [0, 0, 0]
             else do {
               xs \<leftarrow> neighbours w x;
               ys \<leftarrow> neighbours h y;
               those (map (bilinear src w xs ys) [0..<3])
             }
           }
         })"

text \<open>The loop over the pixels of the aligned face, given the position each of them reads.\<close>

definition warp_pixels ::
  "float_fns \<Rightarrow> nat list \<Rightarrow> nat \<Rightarrow> nat \<Rightarrow> (nat \<Rightarrow> nat \<Rightarrow> rat option \<times> rat option) \<Rightarrow> nat list option" where
  "warp_pixels F src src_w src_h position =
     map_option concat (those (concat (map (\<lambda>dy. map (\<lambda>dx. do {
       _ \<leftarrow> pixel_index ALIGNED_SIZE dx dy 0;
       sample_bilinear F src src_w src_h (fst (position dx dy)) (snd (position dx dy))
     }) [0..<ALIGNED_SIZE]) [0..<ALIGNED_SIZE])))"

definition warp_to_aligned :: "float_fns \<Rightarrow> nat list \<Rightarrow> nat \<Rightarrow> nat \<Rightarrow> affine_transform \<Rightarrow> nat list option" where
  "warp_to_aligned F src src_w src_h T =
     (let det = af_a T * af_d T - af_b T * af_c T
      in if \<bar>det\<bar> < 1 / 10 ^ 12 then Some (replicate (ALIGNED_SIZE * ALIGNED_SIZE * 3) 0)
         else
          (let inv_a = af_d T / det; inv_b = - af_b T / det; inv_c = - af_c T / det; inv_d = af_a T / det;
               inv_tx = - (inv_a * af_tx T + inv_b * af_ty T);
               inv_ty = - (inv_c * af_tx T + inv_d * af_ty T)
           in warp_pixels F src src_w src_h (\<lambda>dx dy.
                (Some (ff_round F (inv_a * of_nat dx + inv_b * of_nat dy + inv_tx)),
                 Some (ff_round F (inv_c * of_nat dx + inv_d * of_nat dy + inv_ty))))))"

definition align_face :: "float_fns \<Rightarrow> nat list \<Rightarrow> nat \<Rightarrow> nat \<Rightarrow> (rat \<times> rat) list \<Rightarrow> nat list option" where
  "align_face F src src_w src_h landmarks =
     warp_to_aligned F src src_w src_h (similarity_transform F landmarks REFERENCE_LANDMARKS)"

definition landmarks_of :: "face_box \<Rightarrow> (rat \<times> rat) list" where
  "landmarks_of b = [fb_right_eye b, fb_left_eye b, fb_nose b, fb_right_mouth b, fb_left_mouth b]"

section \<open>The pipeline on the networks\<close>

definition embed :: "app \<Rightarrow> (nat list \<Rightarrow> string + rat list) \<Rightarrow> nat list \<Rightarrow> (string + rat list) option" where
  "embed E run aligned_rgb =
     (let size = ALIGNED_SIZE * ALIGNED_SIZE * 3; ps = planes (take size aligned_rgb)
      in if length aligned_rgb < size then None
         else Some (case run (map fst ps @ map (fst \<circ> snd) ps @ map (snd \<circ> snd) ps) of
           Inl e \<Rightarrow> Inl e
         | Inr raw \<Rightarrow> Inr (l2_normalize E raw)))"

text \<open>
  The pipeline of \<open>OnnxBiometricProvider\<close>. A panic inside it would end the request; the value given
  for it here is never taken on a picture that was accepted on upload, as shown below.
\<close>

definition panic_text :: "(string + 'a) option \<Rightarrow> string + 'a" where
  "panic_text r = (case r of None \<Rightarrow> Inl ''panic'' | Some v \<Rightarrow> v)"

definition real_vision ::
  "app \<Rightarrow> float_fns \<Rightarrow> (string \<Rightarrow> string + (nat list \<times> nat \<times> nat)) \<Rightarrow>
     (nat list \<Rightarrow> string + (nat \<Rightarrow> stride_output)) \<Rightarrow> (nat list \<Rightarrow> string + rat list) \<Rightarrow> vision_pipeline" where
  "real_vision E F decode detector embedder =
     \<lparr>vp_decode = decode,
      vp_detect = (\<lambda>rgb width height. panic_text (detect F detector rgb width height)),
      vp_align = (\<lambda>rgb width height face.
        case align_face F rgb width height (landmarks_of face) of None \<Rightarrow> [] | Some aligned \<Rightarrow> aligned),
      vp_embed = (\<lambda>aligned. panic_text (embed E embedder aligned))\<rparr>"

section \<open>Reading stays inside the picture\<close>

text \<open>The bytes of a picture of the given size.\<close>

definition picture :: "nat \<Rightarrow> nat \<Rightarrow> nat list \<Rightarrow> bool" where
  "picture w h bytes \<longleftrightarrow> length bytes = w * h * 3 \<and> list_all (\<lambda>v. v \<le> 255) bytes"

text \<open>
  What is used of the rounding of IEEE 754 to single precision: it keeps the order, it leaves whole
  numbers and halves of up to 24 bits alone, and a normal number grows by less than one part in \<open>2^23\<close>.
\<close>

definition rounds_like_f32 :: "(rat \<Rightarrow> rat) \<Rightarrow> bool" where
  "rounds_like_f32 f32 \<longleftrightarrow> (\<forall>x y. x \<le> y \<longrightarrow> f32 x \<le> f32 y)
     \<and> (\<forall>k. \<bar>k\<bar> \<le> 2 ^ 24 \<longrightarrow> f32 (of_int k / 2) = of_int k / 2)
     \<and> (\<forall>x. 1 / 2 ^ 126 \<le> x \<longrightarrow> x \<le> 2 ^ 24 \<longrightarrow> f32 x \<le> x + x / 2 ^ 23)"

lemma rounds_mono: "rounds_like_f32 f32 \<Longrightarrow> x \<le> y \<Longrightarrow> f32 x \<le> f32 y"
  by (simp add: rounds_like_f32_def)

lemma rounds_half: "rounds_like_f32 f32 \<Longrightarrow> \<bar>k\<bar> \<le> 2 ^ 24 \<Longrightarrow> f32 (of_int k / 2) = of_int k / 2"
  by (simp add: rounds_like_f32_def)

lemma rounds_nat: "rounds_like_f32 f32 \<Longrightarrow> n \<le> 2 ^ 23 \<Longrightarrow> f32 (of_nat n) = of_nat n"
  using rounds_half [of f32 "2 * int n"] by simp

lemma rounds_up_little: "rounds_like_f32 f32 \<Longrightarrow> 1 / 2 ^ 126 \<le> x \<Longrightarrow> x \<le> 2 ^ 24 \<Longrightarrow> f32 x \<le> x + x / 2 ^ 23"
  unfolding rounds_like_f32_def by blast

text \<open>The last destination position falls short of the end of the source by half a pixel, rounding included.\<close>

lemma scaled_half_below:
  fixes s t r a :: rat
  assumes "0 < s" "0 < t" "t \<le> 2 ^ 22" "a \<le> t - 1 / 2" "0 \<le> a" "r \<le> s / t + s / t / 2 ^ 23"
  shows "a * r \<le> s"
proof -
  have "a * r \<le> (t - 1 / 2) * (s / t + s / t / 2 ^ 23)"
    using assms by (intro order_trans [OF mult_left_mono [OF assms(6)] mult_right_mono]) simp_all
  also have "\<dots> = s * ((1 - 1 / (2 * t)) * (1 + 1 / 2 ^ 23))" using assms(2) by (simp add: field_simps)
  also have "\<dots> \<le> s * 1"
  proof (rule mult_left_mono)
    have "1 / 2 ^ 23 \<le> 1 / (2 * t)" using assms(2,3) by (intro divide_left_mono) simp_all
    then have "(1 - 1 / (2 * t)) * (1 + 1 / 2 ^ 23) \<le> (1 - 1 / 2 ^ 23) * (1 + 1 / 2 ^ 23)"
      by (intro mult_right_mono) simp_all
    also have "\<dots> \<le> 1" by simp
    finally show "(1 - 1 / (2 * t)) * (1 + 1 / 2 ^ 23) \<le> 1" .
  qed (use assms(1) in simp)
  finally show ?thesis by simp
qed

lemma resize_position_inside:
  assumes F: "rounds_like_f32 (ff_round F)" and "0 < src_n" "src_n \<le> 2 ^ 22" "d < dst_n" "dst_n \<le> 2 ^ 22"
  shows "0 \<le> resize_position F src_n dst_n d" "resize_position F src_n dst_n d < of_nat src_n"
proof -
  let ?f = "ff_round F"
  define q :: rat where "q = of_nat src_n / of_nat dst_n"
  have nats: "?f (of_nat src_n) = of_nat src_n" "?f (of_nat dst_n) = of_nat dst_n" "?f (of_nat d) = of_nat d"
    using assms by (simp_all add: rounds_nat)
  have middle: "?f (of_nat d + 1 / 2) = of_nat d + 1 / 2"
    using rounds_half [OF F, of "2 * int d + 1"] assms(4,5) by (simp add: add_divide_distrib)
  have "1 / 2 ^ 22 \<le> q"
  proof -
    have "(1 :: rat) / 2 ^ 22 \<le> 1 / of_nat dst_n"
      using assms(4,5) of_nat_mono [OF assms(5), where 'a = rat] by (intro divide_left_mono) simp_all
    also have "\<dots> \<le> q" unfolding q_def using assms(2) by (intro divide_right_mono) simp_all
    finally show ?thesis .
  qed
  moreover have "q \<le> 2 ^ 22"
  proof -
    have "q \<le> of_nat src_n / 1" unfolding q_def using assms(4) by (intro divide_left_mono) simp_all
    also have "\<dots> \<le> 2 ^ 22" using of_nat_mono [OF assms(3), where 'a = rat] by simp
    finally show ?thesis .
  qed
  ultimately have ratio: "?f q \<le> q + q / 2 ^ 23" by (intro rounds_up_little [OF F]) simp_all
  have "of_nat d + 1 \<le> (of_nat dst_n :: rat)" using of_nat_mono [of "Suc d" dst_n, where 'a = rat] assms(4) by simp
  then have "(of_nat d + 1 / 2) * ?f q \<le> of_nat src_n"
    using assms of_nat_mono [OF assms(5), where 'a = rat] ratio unfolding q_def
    by (intro scaled_half_below [of _ "of_nat dst_n"]) simp_all
  then have "?f ((of_nat d + 1 / 2) * ?f q) \<le> of_nat src_n" using rounds_mono [OF F] nats(1) by metis
  then have "?f (?f ((of_nat d + 1 / 2) * ?f q) - 1 / 2) \<le> ?f (of_int (2 * int src_n - 1) / 2)"
    by (intro rounds_mono [OF F]) (simp add: diff_divide_distrib)
  also have "\<dots> = of_nat src_n - 1 / 2"
    using rounds_half [OF F, of "2 * int src_n - 1"] assms(2,3) by (simp add: diff_divide_distrib)
  finally show "resize_position F src_n dst_n d < of_nat src_n" "0 \<le> resize_position F src_n dst_n d"
    using assms(2) by (simp_all add: resize_position_def Let_def nats middle q_def max_def)
qed

lemma u32_below: "n < 2 ^ 32 \<Longrightarrow> u32 n = Some n"
  by (simp add: u32_def)

lemma floor_inside:
  assumes "0 \<le> z" "z < of_nat n" "n \<le> 2 ^ 32"
  shows "floor_as_u32 (Some z) < n"
proof -
  define k where "k = \<lfloor>z\<rfloor>"
  have "0 \<le> k" "k < int n" using assms(1,2) by (simp_all add: k_def floor_less_iff)
  moreover have "int n \<le> 2 ^ 32" using assms(3) by simp
  ultimately have "clamp 0 (2 ^ 32 - 1) k = k" "nat k < n" by (simp_all add: clamp_def)
  then show ?thesis by (simp only: floor_as_u32_def option.case k_def)
qed

lemma neighbours_inside:
  assumes "0 < n" "n < 2 ^ 32" "floor_as_u32 v < n"
  shows "\<exists>i0 i1 f. neighbours n v = Some (i0, i1, f) \<and> i0 < n \<and> i1 < n"
  using assms by (auto simp: neighbours_def Let_def u32_below u32_pred_def)

lemma pixel_index_below:
  assumes "x < w" "y < h" "ch < 3" "w * h * 3 < 2 ^ 32"
  shows "pixel_index w x y ch = Some ((y * w + x) * 3 + ch)" "(y * w + x) * 3 + ch < w * h * 3"
proof -
  have "y * w + x + 1 \<le> h * w" using assms(1,2) mult_le_mono1 [of "Suc y" h w] by simp
  then show below: "(y * w + x) * 3 + ch < w * h * 3" using assms(3) by (simp add: mult.commute)
  then have "(y * w + x) * 3 + ch < 2 ^ 32" using assms(4) by (rule less_trans)
  moreover have "m < n \<and> m + x < n \<and> (m + x) * 3 < n" if "(m + x) * 3 + ch < n" for m n using that by auto
  ultimately have "y * w < 2 ^ 32 \<and> y * w + x < 2 ^ 32 \<and> (y * w + x) * 3 < 2 ^ 32 \<and> (y * w + x) * 3 + ch < 2 ^ 32" by blast
  then show "pixel_index w x y ch = Some ((y * w + x) * 3 + ch)" by (simp add: pixel_index_def u32_below)
qed

lemma pixel_read:
  assumes "picture w h bytes" "w * h * 3 < 2 ^ 32" "x < w" "y < h" "ch < 3"
  obtains p where "Option.bind (pixel_index w x y ch) (byte_at bytes) = Some p"
  using pixel_index_below [OF assms(3-5,2)] assms(1) by (simp add: byte_at_def picture_def)

lemma round_byte_bound: "round_byte v \<le> 255"
proof -
  have "clamp 0 255 k \<le> 255" for k by (simp add: clamp_def)
  then show ?thesis unfolding round_byte_def by (metis nat_mono nat_numeral)
qed

lemma bilinear_inside:
  assumes "picture w h bytes" "w * h * 3 < 2 ^ 32" "x0 < w" "x1 < w" "y0 < h" "y1 < h" "ch < 3"
  shows "\<exists>v. bilinear bytes w (x0, x1, fx) (y0, y1, fy) ch = Some v \<and> v \<le> 255"
proof -
  obtain p00 p10 p01 p11 where
    "Option.bind (pixel_index w x0 y0 ch) (byte_at bytes) = Some p00"
    "Option.bind (pixel_index w x1 y0 ch) (byte_at bytes) = Some p10"
    "Option.bind (pixel_index w x0 y1 ch) (byte_at bytes) = Some p01"
    "Option.bind (pixel_index w x1 y1 ch) (byte_at bytes) = Some p11"
    using assms by (metis pixel_read)
  then show ?thesis unfolding bilinear_def prod.case
    by (simp only: Option.bind.bind_lunit ex_simps option.inject) (auto simp: round_byte_bound split: option.split)
qed

lemma those_map_all:
  assumes "\<And>x. x \<in> set xs \<Longrightarrow> \<exists>v. f x = Some v \<and> P v"
  shows "\<exists>vs. those (map f xs) = Some vs \<and> length vs = length xs \<and> list_all P vs"
  using assms
proof (induction xs)
  case (Cons x xs)
  then obtain v vs where "f x = Some v" "P v" "those (map f xs) = Some vs" "length vs = length xs" "list_all P vs"
    by (metis list.set_intros)
  then show ?case by simp
qed simp

lemma those_all:
  assumes "\<And>x. x \<in> set xs \<Longrightarrow> \<exists>v. x = Some v \<and> P v"
  shows "\<exists>vs. those xs = Some vs \<and> length vs = length xs \<and> list_all P vs"
  using those_map_all [of xs "\<lambda>x. x" P] assms by simp

lemma length_grid: "length (concat (map (\<lambda>dy. concat (map (\<lambda>dx. map (f dx dy) [0..<3]) [0..<w])) [0..<h])) = w * h * 3"
proof -
  have "length (concat (map (\<lambda>dx. map (f dx dy) [0..<3]) [0..<n])) = n * 3" for dy n by (induction n) simp_all
  then have row: "length (concat (map (\<lambda>dy. concat (map (\<lambda>dx. map (f dx dy) [0..<3]) [0..<w])) [0..<n])) = n * (w * 3)" for n
    by (induction n) simp_all
  show ?thesis unfolding row by simp
qed

text \<open>
  A size the indices can address: neither side is zero, both fit the exact range of the
  single-precision numbers, and the number of bytes fits \<open>u32\<close>.
\<close>

definition addressable :: "nat \<Rightarrow> nat \<Rightarrow> bool" where
  "addressable w h \<longleftrightarrow> 0 < w \<and> 0 < h \<and> w \<le> 2 ^ 22 \<and> h \<le> 2 ^ 22 \<and> w * h * 3 < 2 ^ 32"

lemma resize_stays_inside:
  assumes "rounds_like_f32 (ff_round F)" "picture w h src" "addressable w h" "addressable dst_w dst_h"
  shows "\<exists>out. resize_bilinear_rgb F src w h dst_w dst_h = Some out \<and> picture dst_w dst_h out"
proof -
  have cell: "\<exists>v. (do { y \<leftarrow> neighbours h (Some (resize_position F h dst_h dy));
        x \<leftarrow> neighbours w (Some (resize_position F w dst_w dx));
        _ \<leftarrow> pixel_index dst_w dx dy ch;
        bilinear src w x y ch }) = Some v \<and> v \<le> 255"
    if "dx < dst_w" "dy < dst_h" "ch < 3" for dx dy ch
  proof -
    have "floor_as_u32 (Some (resize_position F w dst_w dx)) < w" "floor_as_u32 (Some (resize_position F h dst_h dy)) < h"
      using assms that by (simp_all add: addressable_def floor_inside resize_position_inside)
    moreover have "0 < w" "w < 2 ^ 32" "0 < h" "h < 2 ^ 32" using assms(3) by (simp_all add: addressable_def)
    ultimately obtain y0 y1 fy x0 x1 fx where
      "neighbours h (Some (resize_position F h dst_h dy)) = Some (y0, y1, fy)" "y0 < h" "y1 < h"
      "neighbours w (Some (resize_position F w dst_w dx)) = Some (x0, x1, fx)" "x0 < w" "x1 < w"
      using neighbours_inside by metis
    moreover have "pixel_index dst_w dx dy ch = Some ((dy * dst_w + dx) * 3 + ch)"
      using that assms(4) by (intro pixel_index_below(1) [of _ _ _ dst_h]) (simp_all add: addressable_def)
    ultimately show ?thesis using bilinear_inside assms(2,3) that(3) by (simp add: addressable_def)
  qed
  have "dst_w * dst_h < 2 ^ 32" "dst_w * dst_h * 3 < 2 ^ 32" using assms(4) unfolding addressable_def by linarith+
  then show ?thesis
    using those_all [of "concat (map (\<lambda>dy. concat (map (\<lambda>dx. map (\<lambda>ch. do {
        y \<leftarrow> neighbours h (Some (resize_position F h dst_h dy));
        x \<leftarrow> neighbours w (Some (resize_position F w dst_w dx));
        _ \<leftarrow> pixel_index dst_w dx dy ch;
        bilinear src w x y ch }) [0..<3]) [0..<dst_w])) [0..<dst_h])" "\<lambda>v. v \<le> 255"] cell
    by (force simp: resize_bilinear_rgb_def picture_def length_grid u32_below)
qed

lemma sample_inside:
  assumes F: "rounds_like_f32 (ff_round F)" and P: "picture w h src" and A: "addressable w h"
  shows "\<exists>vs. sample_bilinear F src w h x y = Some vs \<and> length vs = 3 \<and> list_all (\<lambda>v. v \<le> 255) vs"
proof -
  have near: "\<exists>i0 i1 f. neighbours n v = Some (i0, i1, f) \<and> i0 < n \<and> i1 < n"
    if "0 < n" "n \<le> 2 ^ 22" "case v of None \<Rightarrow> True | Some z \<Rightarrow> 0 \<le> z \<and> z < ff_round F (of_nat (n - 1))" for n v
  proof (rule neighbours_inside)
    have "ff_round F (of_nat (n - 1)) = of_nat (n - 1)" using that(2) by (intro rounds_nat [OF F]) simp
    moreover have "(of_nat (n - 1) :: rat) < of_nat n" using that(1) by simp
    ultimately show "floor_as_u32 v < n"
      using that by (cases v) (simp add: floor_as_u32_def, simp add: floor_inside)
  qed (use that in simp_all)
  have corners: "\<exists>vs. those (map (bilinear src w (x0, x1, fx) (y0, y1, fy)) [0..<3]) = Some vs
      \<and> length vs = 3 \<and> list_all (\<lambda>v. v \<le> 255) vs"
    if "x0 < w" "x1 < w" "y0 < h" "y1 < h" for x0 x1 fx y0 y1 fy
    using those_map_all [of "[0..<3]" "bilinear src w (x0, x1, fx) (y0, y1, fy)" "\<lambda>v. v \<le> 255"]
      bilinear_inside [OF P _ that] A by (simp add: addressable_def)
  have "w \<noteq> 0" "h \<noteq> 0" using A by (simp_all add: addressable_def)
  then show ?thesis
    using near [of w x] near [of h y] corners A
    by (auto simp: sample_bilinear_def u32_pred_def Let_def addressable_def not_le not_less
      simp del: upt_Suc upt_rec_numeral split: option.splits)
qed

lemma length_square: "length (concat (map (\<lambda>dy. map (f dy) [0..<n]) [0..<m])) = m * n"
  by (induction m) simp_all

lemma warp_stays_inside:
  assumes "rounds_like_f32 (ff_round F)" "picture w h src" "addressable w h"
  shows "\<exists>out. warp_pixels F src w h position = Some out \<and> picture ALIGNED_SIZE ALIGNED_SIZE out"
proof -
  let ?read = "\<lambda>dx dy. do { _ \<leftarrow> pixel_index ALIGNED_SIZE dx dy 0;
    sample_bilinear F src w h (fst (position dx dy)) (snd (position dx dy)) }"
  let ?xs = "concat (map (\<lambda>dy. map (\<lambda>dx. ?read dx dy) [0..<ALIGNED_SIZE]) [0..<ALIGNED_SIZE])"
  have cell: "\<exists>vs. ?read dx dy = Some vs \<and> length vs = 3 \<and> list_all (\<lambda>b. b \<le> 255) vs"
    if "dx < ALIGNED_SIZE" "dy < ALIGNED_SIZE" for dx dy
    using pixel_index_below(1) [OF that, of 0] sample_inside [OF assms] by (simp add: ALIGNED_SIZE_def)
  have "\<exists>vs. those ?xs = Some vs \<and> length vs = length ?xs \<and> list_all (\<lambda>v. length v = 3 \<and> list_all (\<lambda>b. b \<le> 255) v) vs"
    by (rule those_all) (use cell in force)
  then show ?thesis
    by (auto simp: warp_pixels_def picture_def length_square length_concat list_all_iff sum_list_triv cong: map_cong)
qed

lemma align_face_stays_inside:
  assumes "rounds_like_f32 (ff_round F)" "picture w h src" "addressable w h"
  shows "\<exists>out. align_face F src w h landmarks = Some out \<and> picture ALIGNED_SIZE ALIGNED_SIZE out"
  using warp_stays_inside [OF assms] by (simp add: align_face_def warp_to_aligned_def Let_def picture_def list_all_iff)

section \<open>Suppression\<close>

lemma suppress_keeps: "suppress thr kept boxes = kept @ suppress thr [] (filter (\<lambda>b. \<not> list_ex (\<lambda>k. thr \<le> iou b k) kept) boxes)"
proof (induction boxes arbitrary: kept rule: measure_induct_rule [of length])
  case (less boxes)
  show ?case
  proof (cases boxes)
    case (Cons b bs)
    have len: "length bs < length boxes" using Cons by simp
    show ?thesis
    proof (cases "list_ex (\<lambda>k. thr \<le> iou b k) kept")
      case True
      then show ?thesis using less.IH [OF len, of kept] Cons by simp
    next
      case False
      let ?fresh = "filter (\<lambda>b. \<not> list_ex (\<lambda>k. thr \<le> iou b k) kept) bs"
      have len': "length ?fresh < length boxes" using len le_less_trans length_filter_le by blast
      have "suppress thr [b] ?fresh = [b] @ suppress thr [] (filter (\<lambda>c. \<not> thr \<le> iou c b) ?fresh)"
        using less.IH [OF len', of "[b]"] by simp
      moreover have "filter (\<lambda>c. \<not> list_ex (\<lambda>k. thr \<le> iou c k) (kept @ [b])) bs = filter (\<lambda>c. \<not> thr \<le> iou c b) ?fresh"
        by (auto intro: filter_cong)
      ultimately show ?thesis using less.IH [OF len, of "kept @ [b]"] False Cons by simp
    qed
  qed simp
qed

text \<open>The textbook form: take the best box, drop what overlaps it, go on with the rest.\<close>

function greedy :: "rat \<Rightarrow> face_box list \<Rightarrow> face_box list" where
  "greedy thr [] = []"
| "greedy thr (b # bs) = b # greedy thr (filter (\<lambda>c. iou c b < thr) bs)"
  by pat_completeness auto

termination
  by (relation "measure (\<lambda>(_, bs). length bs)") (simp_all add: le_imp_less_Suc length_filter_le)

lemma nms_greedy: "non_max_suppression boxes thr = greedy thr boxes"
proof (induction thr boxes rule: greedy.induct)
  case (2 thr b bs)
  then show ?case using suppress_keeps [of thr "[b]" bs] by (simp add: non_max_suppression_def not_le)
qed (simp add: non_max_suppression_def)

lemma greedy_subset: "set (greedy thr bs) \<subseteq> set bs"
  by (induction thr bs rule: greedy.induct) auto

lemma greedy_apart: "sorted_wrt (\<lambda>a b. iou b a < thr) (greedy thr bs)"
  by (induction thr bs rule: greedy.induct) (use greedy_subset in fastforce)+

lemma greedy_sorted: "sorted_wrt R bs \<Longrightarrow> sorted_wrt R (greedy thr bs)"
  by (induction thr bs rule: greedy.induct) (use greedy_subset in \<open>fastforce simp: sorted_wrt_filter\<close>)+

lemma greedy_covers:
  assumes "sorted_wrt R bs" "b \<in> set bs"
  shows "b \<in> set (greedy thr bs) \<or> (\<exists>k\<in>set (greedy thr bs). R k b \<and> thr \<le> iou b k)"
  using assms
proof (induction thr bs rule: greedy.induct)
  case (2 thr k bs)
  show ?case
  proof (cases "b \<in> set (filter (\<lambda>c. iou c k < thr) bs)")
    case True
    then show ?thesis using "2.IH" "2.prems"(1) by (auto simp: sorted_wrt_filter)
  qed (use "2.prems" in \<open>auto simp: not_less\<close>)
qed simp


text \<open>
  C39. Suppression equals the textbook procedure, for every threshold and every order of the boxes; of
  the boxes it keeps no two overlap by the threshold or more, and every box it drops overlaps a kept
  box that came before it - with the boxes in order of score, one at least as good.
\<close>

theorem suppression_keeps_the_best_apart:
  "non_max_suppression boxes thr = greedy thr boxes
    \<and> sorted_wrt (\<lambda>a b. iou b a < thr) (non_max_suppression boxes thr)
    \<and> (let best = sort_key (\<lambda>b. - fb_score b) boxes; kept = non_max_suppression best thr
       in list_all (\<lambda>b. b \<in> set kept \<or> list_ex (\<lambda>k. fb_score b \<le> fb_score k \<and> thr \<le> iou b k) kept) boxes)"
proof -
  let ?best = "sort_key (\<lambda>b. - fb_score b) boxes"
  have "sorted_wrt (\<lambda>a b. fb_score b \<le> fb_score a) ?best"
    using sorted_sort_key [of "\<lambda>b. - fb_score b" boxes] by (simp add: sorted_map)
  then show ?thesis using greedy_covers [of _ ?best] greedy_apart
    by (simp add: nms_greedy list_all_iff list_ex_iff Let_def) blast
qed

section \<open>Detection\<close>

lemma max_scale: "0 < (s :: rat) \<Longrightarrow> max (a * s) (b * s) = max a b * s" "0 < s \<Longrightarrow> min (a * s) (b * s) = min a b * s"
  by (auto simp: max_def min_def)

lemma iou_scale:
  assumes "0 < sx" "0 < sy"
  shows "iou (scale_box sx sy a) (scale_box sx sy b) = iou a b"
proof -
  define inter where "inter = max (min (fb_x a + fb_width a) (fb_x b + fb_width b) - max (fb_x a) (fb_x b)) 0
    * max (min (fb_y a + fb_height a) (fb_y b + fb_height b) - max (fb_y a) (fb_y b)) 0"
  define areas where "areas = fb_width a * fb_height a + fb_width b * fb_height b"
  have side: "max (min (x * s + w * s) (x' * s + w' * s) - max (x * s) (x' * s)) 0
      = max (min (x + w) (x' + w') - max x x') 0 * s" if "0 < s" for x w x' w' s :: rat
    using that max_scale(1) [of s "min (x + w) (x' + w') - max x x'" 0]
    by (simp add: max_scale left_diff_distrib flip: distrib_right)
  have "max (min (fb_x a * sx + fb_width a * sx) (fb_x b * sx + fb_width b * sx) - max (fb_x a * sx) (fb_x b * sx)) 0
      * max (min (fb_y a * sy + fb_height a * sy) (fb_y b * sy + fb_height b * sy) - max (fb_y a * sy) (fb_y b * sy)) 0
      = inter * (sx * sy)"
    unfolding side [OF assms(1)] side [OF assms(2)] inter_def by simp
  moreover have "fb_width a * sx * (fb_height a * sy) + fb_width b * sx * (fb_height b * sy) = areas * (sx * sy)"
    by (simp add: areas_def algebra_simps)
  moreover have iou: "iou a b = (if areas' - inter' \<le> 0 then 0 else inter' / (areas' - inter'))"
    if "max (min (fb_x a + fb_width a) (fb_x b + fb_width b) - max (fb_x a) (fb_x b)) 0
      * max (min (fb_y a + fb_height a) (fb_y b + fb_height b) - max (fb_y a) (fb_y b)) 0 = inter'"
      "fb_width a * fb_height a + fb_width b * fb_height b = areas'" for a b inter' areas'
    unfolding iou_def Let_def that ..
  ultimately have "iou (scale_box sx sy a) (scale_box sx sy b) =
      (if areas * (sx * sy) - inter * (sx * sy) \<le> 0 then 0
       else inter * (sx * sy) / (areas * (sx * sy) - inter * (sx * sy)))"
    by (intro iou) (simp_all add: scale_box_def)
  also have "areas * (sx * sy) - inter * (sx * sy) = (areas - inter) * (sx * sy)" by (simp add: left_diff_distrib)
  also have "(if (areas - inter) * (sx * sy) \<le> 0 then 0 else inter * (sx * sy) / ((areas - inter) * (sx * sy)))
      = (if areas - inter \<le> 0 then 0 else inter / (areas - inter))"
    using assms by (simp add: mult_le_0_iff)
  also have "\<dots> = iou a b" by (intro iou [symmetric]) (simp_all add: inter_def areas_def)
  finally show ?thesis .
qed

lemma decoded_score: "b \<in> set (decode_stride F out stride) \<Longrightarrow> SCORE_THRESHOLD \<le> fb_score b"
  by (auto simp: decode_stride_def Let_def map_filter_def decode_anchor_def split: if_splits)

text \<open>
  C22. Whatever the network answers, the faces reported for a picture come best first, each with a score
  of at least 0.9, and no two overlap by 0.3 or more in the coordinates of the picture: the rescaling
  that follows the suppression does not change how much two boxes overlap. There are at most 5000.
\<close>

theorem detected_faces_are_distinct:
  assumes "0 < width" "0 < height" "faces = faces_of F outputs width height"
  shows "sorted_wrt (\<lambda>a b. iou b a < NMS_IOU_THRESHOLD \<and> fb_score b \<le> fb_score a) faces
    \<and> list_all (\<lambda>b. SCORE_THRESHOLD \<le> fb_score b) faces \<and> length faces \<le> PRE_NMS_TOP_K"
proof -
  define candidates where "candidates = concat (map (\<lambda>stride. decode_stride F (outputs stride) stride) STRIDES)"
  define best where "best = take PRE_NMS_TOP_K (sort_key (\<lambda>b. - fb_score b) candidates)"
  define sx sy :: rat where "sx = of_nat width / of_nat INPUT_SIZE" and "sy = of_nat height / of_nat INPUT_SIZE"
  have pos: "0 < sx" "0 < sy" using assms(1,2) by (simp_all add: sx_def sy_def INPUT_SIZE_def)
  have faces: "faces = map (scale_box sx sy) (greedy NMS_IOU_THRESHOLD best)"
    unfolding assms(3) faces_of_def Let_def nms_greedy best_def candidates_def sx_def sy_def ..
  have "sorted_wrt (\<lambda>a b. fb_score b \<le> fb_score a) best"
    using sorted_sort_key [of "\<lambda>b. - fb_score b" candidates] by (simp add: best_def sorted_wrt_take sorted_map)
  then have order: "sorted_wrt (\<lambda>a b. fb_score b \<le> fb_score a) (greedy NMS_IOU_THRESHOLD best)" by (rule greedy_sorted)
  have "set best \<subseteq> set candidates" unfolding best_def by (metis set_sort set_take_subset)
  then have "SCORE_THRESHOLD \<le> fb_score b" if "b \<in> set (greedy NMS_IOU_THRESHOLD best)" for b
    using that greedy_subset decoded_score unfolding candidates_def by fastforce
  moreover have "length (greedy thr bs) \<le> length bs" for thr bs
    by (induction thr bs rule: greedy.induct) (auto intro: order_trans [OF _ length_filter_le])
  then have "length (greedy NMS_IOU_THRESHOLD best) \<le> PRE_NMS_TOP_K"
    by (metis best_def length_take min.cobounded2 order_trans)
  moreover have "sorted_wrt (\<lambda>a b. P a b \<and> Q a b) xs" if "sorted_wrt P xs" "sorted_wrt Q xs" for P Q and xs :: "face_box list"
    using that by (induction xs) auto
  from this [OF greedy_apart order]
  have "sorted_wrt (\<lambda>a b. iou b a < NMS_IOU_THRESHOLD \<and> fb_score b \<le> fb_score a) faces"
    by (simp add: faces sorted_wrt_map iou_scale [OF pos]) (simp add: scale_box_def)
  ultimately show ?thesis by (simp add: faces list_all_iff scale_box_def)
qed

definition demo_floats :: float_fns where
  "demo_floats = \<lparr>ff_sqrt = (\<lambda>x. if x = 256 then 16 else x), ff_exp = (\<lambda>x. 1 + x), ff_atan2 = (\<lambda>y x. 0),
     ff_sin = (\<lambda>t. 0), ff_cos = (\<lambda>t. 1), ff_round = (\<lambda>x. x)\<rparr>"

theorem detected_faces_are_distinct_witness:
  "sorted_wrt (\<lambda>a b. iou b a < NMS_IOU_THRESHOLD \<and> fb_score b \<le> fb_score a)
     (faces_of demo_floats (\<lambda>_. \<lparr>so_cls = (\<lambda>_. 1), so_obj = (\<lambda>_. 1), so_bbox = (\<lambda>_. 0), so_kps = (\<lambda>_. 0)\<rparr>) 1280 640)"
  using detected_faces_are_distinct [of 1280 640, OF _ _ refl] by simp

section \<open>The similarity transform\<close>

text \<open>How far a transform leaves the source points from the destination points.\<close>

definition fit_error :: "affine_transform \<Rightarrow> (rat \<times> rat) list \<Rightarrow> (rat \<times> rat) list \<Rightarrow> rat" where
  "fit_error T src dst = (\<Sum>i\<leftarrow>[0..<length src].
     (fst (apply_transform T (src ! i)) - fst (dst ! i)) ^ 2 + (snd (apply_transform T (src ! i)) - snd (dst ! i)) ^ 2)"

text \<open>Rotations with a scale, followed by a translation.\<close>

definition similarity :: "rat \<Rightarrow> rat \<Rightarrow> rat \<Rightarrow> rat \<Rightarrow> affine_transform" where
  "similarity p q u v = \<lparr>af_a = p, af_b = - q, af_c = q, af_d = p, af_tx = u, af_ty = v\<rparr>"

text \<open>Square root, \<open>atan2\<close>, sine and cosine are exact for the vector of the two sums: polar coordinates.\<close>

definition exact_polar :: "float_fns \<Rightarrow> rat \<Rightarrow> rat \<Rightarrow> bool" where
  "exact_polar F a b \<longleftrightarrow> ff_sqrt F (a * a + b * b) * ff_cos F (ff_atan2 F b a) = a
     \<and> ff_sqrt F (a * a + b * b) * ff_sin F (ff_atan2 F b a) = b"

lemma sum_over: "(\<Sum>i\<leftarrow>[0..<n]. f i) = (\<Sum>i<n. f i)"
  by (simp add: interv_sum_list_conv_sum_set_nat atLeast0LessThan)

lemma sum_centered: "ps \<noteq> [] \<Longrightarrow> (\<Sum>i<length ps. fst (ps ! i) - mean_x ps) = 0" "ps \<noteq> [] \<Longrightarrow> (\<Sum>i<length ps. snd (ps ! i) - mean_y ps) = 0"
  by (simp_all add: sum_subtractf mean_x_def mean_y_def sum_list_sum_nth atLeast0LessThan)

lemma sum_shifted_squares:
  fixes e :: "nat \<Rightarrow> rat"
  assumes "(\<Sum>i<n. e i) = 0"
  shows "(\<Sum>i<n. (e i + k) ^ 2) = (\<Sum>i<n. e i ^ 2) + of_nat n * k ^ 2"
proof -
  have "(\<Sum>i<n. (e i + k) ^ 2) = (\<Sum>i<n. e i ^ 2) + 2 * k * (\<Sum>i<n. e i) + of_nat n * k ^ 2"
    by (simp add: power2_sum sum.distrib sum_distrib_left mult.commute mult.left_commute)
  then show ?thesis using assms by simp
qed

lemma sum_linear:
  fixes f g h r :: "nat \<Rightarrow> rat"
  shows "(\<Sum>i<n. c * f i - 2 * (p * g i + q * h i) + r i) =
    c * (\<Sum>i<n. f i) - 2 * (p * (\<Sum>i<n. g i) + q * (\<Sum>i<n. h i)) + (\<Sum>i<n. r i)"
  by (simp add: sum.distrib sum_subtractf sum_distrib_left algebra_simps)

lemma fit_error_of_similarity:
  assumes "length src = length dst" "src \<noteq> []"
  shows "\<exists>r. \<forall>p q u v. fit_error (similarity p q u v) src dst =
    (p ^ 2 + q ^ 2) * src_var src - 2 * (p * dot_sum src dst + q * cross_sum src dst) + r
    + of_nat (length src) * (p * mean_x src - q * mean_y src + u - mean_x dst) ^ 2
    + of_nat (length src) * (q * mean_x src + p * mean_y src + v - mean_y dst) ^ 2"
proof (intro exI allI)
  fix p q u v
  define n where "n = length src"
  define X Y D E where "X = (\<lambda>i. fst (src ! i) - mean_x src)" and "Y = (\<lambda>i. snd (src ! i) - mean_y src)"
    and "D = (\<lambda>i. fst (dst ! i) - mean_x dst)" and "E = (\<lambda>i. snd (dst ! i) - mean_y dst)"
  have zero: "(\<Sum>i<n. X i) = 0" "(\<Sum>i<n. Y i) = 0" "(\<Sum>i<n. D i) = 0" "(\<Sum>i<n. E i) = 0"
    using sum_centered [of src] sum_centered [of dst] assms unfolding n_def X_def Y_def D_def E_def by (simp_all flip: length_greater_0_conv)
  let ?k = "p * mean_x src - q * mean_y src + u - mean_x dst" and ?l = "q * mean_x src + p * mean_y src + v - mean_y dst"
  have "fit_error (similarity p q u v) src dst
      = (\<Sum>i<n. (p * X i - q * Y i - D i + ?k) ^ 2) + (\<Sum>i<n. (q * X i + p * Y i - E i + ?l) ^ 2)"
    unfolding fit_error_def sum_over sum.distrib [symmetric] n_def [symmetric]
    by (intro sum.cong refl) (simp add: similarity_def apply_transform_def X_def Y_def D_def E_def case_prod_beta algebra_simps)
  also have "\<dots> = (\<Sum>i<n. (p * X i - q * Y i - D i) ^ 2) + of_nat n * ?k ^ 2
      + ((\<Sum>i<n. (q * X i + p * Y i - E i) ^ 2) + of_nat n * ?l ^ 2)"
  proof -
    have "(\<Sum>i<n. p * X i - q * Y i - D i) = 0" "(\<Sum>i<n. q * X i + p * Y i - E i) = 0"
      using zero by (simp_all add: sum.distrib sum_subtractf sum_distrib_left [symmetric])
    then show ?thesis by (simp only: sum_shifted_squares)
  qed
  also have "(\<Sum>i<n. (p * X i - q * Y i - D i) ^ 2) + of_nat n * ?k ^ 2
      + ((\<Sum>i<n. (q * X i + p * Y i - E i) ^ 2) + of_nat n * ?l ^ 2)
      = (\<Sum>i<n. (p * X i - q * Y i - D i) ^ 2 + (q * X i + p * Y i - E i) ^ 2) + of_nat n * ?k ^ 2 + of_nat n * ?l ^ 2"
    by (simp add: sum.distrib)
  also have "(\<Sum>i<n. (p * X i - q * Y i - D i) ^ 2 + (q * X i + p * Y i - E i) ^ 2)
      = (\<Sum>i<n. (p ^ 2 + q ^ 2) * (X i * X i + Y i * Y i) - 2 * (p * (D i * X i + E i * Y i) + q * (E i * X i - D i * Y i))
          + (D i ^ 2 + E i ^ 2))"
    by (intro sum.cong refl) (simp add: power2_eq_square algebra_simps)
  also have "\<dots> = (p ^ 2 + q ^ 2) * src_var src - 2 * (p * dot_sum src dst + q * cross_sum src dst) + (\<Sum>i<n. D i ^ 2 + E i ^ 2)"
    unfolding sum_linear src_var_def dot_sum_def cross_sum_def sum_over n_def X_def Y_def D_def E_def ..
  finally show "fit_error (similarity p q u v) src dst =
    (p ^ 2 + q ^ 2) * src_var src - 2 * (p * dot_sum src dst + q * cross_sum src dst)
    + (\<Sum>i<length src. (fst (dst ! i) - mean_x dst) ^ 2 + (snd (dst ! i) - mean_y dst) ^ 2)
    + of_nat (length src) * ?k ^ 2 + of_nat (length src) * ?l ^ 2"
    unfolding n_def D_def E_def by simp
qed

text \<open>
  C21. The transform of the alignment is the best one: no rotation, scale and translation brings the
  landmarks closer, in the sum of squared distances, to the reference points. This holds whenever the
  landmarks are not all the same point and the square root and trigonometric functions are exact for
  the two sums.
\<close>

theorem similarity_transform_is_optimal:
  assumes "length src = length dst" "src \<noteq> []" "VARIANCE_EPSILON < src_var src"
    and "exact_polar F (dot_sum src dst) (cross_sum src dst)"
  shows "fit_error (similarity_transform F src dst) src dst \<le> fit_error (similarity p q u v) src dst"
proof -
  let ?A = "dot_sum src dst" and ?B = "cross_sum src dst" and ?V = "src_var src"
  have V: "0 < ?V" using assms(3) by (simp add: VARIANCE_EPSILON_def)
  obtain r where r: "\<And>p q u v. fit_error (similarity p q u v) src dst =
    (p ^ 2 + q ^ 2) * ?V - 2 * (p * ?A + q * ?B) + r
    + of_nat (length src) * (p * mean_x src - q * mean_y src + u - mean_x dst) ^ 2
    + of_nat (length src) * (q * mean_x src + p * mean_y src + v - mean_y dst) ^ 2"
    using fit_error_of_similarity [OF assms(1,2)] by blast
  define a b where "a = ?A / ?V" and "b = ?B / ?V"
  have ab: "?A = a * ?V" "?B = b * ?V" using V by (simp_all add: a_def b_def)
  have "similarity_transform F src dst = similarity a b (mean_x dst - (a * mean_x src - b * mean_y src))
      (mean_y dst - (b * mean_x src + a * mean_y src))"
    using assms(3,4) unfolding exact_polar_def
    by (simp add: similarity_transform_def similarity_def Let_def a_def b_def algebra_simps)
  then have "fit_error (similarity_transform F src dst) src dst = r - (a ^ 2 + b ^ 2) * ?V"
    by (simp add: r ab power2_eq_square algebra_simps)
  moreover have "fit_error (similarity p q u v) src dst - (r - (a ^ 2 + b ^ 2) * ?V)
      = ?V * ((p - a) ^ 2 + (q - b) ^ 2)
      + of_nat (length src) * (p * mean_x src - q * mean_y src + u - mean_x dst) ^ 2
      + of_nat (length src) * (q * mean_x src + p * mean_y src + v - mean_y dst) ^ 2"
    by (simp only: r ab) (simp add: power2_eq_square algebra_simps)
  moreover have "0 \<le> \<dots>" using V by (intro add_nonneg_nonneg mult_nonneg_nonneg) simp_all
  ultimately show ?thesis by linarith
qed

theorem similarity_transform_is_optimal_witness:
  "fit_error (similarity_transform demo_floats [(1, 1), (- 1, 1), (0, 0), (1, - 1), (- 1, - 1)]
       [(2, 2), (- 2, 2), (0, 0), (2, - 2), (- 2, - 2)])
     [(1, 1), (- 1, 1), (0, 0), (1, - 1), (- 1, - 1)] [(2, 2), (- 2, 2), (0, 0), (2, - 2), (- 2, - 2)]
   \<le> fit_error (similarity 1 0 0 0) [(1, 1), (- 1, 1), (0, 0), (1, - 1), (- 1, - 1)]
     [(2, 2), (- 2, 2), (0, 0), (2, - 2), (- 2, - 2)]"
  by (rule similarity_transform_is_optimal)
    (simp_all add: demo_floats_def exact_polar_def dot_sum_def cross_sum_def src_var_def mean_x_def mean_y_def
      VARIANCE_EPSILON_def upt_rec)

section \<open>The whole pipeline\<close>

lemma length_planes: "length (planes bytes) = length bytes div 3"
  by (induction bytes rule: planes.induct) simp_all

lemma length_to_grayscale: "length (to_grayscale bytes) = length bytes div 3"
  by (induction bytes rule: to_grayscale.induct) simp_all

text \<open>The decoder gives back a picture of the size that was encoded, with its bytes.\<close>

definition decodes_what_was_encoded ::
  "image_codec \<Rightarrow> (string \<Rightarrow> string + (nat list \<times> nat \<times> nat)) \<Rightarrow> bool" where
  "decodes_what_was_encoded C decode \<longleftrightarrow> (\<forall>decoded png rgb w h. io_encode_png C decoded = Some png \<longrightarrow>
     decode png = Inr (rgb, w, h) \<longrightarrow> w = ra_width decoded \<and> h = ra_height decoded \<and> picture w h rgb)"

lemma accepted_picture:
  assumes "validate_and_sanitize_probe_image C bytes = Inr png" "decodes_what_was_encoded C decode"
    "decode png = Inr (rgb, w, h)"
  shows "picture w h rgb" "addressable w h"
proof -
  obtain decoded where "io_encode_png C decoded = Some png" and size:
    "32 \<le> ra_width decoded" "ra_width decoded \<le> 8000" "32 \<le> ra_height decoded" "ra_height decoded \<le> 8000"
    "ra_width decoded * ra_height decoded \<le> 40000000"
    using accepted_images_are_reencoded_and_bounded [OF assms(1)] by auto
  then have "w = ra_width decoded" "h = ra_height decoded" "picture w h rgb"
    using assms(2,3) unfolding decodes_what_was_encoded_def by blast+
  then show "picture w h rgb" "addressable w h" using size by (simp_all add: addressable_def)
qed

text \<open>
  C20. On every picture that passed the upload validation, the index arithmetic of the pipeline stays in
  \<open>u32\<close> and inside the buffers: the detector's input is built, and a face is cut out whatever
  positions the warp reads - also when a rounding moved them or they are not a number. The cut is
  a picture of 112 by 112, which the quality gate and the embedding index without a check. The decoder
  is taken to return what the encoder was given, and the rounding to \<open>f32\<close> to be that of IEEE 754; the
  networks' tensors are not part of the statement.
\<close>

theorem pixel_reads_stay_inside:
  assumes "validate_and_sanitize_probe_image C bytes = Inr png"
    and "decodes_what_was_encoded C decode" and "decode png = Inr (rgb, w, h)"
    and "rounds_like_f32 (ff_round F)"
  shows "\<exists>tensor aligned. build_input_tensor F rgb w h = Some tensor \<and> length tensor = 3 * INPUT_SIZE * INPUT_SIZE
    \<and> warp_pixels F rgb w h position = Some aligned \<and> picture ALIGNED_SIZE ALIGNED_SIZE aligned
    \<and> align_face F rgb w h landmarks \<noteq> None
    \<and> length (to_grayscale aligned) = ALIGNED_SIZE * ALIGNED_SIZE \<and> embed E embedder aligned \<noteq> None"
proof -
  note inside = assms(4) accepted_picture [OF assms(1-3)]
  obtain input where "resize_bilinear_rgb F rgb w h INPUT_SIZE INPUT_SIZE = Some input" "picture INPUT_SIZE INPUT_SIZE input"
    using resize_stays_inside [OF inside, of INPUT_SIZE INPUT_SIZE] by (auto simp: addressable_def INPUT_SIZE_def)
  moreover obtain aligned where "warp_pixels F rgb w h position = Some aligned" "picture ALIGNED_SIZE ALIGNED_SIZE aligned"
    using warp_stays_inside [OF inside] by blast
  ultimately show ?thesis using align_face_stays_inside [OF inside, of landmarks]
    by (auto simp: build_input_tensor_def embed_def picture_def length_planes length_to_grayscale Let_def)
qed

lemma demo_floats_round: "rounds_like_f32 (ff_round demo_floats)"
  by (simp add: rounds_like_f32_def demo_floats_def)

definition demo_decode :: "string \<Rightarrow> string + (nat list \<times> nat \<times> nat)" where
  "demo_decode png = Inr (replicate (64 * 64 * 3) 7, 64, 64)"

definition demo_grey_codec :: image_codec where
  "demo_grey_codec = demo_codec\<lparr>io_encode_png := (\<lambda>r. if ra_width r = 64 \<and> ra_height r = 64 then Some ''png'' else None)\<rparr>"

lemma demo_decodes: "decodes_what_was_encoded demo_grey_codec demo_decode"
  by (simp add: decodes_what_was_encoded_def demo_grey_codec_def demo_decode_def picture_def list_all_iff)

lemma demo_accepted: "validate_and_sanitize_probe_image demo_grey_codec [CHR 0xFF, CHR 0xD8, CHR 0xFF] = Inr ''png''"
  by (simp add: validate_and_sanitize_probe_image_def sniff_format_def demo_grey_codec_def demo_codec_def
      MAX_IMAGE_BYTES_def MIN_DIMENSION_def MAX_DIMENSION_def MAX_PIXELS_def)

theorem pixel_reads_stay_inside_witness:
  "\<exists>tensor aligned. build_input_tensor demo_floats (replicate (64 * 64 * 3) 7) 64 64 = Some tensor
    \<and> length tensor = 3 * INPUT_SIZE * INPUT_SIZE
    \<and> warp_pixels demo_floats (replicate (64 * 64 * 3) 7) 64 64 (\<lambda>dx dy. (Some (of_nat dx / 2), None)) = Some aligned
    \<and> picture ALIGNED_SIZE ALIGNED_SIZE aligned
    \<and> align_face demo_floats (replicate (64 * 64 * 3) 7) 64 64 [(20, 20), (40, 20), (30, 30), (22, 40), (38, 40)] \<noteq> None
    \<and> length (to_grayscale aligned) = ALIGNED_SIZE * ALIGNED_SIZE \<and> embed demo_app (\<lambda>_. Inl ''no session'') aligned \<noteq> None"
  by (rule pixel_reads_stay_inside [OF demo_accepted demo_decodes _ demo_floats_round]) (simp add: demo_decode_def)

lemma first_error_None: "first_error checks = None \<longleftrightarrow> list_all (\<lambda>c. c = None) checks"
  unfolding first_error_def by (induction checks) (auto split: option.splits)

text \<open>
  A probe or a reference photo gets an embedding only after every gate: the detector reported exactly
  one face, with the demanded confidence, at least a tenth of the shorter side of the picture high and
  turned to the camera; its alignment is neither dark, bright nor blurred; and the embedding is the
  normalized answer of the network for it.
\<close>

theorem accepted_faces_passed_every_gate:
  assumes "picture w h rgb" "addressable w h" "rounds_like_f32 (ff_round F)"
  shows "case process_image (real_vision E F decode detector embedder) rgb w h min_confidence of
      Inl _ \<Rightarrow> True
    | Inr (embedding, score) \<Rightarrow>
        \<exists>face aligned. detect F detector rgb w h = Some (Inr [face]) \<and> score = fb_score face \<and> min_confidence \<le> score
          \<and> MIN_FACE_SIZE_RATIO * of_nat (min w h) \<le> fb_height face \<and> check_pose face = None
          \<and> align_face F rgb w h (landmarks_of face) = Some aligned \<and> length aligned = ALIGNED_SIZE * ALIGNED_SIZE * 3
          \<and> MIN_MEAN_BRIGHTNESS \<le> mean (to_grayscale aligned) \<and> mean (to_grayscale aligned) \<le> MAX_MEAN_BRIGHTNESS
          \<and> MIN_LAPLACIAN_VARIANCE \<le> laplacian_variance (to_grayscale aligned) ALIGNED_SIZE ALIGNED_SIZE
          \<and> embed E embedder aligned = Some (Inr embedding)"
proof (cases "process_image (real_vision E F decode detector embedder) rgb w h min_confidence")
  case (Inr r)
  obtain input where "resize_bilinear_rgb F rgb w h INPUT_SIZE INPUT_SIZE = Some input"
    using resize_stays_inside [OF assms(3,1,2), of INPUT_SIZE INPUT_SIZE] by (auto simp: addressable_def INPUT_SIZE_def)
  then obtain faces where faces: "detect F detector rgb w h = Some faces" by (auto simp: detect_def build_input_tensor_def)
  have "\<exists>face. faces = Inr [face]"
    using Inr faces by (auto simp: process_image_def real_vision_def panic_text_def Let_def split: sum.splits list.splits if_splits)
  then obtain face where face: "faces = Inr [face]" ..
  obtain aligned where aligned: "align_face F rgb w h (landmarks_of face) = Some aligned" "length aligned = ALIGNED_SIZE * ALIGNED_SIZE * 3"
    using align_face_stays_inside [OF assms(3,1,2)] by (auto simp: picture_def)
  show ?thesis
    using Inr faces face aligned assms(2)
    by (auto simp: process_image_def real_vision_def panic_text_def Let_def first_error_None check_detection_confidence_def
        check_face_size_def check_blur_and_lighting_def embed_def addressable_def not_less le_divide_eq
        split: sum.splits option.splits if_splits)
qed simp

theorem accepted_faces_passed_every_gate_witness:
  "case process_image (real_vision demo_app demo_floats (\<lambda>_. Inl []) (\<lambda>_. Inl []) (\<lambda>_. Inl [])) (replicate 12 7) 2 2 (9 / 10) of
      Inl _ \<Rightarrow> True
    | Inr (embedding, score) \<Rightarrow> 9 / 10 \<le> score"
  using accepted_faces_passed_every_gate [where w = 2 and h = 2 and rgb = "replicate 12 7" and min_confidence = "9 / 10"
    and E = demo_app and F = demo_floats
    and decode = "\<lambda>_. Inl []" and detector = "\<lambda>_. Inl []" and embedder = "\<lambda>_. Inl []"]
  by (auto simp: picture_def addressable_def list_all_iff demo_floats_round split: sum.splits)

end
