(* ===== verification/Face_Models.thy ===== *)
theory Face_Models
  imports Biometric Demo
begin

text \<open>
  \<open>server/src/biometric/models.rs\<close> and \<open>OnnxBiometricProvider::initialize\<close>: the networks are downloaded
  once, kept in a cache directory and checked against a pinned SHA-256 before each use. The state is
  the file system: the bytes of each file. Which operation fails with which message, and the answer of
  the download, are given.
\<close>

section \<open>The models\<close>

record model_spec =
  ms_file_name :: string
  ms_url :: string
  ms_sha256 :: string
  ms_license :: string

definition YUNET :: model_spec where
  "YUNET = \<lparr>ms_file_name = ''face_detection_yunet_2023mar.onnx'',
     ms_url = ''https://media.githubusercontent.com/media/opencv/opencv_zoo/main/models/face_detection_yunet/face_detection_yunet_2023mar.onnx'',
     ms_sha256 = ''8f2383e4dd3cfbb4553ea8718107fc0423210dc964f9f4280604804ed2552fa4'',
     ms_license = ''Apache-2.0''\<rparr>"

definition SFACE :: model_spec where
  "SFACE = \<lparr>ms_file_name = ''face_recognition_sface_2021dec.onnx'',
     ms_url = ''https://media.githubusercontent.com/media/opencv/opencv_zoo/main/models/face_recognition_sface/face_recognition_sface_2021dec.onnx'',
     ms_sha256 = ''0ba9fbfa01b5270c96627c4ef784da859931e02f04419c829e83484087c34e79'',
     ms_license = ''MIT''\<rparr>"

datatype model_error = ModelIo string | ModelHttp string | HashMismatch string string

fun model_error_text :: "model_error \<Rightarrow> string" where
  "model_error_text (ModelIo msg) = ''model I/O error: '' @ msg"
| "model_error_text (ModelHttp msg) = ''model download error: '' @ msg"
| "model_error_text (HashMismatch expected actual) =
     ''model hash mismatch: expected '' @ expected @ '', got '' @ actual"

section \<open>The surroundings\<close>

datatype file_op = CreateDir | ReadFile | RemoveFile | WriteFile | RenameFile

type_synonym files = "string \<Rightarrow> string option"

text \<open>The answer of the download: a transport error, or a status with a body that may break off.\<close>

record model_host =
  mh_env :: "string \<Rightarrow> string option"
  mh_fails :: "file_op \<Rightarrow> string \<Rightarrow> string option"
  mh_get :: "string \<Rightarrow> string + (nat \<times> (string + string))"
  mh_status_text :: "nat \<Rightarrow> string"

definition cache_dir :: "model_host \<Rightarrow> string" where
  "cache_dir H = (case mh_env H ''MODEL_CACHE_DIR'' of Some d \<Rightarrow> d | None \<Rightarrow> ''./data/models'')"

definition path_join :: "string \<Rightarrow> string \<Rightarrow> string" where
  "path_join d f = (if d = [] \<or> last d = CHR ''/'' then d @ f else d @ ''/'' @ f)"

text \<open>\<open>Path::with_extension\<close> on a file name that has an extension.\<close>

definition with_extension :: "string \<Rightarrow> string \<Rightarrow> string" where
  "with_extension p ext = rev (tl (dropWhile (\<lambda>c. c \<noteq> CHR ''.'') (rev p))) @ ''.'' @ ext"

section \<open>Fetching and verifying\<close>

definition write_model :: "model_host \<Rightarrow> string \<Rightarrow> string \<Rightarrow> files \<Rightarrow> (model_error + unit) \<times> files" where
  "write_model H dest bytes fs =
     (let tmp = with_extension dest ''onnx.partial''
      in case mh_fails H WriteFile tmp of
           Some e \<Rightarrow> (Inl (ModelIo e), fs)
         | None \<Rightarrow>
             (case mh_fails H RenameFile tmp of
                Some e \<Rightarrow> (Inl (ModelIo e), fs(tmp \<mapsto> bytes))
              | None \<Rightarrow> (Inr (), fs(tmp := None, dest \<mapsto> bytes))))"

definition download_and_verify ::
  "app \<Rightarrow> model_host \<Rightarrow> model_spec \<Rightarrow> string \<Rightarrow> files \<Rightarrow> (model_error + unit) \<times> files" where
  "download_and_verify E H spec dest fs =
     (case mh_get H (ms_url spec) of
        Inl e \<Rightarrow> (Inl (ModelHttp e), fs)
      | Inr (status, body) \<Rightarrow>
          if \<not> (200 \<le> status \<and> status \<le> 299)
          then (Inl (ModelHttp (''unexpected status '' @ mh_status_text H status @ '' fetching '' @ ms_url spec)), fs)
          else (case body of
            Inl e \<Rightarrow> (Inl (ModelHttp e), fs)
          | Inr bytes \<Rightarrow>
              if sha256_hex E bytes \<noteq> ms_sha256 spec
              then (Inl (HashMismatch (ms_sha256 spec) (sha256_hex E bytes)), fs)
              else write_model H dest bytes fs))"

definition ensure_model :: "app \<Rightarrow> model_host \<Rightarrow> model_spec \<Rightarrow> files \<Rightarrow> (model_error + string) \<times> files" where
  "ensure_model E H spec fs =
     (let dir = cache_dir H; path = path_join dir (ms_file_name spec);
          download = (\<lambda>fs. case download_and_verify E H spec path fs of
            (Inl e, fs) \<Rightarrow> (Inl e, fs) | (Inr _, fs) \<Rightarrow> (Inr path, fs))
      in case mh_fails H CreateDir dir of
           Some e \<Rightarrow> (Inl (ModelIo e), fs)
         | None \<Rightarrow>
             (case fs path of
                None \<Rightarrow> download fs
              | Some bytes \<Rightarrow>
                  (case mh_fails H ReadFile path of
                     Some e \<Rightarrow> (Inl (ModelIo e), fs)
                   | None \<Rightarrow>
                       if sha256_hex E bytes = ms_sha256 spec then (Inr path, fs)
                       else download (if mh_fails H RemoveFile path = None then fs(path := None) else fs))))"

text \<open>\<open>load\<close> builds a session from the bytes of a file, or says why it cannot.\<close>

definition load_session :: "(string \<Rightarrow> string + 'm) \<Rightarrow> files \<Rightarrow> string \<Rightarrow> biometric_error + 'm" where
  "load_session load fs path =
     (case fs path of
        None \<Rightarrow> Inl (BiometricUnavailable ''no such file'')
      | Some bytes \<Rightarrow> (case load bytes of Inl e \<Rightarrow> Inl (BiometricUnavailable e) | Inr m \<Rightarrow> Inr m))"

definition initialize ::
  "app \<Rightarrow> model_host \<Rightarrow> (string \<Rightarrow> string + 'd) \<Rightarrow> (string \<Rightarrow> string + 'e) \<Rightarrow> files \<Rightarrow>
     (biometric_error + 'd \<times> 'e) \<times> files" where
  "initialize E H load_detector load_embedder fs =
     (case ensure_model E H YUNET fs of
        (Inl e, fs) \<Rightarrow> (Inl (BiometricUnavailable (model_error_text e)), fs)
      | (Inr yunet_path, fs) \<Rightarrow>
          (case ensure_model E H SFACE fs of
             (Inl e, fs) \<Rightarrow> (Inl (BiometricUnavailable (model_error_text e)), fs)
           | (Inr sface_path, fs) \<Rightarrow>
               (case load_session load_detector fs yunet_path of
                  Inl e \<Rightarrow> (Inl e, fs)
                | Inr detector \<Rightarrow>
                    (case load_session load_embedder fs sface_path of
                       Inl e \<Rightarrow> (Inl e, fs)
                     | Inr embedder \<Rightarrow> (Inr (detector, embedder), fs)))))"

section \<open>Only verified models run\<close>

definition model_path :: "model_host \<Rightarrow> model_spec \<Rightarrow> string" where
  "model_path H spec = path_join (cache_dir H) (ms_file_name spec)"

lemma ensure_model_verified:
  assumes "ensure_model E H spec fs = (Inr path, fs')"
  shows "path = model_path H spec \<and> (\<exists>bytes. fs' path = Some bytes \<and> sha256_hex E bytes = ms_sha256 spec)"
  using assms
  by (auto simp: ensure_model_def download_and_verify_def write_model_def model_path_def Let_def
      split: option.splits sum.splits if_splits prod.splits)

lemma ensure_model_leaves_others:
  assumes "ensure_model E H spec fs = (r, fs')"
    and "p \<noteq> model_path H spec" "p \<noteq> with_extension (model_path H spec) ''onnx.partial''"
  shows "fs' p = fs p"
  using assms
  by (auto simp: ensure_model_def download_and_verify_def write_model_def model_path_def Let_def
      split: option.splits sum.splits if_splits prod.splits)

lemma join_injective: "path_join d f = path_join d g \<longleftrightarrow> f = g"
  by (simp add: path_join_def)

lemma with_extension_join: "CHR ''.'' \<notin> set ext \<Longrightarrow> with_extension (path_join d (f @ ''.'' @ ext)) e = path_join d (f @ ''.'' @ e)"
proof -
  assume "CHR ''.'' \<notin> set ext"
  then have "dropWhile (\<lambda>c. c \<noteq> CHR ''.'') (rev ext @ CHR ''.'' # r) = CHR ''.'' # r" for r
    by (subst dropWhile_append2) auto
  then show ?thesis by (simp add: with_extension_def path_join_def)
qed

lemma the_two_files_differ:
  "model_path H YUNET \<noteq> model_path H SFACE"
  "model_path H YUNET \<noteq> with_extension (model_path H SFACE) ''onnx.partial''"
proof -
  show "model_path H YUNET \<noteq> model_path H SFACE" by (simp add: model_path_def join_injective YUNET_def SFACE_def)
  have "with_extension (model_path H SFACE) ''onnx.partial'' = path_join (cache_dir H) (''face_recognition_sface_2021dec'' @ ''.'' @ ''onnx.partial'')"
    using with_extension_join [of "''onnx''" "cache_dir H" "''face_recognition_sface_2021dec''"]
    by (simp add: model_path_def SFACE_def)
  then show "model_path H YUNET \<noteq> with_extension (model_path H SFACE) ''onnx.partial''"
    by (simp add: model_path_def join_injective YUNET_def)
qed

text \<open>
  C18. The real biometric provider only ever runs the two networks whose digests are pinned: when the
  initialization succeeds, the bytes each session was built from have the pinned SHA-256, whatever was
  in the cache before and whatever the download host sent. There is no other way to succeed.
\<close>

theorem only_pinned_models_run:
  assumes "initialize E H load_detector load_embedder fs = (Inr (detector, embedder), fs')"
  shows "\<exists>yunet sface. sha256_hex E yunet = ms_sha256 YUNET \<and> load_detector yunet = Inr detector
    \<and> sha256_hex E sface = ms_sha256 SFACE \<and> load_embedder sface = Inr embedder
    \<and> fs' (model_path H YUNET) = Some yunet \<and> fs' (model_path H SFACE) = Some sface"
proof -
  obtain p1 fs1 p2 where run: "ensure_model E H YUNET fs = (Inr p1, fs1)" "ensure_model E H SFACE fs1 = (Inr p2, fs')"
    and load: "load_session load_detector fs' p1 = Inr detector" "load_session load_embedder fs' p2 = Inr embedder"
    using assms by (auto simp: initialize_def split: prod.splits sum.splits)
  note ok = ensure_model_verified [OF run(1)] ensure_model_verified [OF run(2)]
  have "fs' (model_path H YUNET) = fs1 (model_path H YUNET)"
    by (rule ensure_model_leaves_others [OF run(2) the_two_files_differ])
  then show ?thesis using ok load by (auto simp: load_session_def split: sum.splits option.splits)
qed

definition demo_host :: model_host where
  "demo_host = \<lparr>mh_env = (\<lambda>_. None), mh_fails = (\<lambda>_ _. None), mh_get = (\<lambda>url. Inl ''offline''),
     mh_status_text = show_nat\<rparr>"

definition demo_files :: files where
  "demo_files = (\<lambda>p. Some (if p = model_path demo_host YUNET then ms_sha256 YUNET else ms_sha256 SFACE))"

lemma demo_hash: "sha256_hex demo_app s = s"
  by (simp add: sha256_hex_def demo_app_def)

lemma demo_host_never_fails: "mh_fails demo_host op p = None"
  by (simp add: demo_host_def)

lemma demo_cached: "demo_files (model_path demo_host spec) = Some (ms_sha256 spec) \<Longrightarrow>
    ensure_model demo_app demo_host spec demo_files = (Inr (model_path demo_host spec), demo_files)"
  by (simp add: ensure_model_def demo_hash demo_host_never_fails model_path_def [symmetric] Let_def)

lemma demo_initialized:
  "initialize demo_app demo_host Inr Inr demo_files = (Inr (ms_sha256 YUNET, ms_sha256 SFACE), demo_files)"
proof -
  have "demo_files (model_path demo_host YUNET) = Some (ms_sha256 YUNET)" "demo_files (model_path demo_host SFACE) = Some (ms_sha256 SFACE)"
    using the_two_files_differ(1) [of demo_host] by (auto simp: demo_files_def)
  then show ?thesis by (simp add: initialize_def demo_cached load_session_def)
qed

theorem only_pinned_models_run_witness:
  "\<exists>yunet sface. sha256_hex demo_app yunet = ms_sha256 YUNET \<and> sha256_hex demo_app sface = ms_sha256 SFACE
     \<and> demo_files (model_path demo_host YUNET) = Some yunet \<and> demo_files (model_path demo_host SFACE) = Some sface"
  using only_pinned_models_run [OF demo_initialized] by auto

end
