(* ===== verification/Candidate_Rules.thy ===== *)
theory Candidate_Rules
  imports Candidates Demo
begin

text \<open>
  Rules across the routes of \<open>server/src/candidates.rs\<close>: which candidate's organization decides about a
  template.
\<close>

lemma audited_keeps_templates: "w_templates (exec (audited E rid ev (return r)) w) = w_templates w"
  by (rule preservesD) (intro frame_intros; simp)

definition organizations_of :: "claims \<Rightarrow> world \<Rightarrow> string list" where
  "organizations_of caller w = map mb_organization_id (filter (\<lambda>m. mb_user_id m = cl_id caller) (w_memberships w))"

text \<open>
  C29. Revoking a template asks whether the caller may see the candidate of the path, not whether the
  template is that candidate's: a caller who is refused (403) an active template of a candidate of another
  organization revokes it, with the same template id, through any candidate they may see.
\<close>

theorem revoking_ignores_the_candidate:
  assumes "healthy w" and "x_backend E = Sqlite"
    and "result (auth_user_from_headers E h) w = Some caller" and "can_manage_candidates (cl_role caller)"
    and "find (\<lambda>c. cd_id c = own) (w_candidates w) = Some c1"
    and "can_view_scoped_resource (cl_role caller) (organizations_of caller w) (cd_organization_id c1)"
    and "find (\<lambda>c. cd_id c = other) (w_candidates w) = Some c2"
    and "\<not> can_view_scoped_resource (cl_role caller) (organizations_of caller w) (cd_organization_id c2)"
    and "template \<in> set (w_templates w)" and "p_candidate_id template = other" and "p_revoked_at template = None"
  shows "r_status (result (revoke_template_route E other (p_id template) h) w) = 403
    \<and> w_templates (exec (revoke_template_route E other (p_id template) h) w) = w_templates w
    \<and> template\<lparr>p_revoked_at := Some (w_now w)\<rparr> \<in> set (w_templates (exec (revoke_template_route E own (p_id template) h) w))"
proof -
  obtain m where m: "exec (request_id E h) w = w\<lparr>w_draws := m\<rparr>" using exec_request_id by blast
  note run = revoke_template_route_def as_role_def on_candidate_def exec_bind result_bind auth_user_run m
    authorize_candidate_scope_def organization_ids_or_none_def load_candidate_by_id_def user_organization_ids_def
    with_key_def db_key_sqlite exec_query result_query organizations_of_def
  have "r_status (result (revoke_template_route E other (p_id template) h) w) = 403
    \<and> w_templates (exec (revoke_template_route E other (p_id template) h) w) = w_templates w"
    using assms(1-4,7,8) by (simp add: run forbidden_def)
  moreover have "w_templates (exec (revoke_template_route E own (p_id template) h) w) =
      sql_update (\<lambda>t. p_id t = p_id template \<and> p_revoked_at t = None) (\<lambda>t. t\<lparr>p_revoked_at := Some (w_now w)\<rparr>) (w_templates w)"
    using assms(1-6) by (simp add: run revoke_template_def exec_stmt result_stmt audited_keeps_templates Let_def)
  ultimately show ?thesis using assms(9,11) by (force simp: sql_update_def)
qed

text \<open>An operator of one organization, a candidate of each of two, and a template of the other one's.\<close>

definition demo_candidate :: "string \<Rightarrow> string \<Rightarrow> candidate_row" where
  "demo_candidate i org = \<lparr>cd_id = i, cd_reference_code = i, cd_full_name = i, cd_notes = None,
     cd_organization_id = Some org\<rparr>"

definition demo_template :: template_row where
  "demo_template = \<lparr>p_id = ''t'', p_candidate_id = ''other'', p_model_name = ''sface'', p_model_version = ''2021dec'',
     p_embedding_dimension = 1, p_embedding = [], p_quality_score = 1, p_source_reference = None, p_created_at = 0,
     p_revoked_at = None, p_embedding_vector = None\<rparr>"

definition demo_two_organizations :: world where
  "demo_two_organizations = demo_world\<lparr>
     w_memberships := [\<lparr>mb_user_id = ''1'', mb_organization_id = ''mine'', mb_organization_unit_id = None\<rparr>],
     w_candidates := [demo_candidate ''own'' ''mine'', demo_candidate ''other'' ''theirs''],
     w_templates := [demo_template]\<rparr>"

lemma demo_caller: "echoed_request_id demo_headers = None" "bearer_token demo_headers = Some ''t''"
  by (simp_all add: echoed_request_id_def demo_headers_def bearer_token_def)

theorem revoking_ignores_the_candidate_witness:
  "p_candidate_id demo_template = ''other''
   \<and> r_status (result (revoke_template_route (demo_as OPERATOR) ''other'' ''t'' demo_headers) demo_two_organizations) = 403
   \<and> demo_template\<lparr>p_revoked_at := Some 0\<rparr>
       \<in> set (w_templates (exec (revoke_template_route (demo_as OPERATOR) ''own'' ''t'' demo_headers) demo_two_organizations))"
  using revoking_ignores_the_candidate [of demo_two_organizations "demo_as OPERATOR" demo_headers "demo_claims OPERATOR" "''own''"
      "demo_candidate ''own'' ''mine''" "''other''" "demo_candidate ''other'' ''theirs''" demo_template]
  by (simp add: demo_two_organizations_def demo_world_def demo_candidate_def demo_template_def healthy_def demo_as_def auth_user_run
      demo_caller can_manage_candidates_def can_view_scoped_resource_def organizations_of_def OPERATOR_def SYSTEM_ADMIN_def
      demo_claims_def demo_app_def)

end
