(* ===== verification/Search_Rules.thy ===== *)
theory Search_Rules
  imports System_Rules
begin

text \<open>
  Rules across the routes of \<open>server/src/search.rs\<close>: which of them look at the organization of a search.
\<close>

section \<open>What a handler does not look at\<close>

text \<open>The handler does the same, and to the same state, when g changes what it never reads.\<close>

definition ignores :: "(world \<Rightarrow> world) \<Rightarrow> 'a handler \<Rightarrow> bool" where
  "ignores g m \<longleftrightarrow> (\<forall>w. result m (g w) = result m w \<and> exec m (g w) = g (exec m w))"

lemma ignores_return: "ignores g (return a)"
  by (simp add: ignores_def)

lemma ignores_bind: "ignores g m \<Longrightarrow> (\<And>a. ignores g (k a)) \<Longrightarrow> ignores g (m \<bind> k)"
  by (simp add: ignores_def exec_bind result_bind)

lemma ignores_gets: "(\<And>w. f (g w) = f w) \<Longrightarrow> ignores g (gets f)"
  by (simp add: ignores_def)

lemma ignores_if: "ignores g m \<Longrightarrow> ignores g n \<Longrightarrow> ignores g (if b then m else n)"
  by simp

lemma ignores_option: "ignores g m \<Longrightarrow> (\<And>a. ignores g (k a)) \<Longrightarrow> ignores g (case x of None \<Rightarrow> m | Some a \<Rightarrow> k a)"
  by (simp split: option.split)

lemma ignores_sum: "(\<And>e. ignores g (h e)) \<Longrightarrow> (\<And>a. ignores g (k a)) \<Longrightarrow> ignores g (case x of Inl e \<Rightarrow> h e | Inr a \<Rightarrow> k a)"
  by (simp split: sum.split)

lemmas ignores_intros = ignores_return ignores_bind ignores_gets ignores_if ignores_option ignores_sum

section \<open>Decisions and organizations\<close>

text \<open>What the database says about who belongs where: the memberships, and the organization of every search.\<close>

definition other_scopes :: "membership_row list \<Rightarrow> search_row list \<Rightarrow> world \<Rightarrow> world" where
  "other_scopes ms qs w = w\<lparr>w_memberships := ms, w_searches := qs\<rparr>"

lemma other_scopes_simps [simp]:
  "w_stmts (other_scopes ms qs w) = w_stmts w" "w_faults (other_scopes ms qs w) = w_faults w"
  "w_draws (other_scopes ms qs w) = w_draws w" "w_now (other_scopes ms qs w) = w_now w"
  "w_users (other_scopes ms qs w) = w_users w" "w_candidates (other_scopes ms qs w) = w_candidates w"
  "w_search_candidates (other_scopes ms qs w) = w_search_candidates w"
  "w_verification_events (other_scopes ms qs w) = w_verification_events w"
  "(other_scopes ms qs w)\<lparr>w_stmts := n\<rparr> = other_scopes ms qs (w\<lparr>w_stmts := n\<rparr>)"
  "(other_scopes ms qs w)\<lparr>w_draws := n\<rparr> = other_scopes ms qs (w\<lparr>w_draws := n\<rparr>)"
  "(other_scopes ms qs w)\<lparr>w_verification_events := vs\<rparr> = other_scopes ms qs (w\<lparr>w_verification_events := vs\<rparr>)"
  "(other_scopes ms qs w)\<lparr>w_search_candidates := cs\<rparr> = other_scopes ms qs (w\<lparr>w_search_candidates := cs\<rparr>)"
  by (simp_all add: other_scopes_def)

lemma ignores_query: "(\<And>w. f (other_scopes ms qs w) = f w) \<Longrightarrow> ignores (other_scopes ms qs) (query f)"
  by (simp add: ignores_def result_query exec_query)

lemma ignores_draw: "ignores (other_scopes ms qs) draw"
  by (simp add: ignores_def result_def exec_def)

lemma ignores_request_id: "ignores (other_scopes ms qs) (request_id E h)"
  unfolding request_id_def new_uuid_def by (intro ignores_intros ignores_draw)

lemma ignores_transaction:
  assumes "\<And>w. f (other_scopes ms qs w) = (fst (f w), other_scopes ms qs (snd (f w)))"
  shows "ignores (other_scopes ms qs) (transaction f)"
  using assms unfolding ignores_def transaction_def
  by (simp add: result_try_stmt exec_try_stmt split: prod.split sum.split)

lemma apply_decision_ignores:
  "apply_decision E s c d r n re no rid b (other_scopes ms qs w) =
     (fst (apply_decision E s c d r n re no rid b w), other_scopes ms qs (snd (apply_decision E s c d r n re no rid b w)))"
  by (simp add: apply_decision_def Let_def split: option.split)

lemma ignores_review:
  "ignores (other_scopes ms qs) (record_review_decision E s c d r n re no rid b)"
  unfolding record_review_decision_def with_key_def list_search_candidates_def
  by (intro ignores_intros ignores_transaction ignores_query apply_decision_ignores)
    (simp_all add: search_candidates_of_def)


lemma ignores_user: "ignores (other_scopes ms qs) (load_user_by_id E i)" "ignores (other_scopes ms qs) (display_name E c)"
  unfolding display_name_def load_user_by_id_def with_key_def by (intro ignores_intros ignores_query; simp)+

lemma ignores_auth: "ignores (other_scopes ms qs) (auth_user_from_headers E h)"
  by (simp add: ignores_def auth_user_run)

text \<open>A handler that ignores the change first and then leaves \<open>f\<close> alone ends with the same \<open>f\<close>.\<close>

definition agrees :: "(world \<Rightarrow> 'b) \<Rightarrow> (world \<Rightarrow> world) \<Rightarrow> 'a handler \<Rightarrow> bool" where
  "agrees f g m \<longleftrightarrow> (\<forall>w. f (exec m (g w)) = f (exec m w))"

lemma agrees_bind: "ignores g m \<Longrightarrow> (\<And>a. agrees f g (k a)) \<Longrightarrow> agrees f g (m \<bind> k)"
  by (simp add: agrees_def ignores_def exec_bind)

lemma agrees_preserves: "preserves f m \<Longrightarrow> (\<And>w. f (g w) = f w) \<Longrightarrow> agrees f g m"
  by (simp add: agrees_def preserves_def)

lemma agrees_option: "agrees f g m \<Longrightarrow> (\<And>a. agrees f g (k a)) \<Longrightarrow> agrees f g (case x of None \<Rightarrow> m | Some a \<Rightarrow> k a)"
  by (simp split: option.split)

lemma agrees_if: "agrees f g m \<Longrightarrow> agrees f g n \<Longrightarrow> agrees f g (if b then m else n)"
  by simp

lemma review_agrees:
  "agrees (\<lambda>w. (w_search_candidates w, w_verification_events w)) (other_scopes ms qs) (review_candidate E h c p st)"
  unfolding review_candidate_def as_role_def Let_def
  by (intro agrees_bind agrees_option agrees_if ignores_request_id ignores_auth ignores_user ignores_review)
    (intro agrees_preserves frame_intros; simp)+


text \<open>
  C30. The routes that decide over a candidate do not look at the organization of the search. A caller who
  is refused a search with status 403, because it belongs to an organization they are not a member of,
  has their decision over its candidates stored exactly as if they were a member, or the search belonged
  to anybody else.
\<close>

theorem reviewing_ignores_the_organization:
  assumes "healthy w" and "x_backend E = Sqlite"
    and "result (auth_user_from_headers E h) w = Some caller" and "can_view_search (cl_role caller)" and "cl_role caller \<noteq> SYSTEM_ADMIN"
    and "find (\<lambda>q. q_id q = i) (w_searches w) = Some q" and "q_organization_id q = Some org"
    and "list_all (\<lambda>m. \<not> (mb_user_id m = cl_id caller \<and> mb_organization_id m = org)) (w_memberships w)"
  shows "r_status (result (get_search_route E i h) w) = 403
    \<and> w_search_candidates (exec (review_candidate E h c payload decision) w) =
      w_search_candidates (exec (review_candidate E h c payload decision) (w\<lparr>w_memberships := ms, w_searches := qs\<rparr>))
    \<and> w_verification_events (exec (review_candidate E h c payload decision) w) =
      w_verification_events (exec (review_candidate E h c payload decision) (w\<lparr>w_memberships := ms, w_searches := qs\<rparr>))"
proof -
  obtain m where m: "exec (request_id E h) w = w\<lparr>w_draws := m\<rparr>" using exec_request_id by blast
  have "r_status (result (get_search_route E i h) w) = 403"
    using assms
    by (simp add: get_search_route_def as_role_def on_search_def exec_bind result_bind auth_user_run m actor_org_ids_def
        organization_ids_or_none_def load_search_by_id_def user_organization_ids_def with_key_def db_key_sqlite exec_query
        result_query can_view_scoped_resource_def forbidden_def list_ex_iff list_all_iff) auto
  then show ?thesis
    using review_agrees [of ms qs E h c payload decision] by (simp add: agrees_def other_scopes_def)
qed

section \<open>Examples\<close>

text \<open>The waiting decision of the example, in a search of an organization the reviewer does not belong to.\<close>

definition demo_foreign_search :: world where
  "demo_foreign_search = demo_review_world\<lparr>
     w_memberships := [\<lparr>mb_user_id = ''1'', mb_organization_id = ''mine'', mb_organization_unit_id = None\<rparr>],
     w_searches := map (\<lambda>q. q\<lparr>q_organization_id := Some ''theirs''\<rparr>) (w_searches demo_review_world)\<rparr>"

lemma foreign_search_is_reviewed:
  "w_search_candidates (exec (review_candidate (demo_as REVIEWER) demo_headers ''c''
     \<lparr>rv_search_id = ''s'', rv_reason = None, rv_notes = None\<rparr> ''confirmed'') demo_foreign_search) = [demo_confirmed_row]"
  by (simp add: review_run_defs demo_foreign_search_def demo_review_world_def demo_world_def Let_def split: sum.split)

theorem reviewing_ignores_the_organization_witness:
  "r_status (result (get_search_route (demo_as REVIEWER) ''s'' demo_headers) demo_foreign_search) = 403
   \<and> w_search_candidates (exec (review_candidate (demo_as REVIEWER) demo_headers ''c''
        \<lparr>rv_search_id = ''s'', rv_reason = None, rv_notes = None\<rparr> ''confirmed'') demo_foreign_search) = [demo_confirmed_row]
   \<and> w_search_candidates (exec (review_candidate (demo_as REVIEWER) demo_headers ''c''
        \<lparr>rv_search_id = ''s'', rv_reason = None, rv_notes = None\<rparr> ''confirmed'')
        (demo_foreign_search\<lparr>w_memberships := [], w_searches := []\<rparr>)) = [demo_confirmed_row]"
  using reviewing_ignores_the_organization [of demo_foreign_search "demo_as REVIEWER" demo_headers "demo_claims REVIEWER" "''s''"
      _ "''theirs''" "''c''" "\<lparr>rv_search_id = ''s'', rv_reason = None, rv_notes = None\<rparr>" "''confirmed''" "[]" "[]"]
    foreign_search_is_reviewed
  by (simp add: demo_foreign_search_def demo_review_world_def demo_world_def queued_row_def healthy_def demo_as_def auth_user_run
      demo_request can_view_search_def can_create_search_def REVIEWER_def SYSTEM_ADMIN_def demo_claims_def demo_app_def)

end
