(* ===== verification/Db_Schema.thy ===== *)
theory Db_Schema
  imports World
begin

text \<open>
  The migrations of \<open>server/src/db/mod.rs\<close> and its submodules: every DDL statement a start runs, for
  PostgreSQL and for SQLite, as data, and what such a statement does to the catalogue of tables,
  columns and indexes. The lemmas show that a start loses no column, that a second start changes
  nothing, and that a fresh database has the same columns on either backend.
\<close>

section \<open>The catalogue\<close>

datatype constraint = PrimaryKey | NotNull | Unique | Default string | References string

datatype column = Column (col_name: string) (col_type: string) (col_constraints: "constraint list")

record table =
  tb_columns :: "column list"
  tb_unique :: "string list list"

record index =
  ix_unique :: bool
  ix_table :: string
  ix_columns :: "string list"
  ix_where_not_null :: "string option"

record database =
  ds_schemas :: "string list"
  ds_extensions :: "string list"
  ds_tables :: "string \<Rightarrow> table option"
  ds_indexes :: "string \<Rightarrow> index option"
  ds_rows :: "(string \<times> string) list"

definition fresh :: database where
  "fresh = \<lparr>ds_schemas = [], ds_extensions = [], ds_tables = (\<lambda>_. None), ds_indexes = (\<lambda>_. None), ds_rows = []\<rparr>"

section \<open>Statements\<close>

text \<open>
  \<open>AddColumn\<close> carries whether the statement says \<open>IF NOT EXISTS\<close>; \<open>EnsureRow\<close> is an insertion that does
  nothing when the row is there. Every other creation says \<open>IF NOT EXISTS\<close>.
\<close>

datatype ddl =
    CreateSchema string
  | CreateExtension string
  | CreateTable string "column list" "string list list"
  | AddColumn bool string column
  | DropNotNull string string
  | SetType string string string
  | CreateIndex bool string string "string list" "string option"
  | EnsureRow string string

text \<open>A statement whose failure ends the start, and one whose failure is ignored (\<open>let _ =\<close>).\<close>

datatype migration = Must ddl | BestEffort ddl

definition add_once :: "'a \<Rightarrow> 'a list \<Rightarrow> 'a list" where
  "add_once x xs = (if x \<in> set xs then xs else xs @ [x])"

definition column_names :: "table \<Rightarrow> string list" where
  "column_names tb = map col_name (tb_columns tb)"

fun references_of :: "column \<Rightarrow> string list" where
  "references_of (Column n ty cs) = List.map_filter (\<lambda>c. case c of References t \<Rightarrow> Some t | _ \<Rightarrow> None) cs"

definition change_column :: "string \<Rightarrow> (column \<Rightarrow> column) \<Rightarrow> table \<Rightarrow> table" where
  "change_column c f tb = tb\<lparr>tb_columns := map (\<lambda>x. if col_name x = c then f x else x) (tb_columns tb)\<rparr>"

fun without_not_null :: "column \<Rightarrow> column" where
  "without_not_null (Column n ty cs) = Column n ty (filter (\<lambda>c. c \<noteq> NotNull) cs)"

fun with_type :: "string \<Rightarrow> column \<Rightarrow> column" where
  "with_type ty (Column n _ cs) = Column n ty cs"

definition put_table :: "string \<Rightarrow> table \<Rightarrow> database \<Rightarrow> database" where
  "put_table t tb d = d\<lparr>ds_tables := (ds_tables d)(t \<mapsto> tb)\<rparr>"

text \<open>What a statement does, or \<open>None\<close> when the catalogue does not admit it.\<close>

fun effect :: "ddl \<Rightarrow> database \<Rightarrow> database option" where
  "effect (CreateSchema n) d = Some (d\<lparr>ds_schemas := add_once n (ds_schemas d)\<rparr>)"
| "effect (CreateExtension n) d = Some (d\<lparr>ds_extensions := add_once n (ds_extensions d)\<rparr>)"
| "effect (CreateTable t cs us) d =
     (if ds_tables d t \<noteq> None then Some d
      else if list_all (\<lambda>r. r = t \<or> ds_tables d r \<noteq> None) (concat (map references_of cs))
      then Some (put_table t \<lparr>tb_columns = cs, tb_unique = us\<rparr> d)
      else None)"
| "effect (AddColumn if_not_exists t c) d =
     (case ds_tables d t of
        None \<Rightarrow> None
      | Some tb \<Rightarrow>
          if col_name c \<in> set (column_names tb) then (if if_not_exists then Some d else None)
          else Some (put_table t (tb\<lparr>tb_columns := tb_columns tb @ [c]\<rparr>) d))"
| "effect (DropNotNull t c) d =
     (case ds_tables d t of
        None \<Rightarrow> None
      | Some tb \<Rightarrow> if c \<in> set (column_names tb) then Some (put_table t (change_column c without_not_null tb) d) else None)"
| "effect (SetType t c ty) d =
     (case ds_tables d t of
        None \<Rightarrow> None
      | Some tb \<Rightarrow> if c \<in> set (column_names tb) then Some (put_table t (change_column c (with_type ty) tb) d) else None)"
| "effect (CreateIndex u n t cs p) d =
     (case ds_tables d t of
        None \<Rightarrow> None
      | Some tb \<Rightarrow>
          if ds_indexes d n \<noteq> None then Some d
          else if set cs \<subseteq> set (column_names tb)
          then Some (d\<lparr>ds_indexes := (ds_indexes d)(n \<mapsto> \<lparr>ix_unique = u, ix_table = t, ix_columns = cs, ix_where_not_null = p\<rparr>)\<rparr>)
          else None)"
| "effect (EnsureRow t k) d =
     (if ds_tables d t = None then None else Some (d\<lparr>ds_rows := add_once (t, k) (ds_rows d)\<rparr>))"

text \<open>
  \<open>refuses\<close> says which statements the server turns down for a reason outside the catalogue: rights, a
  missing extension, rows that break a new unique index. The answer is whether to go on.
\<close>

definition execute :: "(ddl \<Rightarrow> bool) \<Rightarrow> ddl \<Rightarrow> database \<Rightarrow> database option" where
  "execute refuses s d = (if refuses s then None else effect s d)"

fun apply_migration :: "(ddl \<Rightarrow> bool) \<Rightarrow> migration \<Rightarrow> database \<Rightarrow> bool \<times> database" where
  "apply_migration refuses (Must s) d = (case execute refuses s d of None \<Rightarrow> (False, d) | Some d' \<Rightarrow> (True, d'))"
| "apply_migration refuses (BestEffort s) d = (case execute refuses s d of None \<Rightarrow> (True, d) | Some d' \<Rightarrow> (True, d'))"

fun run_migrations :: "(ddl \<Rightarrow> bool) \<Rightarrow> migration list \<Rightarrow> database \<Rightarrow> bool \<times> database" where
  "run_migrations refuses [] d = (True, d)"
| "run_migrations refuses (m # ms) d =
     (case apply_migration refuses m d of
        (False, d') \<Rightarrow> (False, d')
      | (True, d') \<Rightarrow> run_migrations refuses ms d')"

section \<open>The migrations of the code\<close>

definition PG_SCHEMA :: string where "PG_SCHEMA = ''anatolia_bis''"

definition SQLITE_NOW :: string where
  "SQLITE_NOW = ''(strftime('' @ [CHR 0x27] @ ''%Y-%m-%dT%H:%M:%fZ'' @ [CHR 0x27] @ '', '' @ [CHR 0x27] @ ''now''
     @ [CHR 0x27] @ ''))''"

definition users_pg :: "migration list" where
  "users_pg =
     [Must (CreateSchema PG_SCHEMA),
      Must (CreateExtension ''pgcrypto''),
      Must (CreateTable ''users''
       [Column ''id'' ''UUID'' [PrimaryKey, Default ''gen_random_uuid()''],
        Column ''user_code'' ''VARCHAR(20)'' [Unique, NotNull],
        Column ''first_name'' ''VARCHAR(100)'' [NotNull],
        Column ''last_name'' ''VARCHAR(100)'' [NotNull],
        Column ''national_id'' ''VARCHAR(11)'' [Unique],
        Column ''email'' ''VARCHAR(255)'' [Unique],
        Column ''password_hash'' ''VARCHAR(255)'' [NotNull],
        Column ''role'' ''VARCHAR(20)'' [NotNull, Default ''pending''],
        Column ''is_approved'' ''BOOLEAN'' [NotNull, Default ''false''],
        Column ''is_banned'' ''BOOLEAN'' [NotNull, Default ''false''],
        Column ''ban_reason'' ''TEXT'' [],
        Column ''created_at'' ''TIMESTAMPTZ'' [NotNull, Default ''NOW()''],
        Column ''updated_at'' ''TIMESTAMPTZ'' [NotNull, Default ''NOW()'']] []),
      Must (AddColumn True ''users'' (Column ''national_id'' ''VARCHAR(11)'' [])),
      Must (DropNotNull ''users'' ''national_id''),
      Must (DropNotNull ''users'' ''email''),
      Must (AddColumn True ''users'' (Column ''national_id_encrypted'' ''TEXT'' [])),
      Must (AddColumn True ''users'' (Column ''national_id_lookup_hash'' ''TEXT'' [])),
      Must (CreateIndex True ''idx_users_national_id_lookup_hash'' ''users'' [''national_id_lookup_hash''] (Some ''national_id_lookup_hash'')),
      Must (AddColumn True ''users'' (Column ''registration_tracking_token'' ''VARCHAR(64)'' [Unique])),
      Must (AddColumn True ''users'' (Column ''registration_tracking_expires_at'' ''TIMESTAMPTZ'' [])),
      Must (AddColumn True ''users'' (Column ''deleted_at'' ''TIMESTAMPTZ'' []))]"

definition searches_pg :: "migration list" where
  "searches_pg =
     [Must (CreateTable ''candidates''
       [Column ''id'' ''UUID'' [PrimaryKey, Default ''gen_random_uuid()''],
        Column ''reference_code'' ''VARCHAR(20)'' [Unique, NotNull],
        Column ''full_name'' ''VARCHAR(200)'' [NotNull],
        Column ''notes'' ''TEXT'' [],
        Column ''created_at'' ''TIMESTAMPTZ'' [NotNull, Default ''NOW()'']] []),
      Must (CreateTable ''searches''
       [Column ''id'' ''UUID'' [PrimaryKey, Default ''gen_random_uuid()''],
        Column ''case_reference'' ''VARCHAR(100)'' [NotNull],
        Column ''purpose'' ''TEXT'' [NotNull],
        Column ''requested_by'' ''UUID'' [NotNull],
        Column ''requested_by_name'' ''VARCHAR(200)'' [NotNull],
        Column ''status'' ''VARCHAR(20)'' [NotNull, Default ''queued''],
        Column ''latitude'' ''DOUBLE PRECISION'' [],
        Column ''longitude'' ''DOUBLE PRECISION'' [],
        Column ''top_k'' ''INTEGER'' [],
        Column ''started_at'' ''TIMESTAMPTZ'' [],
        Column ''completed_at'' ''TIMESTAMPTZ'' [],
        Column ''failure_code'' ''TEXT'' [],
        Column ''failure_message_key'' ''TEXT'' [],
        Column ''created_at'' ''TIMESTAMPTZ'' [NotNull, Default ''NOW()'']] []),
      Must (AddColumn True ''searches'' (Column ''top_k'' ''INTEGER'' [])),
      Must (AddColumn True ''searches'' (Column ''started_at'' ''TIMESTAMPTZ'' [])),
      Must (AddColumn True ''searches'' (Column ''completed_at'' ''TIMESTAMPTZ'' [])),
      Must (AddColumn True ''searches'' (Column ''failure_code'' ''TEXT'' [])),
      Must (AddColumn True ''searches'' (Column ''failure_message_key'' ''TEXT'' [])),
      Must (AddColumn True ''searches'' (Column ''external_evidence_status'' ''TEXT'' [])),
      Must (CreateTable ''search_candidates''
       [Column ''id'' ''UUID'' [PrimaryKey, Default ''gen_random_uuid()''],
        Column ''search_id'' ''UUID'' [NotNull],
        Column ''candidate_id'' ''UUID'' [NotNull],
        Column ''score'' ''DOUBLE PRECISION'' [NotNull],
        Column ''status'' ''VARCHAR(20)'' [NotNull, Default ''pending''],
        Column ''reviewed_by'' ''UUID'' [],
        Column ''reviewed_by_name'' ''VARCHAR(200)'' [],
        Column ''reviewed_at'' ''TIMESTAMPTZ'' [],
        Column ''created_at'' ''TIMESTAMPTZ'' [NotNull, Default ''NOW()'']] []),
      Must (SetType ''search_candidates'' ''score'' ''DOUBLE PRECISION''),
      Must (AddColumn True ''searches'' (Column ''latitude'' ''DOUBLE PRECISION'' [])),
      Must (AddColumn True ''searches'' (Column ''longitude'' ''DOUBLE PRECISION'' [])),
      Must (CreateIndex True ''idx_search_candidates_search_candidate'' ''search_candidates'' [''search_id'', ''candidate_id''] None),
      Must (CreateIndex False ''idx_searches_created_at'' ''searches'' [''created_at''] None),
      Must (CreateIndex False ''idx_searches_case_reference'' ''searches'' [''case_reference''] None),
      Must (CreateIndex False ''idx_searches_requested_by'' ''searches'' [''requested_by''] None)]"

definition reviews_pg :: "migration list" where
  "reviews_pg =
     [Must (CreateTable ''verification_events''
       [Column ''id'' ''UUID'' [PrimaryKey, Default ''gen_random_uuid()''],
        Column ''search_candidate_id'' ''UUID'' [NotNull],
        Column ''reviewer_user_id'' ''UUID'' [NotNull],
        Column ''reviewer_name'' ''VARCHAR(200)'' [NotNull],
        Column ''decision'' ''VARCHAR(20)'' [NotNull],
        Column ''reason'' ''TEXT'' [],
        Column ''notes'' ''TEXT'' [],
        Column ''request_id'' ''TEXT'' [],
        Column ''created_at'' ''TIMESTAMPTZ'' [NotNull, Default ''NOW()'']] []),
      Must (CreateIndex False ''idx_verification_events_search_candidate_id'' ''verification_events'' [''search_candidate_id''] None),
      Must (CreateTable ''sessions''
       [Column ''id'' ''UUID'' [PrimaryKey, Default ''gen_random_uuid()''],
        Column ''user_id'' ''UUID'' [NotNull],
        Column ''refresh_token_hash'' ''TEXT'' [NotNull],
        Column ''token_family_id'' ''UUID'' [NotNull],
        Column ''created_at'' ''TIMESTAMPTZ'' [NotNull, Default ''NOW()''],
        Column ''expires_at'' ''TIMESTAMPTZ'' [NotNull],
        Column ''last_used_at'' ''TIMESTAMPTZ'' [NotNull, Default ''NOW()''],
        Column ''revoked_at'' ''TIMESTAMPTZ'' [],
        Column ''user_agent'' ''TEXT'' [],
        Column ''ip_address'' ''TEXT'' [],
        Column ''rotation_counter'' ''INTEGER'' [NotNull, Default ''0''],
        Column ''created_by'' ''TEXT'' []] []),
      Must (CreateIndex False ''idx_sessions_user_id'' ''sessions'' [''user_id''] None),
      Must (CreateIndex False ''idx_sessions_token_family_id'' ''sessions'' [''token_family_id''] None),
      Must (CreateTable ''approval_tokens''
       [Column ''id'' ''UUID'' [PrimaryKey, Default ''gen_random_uuid()''],
        Column ''user_id'' ''UUID'' [NotNull],
        Column ''token_hash'' ''TEXT'' [NotNull],
        Column ''purpose'' ''TEXT'' [NotNull],
        Column ''created_at'' ''TIMESTAMPTZ'' [NotNull, Default ''NOW()''],
        Column ''expires_at'' ''TIMESTAMPTZ'' [NotNull],
        Column ''consumed_at'' ''TIMESTAMPTZ'' [],
        Column ''result'' ''TEXT'' []] []),
      Must (CreateIndex False ''idx_approval_tokens_user_id'' ''approval_tokens'' [''user_id''] None)]"

definition audit_events_pg :: "migration list" where
  "audit_events_pg =
     [Must (CreateTable ''audit_events''
       [Column ''id'' ''UUID'' [PrimaryKey, Default ''gen_random_uuid()''],
        Column ''timestamp'' ''TIMESTAMPTZ'' [NotNull, Default ''NOW()''],
        Column ''actor_user_id'' ''UUID'' [],
        Column ''actor_user_code'' ''TEXT'' [],
        Column ''actor_role'' ''TEXT'' [],
        Column ''action'' ''TEXT'' [NotNull],
        Column ''request_id'' ''TEXT'' [NotNull],
        Column ''case_reference'' ''TEXT'' [],
        Column ''resource_type'' ''TEXT'' [],
        Column ''resource_id'' ''TEXT'' [],
        Column ''result'' ''TEXT'' [NotNull],
        Column ''source'' ''TEXT'' [],
        Column ''ip_address'' ''TEXT'' [],
        Column ''user_agent'' ''TEXT'' [],
        Column ''metadata'' ''JSONB'' [],
        Column ''organization_id'' ''UUID'' [],
        Column ''organization_unit_id'' ''UUID'' []] []),
      Must (CreateIndex False ''idx_audit_events_timestamp'' ''audit_events'' [''timestamp''] None),
      Must (CreateIndex False ''idx_audit_events_action'' ''audit_events'' [''action''] None),
      Must (CreateIndex False ''idx_audit_events_actor_user_id'' ''audit_events'' [''actor_user_id''] None),
      Must (CreateIndex False ''idx_audit_events_case_reference'' ''audit_events'' [''case_reference''] None)]"

definition scope_pg :: "migration list" where
  "scope_pg =
     [Must (AddColumn True ''searches'' (Column ''organization_id'' ''UUID'' [])),
      Must (AddColumn True ''candidates'' (Column ''organization_id'' ''UUID'' []))]"

definition users_sqlite :: "migration list" where
  "users_sqlite =
     [Must (CreateTable ''users''
       [Column ''id'' ''TEXT'' [PrimaryKey],
        Column ''user_code'' ''TEXT'' [Unique, NotNull],
        Column ''first_name'' ''TEXT'' [NotNull],
        Column ''last_name'' ''TEXT'' [NotNull],
        Column ''national_id'' ''TEXT'' [Unique],
        Column ''email'' ''TEXT'' [Unique],
        Column ''password_hash'' ''TEXT'' [NotNull],
        Column ''role'' ''TEXT'' [NotNull, Default ''pending''],
        Column ''is_approved'' ''INTEGER'' [NotNull, Default ''0''],
        Column ''is_banned'' ''INTEGER'' [NotNull, Default ''0''],
        Column ''ban_reason'' ''TEXT'' [],
        Column ''registration_tracking_token'' ''TEXT'' [Unique],
        Column ''registration_tracking_expires_at'' ''TEXT'' [],
        Column ''created_at'' ''TEXT'' [NotNull, Default SQLITE_NOW],
        Column ''updated_at'' ''TEXT'' [NotNull, Default SQLITE_NOW]] []),
      BestEffort (AddColumn False ''users'' (Column ''registration_tracking_token'' ''TEXT'' [])),
      BestEffort (AddColumn False ''users'' (Column ''registration_tracking_expires_at'' ''TEXT'' [])),
      BestEffort (AddColumn False ''users'' (Column ''deleted_at'' ''TEXT'' [])),
      BestEffort (AddColumn False ''users'' (Column ''national_id_encrypted'' ''TEXT'' [])),
      BestEffort (AddColumn False ''users'' (Column ''national_id_lookup_hash'' ''TEXT'' [])),
      Must (CreateIndex True ''idx_users_national_id_lookup_hash'' ''users'' [''national_id_lookup_hash''] None)]"

definition searches_sqlite :: "migration list" where
  "searches_sqlite =
     [Must (CreateTable ''candidates''
       [Column ''id'' ''TEXT'' [PrimaryKey],
        Column ''reference_code'' ''TEXT'' [Unique, NotNull],
        Column ''full_name'' ''TEXT'' [NotNull],
        Column ''notes'' ''TEXT'' [],
        Column ''created_at'' ''TEXT'' [NotNull, Default SQLITE_NOW]] []),
      Must (CreateTable ''searches''
       [Column ''id'' ''TEXT'' [PrimaryKey],
        Column ''case_reference'' ''TEXT'' [NotNull],
        Column ''purpose'' ''TEXT'' [NotNull],
        Column ''requested_by'' ''TEXT'' [NotNull],
        Column ''requested_by_name'' ''TEXT'' [NotNull],
        Column ''status'' ''TEXT'' [NotNull, Default ''queued''],
        Column ''latitude'' ''REAL'' [],
        Column ''longitude'' ''REAL'' [],
        Column ''top_k'' ''INTEGER'' [],
        Column ''started_at'' ''TEXT'' [],
        Column ''completed_at'' ''TEXT'' [],
        Column ''failure_code'' ''TEXT'' [],
        Column ''failure_message_key'' ''TEXT'' [],
        Column ''created_at'' ''TEXT'' [NotNull, Default SQLITE_NOW]] []),
      BestEffort (AddColumn False ''searches'' (Column ''top_k'' ''INTEGER'' [])),
      BestEffort (AddColumn False ''searches'' (Column ''started_at'' ''TEXT'' [])),
      BestEffort (AddColumn False ''searches'' (Column ''completed_at'' ''TEXT'' [])),
      BestEffort (AddColumn False ''searches'' (Column ''failure_code'' ''TEXT'' [])),
      BestEffort (AddColumn False ''searches'' (Column ''failure_message_key'' ''TEXT'' [])),
      BestEffort (AddColumn False ''searches'' (Column ''external_evidence_status'' ''TEXT'' [])),
      Must (CreateTable ''search_candidates''
       [Column ''id'' ''TEXT'' [PrimaryKey],
        Column ''search_id'' ''TEXT'' [NotNull],
        Column ''candidate_id'' ''TEXT'' [NotNull],
        Column ''score'' ''REAL'' [NotNull],
        Column ''status'' ''TEXT'' [NotNull, Default ''pending''],
        Column ''reviewed_by'' ''TEXT'' [],
        Column ''reviewed_by_name'' ''TEXT'' [],
        Column ''reviewed_at'' ''TEXT'' [],
        Column ''created_at'' ''TEXT'' [NotNull, Default SQLITE_NOW]] []),
      Must (CreateIndex True ''idx_search_candidates_search_candidate'' ''search_candidates'' [''search_id'', ''candidate_id''] None),
      Must (CreateIndex False ''idx_searches_created_at'' ''searches'' [''created_at''] None),
      Must (CreateIndex False ''idx_searches_case_reference'' ''searches'' [''case_reference''] None),
      Must (CreateIndex False ''idx_searches_requested_by'' ''searches'' [''requested_by''] None)]"

definition reviews_sqlite :: "migration list" where
  "reviews_sqlite =
     [Must (CreateTable ''verification_events''
       [Column ''id'' ''TEXT'' [PrimaryKey],
        Column ''search_candidate_id'' ''TEXT'' [NotNull],
        Column ''reviewer_user_id'' ''TEXT'' [NotNull],
        Column ''reviewer_name'' ''TEXT'' [NotNull],
        Column ''decision'' ''TEXT'' [NotNull],
        Column ''reason'' ''TEXT'' [],
        Column ''notes'' ''TEXT'' [],
        Column ''request_id'' ''TEXT'' [],
        Column ''created_at'' ''TEXT'' [NotNull, Default SQLITE_NOW]] []),
      Must (CreateIndex False ''idx_verification_events_search_candidate_id'' ''verification_events'' [''search_candidate_id''] None),
      Must (CreateTable ''sessions''
       [Column ''id'' ''TEXT'' [PrimaryKey],
        Column ''user_id'' ''TEXT'' [NotNull],
        Column ''refresh_token_hash'' ''TEXT'' [NotNull],
        Column ''token_family_id'' ''TEXT'' [NotNull],
        Column ''created_at'' ''TEXT'' [NotNull, Default SQLITE_NOW],
        Column ''expires_at'' ''TEXT'' [NotNull],
        Column ''last_used_at'' ''TEXT'' [NotNull, Default SQLITE_NOW],
        Column ''revoked_at'' ''TEXT'' [],
        Column ''user_agent'' ''TEXT'' [],
        Column ''ip_address'' ''TEXT'' [],
        Column ''rotation_counter'' ''INTEGER'' [NotNull, Default ''0''],
        Column ''created_by'' ''TEXT'' []] []),
      Must (CreateIndex False ''idx_sessions_user_id'' ''sessions'' [''user_id''] None),
      Must (CreateIndex False ''idx_sessions_token_family_id'' ''sessions'' [''token_family_id''] None),
      Must (CreateTable ''approval_tokens''
       [Column ''id'' ''TEXT'' [PrimaryKey],
        Column ''user_id'' ''TEXT'' [NotNull],
        Column ''token_hash'' ''TEXT'' [NotNull],
        Column ''purpose'' ''TEXT'' [NotNull],
        Column ''created_at'' ''TEXT'' [NotNull, Default SQLITE_NOW],
        Column ''expires_at'' ''TEXT'' [NotNull],
        Column ''consumed_at'' ''TEXT'' [],
        Column ''result'' ''TEXT'' []] []),
      Must (CreateIndex False ''idx_approval_tokens_user_id'' ''approval_tokens'' [''user_id''] None)]"

definition audit_events_sqlite :: "migration list" where
  "audit_events_sqlite =
     [Must (CreateTable ''audit_events''
       [Column ''id'' ''TEXT'' [PrimaryKey],
        Column ''timestamp'' ''TEXT'' [NotNull, Default SQLITE_NOW],
        Column ''actor_user_id'' ''TEXT'' [],
        Column ''actor_user_code'' ''TEXT'' [],
        Column ''actor_role'' ''TEXT'' [],
        Column ''action'' ''TEXT'' [NotNull],
        Column ''request_id'' ''TEXT'' [NotNull],
        Column ''case_reference'' ''TEXT'' [],
        Column ''resource_type'' ''TEXT'' [],
        Column ''resource_id'' ''TEXT'' [],
        Column ''result'' ''TEXT'' [NotNull],
        Column ''source'' ''TEXT'' [],
        Column ''ip_address'' ''TEXT'' [],
        Column ''user_agent'' ''TEXT'' [],
        Column ''metadata'' ''TEXT'' [],
        Column ''organization_id'' ''TEXT'' [],
        Column ''organization_unit_id'' ''TEXT'' []] []),
      Must (CreateIndex False ''idx_audit_events_timestamp'' ''audit_events'' [''timestamp''] None),
      Must (CreateIndex False ''idx_audit_events_action'' ''audit_events'' [''action''] None),
      Must (CreateIndex False ''idx_audit_events_actor_user_id'' ''audit_events'' [''actor_user_id''] None),
      Must (CreateIndex False ''idx_audit_events_case_reference'' ''audit_events'' [''case_reference''] None)]"

definition scope_sqlite :: "migration list" where
  "scope_sqlite =
     [BestEffort (AddColumn False ''searches'' (Column ''organization_id'' ''TEXT'' [])),
      BestEffort (AddColumn False ''candidates'' (Column ''organization_id'' ''TEXT'' []))]"

definition audit_pg :: "migration list" where
  "audit_pg =
     [Must (AddColumn True ''audit_events'' (Column ''sequence'' ''BIGINT'' [])),
      Must (AddColumn True ''audit_events'' (Column ''previous_hash'' ''TEXT'' [])),
      Must (AddColumn True ''audit_events'' (Column ''event_hash'' ''TEXT'' [])),
      Must (CreateIndex True ''idx_audit_events_sequence'' ''audit_events'' [''sequence''] None),
      Must (CreateTable ''audit_chain_state''
       [Column ''id'' ''TEXT'' [PrimaryKey],
        Column ''last_sequence'' ''BIGINT'' [NotNull],
        Column ''last_hash'' ''TEXT'' [NotNull]] []),
      Must (EnsureRow ''audit_chain_state'' ''singleton'')]"

definition audit_sqlite :: "migration list" where
  "audit_sqlite =
     [BestEffort (AddColumn False ''audit_events'' (Column ''sequence'' ''INTEGER'' [])),
      BestEffort (AddColumn False ''audit_events'' (Column ''previous_hash'' ''TEXT'' [])),
      BestEffort (AddColumn False ''audit_events'' (Column ''event_hash'' ''TEXT'' [])),
      Must (CreateIndex True ''idx_audit_events_sequence'' ''audit_events'' [''sequence''] None),
      Must (CreateTable ''audit_chain_state''
       [Column ''id'' ''TEXT'' [PrimaryKey],
        Column ''last_sequence'' ''INTEGER'' [NotNull],
        Column ''last_hash'' ''TEXT'' [NotNull]] []),
      Must (EnsureRow ''audit_chain_state'' ''singleton'')]"

definition mfa_pg :: "migration list" where
  "mfa_pg =
     [Must (CreateTable ''mfa_credentials''
       [Column ''id'' ''UUID'' [PrimaryKey, Default ''gen_random_uuid()''],
        Column ''user_id'' ''UUID'' [NotNull, Unique],
        Column ''secret'' ''TEXT'' [NotNull],
        Column ''method'' ''TEXT'' [NotNull, Default ''totp''],
        Column ''email_code_hash'' ''TEXT'' [],
        Column ''email_code_expires_at'' ''TIMESTAMPTZ'' [],
        Column ''created_at'' ''TIMESTAMPTZ'' [NotNull, Default ''NOW()''],
        Column ''enabled_at'' ''TIMESTAMPTZ'' [],
        Column ''last_used_at'' ''TIMESTAMPTZ'' []] []),
      Must (AddColumn True ''mfa_credentials'' (Column ''method'' ''TEXT'' [NotNull, Default ''totp''])),
      Must (AddColumn True ''mfa_credentials'' (Column ''email_code_hash'' ''TEXT'' [])),
      Must (AddColumn True ''mfa_credentials'' (Column ''email_code_expires_at'' ''TIMESTAMPTZ'' [])),
      Must (CreateTable ''mfa_recovery_codes''
       [Column ''id'' ''UUID'' [PrimaryKey, Default ''gen_random_uuid()''],
        Column ''user_id'' ''UUID'' [NotNull],
        Column ''code_hash'' ''TEXT'' [NotNull],
        Column ''created_at'' ''TIMESTAMPTZ'' [NotNull, Default ''NOW()''],
        Column ''used_at'' ''TIMESTAMPTZ'' []] []),
      Must (CreateIndex False ''idx_mfa_recovery_codes_user_id'' ''mfa_recovery_codes'' [''user_id''] None)]"

definition mfa_sqlite :: "migration list" where
  "mfa_sqlite =
     [Must (CreateTable ''mfa_credentials''
       [Column ''id'' ''TEXT'' [PrimaryKey],
        Column ''user_id'' ''TEXT'' [NotNull, Unique],
        Column ''secret'' ''TEXT'' [NotNull],
        Column ''method'' ''TEXT'' [NotNull, Default ''totp''],
        Column ''email_code_hash'' ''TEXT'' [],
        Column ''email_code_expires_at'' ''TEXT'' [],
        Column ''created_at'' ''TEXT'' [NotNull, Default SQLITE_NOW],
        Column ''enabled_at'' ''TEXT'' [],
        Column ''last_used_at'' ''TEXT'' []] []),
      BestEffort (AddColumn False ''mfa_credentials'' (Column ''method'' ''TEXT'' [NotNull, Default ''totp''])),
      BestEffort (AddColumn False ''mfa_credentials'' (Column ''email_code_hash'' ''TEXT'' [])),
      BestEffort (AddColumn False ''mfa_credentials'' (Column ''email_code_expires_at'' ''TEXT'' [])),
      Must (CreateTable ''mfa_recovery_codes''
       [Column ''id'' ''TEXT'' [PrimaryKey],
        Column ''user_id'' ''TEXT'' [NotNull],
        Column ''code_hash'' ''TEXT'' [NotNull],
        Column ''created_at'' ''TEXT'' [NotNull, Default SQLITE_NOW],
        Column ''used_at'' ''TEXT'' []] []),
      Must (CreateIndex False ''idx_mfa_recovery_codes_user_id'' ''mfa_recovery_codes'' [''user_id''] None)]"

definition org_pg :: "migration list" where
  "org_pg =
     [Must (CreateTable ''organizations''
       [Column ''id'' ''UUID'' [PrimaryKey, Default ''gen_random_uuid()''],
        Column ''name'' ''VARCHAR(200)'' [NotNull],
        Column ''created_at'' ''TIMESTAMPTZ'' [NotNull, Default ''NOW()'']] []),
      Must (CreateTable ''organization_units''
       [Column ''id'' ''UUID'' [PrimaryKey, Default ''gen_random_uuid()''],
        Column ''organization_id'' ''UUID'' [NotNull, References ''organizations''],
        Column ''parent_unit_id'' ''UUID'' [References ''organization_units''],
        Column ''name'' ''VARCHAR(200)'' [NotNull],
        Column ''created_at'' ''TIMESTAMPTZ'' [NotNull, Default ''NOW()'']] []),
      Must (CreateIndex False ''idx_organization_units_organization_id'' ''organization_units'' [''organization_id''] None),
      Must (CreateTable ''user_memberships''
       [Column ''id'' ''UUID'' [PrimaryKey, Default ''gen_random_uuid()''],
        Column ''user_id'' ''UUID'' [NotNull],
        Column ''organization_id'' ''UUID'' [NotNull, References ''organizations''],
        Column ''organization_unit_id'' ''UUID'' [References ''organization_units''],
        Column ''created_at'' ''TIMESTAMPTZ'' [NotNull, Default ''NOW()'']] []),
      Must (CreateIndex False ''idx_user_memberships_user_id'' ''user_memberships'' [''user_id''] None),
      Must (CreateIndex True ''idx_user_memberships_unique'' ''user_memberships'' [''user_id'', ''organization_id'', ''organization_unit_id''] None)]"

definition org_sqlite :: "migration list" where
  "org_sqlite =
     [Must (CreateTable ''organizations''
       [Column ''id'' ''TEXT'' [PrimaryKey],
        Column ''name'' ''TEXT'' [NotNull],
        Column ''created_at'' ''TEXT'' [NotNull, Default SQLITE_NOW]] []),
      Must (CreateTable ''organization_units''
       [Column ''id'' ''TEXT'' [PrimaryKey],
        Column ''organization_id'' ''TEXT'' [NotNull],
        Column ''parent_unit_id'' ''TEXT'' [],
        Column ''name'' ''TEXT'' [NotNull],
        Column ''created_at'' ''TEXT'' [NotNull, Default SQLITE_NOW]] []),
      Must (CreateIndex False ''idx_organization_units_organization_id'' ''organization_units'' [''organization_id''] None),
      Must (CreateTable ''user_memberships''
       [Column ''id'' ''TEXT'' [PrimaryKey],
        Column ''user_id'' ''TEXT'' [NotNull],
        Column ''organization_id'' ''TEXT'' [NotNull],
        Column ''organization_unit_id'' ''TEXT'' [],
        Column ''created_at'' ''TEXT'' [NotNull, Default SQLITE_NOW]] []),
      Must (CreateIndex False ''idx_user_memberships_user_id'' ''user_memberships'' [''user_id''] None),
      Must (CreateIndex True ''idx_user_memberships_unique'' ''user_memberships'' [''user_id'', ''organization_id'', ''organization_unit_id''] None)]"

definition biometric_pg :: "migration list" where
  "biometric_pg =
     [Must (CreateTable ''biometric_templates''
       [Column ''id'' ''UUID'' [PrimaryKey, Default ''gen_random_uuid()''],
        Column ''candidate_id'' ''UUID'' [NotNull, References ''candidates''],
        Column ''model_name'' ''TEXT'' [NotNull],
        Column ''model_version'' ''TEXT'' [NotNull],
        Column ''embedding_dimension'' ''INTEGER'' [NotNull],
        Column ''embedding'' ''JSONB'' [NotNull],
        Column ''quality_score'' ''DOUBLE PRECISION'' [NotNull],
        Column ''source_reference'' ''TEXT'' [],
        Column ''created_at'' ''TIMESTAMPTZ'' [NotNull, Default ''NOW()''],
        Column ''revoked_at'' ''TIMESTAMPTZ'' []] []),
      Must (CreateIndex False ''idx_biometric_templates_candidate_id'' ''biometric_templates'' [''candidate_id''] None),
      Must (CreateIndex False ''idx_biometric_templates_model'' ''biometric_templates'' [''model_name'', ''model_version''] None),
      Must (CreateTable ''biometric_thresholds''
       [Column ''id'' ''UUID'' [PrimaryKey, Default ''gen_random_uuid()''],
        Column ''model_name'' ''TEXT'' [NotNull],
        Column ''model_version'' ''TEXT'' [NotNull],
        Column ''threshold'' ''DOUBLE PRECISION'' [NotNull],
        Column ''equal_error_rate'' ''DOUBLE PRECISION'' [NotNull],
        Column ''pair_count'' ''BIGINT'' [NotNull],
        Column ''created_at'' ''TIMESTAMPTZ'' [NotNull, Default ''NOW()'']] [[''model_name'', ''model_version'']])]"

definition biometric_sqlite :: "migration list" where
  "biometric_sqlite =
     [Must (CreateTable ''biometric_templates''
       [Column ''id'' ''TEXT'' [PrimaryKey],
        Column ''candidate_id'' ''TEXT'' [NotNull],
        Column ''model_name'' ''TEXT'' [NotNull],
        Column ''model_version'' ''TEXT'' [NotNull],
        Column ''embedding_dimension'' ''INTEGER'' [NotNull],
        Column ''embedding'' ''TEXT'' [NotNull],
        Column ''quality_score'' ''REAL'' [NotNull],
        Column ''source_reference'' ''TEXT'' [],
        Column ''created_at'' ''TEXT'' [NotNull, Default SQLITE_NOW],
        Column ''revoked_at'' ''TEXT'' []] []),
      Must (CreateIndex False ''idx_biometric_templates_candidate_id'' ''biometric_templates'' [''candidate_id''] None),
      Must (CreateIndex False ''idx_biometric_templates_model'' ''biometric_templates'' [''model_name'', ''model_version''] None),
      Must (CreateTable ''biometric_thresholds''
       [Column ''id'' ''TEXT'' [PrimaryKey],
        Column ''model_name'' ''TEXT'' [NotNull],
        Column ''model_version'' ''TEXT'' [NotNull],
        Column ''threshold'' ''REAL'' [NotNull],
        Column ''equal_error_rate'' ''REAL'' [NotNull],
        Column ''pair_count'' ''INTEGER'' [NotNull],
        Column ''created_at'' ''TEXT'' [NotNull, Default SQLITE_NOW]] [[''model_name'', ''model_version'']])]"

definition evidence_pg :: "migration list" where
  "evidence_pg =
     [Must (CreateTable ''candidate_evidence''
       [Column ''id'' ''UUID'' [PrimaryKey, Default ''gen_random_uuid()''],
        Column ''candidate_id'' ''UUID'' [NotNull, References ''candidates''],
        Column ''source_type'' ''TEXT'' [NotNull],
        Column ''provider_name'' ''TEXT'' [NotNull],
        Column ''title'' ''TEXT'' [NotNull],
        Column ''title_key'' ''TEXT'' [],
        Column ''title_params'' ''TEXT'' [],
        Column ''url'' ''TEXT'' [],
        Column ''snippet'' ''TEXT'' [],
        Column ''details'' ''TEXT'' [],
        Column ''confidence_score'' ''DOUBLE PRECISION'' [NotNull],
        Column ''collected_by'' ''UUID'' [],
        Column ''created_at'' ''TIMESTAMPTZ'' [NotNull, Default ''NOW()'']] []),
      Must (AddColumn True ''candidate_evidence'' (Column ''title_key'' ''TEXT'' [])),
      Must (AddColumn True ''candidate_evidence'' (Column ''title_params'' ''TEXT'' [])),
      Must (AddColumn True ''candidate_evidence'' (Column ''details'' ''TEXT'' [])),
      Must (CreateIndex False ''idx_candidate_evidence_candidate_id'' ''candidate_evidence'' [''candidate_id''] None)]"

definition evidence_sqlite :: "migration list" where
  "evidence_sqlite =
     [Must (CreateTable ''candidate_evidence''
       [Column ''id'' ''TEXT'' [PrimaryKey],
        Column ''candidate_id'' ''TEXT'' [NotNull],
        Column ''source_type'' ''TEXT'' [NotNull],
        Column ''provider_name'' ''TEXT'' [NotNull],
        Column ''title'' ''TEXT'' [NotNull],
        Column ''title_key'' ''TEXT'' [],
        Column ''title_params'' ''TEXT'' [],
        Column ''url'' ''TEXT'' [],
        Column ''snippet'' ''TEXT'' [],
        Column ''details'' ''TEXT'' [],
        Column ''confidence_score'' ''REAL'' [NotNull],
        Column ''collected_by'' ''TEXT'' [],
        Column ''created_at'' ''TEXT'' [NotNull, Default SQLITE_NOW]] []),
      BestEffort (AddColumn False ''candidate_evidence'' (Column ''title_key'' ''TEXT'' [])),
      BestEffort (AddColumn False ''candidate_evidence'' (Column ''title_params'' ''TEXT'' [])),
      BestEffort (AddColumn False ''candidate_evidence'' (Column ''details'' ''TEXT'' [])),
      Must (CreateIndex False ''idx_candidate_evidence_candidate_id'' ''candidate_evidence'' [''candidate_id''] None)]"

definition entity_graph_pg :: "migration list" where
  "entity_graph_pg =
     [Must (CreateTable ''entity_relations''
       [Column ''id'' ''UUID'' [PrimaryKey, Default ''gen_random_uuid()''],
        Column ''candidate_id'' ''UUID'' [NotNull, References ''candidates''],
        Column ''relation_type'' ''TEXT'' [NotNull],
        Column ''value'' ''TEXT'' [NotNull],
        Column ''evidence_id'' ''UUID'' [References ''candidate_evidence''],
        Column ''added_by'' ''UUID'' [],
        Column ''created_at'' ''TIMESTAMPTZ'' [NotNull, Default ''NOW()''],
        Column ''revoked_at'' ''TIMESTAMPTZ'' []] []),
      Must (CreateIndex False ''idx_entity_relations_candidate_id'' ''entity_relations'' [''candidate_id''] None)]"

definition entity_graph_sqlite :: "migration list" where
  "entity_graph_sqlite =
     [Must (CreateTable ''entity_relations''
       [Column ''id'' ''TEXT'' [PrimaryKey],
        Column ''candidate_id'' ''TEXT'' [NotNull],
        Column ''relation_type'' ''TEXT'' [NotNull],
        Column ''value'' ''TEXT'' [NotNull],
        Column ''evidence_id'' ''TEXT'' [],
        Column ''added_by'' ''TEXT'' [],
        Column ''created_at'' ''TEXT'' [NotNull, Default SQLITE_NOW],
        Column ''revoked_at'' ''TEXT'' []] []),
      Must (CreateIndex False ''idx_entity_relations_candidate_id'' ''entity_relations'' [''candidate_id''] None)]"

definition pgvector_index :: "migration list" where
  "pgvector_index =
     [Must (CreateExtension ''vector''),
      Must (AddColumn True ''biometric_templates'' (Column ''embedding_vector'' ''vector(128)'' [])),
      Must (CreateIndex False ''idx_biometric_templates_embedding_hnsw'' ''biometric_templates'' [''embedding_vector''] None)]"

definition migrations :: "db_backend \<Rightarrow> migration list" where
  "migrations b = (case b of
     Postgres \<Rightarrow> users_pg @ searches_pg @ reviews_pg @ audit_events_pg @ audit_pg @ mfa_pg @ org_pg @ biometric_pg
       @ evidence_pg @ entity_graph_pg @ scope_pg
   | Sqlite \<Rightarrow> users_sqlite @ searches_sqlite @ reviews_sqlite @ audit_events_sqlite @ audit_sqlite @ mfa_sqlite
       @ org_sqlite @ biometric_sqlite @ evidence_sqlite @ entity_graph_sqlite @ scope_sqlite)"

text \<open>
  \<open>migrate\<close>, less the demo candidates (theory Db_Seed): \<open>None\<close> when it fails, else whether the indexed
  search is ready. The statements that ran before a failure stay.
\<close>

definition migrate :: "(ddl \<Rightarrow> bool) \<Rightarrow> db_backend \<Rightarrow> database \<Rightarrow> bool option \<times> database" where
  "migrate refuses b d =
     (case run_migrations refuses (migrations b) d of
        (False, d') \<Rightarrow> (None, d')
      | (True, d') \<Rightarrow>
          (case b of
             Sqlite \<Rightarrow> (Some False, d')
           | Postgres \<Rightarrow> (let (ready, d'') = run_migrations refuses pgvector_index d' in (Some ready, d''))))"

section \<open>Nothing is lost\<close>

text \<open>A later catalogue has every table, with at least the columns it had, and every index and row.\<close>

definition extends :: "database \<Rightarrow> database \<Rightarrow> bool" where
  "extends d d' \<longleftrightarrow>
     (\<forall>t tb. ds_tables d t = Some tb \<longrightarrow>
        (\<exists>tb'. ds_tables d' t = Some tb' \<and> (\<exists>extra. column_names tb' = column_names tb @ extra)))
     \<and> ds_indexes d \<subseteq>\<^sub>m ds_indexes d' \<and> set (ds_rows d) \<subseteq> set (ds_rows d')
     \<and> set (ds_schemas d) \<subseteq> set (ds_schemas d') \<and> set (ds_extensions d) \<subseteq> set (ds_extensions d')"

lemma extends_refl [simp]: "extends d d"
  by (simp add: extends_def)

lemma extends_tableD: "extends d d' \<Longrightarrow> ds_tables d t = Some tb \<Longrightarrow>
    \<exists>tb' extra. ds_tables d' t = Some tb' \<and> column_names tb' = column_names tb @ extra"
  unfolding extends_def by blast

lemma extends_rest: "extends d d' \<Longrightarrow> ds_indexes d \<subseteq>\<^sub>m ds_indexes d'" "extends d d' \<Longrightarrow> set (ds_rows d) \<subseteq> set (ds_rows d')"
  "extends d d' \<Longrightarrow> set (ds_schemas d) \<subseteq> set (ds_schemas d')" "extends d d' \<Longrightarrow> set (ds_extensions d) \<subseteq> set (ds_extensions d')"
  unfolding extends_def by blast+

lemma extends_trans:
  assumes "extends d e" and "extends e f"
  shows "extends d f"
  unfolding extends_def
proof (intro conjI allI impI)
  fix t tb assume "ds_tables d t = Some tb"
  then obtain tb' x where e: "ds_tables e t = Some tb'" "column_names tb' = column_names tb @ x"
    using extends_tableD [OF assms(1)] by blast
  obtain tb'' y where "ds_tables f t = Some tb''" "column_names tb'' = column_names tb' @ y"
    using extends_tableD [OF assms(2) e(1)] by blast
  then show "\<exists>tb''. ds_tables f t = Some tb'' \<and> (\<exists>extra. column_names tb'' = column_names tb @ extra)" using e by simp
qed (use assms [THEN extends_rest(1)] assms [THEN extends_rest(2)] assms [THEN extends_rest(3)] assms [THEN extends_rest(4)]
    in \<open>auto intro: map_le_trans\<close>)

lemma extends_index: "extends d d' \<Longrightarrow> ds_indexes d n \<noteq> None \<Longrightarrow> ds_indexes d' n \<noteq> None"
  using extends_rest(1) [of d d'] by (auto simp: map_le_def dom_def)

lemma set_add_once [simp]: "set (add_once x xs) = insert x (set xs)"
  by (auto simp: add_once_def)

lemma add_once_present [simp]: "x \<in> set xs \<Longrightarrow> add_once x xs = xs"
  by (simp add: add_once_def)

lemma column_names_change: "(\<And>x. col_name (f x) = col_name x) \<Longrightarrow> column_names (change_column c f tb) = column_names tb"
  by (simp add: column_names_def change_column_def)

lemma kept_names [simp]: "column_names (change_column c without_not_null tb) = column_names tb"
  "column_names (change_column c (with_type ty) tb) = column_names tb"
proof -
  have "col_name (without_not_null x) = col_name x" "col_name (with_type ty x) = col_name x" for x by (cases x; simp)+
  then show "column_names (change_column c without_not_null tb) = column_names tb"
    "column_names (change_column c (with_type ty) tb) = column_names tb" by (simp_all add: column_names_change)
qed

lemma added_names [simp]: "column_names (tb\<lparr>tb_columns := tb_columns tb @ [c]\<rparr>) = column_names tb @ [col_name c]"
  by (simp add: column_names_def)

lemma extends_put:
  "ds_tables d t = Some tb \<Longrightarrow> column_names tb' = column_names tb @ extra \<Longrightarrow> extends d (put_table t tb' d)"
  "ds_tables d t = None \<Longrightarrow> extends d (put_table t tb' d)"
  by (auto simp: extends_def put_table_def)

lemma extends_other:
  "extends d (d\<lparr>ds_schemas := add_once n (ds_schemas d)\<rparr>)" "extends d (d\<lparr>ds_extensions := add_once n (ds_extensions d)\<rparr>)"
  "extends d (d\<lparr>ds_rows := add_once r (ds_rows d)\<rparr>)"
  "ds_indexes d n = None \<Longrightarrow> extends d (d\<lparr>ds_indexes := (ds_indexes d)(n \<mapsto> ix)\<rparr>)"
  by (auto simp: extends_def map_le_def)

lemma effect_extends: "effect s d = Some d' \<Longrightarrow> extends d d'"
  by (cases s) (auto split: option.splits if_splits intro: extends_put extends_put(1) [where extra = "[]"] extends_other)

lemma apply_extends: "apply_migration refuses m d = (b, d') \<Longrightarrow> extends d d'"
  by (cases m) (auto simp: execute_def effect_extends split: option.splits if_splits)

lemma run_extends: "run_migrations refuses ms d = (b, d') \<Longrightarrow> extends d d'"
proof (induction ms arbitrary: d)
  case (Cons m ms)
  then show ?case by (auto split: prod.splits bool.splits intro: extends_trans apply_extends)
qed simp

lemma extends_table: "extends d d' \<Longrightarrow> ds_tables d t \<noteq> None \<Longrightarrow> ds_tables d' t \<noteq> None"
  unfolding extends_def by fastforce

section \<open>Nothing is done twice\<close>

text \<open>A statement has nothing left to do.\<close>

definition all_named :: "string \<Rightarrow> (column \<Rightarrow> bool) \<Rightarrow> table \<Rightarrow> bool" where
  "all_named c P tb \<longleftrightarrow> c \<in> set (column_names tb) \<and> (\<forall>x\<in>set (tb_columns tb). col_name x = c \<longrightarrow> P x)"

fun settled :: "ddl \<Rightarrow> database \<Rightarrow> bool" where
  "settled (CreateSchema n) d \<longleftrightarrow> n \<in> set (ds_schemas d)"
| "settled (CreateExtension n) d \<longleftrightarrow> n \<in> set (ds_extensions d)"
| "settled (CreateTable t cs us) d \<longleftrightarrow> ds_tables d t \<noteq> None"
| "settled (AddColumn f t c) d \<longleftrightarrow> (\<exists>tb. ds_tables d t = Some tb \<and> col_name c \<in> set (column_names tb))"
| "settled (DropNotNull t c) d \<longleftrightarrow>
     (\<exists>tb. ds_tables d t = Some tb \<and> all_named c (\<lambda>x. NotNull \<notin> set (col_constraints x)) tb)"
| "settled (SetType t c ty) d \<longleftrightarrow> (\<exists>tb. ds_tables d t = Some tb \<and> all_named c (\<lambda>x. col_type x = ty) tb)"
| "settled (CreateIndex u n t cs p) d \<longleftrightarrow> ds_tables d t \<noteq> None \<and> ds_indexes d n \<noteq> None"
| "settled (EnsureRow t k) d \<longleftrightarrow> ds_tables d t \<noteq> None \<and> (t, k) \<in> set (ds_rows d)"

lemma put_same: "ds_tables d t = Some tb \<Longrightarrow> put_table t tb d = d"
  by (simp add: put_table_def fun_upd_idem)

lemma column_functions [simp]:
  "col_name (without_not_null x) = col_name x" "col_type (without_not_null x) = col_type x"
  "col_constraints (without_not_null x) = filter (\<lambda>c. c \<noteq> NotNull) (col_constraints x)"
  "col_name (with_type ty x) = col_name x" "col_type (with_type ty x) = ty"
  "col_constraints (with_type ty x) = col_constraints x"
  by (cases x; simp)+

lemma without_not_null_same: "NotNull \<notin> set (col_constraints x) \<Longrightarrow> without_not_null x = x"
  by (cases x) (auto simp: filter_id_conv)

lemma with_type_same: "col_type x = ty \<Longrightarrow> with_type ty x = x"
  by (cases x) simp

lemma change_same: "all_named c P tb \<Longrightarrow> (\<And>x. P x \<Longrightarrow> f x = x) \<Longrightarrow> change_column c f tb = tb"
  unfolding all_named_def change_column_def by (cases tb) (auto intro: map_idI)

lemma all_named_in: "all_named c P tb \<Longrightarrow> c \<in> set (column_names tb)"
  by (simp add: all_named_def)

lemma all_named_change:
  "c \<in> set (column_names tb) \<Longrightarrow> (\<And>x. col_name (f x) = col_name x) \<Longrightarrow> (\<And>x. P (f x)) \<Longrightarrow> all_named c P (change_column c f tb)"
  "all_named c P tb \<Longrightarrow> (\<And>x. col_name (f x) = col_name x) \<Longrightarrow> (\<And>x. P x \<Longrightarrow> P (f x)) \<Longrightarrow> all_named c P (change_column c' f tb)"
  by (auto simp: all_named_def column_names_change) (auto simp: change_column_def split: if_splits)

lemma all_named_other: "all_named c P tb \<Longrightarrow> c \<noteq> c' \<Longrightarrow> (\<And>x. col_name (f x) = col_name x) \<Longrightarrow> all_named c P (change_column c' f tb)"
  by (auto simp: all_named_def column_names_change) (auto simp: change_column_def split: if_splits)

lemma all_named_added: "all_named c P tb \<Longrightarrow> col_name x \<notin> set (column_names tb) \<Longrightarrow>
    all_named c P (tb\<lparr>tb_columns := tb_columns tb @ [x]\<rparr>)"
  by (auto simp: all_named_def)

text \<open>The statement may run again: it does not insist on adding a column.\<close>

fun repeatable :: "ddl \<Rightarrow> bool" where
  "repeatable (AddColumn if_not_exists t c) \<longleftrightarrow> if_not_exists"
| "repeatable s \<longleftrightarrow> True"

lemma settled_effect: "settled s d \<Longrightarrow> repeatable s \<Longrightarrow> effect s d = Some d"
  by (cases s) (auto simp: put_same all_named_in change_same without_not_null_same with_type_same)

lemma effect_settles: "effect s d = Some d' \<Longrightarrow> settled s d'"
  by (cases s) (auto simp: put_table_def intro!: all_named_change(1) split: option.splits if_splits)

text \<open>A later statement undoes nothing, unless it gives the same column another type.\<close>

fun retypes :: "ddl \<Rightarrow> ddl \<Rightarrow> bool" where
  "retypes (SetType t c ty) (SetType t' c' ty') \<longleftrightarrow> t = t' \<and> c = c'"
| "retypes s s' \<longleftrightarrow> False"

lemma all_named_step:
  assumes "effect e d = Some d'" and "ds_tables d t = Some tb" and "all_named c P tb"
    and "\<And>x. P x \<Longrightarrow> P (without_not_null x)"
    and "\<nexists>ty. e = SetType t c ty \<and> \<not> (\<forall>x. P x \<longrightarrow> P (with_type ty x))"
  shows "\<exists>tb'. ds_tables d' t = Some tb' \<and> all_named c P tb'"
proof (cases e)
  case (SetType t' c' ty)
  then show ?thesis
    using assms(1-3,5) all_named_other [OF assms(3), of c' "with_type ty"] all_named_change(2) [OF assms(3), of "with_type ty" c']
    by (cases "c' = c") (auto simp: put_table_def split: option.splits if_splits)
next
  case (AddColumn f t' x)
  then show ?thesis using assms(1-3) all_named_added [OF assms(3), of x]
    by (auto simp: put_table_def split: option.splits if_splits)
next
  case (DropNotNull t' c')
  then show ?thesis using assms(1-4) all_named_change(2) [OF assms(3), of without_not_null c']
    by (auto simp: put_table_def split: option.splits if_splits)
qed (use assms(1-3) in \<open>auto simp: put_table_def split: option.splits if_splits\<close>)

lemma settled_step:
  assumes "effect e d = Some d'" and "settled s d" and "\<not> retypes s e"
  shows "settled s d'"
proof -
  note ext = effect_extends [OF assms(1)]
  show ?thesis
  proof (cases s)
    case (DropNotNull t c)
    then show ?thesis using assms(2) all_named_step [OF assms(1)] by fastforce
  next
    case (SetType t c ty)
    then show ?thesis using assms(2,3) all_named_step [OF assms(1), of t _ c "\<lambda>x. col_type x = ty"] by (cases e) fastforce+
  next
    case (AddColumn f t c)
    then show ?thesis using assms(2) extends_tableD [OF ext] by fastforce
  qed (use assms(2) extends_table [OF ext] extends_index [OF ext] extends_rest [OF ext] in auto)
qed

text \<open>
  When a sequence may be repeated: a column whose addition may fail belongs to a table created before,
  and no column changes its type twice. \<open>ts\<close> are the tables that are there.
\<close>

fun ddl_of :: "migration \<Rightarrow> ddl" where
  "ddl_of (Must s) = s"
| "ddl_of (BestEffort s) = s"

fun creates :: "ddl \<Rightarrow> string list" where
  "creates (CreateTable t cs us) = [t]"
| "creates s = []"

fun safe_to_try :: "string list \<Rightarrow> migration \<Rightarrow> bool" where
  "safe_to_try ts (Must s) \<longleftrightarrow> repeatable s"
| "safe_to_try ts (BestEffort (AddColumn f t c)) \<longleftrightarrow> t \<in> set ts"
| "safe_to_try ts (BestEffort s) \<longleftrightarrow> False"

fun repeatable_from :: "string list \<Rightarrow> migration list \<Rightarrow> bool" where
  "repeatable_from ts [] \<longleftrightarrow> True"
| "repeatable_from ts (m # ms) \<longleftrightarrow> safe_to_try ts m \<and> list_all (\<lambda>m'. \<not> retypes (ddl_of m) (ddl_of m')) ms
     \<and> repeatable_from (creates (ddl_of m) @ ts) ms"


text \<open>A migration leaves nothing to do for itself, and later ones keep it that way.\<close>

definition no_more :: "(ddl \<Rightarrow> bool) \<Rightarrow> migration \<Rightarrow> database \<Rightarrow> bool" where
  "no_more refuses m d \<longleftrightarrow> apply_migration refuses m d = (True, d)"

fun stays_done :: "(ddl \<Rightarrow> bool) \<Rightarrow> migration \<Rightarrow> database \<Rightarrow> bool" where
  "stays_done refuses (Must s) d \<longleftrightarrow> \<not> refuses s \<and> repeatable s \<and> settled s d"
| "stays_done refuses (BestEffort s) d \<longleftrightarrow> refuses s \<or> settled s d"

lemma apply_failed: "apply_migration refuses m d = (False, d') \<Longrightarrow> d' = d"
  by (cases m) (auto split: option.splits)

lemma apply_done:
  assumes "apply_migration refuses m d = (True, d')" and "safe_to_try ts m" and "list_all (\<lambda>t. ds_tables d t \<noteq> None) ts"
  shows "stays_done refuses m d'"
proof (cases m)
  case (Must s)
  then show ?thesis using assms(1,2) effect_settles by (auto simp: execute_def split: option.splits if_splits)
next
  case (BestEffort s)
  show ?thesis
  proof (cases "effect s d")
    case None
    from BestEffort assms(2) obtain f t c where s: "s = AddColumn f t c" "t \<in> set ts" by (cases s) auto
    then obtain tb where tb: "ds_tables d t = Some tb" using assms(3) by (auto simp: list_all_iff)
    then have "settled s d" using None s by (auto split: if_splits)
    then show ?thesis using BestEffort assms(1) None by (auto simp: execute_def split: if_splits)
  next
    case (Some e)
    then show ?thesis using BestEffort assms(1) effect_settles by (auto simp: execute_def split: if_splits)
  qed
qed

lemma stays_done_no_more: "stays_done refuses m d \<Longrightarrow> apply_migration refuses m d = (True, d)"
proof (cases m)
  case (BestEffort s)
  moreover assume "stays_done refuses m d"
  ultimately have "refuses s \<or> effect s d = Some d \<or> effect s d = None"
    using settled_effect [of s d] by (cases "repeatable s") (auto, cases s, auto split: option.splits)
  then show ?thesis using BestEffort by (auto simp: execute_def)
qed (simp add: execute_def settled_effect)

lemma stays_done_step:
  assumes "stays_done refuses m d" and "apply_migration refuses m' d = (b, d')" and "\<not> retypes (ddl_of m) (ddl_of m')"
  shows "stays_done refuses m d'"
proof -
  have "d' = d \<or> effect (ddl_of m') d = Some d'"
    using assms(2) by (cases m') (auto simp: execute_def split: option.splits if_splits)
  then show ?thesis using assms(1,3) settled_step by (cases m) auto
qed

lemma stays_done_run:
  assumes "stays_done refuses m d" and "run_migrations refuses ms d = (b, d')" and "list_all (\<lambda>m'. \<not> retypes (ddl_of m) (ddl_of m')) ms"
  shows "stays_done refuses m d'"
  using assms
proof (induction ms arbitrary: d)
  case (Cons m' ms)
  then show ?case by (auto split: prod.splits bool.splits dest: stays_done_step)
qed simp

lemma run_twice:
  assumes "run_migrations refuses ms d = (b, d')" and "repeatable_from ts ms" and "list_all (\<lambda>t. ds_tables d t \<noteq> None) ts"
  shows "run_migrations refuses ms d' = (b, d')"
  using assms
proof (induction ms arbitrary: d ts)
  case (Cons m ms)
  obtain ok e where e: "apply_migration refuses m d = (ok, e)" by fastforce
  show ?case
  proof (cases ok)
    case False
    then show ?thesis using Cons.prems(1) e apply_failed by fastforce
  next
    case True
    then have run: "run_migrations refuses ms e = (b, d')" using Cons.prems(1) e by simp
    have "stays_done refuses m e" using e True Cons.prems(2,3) by (auto intro: apply_done)
    then have "stays_done refuses m d'" using stays_done_run run Cons.prems(2) by simp
    then have again: "apply_migration refuses m d' = (True, d')" by (rule stays_done_no_more)
    have "list_all (\<lambda>t. ds_tables e t \<noteq> None) (creates (ddl_of m) @ ts)"
    proof -
      have "list_all (\<lambda>t. ds_tables e t \<noteq> None) (creates (ddl_of m))"
        using \<open>stays_done refuses m e\<close> Cons.prems(2) by (cases m; cases "ddl_of m") auto
      then show ?thesis using Cons.prems(3) extends_table [OF apply_extends [OF e]] by (auto simp: list_all_iff)
    qed
    then have "run_migrations refuses ms d' = (b, d')"
      using Cons.IH [OF run, of "creates (ddl_of m) @ ts"] Cons.prems(2) by simp
    then show ?thesis using again by simp
  qed
qed simp

lemma run_done:
  assumes "run_migrations refuses ms d = (True, d')" and "repeatable_from ts ms" and "list_all (\<lambda>t. ds_tables d t \<noteq> None) ts"
  shows "list_all (\<lambda>m. stays_done refuses m d') ms"
  using assms
proof (induction ms arbitrary: d ts)
  case (Cons m ms)
  obtain e where e: "apply_migration refuses m d = (True, e)" and run: "run_migrations refuses ms e = (True, d')"
    using Cons.prems(1) by (auto split: prod.splits bool.splits)
  have don: "stays_done refuses m e" using e Cons.prems(2,3) by (auto intro: apply_done)
  then have "list_all (\<lambda>t. ds_tables e t \<noteq> None) (creates (ddl_of m))"
    using Cons.prems(2) by (cases m; cases "ddl_of m") auto
  then have "list_all (\<lambda>t. ds_tables e t \<noteq> None) (creates (ddl_of m) @ ts)"
    using Cons.prems(3) extends_table [OF apply_extends [OF e]] by (auto simp: list_all_iff)
  then show ?case using stays_done_run [OF don run] Cons.IH [OF run, of "creates (ddl_of m) @ ts"] Cons.prems(2) by simp
qed simp

lemma done_run: "list_all (\<lambda>m. stays_done refuses m d) ms \<Longrightarrow> run_migrations refuses ms d = (True, d)"
  by (induction ms) (simp_all add: stays_done_no_more)

lemmas migration_lists = users_pg_def searches_pg_def reviews_pg_def audit_events_pg_def scope_pg_def
  users_sqlite_def searches_sqlite_def reviews_sqlite_def audit_events_sqlite_def scope_sqlite_def
  audit_pg_def audit_sqlite_def mfa_pg_def mfa_sqlite_def org_pg_def org_sqlite_def biometric_pg_def biometric_sqlite_def
  evidence_pg_def evidence_sqlite_def entity_graph_pg_def entity_graph_sqlite_def

lemma migrations_repeatable: "repeatable_from [] (migrations b)" "repeatable_from [] pgvector_index"
  by (cases b; simp add: migrations_def migration_lists) (simp add: pgvector_index_def)

lemma pgvector_retypes_nothing: "list_all (\<lambda>m'. \<not> retypes s (ddl_of m')) pgvector_index"
  by (cases s) (simp_all add: pgvector_index_def)

text \<open>
  C24. Starting again changes nothing: whatever the catalogue was before the first start, and whichever
  statements the server refuses, a second run of the migrations ends like the first, in the same
  place, and leaves the catalogue as it is. That also holds when the first run stopped half way.
\<close>

theorem migration_is_idempotent:
  assumes "migrate refuses b d = (outcome, d')"
  shows "migrate refuses b d' = (outcome, d')"
proof -
  obtain ok e where e: "run_migrations refuses (migrations b) d = (ok, e)" by fastforce
  note again = run_twice [OF e migrations_repeatable(1)]
  show ?thesis
  proof (cases "ok \<and> b = Postgres")
    case False
    then show ?thesis using assms e again by (cases b) (auto simp: migrate_def split: bool.splits)
  next
    case True
    then obtain ready where vec: "run_migrations refuses pgvector_index e = (ready, d')" and o: "outcome = Some ready"
      using assms e by (auto simp: migrate_def split: prod.splits)
    have "list_all (\<lambda>m. stays_done refuses m e) (migrations b)" using run_done [OF _ migrations_repeatable(1)] e True by simp
    then have "list_all (\<lambda>m. stays_done refuses m d') (migrations b)"
      using stays_done_run [OF _ vec pgvector_retypes_nothing] by (auto simp: list_all_iff)
    then have "run_migrations refuses (migrations b) d' = (True, d')" by (rule done_run)
    moreover have "run_migrations refuses pgvector_index d' = (ready, d')" using run_twice [OF vec migrations_repeatable(2)] by simp
    ultimately show ?thesis using True o by (simp add: migrate_def)
  qed
qed

text \<open>
  A start loses nothing: every table, every column in its place, every index and row of the
  catalogue is there afterwards, whether the migrations succeed or stop half way.
\<close>

theorem migration_loses_nothing:
  assumes "migrate refuses b d = (outcome, d')"
  shows "extends d d'"
proof -
  obtain ok e where e: "run_migrations refuses (migrations b) d = (ok, e)" by fastforce
  then show ?thesis using assms run_extends [OF e]
    by (auto simp: migrate_def split: bool.splits db_backend.splits prod.splits intro: extends_trans dest: run_extends)
qed

text \<open>
  The indexed search is only announced when PostgreSQL has what it uses: the vector extension, the
  vector column of the templates and the index over it.
\<close>

theorem ready_index_is_there:
  assumes "migrate refuses b d = (Some True, d')"
  shows "b = Postgres \<and> ''vector'' \<in> set (ds_extensions d')
    \<and> (\<exists>tb. ds_tables d' ''biometric_templates'' = Some tb \<and> ''embedding_vector'' \<in> set (column_names tb))
    \<and> ds_indexes d' ''idx_biometric_templates_embedding_hnsw'' \<noteq> None"
proof -
  obtain e where b: "b = Postgres" and "run_migrations refuses pgvector_index e = (True, d')"
    using assms by (auto simp: migrate_def split: bool.splits db_backend.splits prod.splits)
  then have "list_all (\<lambda>m. stays_done refuses m d') pgvector_index" using run_done [OF _ migrations_repeatable(2)] by simp
  then show ?thesis using b by (simp add: pgvector_index_def)
qed

section \<open>A fresh database\<close>

text \<open>A server that turns nothing down, and the tables the code uses.\<close>

definition allow :: "ddl \<Rightarrow> bool" where
  "allow s \<longleftrightarrow> False"

definition TABLES :: "string list" where
  "TABLES = [''users'', ''candidates'', ''searches'', ''search_candidates'', ''verification_events'', ''sessions'',
     ''approval_tokens'', ''audit_events'', ''audit_chain_state'', ''mfa_credentials'', ''mfa_recovery_codes'',
     ''organizations'', ''organization_units'', ''user_memberships'', ''biometric_templates'', ''biometric_thresholds'',
     ''candidate_evidence'', ''entity_relations'']"

text \<open>What a column promises to the code: its name, whether it may be null, whether it alone is unique.\<close>

definition promise :: "column \<Rightarrow> string \<times> bool \<times> bool" where
  "promise c = (col_name c, NotNull \<in> set (col_constraints c), Unique \<in> set (col_constraints c))"

definition promises :: "database \<Rightarrow> string \<Rightarrow> (string \<times> bool \<times> bool) list option" where
  "promises d t = map_option (\<lambda>tb. map promise (filter (\<lambda>c. col_name c \<noteq> ''embedding_vector'') (tb_columns tb))) (ds_tables d t)"

fun same_promises :: "(string \<times> bool \<times> bool) list option \<Rightarrow> (string \<times> bool \<times> bool) list option \<Rightarrow> bool" where
  "same_promises (Some a) (Some b) = (set a = set b)"
| "same_promises a b = False"

text \<open>The columns that are unique together: in the table's definition, or by one of the unique indexes.\<close>

definition UNIQUE_INDEXES :: "string list" where
  "UNIQUE_INDEXES = [''idx_users_national_id_lookup_hash'', ''idx_search_candidates_search_candidate'',
     ''idx_audit_events_sequence'', ''idx_user_memberships_unique'']"

definition unique_together :: "database \<Rightarrow> string \<Rightarrow> string list list option" where
  "unique_together d t = map_option tb_unique (ds_tables d t)"

definition unique_by_index :: "database \<Rightarrow> (bool \<times> string \<times> string list) option list" where
  "unique_by_index d = map (\<lambda>n. map_option (\<lambda>i. (ix_unique i, ix_table i, ix_columns i)) (ds_indexes d n)) UNIQUE_INDEXES"

text \<open>
  A fresh database is the same to the code on either backend: the migrations succeed, and each table
  has the same columns, with the same ones required and the same ones, or groups of them, unique. The
  only column of one backend alone is the vector of the indexed search, which PostgreSQL has.
\<close>

lemma fresh_runs:
  "fst (migrate allow Sqlite fresh) = Some False \<and> fst (migrate allow Postgres fresh) = Some True
   \<and> list_all (\<lambda>t. same_promises (promises (snd (migrate allow Sqlite fresh)) t)
        (promises (snd (migrate allow Postgres fresh)) t)) TABLES"
  by code_simp

lemma fresh_unique_together:
  "list_all (\<lambda>t. unique_together (snd (migrate allow Sqlite fresh)) t
     = unique_together (snd (migrate allow Postgres fresh)) t) TABLES"
  by code_simp

lemma fresh_unique_indexes:
  "unique_by_index (snd (migrate allow b fresh)) =
     [Some (True, ''users'', [''national_id_lookup_hash'']), Some (True, ''search_candidates'', [''search_id'', ''candidate_id'']),
      Some (True, ''audit_events'', [''sequence'']),
      Some (True, ''user_memberships'', [''user_id'', ''organization_id'', ''organization_unit_id''])]"
  by (cases b) (simp only:, code_simp)+

lemma migrated: "migrate allow b fresh = (fst (migrate allow b fresh), snd (migrate allow b fresh))"
  by simp

theorem migration_is_idempotent_witness:
  "migrate allow Sqlite (snd (migrate allow Sqlite fresh)) = (Some False, snd (migrate allow Sqlite fresh))"
  using migration_is_idempotent [OF migrated [of Sqlite]] fresh_runs by simp

theorem migration_loses_nothing_witness:
  "extends fresh (snd (migrate allow Postgres fresh))"
  by (rule migration_loses_nothing [OF migrated])

theorem ready_index_is_there_witness:
  "''vector'' \<in> set (ds_extensions (snd (migrate allow Postgres fresh)))"
  using ready_index_is_there [of allow Postgres fresh "snd (migrate allow Postgres fresh)"] fresh_runs
    migrated [of Postgres] by simp

section \<open>An older database\<close>

text \<open>The accounts of a first version: the national id and the address required, no tracking token.\<close>

definition old_users :: "string \<Rightarrow> database" where
  "old_users ty = put_table ''users'' \<lparr>tb_columns = [Column ''id'' ty [PrimaryKey], Column ''user_code'' ty [Unique, NotNull],
     Column ''national_id'' ty [Unique, NotNull], Column ''email'' ty [Unique, NotNull]], tb_unique = []\<rparr> fresh"

text \<open>
  An older database ends differently on the two backends: PostgreSQL drops the requirement of the
  national id and the address and makes the tracking token unique, SQLite keeps the requirements, which
  refuse the accounts the code now creates, and adds the token without its uniqueness.
\<close>

theorem upgraded_databases_differ:
  "map_option (map promise \<circ> tb_columns) (ds_tables (snd (run_migrations allow users_pg (old_users ''TEXT''))) ''users'')
     = Some [(''id'', False, False), (''user_code'', True, True), (''national_id'', False, True), (''email'', False, True),
         (''national_id_encrypted'', False, False), (''national_id_lookup_hash'', False, False),
         (''registration_tracking_token'', False, True), (''registration_tracking_expires_at'', False, False),
         (''deleted_at'', False, False)]
   \<and> map_option (map promise \<circ> tb_columns) (ds_tables (snd (run_migrations allow users_sqlite (old_users ''TEXT''))) ''users'')
     = Some [(''id'', False, False), (''user_code'', True, True), (''national_id'', True, True), (''email'', True, True),
         (''registration_tracking_token'', False, False), (''registration_tracking_expires_at'', False, False),
         (''deleted_at'', False, False), (''national_id_encrypted'', False, False), (''national_id_lookup_hash'', False, False)]"
  by code_simp

section \<open>Reaching the database\<close>

text \<open>Three attempts with a pause between them; the error of the last one is reported.\<close>

definition connect_postgres :: "(nat \<Rightarrow> 'e + 'c) \<Rightarrow> 'e + 'c" where
  "connect_postgres connect =
     (case connect 0 of
        Inr pool \<Rightarrow> Inr pool
      | Inl _ \<Rightarrow> (case connect 1 of Inr pool \<Rightarrow> Inr pool | Inl _ \<Rightarrow> connect 2))"

definition backend_name :: "db_backend \<Rightarrow> string" where
  "backend_name b = (case b of Postgres \<Rightarrow> ''postgres'' | Sqlite \<Rightarrow> ''sqlite'')"

lemma connect_postgres_fails: "(\<exists>e. connect_postgres connect = Inl e) \<longleftrightarrow> (\<forall>n<3. \<exists>e. connect n = Inl e)"
proof -
  have "(\<forall>n<3. P n) \<longleftrightarrow> P 0 \<and> P 1 \<and> P (2::nat)" for P
    by (auto simp: numeral_3_eq_3 numeral_2_eq_2 less_Suc_eq)
  then show ?thesis by (auto simp: connect_postgres_def split: sum.splits)
qed

end
