(* ===== verification/Spec2Isabelle.thy ===== *)
theory Spec2Isabelle
  imports Access Secrets Races Uploads Search_Life Audit_Log Mail Process Calibration Face_Geometry Face_Models Candidate_Rules Search_Rules Db_Schema Osint_Rules Auth_Sessions Admin_Rules Roles Db_Session Db_Identity Db_Mfa Db_Org Db_Audit
begin

text \<open>
  This library models and verifies the server of the repository (\<open>server/src\<close>, Rust: axum handlers
  over sqlx). The browser client and the tests are outside.

  The style of the model. A handler is a function in the state monad of
  \<open>HOL-Library.State_Monad\<close> over one record \<open>world\<close> (theory World): the clock, the tables as lists of
  row records in insertion order, the limiter, the breakers, the mails sent, the metrics, the number
  of random draws and of SQL statements. A statement is \<open>stmt\<close>, \<open>try_stmt\<close> or \<open>query\<close>; whether the
  n-th one fails is \<open>w_faults\<close>, so every error branch of the code is a branch here; \<open>healthy\<close> says
  that none fails and \<open>statement_failed\<close> that one of those run between two worlds did. Ids are looked up
  with \<open>db_key\<close>, which parses a UUID on PostgreSQL; \<open>canonical_id\<close> says that a stored one is
  read back as itself. \<open>Result\<close> is a sum with the error on the left. The record \<open>app\<close> is
  \<open>AppState\<close> with the configuration, and with third-party code (hashes, JWT, AES, TOTP, bcrypt, base64, JSON text,
  number parsing) as parameters. Strings are byte lists; a w-bit integer that may wrap is a word;
  \<open>f64\<close> is \<open>rat\<close> with the square root as a parameter. \<open>exec m w\<close> is the world after a handler and
  \<open>result m w\<close> its answer. A transaction is one statement; the clock stands still within a handler;
  futures that are joined run one after the other; a handler is atomic in the step relation.

  The parts, each in the theory of its name:
  \<^item> Prelude (state monad, \<open>preserves\<close> for frames, \<open>keeps\<close> for invariants, SQL on lists), Errors
    (\<open>error.rs\<close>), Roles (\<open>roles.rs\<close>, \<open>permission.rs\<close>), Rate_Limit (\<open>ratelimit.rs\<close>), World, Demo (a
    concrete server for the witnesses).
  \<^item> Storage, \<open>db/*.rs\<close>: Db_Session, Db_Identity, Db_Mfa, Db_Org, Db_Audit, Db_Evidence,
    Db_Biometric, Db_Search, Db_Seed, and Db_Schema (the DDL of every migration as data, and what a start
    does to the catalogue). The interfaces Single_Use (something that may be spent once:
    links, recovery codes, mailed codes) and Hash_Chain (a list whose elements commit to their
    predecessors) are locales, interpreted on the tables in Db_Session, Db_Mfa and Db_Audit.
  \<^item> Accounts: Auth_Tokens, Auth (\<open>auth.rs\<close>), Mfa (\<open>mfa.rs\<close>), National_Id, Audit_Trail (\<open>audit.rs\<close>),
    Mail_Text and Mail (\<open>email.rs\<close>), Admin (\<open>admin.rs\<close>), Org_Routes (\<open>org.rs\<close>); what they guarantee is in
    Auth_Login, Auth_Sessions and Admin_Rules, and Access has the authority every request under
    \<open>/api/v1/admin\<close> needs. Races cuts handlers where they await a statement and
    composes the parts of two requests, or sends a request twice.
  \<^item> Searches: Image_Validation, Biometric (the provider interface, the mock and the ONNX provider),
    Osint, Osint_Providers, Osint_Rules (\<open>osint/*.rs\<close>), Scoped, Candidates, Evidence, Search
    (\<open>search.rs\<close>: the routes and the background half), Review_Rules (the decisions: the status columns are the verdict of the log). The locales
    \<open>biometric_source\<close>, \<open>osint_sources\<close> and \<open>search_worker\<close> state what the search relies on, and are
    interpreted on the providers of the code. Candidate_Rules and Search_Rules show which
    organization decides about a template and about a candidate under review. Uploads reads the loops over
    an uploaded form as they are written, over an extractor that may never end.
  \<^item> Faces: Face_Geometry (\<open>detection.rs\<close>, \<open>alignment.rs\<close>: on a validated picture the \<open>u32\<close> index arithmetic
    neither overflows nor leaves a buffer, suppression is the textbook procedure, the alignment is the least-squares optimum), Face_Models (\<open>models.rs\<close>: only
    networks with the pinned digests run), Calibration (\<open>calibration.rs\<close>, \<open>bin/calibrate.rs\<close>: the area
    under the ROC curve is the rank statistic).
  \<^item> The process: Config (\<open>config.rs\<close> and \<open>AppState::new\<close>), Monitoring (health, metrics, headers),
    System (\<open>routes/mod.rs\<close>: the router, and the step relation of the running server: a request, a
    background search, the retention job, time, a restart) and System_Rules (the invariants of every
    reachable state; the locale \<open>running_server\<close>, interpreted on every server the start builds).
    Search_Life follows a search from the queue to its end or to a restart; Audit_Log extends
    \<open>running_server\<close> by a relation between the audit tables before and after each step, interpreted
    twice: the table only grows, and a hash chain whose remembered tip matches the table stays intact. Secrets follows what is written to the
    account tables: secrets are stored only as digests or ciphertext, and a national id has one account. Process holds what \<open>main.rs\<close> adds.

  No definition runs on fuel: the loops are structural recursions or recurse on a number of attempts
  the code itself counts down; the textbook form of the suppression of boxes terminates by a measure. The loops over an
  uploaded form are partial functions in Uploads, where a body limit makes them end. A loop over an index is a map over its range; an index out of
  range or beyond \<open>u32\<close> is \<open>None\<close> in Face_Geometry, where it is shown not to happen on a validated picture.

  What is not modelled: the connection pools, the frame of the HTML pages and JSON as text, static
  files and logging, the two networks and the picture codec (parameters), the rounding, infinities and NaN
  of floating-point numbers (but for the positions at which Face_Geometry reads a picture: there a
  position is rounded by a parameter or is not a number), the column widths, the \<open>u32\<close> bound of a
  breaker's failures and the \<open>i32\<close> bound of a session's rotations (both count without bound here), the
  comparison of instants as text on SQLite in the retention job and the list of active sessions, and the interleaving of
  two handlers in the step relation (Races and the property about two refreshes compose the statements themselves).
\<close>

end
